(* ===== verification/Prelude.thy ===== *)
theory Prelude
  imports Main "HOL-Library.Word" "HOL-Library.List_Lexorder"
begin

text \<open>
  Shared vocabulary of the development: the parts of the Rust language and of its standard
  library that the crates under \<^verbatim>\<open>src/crates\<close> use.

  \<^item> Machine integers are words (\<open>u8\<close>, \<open>u32\<close>, \<open>u64\<close>); \<open>usize\<close> is a \<open>nat\<close>, and the checked
    operations on it compare with \<open>usize_bound\<close> (the 64-bit targets of the workspace).
  \<^item> \<open>Result\<close> is the datatype \<open>result\<close>. Its third constructor \<open>Panic\<close> is what an out-of-range
    index, a failed \<open>assert\<close> or an \<open>unreachable!\<close> produces, so that the absence of panics is a
    theorem and not a convention. The \<open>?\<close> operator is \<open>bind_result\<close>.
  \<^item> A method of a trait object that may change state behind a shared reference (\<open>Cell\<close>,
    \<open>RefCell\<close>) is an \<open>action\<close>: it takes the world \<open>'w\<close> and returns its result and the next
    world. Theorems about actions hold for every world type, so they hold for counting test
    doubles as well as for stateless verifiers.
  \<^item> Byte slices are lists of bytes; \<open>to_le_bytes\<close>, \<open>to_be_bytes\<close> and \<open>from_le_bytes\<close> go through
    \<open>le_bytes\<close> and \<open>le_nat\<close>.
\<close>

named_theorems result_simps \<open>inversion of successful and failing computations\<close>
named_theorems bytes_simps \<open>lengths and round trips of byte encodings\<close>

section \<open>Types\<close>

type_synonym u8 = "8 word"
type_synonym u32 = "32 word"
type_synonym u64 = "64 word"
type_synonym i32 = "32 word"
type_synonym usize = nat
type_synonym bytes = "u8 list"

definition usize_bound :: nat where
  "usize_bound = 2 ^ 64"

section \<open>Result\<close>

datatype ('a, 'e) result = Ok 'a | Err 'e | Panic

fun bind_result :: "('a, 'e) result \<Rightarrow> ('a \<Rightarrow> ('b, 'e) result) \<Rightarrow> ('b, 'e) result" where
  "bind_result (Ok x) f = f x"
| "bind_result (Err e) f = Err e"
| "bind_result Panic f = Panic"

fun map_err :: "('e \<Rightarrow> 'f) \<Rightarrow> ('a, 'e) result \<Rightarrow> ('a, 'f) result" where
  "map_err g (Ok x) = Ok x"
| "map_err g (Err e) = Err (g e)"
| "map_err g Panic = Panic"

fun map_ok :: "('a \<Rightarrow> 'b) \<Rightarrow> ('a, 'e) result \<Rightarrow> ('b, 'e) result" where
  "map_ok g (Ok x) = Ok (g x)"
| "map_ok g (Err e) = Err e"
| "map_ok g Panic = Panic"

fun ok_or :: "'a option \<Rightarrow> 'e \<Rightarrow> ('a, 'e) result" where
  "ok_or (Some x) e = Ok x"
| "ok_or None e = Err e"

fun is_ok :: "('a, 'e) result \<Rightarrow> bool" where
  "is_ok (Ok x) = True"
| "is_ok (Err e) = False"
| "is_ok Panic = False"

text \<open>A \<open>for\<close> loop whose body ends in \<open>?\<close>, and \<open>iter().map(f).collect::<Result<Vec<_>,_>>()\<close>.\<close>

fun for_each :: "('a \<Rightarrow> (unit, 'e) result) \<Rightarrow> 'a list \<Rightarrow> (unit, 'e) result" where
  "for_each f [] = Ok ()"
| "for_each f (x # xs) = bind_result (f x) (\<lambda>_. for_each f xs)"

fun collect_results :: "('a \<Rightarrow> ('b, 'e) result) \<Rightarrow> 'a list \<Rightarrow> ('b list, 'e) result" where
  "collect_results f [] = Ok []"
| "collect_results f (x # xs) =
     bind_result (f x) (\<lambda>y. bind_result (collect_results f xs) (\<lambda>ys. Ok (y # ys)))"

lemma bind_result_Ok_iff [result_simps]:
  "bind_result r f = Ok y \<longleftrightarrow> (\<exists>x. r = Ok x \<and> f x = Ok y)"
  by (cases r) auto

lemma bind_result_Err_iff [result_simps]:
  "bind_result r f = Err e \<longleftrightarrow> r = Err e \<or> (\<exists>x. r = Ok x \<and> f x = Err e)"
  by (cases r) auto

lemma bind_result_Panic_iff [result_simps]:
  "bind_result r f = Panic \<longleftrightarrow> r = Panic \<or> (\<exists>x. r = Ok x \<and> f x = Panic)"
  by (cases r) auto

lemma bind_result_cong [fundef_cong]:
  "r = r' \<Longrightarrow> (\<And>x. r' = Ok x \<Longrightarrow> f x = g x) \<Longrightarrow> bind_result r f = bind_result r' g"
  by (cases r') auto

lemma bind_result_assoc:
  "bind_result (bind_result r f) g = bind_result r (\<lambda>x. bind_result (f x) g)"
  by (cases r) auto

lemma map_err_Ok_iff [result_simps]: "map_err g r = Ok x \<longleftrightarrow> r = Ok x"
  by (cases r) auto

lemma map_err_Err_iff [result_simps]: "map_err g r = Err e \<longleftrightarrow> (\<exists>d. r = Err d \<and> e = g d)"
  by (cases r) auto

lemma map_err_Panic_iff [result_simps]: "map_err g r = Panic \<longleftrightarrow> r = Panic"
  by (cases r) auto

lemma map_ok_Ok_iff [result_simps]: "map_ok g r = Ok y \<longleftrightarrow> (\<exists>x. r = Ok x \<and> y = g x)"
  by (cases r) auto

lemma map_ok_Err_iff [result_simps]: "map_ok g r = Err e \<longleftrightarrow> r = Err e"
  by (cases r) auto

lemma map_ok_Panic_iff [result_simps]: "map_ok g r = Panic \<longleftrightarrow> r = Panic"
  by (cases r) auto

lemma ok_or_Ok_iff [result_simps]: "ok_or v e = Ok x \<longleftrightarrow> v = Some x"
  by (cases v) auto

lemma ok_or_Err_iff [result_simps]: "ok_or v e = Err d \<longleftrightarrow> v = None \<and> d = e"
  by (cases v) auto

lemma ok_or_not_Panic [simp]: "ok_or v e \<noteq> Panic"
  by (cases v) auto

lemma for_each_Ok_iff [result_simps]:
  "for_each f xs = Ok u \<longleftrightarrow> (\<forall>x \<in> set xs. f x = Ok ())"
  by (induction xs) (auto simp: result_simps)

lemma for_each_not_Panic: "(\<And>x. x \<in> set xs \<Longrightarrow> f x \<noteq> Panic) \<Longrightarrow> for_each f xs \<noteq> Panic"
  by (induction xs) (auto simp: result_simps)

text \<open>A failing loop reports the error of its first failing element.\<close>

lemma for_each_Err_iff [result_simps]:
  "for_each f xs = Err e \<longleftrightarrow>
     (\<exists>ys x zs. xs = ys @ x # zs \<and> (\<forall>y \<in> set ys. f y = Ok ()) \<and> f x = Err e)"
proof (induction xs)
  case Nil
  then show ?case by simp
next
  case (Cons a xs)
  show ?case
  proof
    assume "for_each f (a # xs) = Err e"
    then consider "f a = Err e" | "f a = Ok ()" "for_each f xs = Err e"
      by (auto simp: result_simps)
    then show "\<exists>ys x zs. a # xs = ys @ x # zs \<and> (\<forall>y\<in>set ys. f y = Ok ()) \<and> f x = Err e"
    proof cases
      case 1
      then show ?thesis by (intro exI [of _ "[]"]) auto
    next
      case 2
      then obtain ys x zs where "xs = ys @ x # zs" "\<forall>y\<in>set ys. f y = Ok ()" "f x = Err e"
        using Cons.IH by blast
      with 2 show ?thesis by (intro exI [of _ "a # ys"]) auto
    qed
  next
    assume "\<exists>ys x zs. a # xs = ys @ x # zs \<and> (\<forall>y\<in>set ys. f y = Ok ()) \<and> f x = Err e"
    then obtain ys x zs where *: "a # xs = ys @ x # zs" "\<forall>y\<in>set ys. f y = Ok ()" "f x = Err e"
      by blast
    then show "for_each f (a # xs) = Err e"
    proof (cases ys)
      case Nil
      with * show ?thesis by simp
    next
      case (Cons b ys')
      with * have "xs = ys' @ x # zs" "\<forall>y\<in>set ys'. f y = Ok ()" "f a = Ok ()" by auto
      with Cons.IH * show ?thesis by auto
    qed
  qed
qed

lemma collect_results_Ok_iff [result_simps]:
  "collect_results f xs = Ok ys \<longleftrightarrow> list_all2 (\<lambda>x y. f x = Ok y) xs ys"
  by (induction xs arbitrary: ys) (auto simp: result_simps list_all2_Cons1)

lemma collect_results_not_Panic:
  "(\<And>x. x \<in> set xs \<Longrightarrow> f x \<noteq> Panic) \<Longrightarrow> collect_results f xs \<noteq> Panic"
  by (induction xs) (auto simp: result_simps)

section \<open>Actions of trait objects\<close>

type_synonym ('w, 'a, 'e) action = "'w \<Rightarrow> ('a, 'e) result \<times> 'w"

definition lift_result :: "('a, 'e) result \<Rightarrow> ('w, 'a, 'e) action" where
  "lift_result r = (\<lambda>w. (r, w))"

fun bind_action :: "('w, 'a, 'e) action \<Rightarrow> ('a \<Rightarrow> ('w, 'b, 'e) action) \<Rightarrow> ('w, 'b, 'e) action" where
  "bind_action m f w =
     (case m w of (Ok x, w') \<Rightarrow> f x w' | (Err e, w') \<Rightarrow> (Err e, w') | (Panic, w') \<Rightarrow> (Panic, w'))"

definition map_err_action :: "('e \<Rightarrow> 'f) \<Rightarrow> ('w, 'a, 'e) action \<Rightarrow> ('w, 'a, 'f) action" where
  "map_err_action g m = (\<lambda>w. case m w of (r, w') \<Rightarrow> (map_err g r, w'))"

definition map_ok_action :: "('a \<Rightarrow> 'b) \<Rightarrow> ('w, 'a, 'e) action \<Rightarrow> ('w, 'b, 'e) action" where
  "map_ok_action g m = (\<lambda>w. case m w of (r, w') \<Rightarrow> (map_ok g r, w'))"

fun for_each_action :: "('a \<Rightarrow> ('w, unit, 'e) action) \<Rightarrow> 'a list \<Rightarrow> ('w, unit, 'e) action" where
  "for_each_action f [] w = (Ok (), w)"
| "for_each_action f (x # xs) w = bind_action (f x) (\<lambda>_. for_each_action f xs) w"

declare bind_action.simps [simp del]

lemma lift_result_apply [simp]: "lift_result r w = (r, w)"
  by (simp add: lift_result_def)

lemma bind_lift_Ok [simp]: "bind_action (lift_result (Ok x)) f = f x"
  by (rule ext) (simp add: bind_action.simps)

lemma bind_lift_Err [simp]: "bind_action (lift_result (Err e)) f = lift_result (Err e)"
  by (rule ext) (simp add: bind_action.simps)

lemma bind_lift_Panic [simp]: "bind_action (lift_result Panic) f = lift_result Panic"
  by (rule ext) (simp add: bind_action.simps)

lemma bind_lift_lift [simp]:
  "bind_action (lift_result r) (\<lambda>x. lift_result (f x)) = lift_result (bind_result r f)"
  by (cases r) auto

lemma bind_action_Ok_iff [result_simps]:
  "bind_action m f w = (Ok y, w') \<longleftrightarrow> (\<exists>x u. m w = (Ok x, u) \<and> f x u = (Ok y, w'))"
  by (auto simp: bind_action.simps split: prod.splits result.splits)

lemma bind_action_Err_iff [result_simps]:
  "bind_action m f w = (Err e, w') \<longleftrightarrow>
     m w = (Err e, w') \<or> (\<exists>x u. m w = (Ok x, u) \<and> f x u = (Err e, w'))"
  by (auto simp: bind_action.simps split: prod.splits result.splits)

lemma map_err_action_Err_iff [result_simps]:
  "map_err_action g m w = (Err e, w') \<longleftrightarrow> (\<exists>d. m w = (Err d, w') \<and> e = g d)"
  by (auto simp: map_err_action_def result_simps split: prod.splits)

lemma for_each_action_Err:
  "for_each_action f xs w = (Err e, w') \<Longrightarrow> \<exists>x \<in> set xs. \<exists>u. f x u = (Err e, w')"
  by (induction xs arbitrary: w) (auto simp: bind_action_Err_iff)

lemma map_err_action_Ok_iff [result_simps]:
  "map_err_action g m w = (Ok y, w') \<longleftrightarrow> m w = (Ok y, w')"
  by (auto simp: map_err_action_def result_simps split: prod.splits)

lemma map_ok_action_Ok_iff [result_simps]:
  "map_ok_action g m w = (Ok y, w') \<longleftrightarrow> (\<exists>x. m w = (Ok x, w') \<and> y = g x)"
  by (auto simp: map_ok_action_def result_simps split: prod.splits)

lemma snd_map_err_action [simp]: "snd (map_err_action g m w) = snd (m w)"
  by (auto simp: map_err_action_def split: prod.splits)

lemma snd_map_ok_action [simp]: "snd (map_ok_action g m w) = snd (m w)"
  by (auto simp: map_ok_action_def split: prod.splits)

lemma fst_map_err_action [simp]: "fst (map_err_action g m w) = map_err g (fst (m w))"
  by (auto simp: map_err_action_def split: prod.splits)

lemma fst_map_ok_action [simp]: "fst (map_ok_action g m w) = map_ok g (fst (m w))"
  by (auto simp: map_ok_action_def split: prod.splits)

text \<open>
  A relation on worlds that holds of every step of a computation holds from its start to its
  end, when it is reflexive and transitive. Taken at equality it says that a computation made of
  lifted results leaves the world alone; taken at an extension order it bounds a call log.
\<close>

lemma bind_action_world:
  assumes "R w (snd (m w))"
    and "\<And>x u. m w = (Ok x, u) \<Longrightarrow> R u (snd (f x u))"
    and "\<And>u v z. R u v \<Longrightarrow> R v z \<Longrightarrow> R u z"
  shows "R w (snd (bind_action m f w))"
  using assms by (auto simp: bind_action.simps split: prod.splits result.splits)

lemma fst_Ok_iff: "fst x = Ok v \<longleftrightarrow> (\<exists>w. x = (Ok v, w))"
  by (cases x) auto

text \<open>An action on one component of a pair of independent objects.\<close>

definition on_fst :: "('u, 'a, 'e) action \<Rightarrow> ('u \<times> 'v, 'a, 'e) action" where
  "on_fst m = (\<lambda>(u, v). case m u of (r, u') \<Rightarrow> (r, (u', v)))"

definition on_snd :: "('v, 'a, 'e) action \<Rightarrow> ('u \<times> 'v, 'a, 'e) action" where
  "on_snd m = (\<lambda>(u, v). case m v of (r, v') \<Rightarrow> (r, (u, v')))"

lemma on_fst_simp [simp]: "on_fst m (u, v) = (r, w) \<longleftrightarrow> (\<exists>u'. m u = (r, u') \<and> w = (u', v))"
  by (auto simp: on_fst_def split: prod.splits)

lemma on_snd_simp [simp]: "on_snd m (u, v) = (r, w) \<longleftrightarrow> (\<exists>v'. m v = (r, v') \<and> w = (u, v'))"
  by (auto simp: on_snd_def split: prod.splits)

section \<open>Slices and arrays\<close>

definition slice_get :: "'a list \<Rightarrow> nat \<Rightarrow> nat \<Rightarrow> 'a list option" where
  "slice_get xs i j = (if i \<le> j \<and> j \<le> length xs then Some (take (j - i) (drop i xs)) else None)"

definition slice_index :: "'a list \<Rightarrow> nat \<Rightarrow> nat \<Rightarrow> ('a list, 'e) result" where
  "slice_index xs i j = (case slice_get xs i j of Some ys \<Rightarrow> Ok ys | None \<Rightarrow> Panic)"

definition slice_from :: "'a list \<Rightarrow> nat \<Rightarrow> ('a list, 'e) result" where
  "slice_from xs i = slice_index xs i (length xs)"

definition index_at :: "'a list \<Rightarrow> nat \<Rightarrow> ('a, 'e) result" where
  "index_at xs i = (if i < length xs then Ok (xs ! i) else Panic)"

definition copy_into :: "'a list \<Rightarrow> nat \<Rightarrow> 'a list \<Rightarrow> 'a list" where
  "copy_into dst i src = take i dst @ src @ drop (i + length src) dst"

lemma take_min_length: "take (min (length xs) n) xs = take n xs"
  by (cases "length xs \<le> n") simp_all

lemma slice_get_append [simp]:
  "length xs = i \<Longrightarrow> j = i + length ys \<Longrightarrow> slice_get (xs @ ys @ zs) i j = Some ys"
  by (simp add: slice_get_def)

lemma slice_get_length: "slice_get xs i j = Some ys \<Longrightarrow> length ys = j - i"
  by (auto simp: slice_get_def split: if_splits)

lemma slice_from_ok [simp]: "i \<le> length xs \<Longrightarrow> slice_from xs i = Ok (drop i xs)"
  by (simp add: slice_from_def slice_index_def slice_get_def)

lemma slice_index_ok [simp]:
  "i \<le> j \<Longrightarrow> j \<le> length xs \<Longrightarrow> slice_index xs i j = Ok (take (j - i) (drop i xs))"
  by (simp add: slice_index_def slice_get_def)

lemma index_at_ok [simp]: "i < length xs \<Longrightarrow> index_at xs i = Ok (xs ! i)"
  by (simp add: index_at_def)

lemma length_copy_into [bytes_simps]:
  "i + length src \<le> length dst \<Longrightarrow> length (copy_into dst i src) = length dst"
  by (simp add: copy_into_def)

lemma copy_into_zero_front: "copy_into (replicate n z) 0 src = src @ replicate (n - length src) z"
  by (simp add: copy_into_def)

section \<open>Fixed-width integers as bytes\<close>

fun le_bytes :: "nat \<Rightarrow> nat \<Rightarrow> bytes" where
  "le_bytes 0 v = []"
| "le_bytes (Suc n) v = word_of_nat (v mod 256) # le_bytes n (v div 256)"

fun le_nat :: "bytes \<Rightarrow> nat" where
  "le_nat [] = 0"
| "le_nat (b # bs) = unat b + 256 * le_nat bs"

definition u32_to_le_bytes :: "u32 \<Rightarrow> bytes" where
  "u32_to_le_bytes v = le_bytes 4 (unat v)"

definition u64_to_le_bytes :: "u64 \<Rightarrow> bytes" where
  "u64_to_le_bytes v = le_bytes 8 (unat v)"

definition u32_to_be_bytes :: "u32 \<Rightarrow> bytes" where
  "u32_to_be_bytes v = rev (le_bytes 4 (unat v))"

definition u64_to_be_bytes :: "u64 \<Rightarrow> bytes" where
  "u64_to_be_bytes v = rev (le_bytes 8 (unat v))"

definition u32_from_le_bytes :: "bytes \<Rightarrow> u32" where
  "u32_from_le_bytes bs = word_of_nat (le_nat bs)"

definition u64_from_le_bytes :: "bytes \<Rightarrow> u64" where
  "u64_from_le_bytes bs = word_of_nat (le_nat bs)"

text \<open>\<open>as u32\<close> and \<open>as u64\<close> on a \<open>usize\<close> wrap; \<open>u32::try_from\<close> and the checked operations fail.\<close>

definition usize_as_u32 :: "usize \<Rightarrow> u32" where
  "usize_as_u32 n = word_of_nat n"

definition usize_as_u64 :: "usize \<Rightarrow> u64" where
  "usize_as_u64 n = word_of_nat n"

definition u32_try_from :: "usize \<Rightarrow> u32 option" where
  "u32_try_from n = (if n < 2 ^ 32 then Some (word_of_nat n) else None)"

definition checked_add_usize :: "usize \<Rightarrow> usize \<Rightarrow> usize option" where
  "checked_add_usize a b = (if a + b < usize_bound then Some (a + b) else None)"

definition checked_mul_usize :: "usize \<Rightarrow> usize \<Rightarrow> usize option" where
  "checked_mul_usize a b = (if a * b < usize_bound then Some (a * b) else None)"

definition saturating_add_u64 :: "u64 \<Rightarrow> u64 \<Rightarrow> u64" where
  "saturating_add_u64 a b = (if unat a + unat b < 2 ^ 64 then a + b else - 1)"

lemma unat_u8_bound: "unat (b :: u8) < 256"
  using unsigned_less [of b, where 'a = nat] by simp

lemma length_le_bytes [simp]: "length (le_bytes n v) = n"
  by (induction n arbitrary: v) auto

lemma le_nat_le_bytes: "le_nat (le_bytes n v) = v mod 256 ^ n"
proof (induction n arbitrary: v)
  case 0
  then show ?case by simp
next
  case (Suc n)
  have "unat (word_of_nat (v mod 256) :: u8) = v mod 256"
    by (simp add: unat_of_nat)
  with Suc show ?case
    by (simp add: mod_mult2_eq algebra_simps)
qed

lemma le_bytes_le_nat: "le_bytes (length bs) (le_nat bs) = bs"
proof (induction bs)
  case Nil
  then show ?case by simp
next
  case (Cons b bs)
  have "unat b < 256" by (rule unat_u8_bound)
  then have "(unat b + 256 * le_nat bs) mod 256 = unat b"
    and "(unat b + 256 * le_nat bs) div 256 = le_nat bs" by simp_all
  with Cons show ?case by simp
qed

lemma le_nat_bound: "le_nat bs < 256 ^ length bs"
proof (induction bs)
  case Nil
  then show ?case by simp
next
  case (Cons b bs)
  have "unat b + 256 * le_nat bs < 256 * (le_nat bs + 1)"
    using unat_u8_bound [of b] by simp
  also from Cons have "256 * (le_nat bs + 1) \<le> 256 * 256 ^ length bs"
    by (intro mult_le_mono2) simp
  finally show ?case by simp
qed

lemma le_nat_inj: "length xs = length ys \<Longrightarrow> le_nat xs = le_nat ys \<Longrightarrow> xs = ys"
  by (metis le_bytes_le_nat)

lemma le_bytes_inj:
  assumes "le_bytes n a = le_bytes n b" "a < 256 ^ n" "b < 256 ^ n"
  shows "a = b"
proof -
  have "le_nat (le_bytes n a) = le_nat (le_bytes n b)" by (simp only: assms(1))
  then show ?thesis using assms(2,3) by (simp add: le_nat_le_bytes)
qed

lemma unat_bound_u32: "unat (v :: u32) < 256 ^ 4"
  using unsigned_less [of v, where 'a = nat] by simp

lemma unat_bound_u64: "unat (v :: u64) < 256 ^ 8"
  using unsigned_less [of v, where 'a = nat] by simp

lemma length_int_bytes [simp]:
  "length (u32_to_le_bytes a) = 4" "length (u64_to_le_bytes b) = 8"
  "length (u32_to_be_bytes a) = 4" "length (u64_to_be_bytes b) = 8"
  by (simp_all add: u32_to_le_bytes_def u64_to_le_bytes_def u32_to_be_bytes_def u64_to_be_bytes_def)

lemma u32_le_roundtrip [simp]: "u32_from_le_bytes (u32_to_le_bytes v) = v"
  using unat_bound_u32 [of v]
  by (simp add: u32_from_le_bytes_def u32_to_le_bytes_def le_nat_le_bytes)

lemma u64_le_roundtrip [simp]: "u64_from_le_bytes (u64_to_le_bytes v) = v"
  using unat_bound_u64 [of v]
  by (simp add: u64_from_le_bytes_def u64_to_le_bytes_def le_nat_le_bytes)

lemma u32_from_le_inverse [simp]:
  assumes "length bs = 4"
  shows "u32_to_le_bytes (u32_from_le_bytes bs) = bs"
proof -
  have "le_nat bs < 2 ^ 32" using le_nat_bound [of bs] assms by simp
  then have "unat (word_of_nat (le_nat bs) :: u32) = le_nat bs"
    by (simp add: unat_of_nat)
  then show ?thesis
    using le_bytes_le_nat [of bs] assms by (simp add: u32_from_le_bytes_def u32_to_le_bytes_def)
qed

lemma u64_from_le_inverse [simp]:
  assumes "length bs = 8"
  shows "u64_to_le_bytes (u64_from_le_bytes bs) = bs"
proof -
  have "le_nat bs < 2 ^ 64" using le_nat_bound [of bs] assms by simp
  then have "unat (word_of_nat (le_nat bs) :: u64) = le_nat bs"
    by (simp add: unat_of_nat)
  then show ?thesis
    using le_bytes_le_nat [of bs] assms by (simp add: u64_from_le_bytes_def u64_to_le_bytes_def)
qed

lemma u64_le_bytes_inject [simp]: "u64_to_le_bytes a = u64_to_le_bytes b \<longleftrightarrow> a = b"
  by (metis u64_le_roundtrip)

lemma u32_be_bytes_inject [simp]: "u32_to_be_bytes a = u32_to_be_bytes b \<longleftrightarrow> a = b"
  by (metis rev_rev_ident u32_le_roundtrip u32_to_be_bytes_def u32_to_le_bytes_def)

lemma u64_be_bytes_inject [simp]: "u64_to_be_bytes a = u64_to_be_bytes b \<longleftrightarrow> a = b"
  by (metis rev_rev_ident u64_le_roundtrip u64_to_be_bytes_def u64_to_le_bytes_def)

lemma usize_as_u64_inject:
  "a < 2 ^ 64 \<Longrightarrow> b < 2 ^ 64 \<Longrightarrow> usize_as_u64 a = usize_as_u64 b \<longleftrightarrow> a = b"
  by (auto simp: usize_as_u64_def word_of_nat_eq_iff take_bit_nat_eq_self)

lemma usize_as_u32_inject:
  "a < 2 ^ 32 \<Longrightarrow> b < 2 ^ 32 \<Longrightarrow> usize_as_u32 a = usize_as_u32 b \<longleftrightarrow> a = b"
  by (auto simp: usize_as_u32_def word_of_nat_eq_iff take_bit_nat_eq_self)

lemma u32_try_from_Some: "u32_try_from n = Some v \<longleftrightarrow> n < 2 ^ 32 \<and> v = word_of_nat n"
  by (auto simp: u32_try_from_def)

lemma unat_word_of_nat_u32 [simp]: "n < 2 ^ 32 \<Longrightarrow> unat (word_of_nat n :: u32) = n"
  by (simp add: unat_of_nat)

lemma unat_saturating_add_u64: "unat (saturating_add_u64 a b) = min (unat a + unat b) (2 ^ 64 - 1)"
proof (cases "unat a + unat b < 2 ^ 64")
  case True
  then have "unat (a + b) = unat a + unat b"
    by (simp add: unat_word_ariths)
  with True show ?thesis by (simp add: saturating_add_u64_def)
next
  case False
  have "unat (- 1 :: u64) = 2 ^ 64 - 1"
    by (simp add: unsigned_minus_1_eq_mask mask_eq_exp_minus_1)
  with False show ?thesis by (simp add: saturating_add_u64_def)
qed

section \<open>Byte strings and comparison\<close>

definition ascii :: "string \<Rightarrow> bytes" where
  "ascii s = map (\<lambda>c. word_of_nat (of_char c)) s"

lemma length_ascii [simp]: "length (ascii s) = length s"
  by (simp add: ascii_def)

datatype ordering = Less | Equal | Greater

fun slice_cmp :: "'a::linorder list \<Rightarrow> 'a list \<Rightarrow> ordering" where
  "slice_cmp [] [] = Equal"
| "slice_cmp [] (y # ys) = Less"
| "slice_cmp (x # xs) [] = Greater"
| "slice_cmp (x # xs) (y # ys) =
     (if x < y then Less else if y < x then Greater else slice_cmp xs ys)"

lemma slice_cmp_Less [simp]: "slice_cmp xs ys = Less \<longleftrightarrow> xs < ys"
  by (induction xs ys rule: slice_cmp.induct) auto

lemma slice_cmp_Equal [simp]: "slice_cmp xs ys = Equal \<longleftrightarrow> xs = ys"
  by (induction xs ys rule: slice_cmp.induct) auto

lemma slice_cmp_Greater [simp]: "slice_cmp xs ys = Greater \<longleftrightarrow> ys < xs"
  by (induction xs ys rule: slice_cmp.induct) auto

section \<open>Framed concatenation\<close>

text \<open>
  Hash inputs are built by concatenating parts. These lemmas say when the parts can be read
  back: parts of a known width, or a part preceded by its length in a fixed-width field.
\<close>

lemma append_eq_same_length:
  "length xs = length ys \<Longrightarrow> xs @ us = ys @ vs \<longleftrightarrow> xs = ys \<and> us = vs"
  by auto

lemma concat_fixed_width_inj:
  assumes "concat xss = concat yss" and "0 < w"
    and "\<forall>xs \<in> set xss. length xs = w" and "\<forall>ys \<in> set yss. length ys = w"
  shows "xss = yss"
  using assms
proof (induction xss arbitrary: yss)
  case Nil
  then show ?case by (cases yss) auto
next
  case (Cons x xss)
  then obtain y yss' where yss: "yss = y # yss'" by (cases yss) auto
  with Cons.prems have "x = y" "concat xss = concat yss'"
    by (auto simp: append_eq_same_length)
  with Cons yss show ?case by auto
qed

end
