(* ===== verification/Primitives.thy ===== *)
theory Primitives
  imports Prelude
begin

text \<open>
  The data model of \<^verbatim>\<open>crates/shell-primitives\<close>: scalars, transactions, state keys, errors and
  signing domains (\<^verbatim>\<open>types/scalars.rs\<close>, \<^verbatim>\<open>types/transactions.rs\<close>, \<^verbatim>\<open>types/state.rs\<close>,
  \<^verbatim>\<open>errors.rs\<close>, \<^verbatim>\<open>domains.rs\<close>, \<^verbatim>\<open>traits.rs\<close>).

  A fixed array \<open>[u8; N]\<close> is a byte list; the \<open>wf_\<dots>\<close> predicates carry the lengths that the
  Rust types enforce. The lemmas show that canonical state-key bytes are injective on
  well-formed keys and that \<open>compare_state_keys\<close> is the strict order the accumulator relies on.
\<close>

section \<open>Scalars\<close>

type_synonym Root = bytes
type_synonym Bytes32 = bytes
type_synonym Bytes31 = bytes
type_synonym Bytes4 = bytes
type_synonym ExecutionAddress = bytes

definition MOCK_PROGRESSIVE_BYTE_LIST_LIMIT :: usize where
  "MOCK_PROGRESSIVE_BYTE_LIST_LIMIT = 1048576"

definition MOCK_PROGRESSIVE_LIST_LIMIT :: usize where
  "MOCK_PROGRESSIVE_LIST_LIMIT = 8192"

datatype U256 = U256 (u256_bytes: bytes)
datatype ChainId = ChainId (chain_id_value: U256)
datatype TxValue = TxValue (tx_value: U256)
datatype GasPrice = GasPrice (gas_price_value: U256)

record BasicFeesPerGas =
  regular :: GasPrice
  max_priority_fee_per_gas :: GasPrice
  max_witness_priority_fee :: GasPrice

definition zero_bytes :: "nat \<Rightarrow> bytes" where
  "zero_bytes n = replicate n 0"

lemma length_zero_bytes [simp]: "length (zero_bytes n) = n"
  by (simp add: zero_bytes_def)

definition wf_u256 :: "U256 \<Rightarrow> bool" where
  "wf_u256 v \<longleftrightarrow> length (u256_bytes v) = 32"

definition wf_fees :: "BasicFeesPerGas \<Rightarrow> bool" where
  "wf_fees f \<longleftrightarrow> wf_u256 (gas_price_value (regular f)) \<and>
     wf_u256 (gas_price_value (max_priority_fee_per_gas f)) \<and>
     wf_u256 (gas_price_value (max_witness_priority_fee f))"

definition default_gas_price :: GasPrice where
  "default_gas_price = GasPrice (U256 (zero_bytes 32))"

definition default_fees :: BasicFeesPerGas where
  "default_fees = \<lparr>regular = default_gas_price, max_priority_fee_per_gas = default_gas_price,
     max_witness_priority_fee = default_gas_price\<rparr>"

section \<open>Transactions\<close>

record BasicTransactionPayload =
  basic_chain_id :: ChainId
  basic_nonce :: u64
  basic_gas_limit :: u64
  basic_fees :: BasicFeesPerGas
  basic_to :: ExecutionAddress
  basic_value :: TxValue
  basic_input :: bytes
  basic_access_commitment :: Root

record CreateTransactionPayload =
  create_chain_id :: ChainId
  create_nonce :: u64
  create_gas_limit :: u64
  create_fees :: BasicFeesPerGas
  create_value :: TxValue
  create_initcode :: bytes
  create_access_commitment :: Root

record Authorization =
  auth_scheme_id :: u8
  auth_payload_root :: Root
  auth_signature :: bytes

record SigningData =
  object_root :: Root
  domain_type :: Bytes4

datatype TransactionPayload =
    Basic BasicTransactionPayload
  | Create CreateTransactionPayload

datatype TransactionPayloadSsz = TransactionPayloadSsz (ssz_payload: TransactionPayload)

record TransactionEnvelope =
  env_payload :: TransactionPayloadSsz
  env_authorizations :: "Authorization list"

definition TAG_BASIC :: u8 where
  "TAG_BASIC = 0"

definition TAG_CREATE :: u8 where
  "TAG_CREATE = 1"

fun protocol_tag :: "TransactionPayloadSsz \<Rightarrow> u8" where
  "protocol_tag (TransactionPayloadSsz (Basic _)) = TAG_BASIC"
| "protocol_tag (TransactionPayloadSsz (Create _)) = TAG_CREATE"

definition wf_basic :: "BasicTransactionPayload \<Rightarrow> bool" where
  "wf_basic p \<longleftrightarrow> wf_u256 (chain_id_value (basic_chain_id p)) \<and> wf_fees (basic_fees p) \<and>
     length (basic_to p) = 20 \<and> wf_u256 (tx_value (basic_value p)) \<and>
     length (basic_access_commitment p) = 32"

definition wf_create :: "CreateTransactionPayload \<Rightarrow> bool" where
  "wf_create p \<longleftrightarrow> wf_u256 (chain_id_value (create_chain_id p)) \<and> wf_fees (create_fees p) \<and>
     wf_u256 (tx_value (create_value p)) \<and> length (create_access_commitment p) = 32"

fun wf_payload :: "TransactionPayloadSsz \<Rightarrow> bool" where
  "wf_payload (TransactionPayloadSsz (Basic p)) = wf_basic p"
| "wf_payload (TransactionPayloadSsz (Create p)) = wf_create p"

definition wf_authorization :: "Authorization \<Rightarrow> bool" where
  "wf_authorization a \<longleftrightarrow> length (auth_payload_root a) = 32"

definition wf_envelope :: "TransactionEnvelope \<Rightarrow> bool" where
  "wf_envelope e \<longleftrightarrow> wf_payload (env_payload e) \<and> (\<forall>a \<in> set (env_authorizations e). wf_authorization a)"

definition default_basic_payload :: BasicTransactionPayload where
  "default_basic_payload = \<lparr>basic_chain_id = ChainId (U256 (zero_bytes 32)), basic_nonce = 0,
     basic_gas_limit = 0, basic_fees = default_fees, basic_to = zero_bytes 20,
     basic_value = TxValue (U256 (zero_bytes 32)), basic_input = [],
     basic_access_commitment = zero_bytes 32\<rparr>"

definition default_create_payload :: CreateTransactionPayload where
  "default_create_payload = \<lparr>create_chain_id = ChainId (U256 (zero_bytes 32)), create_nonce = 0,
     create_gas_limit = 0, create_fees = default_fees,
     create_value = TxValue (U256 (zero_bytes 32)), create_initcode = [],
     create_access_commitment = zero_bytes 32\<rparr>"

definition default_payload :: TransactionPayloadSsz where
  "default_payload = TransactionPayloadSsz (Basic default_basic_payload)"

lemma wf_default [simp]:
  "wf_u256 (U256 (zero_bytes 32))" "wf_fees default_fees" "wf_basic default_basic_payload"
  "wf_create default_create_payload" "wf_payload default_payload"
  by (simp_all add: wf_u256_def wf_fees_def default_fees_def default_gas_price_def wf_basic_def
      default_basic_payload_def wf_create_def default_create_payload_def default_payload_def)

section \<open>Errors, outcomes and credentials\<close>

datatype PrimitiveError =
    MalformedSsz string
  | UnsupportedPayloadVariant u8
  | PayloadRootMismatch (expected_root: Root) (actual_root: Root)
  | SigningRootConstruction string
  | AuthorizationCount (expected_at_least: usize) (actual_count: usize)
  | SignatureSizeExceeded (max_bytes: usize) (actual_bytes: usize)
  | Unimplemented string

datatype DomainError = DomainError string

datatype ProposerCredentialResolutionError =
    NotFound
  | ResolverUnavailable
  | InvalidCredentialEncoding u8 string

datatype ValidationOutcome = Accept | Reject | PolicyReject

datatype ValidationStage = T0 | T1 | T2 | T3 | T4 | B0 | B1 | B2 | B3 | B4 | B5

record ProposerCredential =
  cred_scheme_id :: u8
  cred_public_key_material :: bytes

record ProposerCredentialQuery =
  query_block_root :: Root
  query_proposer_index_hint :: "u64 option"

fun is_consensus_invalid :: "ProposerCredentialResolutionError \<Rightarrow> bool" where
  "is_consensus_invalid NotFound = True"
| "is_consensus_invalid (InvalidCredentialEncoding _ _) = True"
| "is_consensus_invalid ResolverUnavailable = False"

fun primitive_network_validation_outcome :: "PrimitiveError \<Rightarrow> ValidationOutcome option" where
  "primitive_network_validation_outcome (MalformedSsz _) = Some Reject"
| "primitive_network_validation_outcome (UnsupportedPayloadVariant _) = Some Reject"
| "primitive_network_validation_outcome (PayloadRootMismatch _ _) = Some Reject"
| "primitive_network_validation_outcome (AuthorizationCount _ _) = Some Reject"
| "primitive_network_validation_outcome (SignatureSizeExceeded _ _) = Some Reject"
| "primitive_network_validation_outcome (SigningRootConstruction _) = None"
| "primitive_network_validation_outcome (Unimplemented _) = None"

definition ensure_supported_tag :: "u8 \<Rightarrow> (unit, PrimitiveError) result" where
  "ensure_supported_tag tag =
     (if tag = TAG_BASIC \<or> tag = TAG_CREATE then Ok () else Err (UnsupportedPayloadVariant tag))"

lemma ensure_supported_tag_protocol_tag [simp]: "ensure_supported_tag (protocol_tag p) = Ok ()"
  by (cases p rule: protocol_tag.cases) (simp_all add: ensure_supported_tag_def)

section \<open>Signing domains\<close>

datatype DomainSelector = TransactionAuthorizationDomainSelector | ValidatorMessageDomainSelector

definition DOMAIN_TX_SHELL :: Bytes4 where
  "DOMAIN_TX_SHELL = [1, 0, 0, 0]"

definition DOMAIN_VALIDATOR_MESSAGE :: Bytes4 where
  "DOMAIN_VALIDATOR_MESSAGE = [2, 0, 0, 0]"

fun domain_label :: "DomainSelector \<Rightarrow> string" where
  "domain_label TransactionAuthorizationDomainSelector = ''transaction-authorization''"
| "domain_label ValidatorMessageDomainSelector = ''validator-message''"

fun selector_domain_type :: "DomainSelector \<Rightarrow> (Bytes4, DomainError) result" where
  "selector_domain_type TransactionAuthorizationDomainSelector = Ok DOMAIN_TX_SHELL"
| "selector_domain_type ValidatorMessageDomainSelector = Ok DOMAIN_VALIDATOR_MESSAGE"

definition build_signing_data :: "Root \<Rightarrow> DomainSelector \<Rightarrow> (SigningData, DomainError) result" where
  "build_signing_data root domain =
     bind_result (selector_domain_type domain) (\<lambda>d. Ok \<lparr>object_root = root, domain_type = d\<rparr>)"

section \<open>State keys and witnesses\<close>

datatype StateKeyBytes = StateKeyBytes (as_slice: bytes)

datatype StateKey =
    AccountHeader ExecutionAddress
  | StorageSlot ExecutionAddress Bytes32
  | CodeChunk ExecutionAddress u32
  | RawTreeKey Bytes32
  | Stem Bytes31

record StateWitness =
  witness_key :: StateKey
  witness_leaf_value :: bytes
  witness_proof :: "Bytes32 list"

datatype WitnessProofShape = ReferenceEmpty | PlaceholderCommittedNodes

fun proof_shape_as_str :: "WitnessProofShape \<Rightarrow> string" where
  "proof_shape_as_str ReferenceEmpty = ''reference_empty''"
| "proof_shape_as_str PlaceholderCommittedNodes = ''placeholder_committed_nodes''"

definition proof_shape :: "StateWitness \<Rightarrow> WitnessProofShape" where
  "proof_shape w = (if witness_proof w = [] then ReferenceEmpty else PlaceholderCommittedNodes)"

definition canonicalize_execution_address :: "ExecutionAddress \<Rightarrow> Bytes32" where
  "canonicalize_execution_address addr = copy_into (zero_bytes 32) 12 addr"

fun encode_state_key :: "StateKey \<Rightarrow> StateKeyBytes" where
  "encode_state_key (AccountHeader address) =
     StateKeyBytes ([0] @ canonicalize_execution_address address)"
| "encode_state_key (StorageSlot address slot) =
     StateKeyBytes ([1] @ canonicalize_execution_address address @ slot)"
| "encode_state_key (CodeChunk address chunk_index) =
     StateKeyBytes ([2] @ canonicalize_execution_address address @ u32_to_be_bytes chunk_index)"
| "encode_state_key (RawTreeKey raw) = StateKeyBytes ([3] @ raw)"
| "encode_state_key (Stem stem) = StateKeyBytes ([4] @ stem)"

definition canonical_sort_key :: "StateKey \<Rightarrow> bytes" where
  "canonical_sort_key key = as_slice (encode_state_key key)"

definition compare_state_keys :: "StateKey \<Rightarrow> StateKey \<Rightarrow> ordering" where
  "compare_state_keys l r = slice_cmp (as_slice (encode_state_key l)) (as_slice (encode_state_key r))"

fun wf_state_key :: "StateKey \<Rightarrow> bool" where
  "wf_state_key (AccountHeader address) \<longleftrightarrow> length address = 20"
| "wf_state_key (StorageSlot address slot) \<longleftrightarrow> length address = 20 \<and> length slot = 32"
| "wf_state_key (CodeChunk address _) \<longleftrightarrow> length address = 20"
| "wf_state_key (RawTreeKey raw) \<longleftrightarrow> length raw = 32"
| "wf_state_key (Stem stem) \<longleftrightarrow> length stem = 31"

definition wf_witness :: "StateWitness \<Rightarrow> bool" where
  "wf_witness w \<longleftrightarrow> wf_state_key (witness_key w) \<and> (\<forall>n \<in> set (witness_proof w). length n = 32)"

text \<open>The derived order of \<open>StateKeyBytes\<close> is the lexicographic order of its bytes.\<close>

instantiation StateKeyBytes :: linorder
begin

definition less_eq_StateKeyBytes :: "StateKeyBytes \<Rightarrow> StateKeyBytes \<Rightarrow> bool" where
  "less_eq_StateKeyBytes x y \<longleftrightarrow> as_slice x \<le> as_slice y"

definition less_StateKeyBytes :: "StateKeyBytes \<Rightarrow> StateKeyBytes \<Rightarrow> bool" where
  "less_StateKeyBytes x y \<longleftrightarrow> slice_cmp (as_slice x) (as_slice y) = Less"

instance
  by intro_classes
    (auto simp: less_eq_StateKeyBytes_def less_StateKeyBytes_def StateKeyBytes.expand)

end

lemma less_state_key_bytes [simp]: "StateKeyBytes x < StateKeyBytes y \<longleftrightarrow> x < y"
  by (simp add: less_StateKeyBytes_def)

lemma compare_state_keys_Less:
  "compare_state_keys l r = Less \<longleftrightarrow> encode_state_key l < encode_state_key r"
  by (simp add: compare_state_keys_def less_StateKeyBytes_def)

lemma compare_state_keys_Equal:
  "compare_state_keys l r = Equal \<longleftrightarrow> encode_state_key l = encode_state_key r"
  by (auto simp: compare_state_keys_def intro: StateKeyBytes.expand)

lemma canonicalize_address_eq:
  "length addr = 20 \<Longrightarrow> canonicalize_execution_address addr = replicate 12 0 @ addr"
  by (simp add: canonicalize_execution_address_def copy_into_def zero_bytes_def min_def)

lemma encode_state_key_inj:
  assumes "wf_state_key k" "wf_state_key l" "encode_state_key k = encode_state_key l"
  shows "k = l"
  using assms by (cases k; cases l) (auto simp: canonicalize_address_eq append_eq_same_length)

lemma compare_state_keys_Equal_iff:
  "wf_state_key k \<Longrightarrow> wf_state_key l \<Longrightarrow> compare_state_keys k l = Equal \<longleftrightarrow> k = l"
  by (auto simp: compare_state_keys_Equal dest: encode_state_key_inj)

lemma length_encode_state_key:
  "wf_state_key k \<Longrightarrow> length (as_slice (encode_state_key k)) \<le> 65"
  by (cases k) (auto simp: canonicalize_address_eq)

end
