(* ===== verification/Codec.thy ===== *)
theory Codec
  imports Primitives
begin

text \<open>
  The wire codec of \<^verbatim>\<open>crates/shell-primitives/src/codec.rs\<close>: tagged payloads, authorizations,
  the offset-table list of authorizations and the envelope.

  Encoders append to an output buffer as the code does; decoders index their input, and an index
  out of range is \<open>Panic\<close>. The locale \<open>wire_codec\<close> is the contract of one encoder and decoder
  pair: the decoder never panics and accepts exactly the bytes the encoder produces. It is
  interpreted for all four pairs, and the round trip, injectivity and rejection lemmas are proved
  once, inside it.
\<close>

section \<open>Sizes\<close>

definition BASIC_FIXED_SIZE :: usize where
  "BASIC_FIXED_SIZE = 32 + 8 + 8 + 96 + 20 + 32 + 4 + 32"

definition CREATE_FIXED_SIZE :: usize where
  "CREATE_FIXED_SIZE = 32 + 8 + 8 + 96 + 32 + 4 + 32"

definition AUTHORIZATION_FIXED_SIZE :: usize where
  "AUTHORIZATION_FIXED_SIZE = 1 + 32 + 4"

definition ENVELOPE_FIXED_SIZE :: usize where
  "ENVELOPE_FIXED_SIZE = 4 + 4"

lemmas fixed_size_defs =
  BASIC_FIXED_SIZE_def CREATE_FIXED_SIZE_def AUTHORIZATION_FIXED_SIZE_def ENVELOPE_FIXED_SIZE_def

section \<open>Encoding payloads\<close>

definition push_u256 :: "bytes \<Rightarrow> bytes \<Rightarrow> bytes" where
  "push_u256 bs out = out @ bs"

definition push_u64 :: "u64 \<Rightarrow> bytes \<Rightarrow> bytes" where
  "push_u64 v out = out @ u64_to_le_bytes v"

definition push_u32 :: "u32 \<Rightarrow> bytes \<Rightarrow> bytes" where
  "push_u32 v out = out @ u32_to_le_bytes v"

definition push_address :: "ExecutionAddress \<Rightarrow> bytes \<Rightarrow> bytes" where
  "push_address addr out = out @ addr"

definition push_fees :: "BasicFeesPerGas \<Rightarrow> bytes \<Rightarrow> bytes" where
  "push_fees fees out =
     (let out = push_u256 (u256_bytes (gas_price_value (regular fees))) out;
          out = push_u256 (u256_bytes (gas_price_value (max_priority_fee_per_gas fees))) out
      in push_u256 (u256_bytes (gas_price_value (max_witness_priority_fee fees))) out)"

definition encode_basic :: "BasicTransactionPayload \<Rightarrow> bytes \<Rightarrow> bytes" where
  "encode_basic p out =
     (let out = push_u256 (u256_bytes (chain_id_value (basic_chain_id p))) out;
          out = push_u64 (basic_nonce p) out;
          out = push_u64 (basic_gas_limit p) out;
          out = push_fees (basic_fees p) out;
          out = push_address (basic_to p) out;
          out = push_u256 (u256_bytes (tx_value (basic_value p))) out;
          out = out @ u32_to_le_bytes (usize_as_u32 BASIC_FIXED_SIZE);
          out = out @ basic_access_commitment p
      in out @ basic_input p)"

definition encode_create :: "CreateTransactionPayload \<Rightarrow> bytes \<Rightarrow> bytes" where
  "encode_create p out =
     (let out = push_u256 (u256_bytes (chain_id_value (create_chain_id p))) out;
          out = push_u64 (create_nonce p) out;
          out = push_u64 (create_gas_limit p) out;
          out = push_fees (create_fees p) out;
          out = push_u256 (u256_bytes (tx_value (create_value p))) out;
          out = out @ u32_to_le_bytes (usize_as_u32 CREATE_FIXED_SIZE);
          out = out @ create_access_commitment p
      in out @ create_initcode p)"

definition encode_payload :: "TransactionPayloadSsz \<Rightarrow> (bytes, PrimitiveError) result" where
  "encode_payload payload =
     (let tag = protocol_tag payload; out = [] @ [tag] in
      Ok (case ssz_payload payload of
            Basic p \<Rightarrow> encode_basic p out
          | Create p \<Rightarrow> encode_create p out))"

section \<open>Reading fields\<close>

definition array_from_slice :: "nat \<Rightarrow> bytes \<Rightarrow> bytes option" where
  "array_from_slice n s = (if length s = n then Some s else None)"

definition read_u64 :: "bytes \<Rightarrow> usize \<Rightarrow> (u64, PrimitiveError) result" where
  "read_u64 bs offset =
     ok_or (map_option u64_from_le_bytes
       (Option.bind (slice_get bs offset (offset + 8)) (array_from_slice 8)))
     (MalformedSsz ''truncated u64 field'')"

definition read_u32 :: "bytes \<Rightarrow> usize \<Rightarrow> (u32, PrimitiveError) result" where
  "read_u32 bs offset =
     ok_or (map_option u32_from_le_bytes
       (Option.bind (slice_get bs offset (offset + 4)) (array_from_slice 4)))
     (MalformedSsz ''truncated u32 offset field'')"

definition read_bytes32 :: "bytes \<Rightarrow> usize \<Rightarrow> (Bytes32, PrimitiveError) result" where
  "read_bytes32 bs offset =
     bind_result (ok_or (slice_get bs offset (offset + 32)) (MalformedSsz ''truncated 32-byte field''))
       (\<lambda>slice. Ok (copy_into (zero_bytes 32) 0 slice))"

definition read_address :: "bytes \<Rightarrow> usize \<Rightarrow> (ExecutionAddress, PrimitiveError) result" where
  "read_address bs offset =
     bind_result
       (ok_or (slice_get bs offset (offset + 20)) (MalformedSsz ''truncated ExecutionAddress field''))
       (\<lambda>slice. Ok (copy_into (zero_bytes 20) 0 slice))"

definition read_fees :: "bytes \<Rightarrow> usize \<Rightarrow> (BasicFeesPerGas, PrimitiveError) result" where
  "read_fees bs offset =
     bind_result (read_bytes32 bs offset) (\<lambda>r.
     bind_result (read_bytes32 bs (offset + 32)) (\<lambda>p.
     bind_result (read_bytes32 bs (offset + 64)) (\<lambda>w.
       Ok \<lparr>regular = GasPrice (U256 r), max_priority_fee_per_gas = GasPrice (U256 p),
           max_witness_priority_fee = GasPrice (U256 w)\<rparr>)))"

section \<open>Decoding payloads\<close>

definition decode_basic :: "bytes \<Rightarrow> (BasicTransactionPayload, PrimitiveError) result" where
  "decode_basic bs =
     (if length bs < BASIC_FIXED_SIZE
      then Err (MalformedSsz ''BasicTransactionPayload too short for fixed fields'')
      else
        bind_result (read_bytes32 bs 0) (\<lambda>chain_id.
        bind_result (read_u64 bs 32) (\<lambda>nonce.
        bind_result (read_u64 bs 40) (\<lambda>gas_limit.
        bind_result (read_fees bs 48) (\<lambda>fees.
        bind_result (read_address bs 144) (\<lambda>to.
        bind_result (read_bytes32 bs 164) (\<lambda>value.
        bind_result (read_u32 bs 196) (\<lambda>input_offset.
        bind_result (read_bytes32 bs 200) (\<lambda>access_commitment.
          if unat input_offset \<noteq> BASIC_FIXED_SIZE
          then Err (MalformedSsz ''BasicTransactionPayload: input offset must equal the fixed-part size'')
          else
            bind_result (slice_from bs BASIC_FIXED_SIZE) (\<lambda>input.
            Ok \<lparr>basic_chain_id = ChainId (U256 chain_id), basic_nonce = nonce,
                basic_gas_limit = gas_limit, basic_fees = fees, basic_to = to,
                basic_value = TxValue (U256 value), basic_input = input,
                basic_access_commitment = access_commitment\<rparr>))))))))))"

definition decode_create :: "bytes \<Rightarrow> (CreateTransactionPayload, PrimitiveError) result" where
  "decode_create bs =
     (if length bs < CREATE_FIXED_SIZE
      then Err (MalformedSsz ''CreateTransactionPayload too short for fixed fields'')
      else
        bind_result (read_bytes32 bs 0) (\<lambda>chain_id.
        bind_result (read_u64 bs 32) (\<lambda>nonce.
        bind_result (read_u64 bs 40) (\<lambda>gas_limit.
        bind_result (read_fees bs 48) (\<lambda>fees.
        bind_result (read_bytes32 bs 144) (\<lambda>value.
        bind_result (read_u32 bs 176) (\<lambda>initcode_offset.
        bind_result (read_bytes32 bs 180) (\<lambda>access_commitment.
          if unat initcode_offset \<noteq> CREATE_FIXED_SIZE
          then Err (MalformedSsz ''CreateTransactionPayload: initcode offset must equal the fixed-part size'')
          else
            bind_result (slice_from bs CREATE_FIXED_SIZE) (\<lambda>initcode.
            Ok \<lparr>create_chain_id = ChainId (U256 chain_id), create_nonce = nonce,
                create_gas_limit = gas_limit, create_fees = fees,
                create_value = TxValue (U256 value), create_initcode = initcode,
                create_access_commitment = access_commitment\<rparr>)))))))))"

definition decode_payload :: "bytes \<Rightarrow> (TransactionPayloadSsz, PrimitiveError) result" where
  "decode_payload bs =
     (if bs = [] then Err (MalformedSsz ''TransactionPayload wire bytes must not be empty'')
      else
        bind_result (index_at bs 0) (\<lambda>tag.
        bind_result (ensure_supported_tag tag) (\<lambda>_.
        bind_result (slice_from bs 1) (\<lambda>inner.
          if tag = TAG_BASIC
          then map_ok (\<lambda>p. TransactionPayloadSsz (Basic p)) (decode_basic inner)
          else if tag = TAG_CREATE
          then map_ok (\<lambda>p. TransactionPayloadSsz (Create p)) (decode_create inner)
          else Panic))))"

section \<open>Authorizations\<close>

definition encode_authorization :: "Authorization \<Rightarrow> (bytes, PrimitiveError) result" where
  "encode_authorization a =
     (let out = [] @ [auth_scheme_id a];
          out = out @ auth_payload_root a;
          out = push_u32 (usize_as_u32 AUTHORIZATION_FIXED_SIZE) out
      in Ok (out @ auth_signature a))"

definition decode_authorization :: "bytes \<Rightarrow> (Authorization, PrimitiveError) result" where
  "decode_authorization bs =
     (if length bs < AUTHORIZATION_FIXED_SIZE
      then Err (MalformedSsz ''Authorization too short for fixed fields'')
      else
        bind_result (index_at bs 0) (\<lambda>scheme_id.
        bind_result (read_bytes32 bs 1) (\<lambda>payload_root.
        bind_result (read_u32 bs 33) (\<lambda>signature_offset.
          if unat signature_offset \<noteq> AUTHORIZATION_FIXED_SIZE
          then Err (MalformedSsz ''Authorization: signature offset must equal the fixed-part size'')
          else
            bind_result (slice_from bs AUTHORIZATION_FIXED_SIZE) (\<lambda>signature.
            Ok \<lparr>auth_scheme_id = scheme_id, auth_payload_root = payload_root,
                auth_signature = signature\<rparr>)))))"

text \<open>The two loops of the list encoder: the offset table, then the collected elements.\<close>

fun encode_offset_loop ::
  "Authorization list \<Rightarrow> bytes \<Rightarrow> bytes list \<Rightarrow> usize \<Rightarrow> (bytes \<times> bytes list, PrimitiveError) result" where
  "encode_offset_loop [] out variable_parts next_offset = Ok (out, variable_parts)"
| "encode_offset_loop (a # authorizations) out variable_parts next_offset =
     bind_result (encode_authorization a) (\<lambda>encoded.
     bind_result (ok_or (u32_try_from next_offset)
                    (MalformedSsz ''Authorization list offset exceeds u32::MAX'')) (\<lambda>offset.
     bind_result (ok_or (checked_add_usize next_offset (length encoded))
                    (MalformedSsz ''Authorization list byte length overflowed usize'')) (\<lambda>next_offset'.
       encode_offset_loop authorizations (push_u32 offset out) (variable_parts @ [encoded]) next_offset')))"

definition encode_authorization_list :: "Authorization list \<Rightarrow> (bytes, PrimitiveError) result" where
  "encode_authorization_list authorizations =
     bind_result (ok_or (checked_mul_usize (length authorizations) 4)
                    (MalformedSsz ''Authorization list offset table overflowed usize'')) (\<lambda>fixed_size.
     bind_result (encode_offset_loop authorizations [] [] fixed_size) (\<lambda>(out, variable_parts).
       Ok (fold (\<lambda>encoded out. out @ encoded) variable_parts out)))"

definition read_list_offset :: "bytes \<Rightarrow> usize \<Rightarrow> usize \<Rightarrow> (usize, PrimitiveError) result" where
  "read_list_offset bs first_offset index =
     bind_result (read_u32 bs (index * 4)) (\<lambda>v.
       let offset = unat v in
       if offset < first_offset \<or> offset > length bs
       then Err (MalformedSsz ''Authorization list element offset points outside the variable section'')
       else Ok offset)"

definition decode_list_element :: "bytes \<Rightarrow> usize list \<Rightarrow> usize \<Rightarrow> (Authorization, PrimitiveError) result" where
  "decode_list_element bs offsets index =
     bind_result (index_at offsets index) (\<lambda>start.
       let stop = (if index + 1 < length offsets then offsets ! (index + 1) else length bs) in
       if stop < start
       then Err (MalformedSsz ''Authorization list element offsets must be monotonic'')
       else bind_result (slice_index bs start stop) decode_authorization)"

definition decode_authorization_list :: "bytes \<Rightarrow> (Authorization list, PrimitiveError) result" where
  "decode_authorization_list bs =
     (if bs = [] then Ok []
      else
        bind_result (read_u32 bs 0) (\<lambda>v.
        let first_offset = unat v in
        if first_offset = 0 \<or> \<not> 4 dvd first_offset
        then Err (MalformedSsz ''Authorization list first offset must equal the offset-table size'')
        else if first_offset > length bs
        then Err (MalformedSsz ''Authorization list offset table extends past the available bytes'')
        else
          let count = first_offset div 4 in
          bind_result (collect_results (read_list_offset bs first_offset) [0..<count]) (\<lambda>offsets.
          collect_results (decode_list_element bs offsets) [0..<count])))"

section \<open>Envelopes\<close>

definition encode_envelope :: "TransactionEnvelope \<Rightarrow> (bytes, PrimitiveError) result" where
  "encode_envelope e =
     bind_result (encode_payload (env_payload e)) (\<lambda>payload_bytes.
     bind_result (encode_authorization_list (env_authorizations e)) (\<lambda>authorizations_bytes.
     bind_result (ok_or (checked_add_usize ENVELOPE_FIXED_SIZE (length payload_bytes))
                    (MalformedSsz ''TransactionEnvelope variable section overflowed usize'')) (\<lambda>authorizations_offset.
     let out = push_u32 (usize_as_u32 ENVELOPE_FIXED_SIZE) [] in
     bind_result (ok_or (u32_try_from authorizations_offset)
                    (MalformedSsz ''TransactionEnvelope authorizations offset exceeds u32::MAX'')) (\<lambda>v.
     let out = push_u32 v out; out = out @ payload_bytes in
     Ok (out @ authorizations_bytes)))))"

definition decode_envelope :: "bytes \<Rightarrow> (TransactionEnvelope, PrimitiveError) result" where
  "decode_envelope bs =
     (if length bs < ENVELOPE_FIXED_SIZE
      then Err (MalformedSsz ''TransactionEnvelope too short for fixed fields'')
      else
        bind_result (read_u32 bs 0) (\<lambda>p.
        bind_result (read_u32 bs 4) (\<lambda>a.
        let payload_offset = unat p; authorizations_offset = unat a in
        if payload_offset \<noteq> ENVELOPE_FIXED_SIZE
        then Err (MalformedSsz ''TransactionEnvelope: payload offset must equal the fixed-part size'')
        else if authorizations_offset < payload_offset \<or> authorizations_offset > length bs
        then Err (MalformedSsz ''TransactionEnvelope: authorizations offset must point into the variable section'')
        else
          bind_result (bind_result (slice_index bs payload_offset authorizations_offset) decode_payload)
            (\<lambda>payload.
          bind_result (bind_result (slice_from bs authorizations_offset) decode_authorization_list)
            (\<lambda>authorizations.
          Ok \<lparr>env_payload = payload, env_authorizations = authorizations\<rparr>)))))"

section \<open>The contract of a codec\<close>

locale wire_codec =
  fixes encode :: "'a \<Rightarrow> (bytes, PrimitiveError) result"
    and decode :: "bytes \<Rightarrow> ('a, PrimitiveError) result"
    and wf :: "'a \<Rightarrow> bool"
  assumes canonical: "length bs < usize_bound \<Longrightarrow> decode bs = Ok x \<longleftrightarrow> wf x \<and> encode x = Ok bs"
    and encode_not_Panic: "encode x \<noteq> Panic"
    and decode_not_Panic: "decode bs \<noteq> Panic"
begin

lemma decode_encode: "wf x \<Longrightarrow> encode x = Ok bs \<Longrightarrow> length bs < usize_bound \<Longrightarrow> decode bs = Ok x"
  by (simp add: canonical)

lemma encode_decode: "decode bs = Ok x \<Longrightarrow> length bs < usize_bound \<Longrightarrow> wf x \<and> encode x = Ok bs"
  by (simp add: canonical)

lemma encode_inj:
  "wf x \<Longrightarrow> wf y \<Longrightarrow> encode x = Ok bs \<Longrightarrow> encode y = Ok bs \<Longrightarrow> length bs < usize_bound \<Longrightarrow> x = y"
  by (metis decode_encode result.inject(1))

lemma decode_inj:
  assumes "decode bs = Ok x" "decode cs = Ok x" "length bs < usize_bound" "length cs < usize_bound"
  shows "bs = cs"
  using assms encode_decode [of bs x] encode_decode [of cs x] by simp

lemma decode_total:
  assumes "length bs < usize_bound"
  shows "(\<exists>x. wf x \<and> encode x = Ok bs \<and> decode bs = Ok x) \<or>
         (\<exists>e. decode bs = Err e) \<and> (\<forall>x. wf x \<longrightarrow> encode x \<noteq> Ok bs)"
proof (cases "decode bs")
  case (Ok x)
  then show ?thesis using assms encode_decode by blast
next
  case (Err e)
  then show ?thesis using assms decode_encode by fastforce
next
  case Panic
  then show ?thesis by (simp add: decode_not_Panic)
qed

end

section \<open>Field lemmas\<close>

lemma slice_get_Some: "slice_get xs i (i + n) = Some ys \<longleftrightarrow> i + n \<le> length xs \<and> ys = take n (drop i xs)"
  by (auto simp: slice_get_def)

lemma read_u64_Ok [result_simps]:
  "read_u64 bs i = Ok v \<longleftrightarrow> i + 8 \<le> length bs \<and> take 8 (drop i bs) = u64_to_le_bytes v"
  by (auto simp: read_u64_def result_simps array_from_slice_def bind_eq_Some_conv slice_get_Some
      split: if_splits)

lemma read_u32_Ok [result_simps]:
  "read_u32 bs i = Ok v \<longleftrightarrow> i + 4 \<le> length bs \<and> take 4 (drop i bs) = u32_to_le_bytes v"
  by (auto simp: read_u32_def result_simps array_from_slice_def bind_eq_Some_conv slice_get_Some
      split: if_splits)

lemma read_bytes32_Ok [result_simps]:
  "read_bytes32 bs i = Ok v \<longleftrightarrow> i + 32 \<le> length bs \<and> v = take 32 (drop i bs)"
  by (auto simp: read_bytes32_def result_simps slice_get_Some copy_into_def)

lemma read_address_Ok [result_simps]:
  "read_address bs i = Ok v \<longleftrightarrow> i + 20 \<le> length bs \<and> v = take 20 (drop i bs)"
  by (auto simp: read_address_def result_simps slice_get_Some copy_into_def)

lemma read_fees_Ok [result_simps]:
  "read_fees bs i = Ok f \<longleftrightarrow> i + 96 \<le> length bs \<and>
     f = \<lparr>regular = GasPrice (U256 (take 32 (drop i bs))),
          max_priority_fee_per_gas = GasPrice (U256 (take 32 (drop (i + 32) bs))),
          max_witness_priority_fee = GasPrice (U256 (take 32 (drop (i + 64) bs)))\<rparr>"
  by (auto simp: read_fees_def result_simps)

lemma read_not_Panic [simp]:
  "read_u64 bs i \<noteq> Panic" "read_u32 bs i \<noteq> Panic" "read_bytes32 bs i \<noteq> Panic"
  "read_address bs i \<noteq> Panic" "read_fees bs i \<noteq> Panic"
  by (simp_all add: read_u64_def read_u32_def read_bytes32_def read_address_def read_fees_def result_simps)

lemma slice_from_Ok [result_simps]: "slice_from xs i = Ok ys \<longleftrightarrow> i \<le> length xs \<and> ys = drop i xs"
  by (auto simp: slice_from_def slice_index_def slice_get_def)

text \<open>Adjacent fields join up; the simplifier folds a decoded buffer back together with this rule.\<close>

lemma join_fields: "j = i + n \<Longrightarrow> take n (drop i bs) @ drop j bs = drop i bs"
  by (metis add.commute append_take_drop_id drop_drop)

lemma u32_le_bytes_inject [simp]: "u32_to_le_bytes a = u32_to_le_bytes b \<longleftrightarrow> a = b"
  by (metis u32_le_roundtrip)

lemma unat_u32_eq: "n < 2 ^ 32 \<Longrightarrow> unat (v :: u32) = n \<longleftrightarrow> v = word_of_nat n"
  by auto

text \<open>The same inversions, oriented so that an encoded field is rewritten to the bytes it was read from.\<close>

lemma read_int_Ok_flipped:
  "read_u64 bs i = Ok v \<longleftrightarrow> i + 8 \<le> length bs \<and> u64_to_le_bytes v = take 8 (drop i bs)"
  "read_u32 bs i = Ok w \<longleftrightarrow> i + 4 \<le> length bs \<and> u32_to_le_bytes w = take 4 (drop i bs)"
  by (auto simp: result_simps)

section \<open>Payload proofs\<close>

lemmas push_defs = push_u256_def push_u64_def push_u32_def push_address_def push_fees_def

lemma encode_basic_append: "encode_basic p out = out @ encode_basic p []"
  by (simp add: encode_basic_def push_defs Let_def)

lemma encode_create_append: "encode_create p out = out @ encode_create p []"
  by (simp add: encode_create_def push_defs Let_def)

lemmas payload_wf_defs = wf_basic_def wf_create_def wf_fees_def wf_u256_def

lemma decode_encode_basic: "wf_basic p \<Longrightarrow> decode_basic (encode_basic p []) = Ok p"
  by (cases p) (auto simp: decode_basic_def encode_basic_def push_defs payload_wf_defs
      fixed_size_defs result_simps usize_as_u32_def intro!: exI [of _ 232])

lemma decode_encode_create: "wf_create p \<Longrightarrow> decode_create (encode_create p []) = Ok p"
  by (cases p) (auto simp: decode_create_def encode_create_def push_defs payload_wf_defs
      fixed_size_defs result_simps usize_as_u32_def intro!: exI [of _ 212])

lemma encode_decode_basic: "decode_basic bs = Ok p \<Longrightarrow> wf_basic p \<and> encode_basic p [] = bs"
  by (auto simp: decode_basic_def encode_basic_def push_defs payload_wf_defs fixed_size_defs
      result_simps read_int_Ok_flipped join_fields usize_as_u32_def unat_u32_eq
      simp del: read_u32_Ok read_u64_Ok split: if_splits)

lemma encode_decode_create: "decode_create bs = Ok p \<Longrightarrow> wf_create p \<and> encode_create p [] = bs"
  by (auto simp: decode_create_def encode_create_def push_defs payload_wf_defs fixed_size_defs
      result_simps read_int_Ok_flipped join_fields usize_as_u32_def unat_u32_eq
      simp del: read_u32_Ok read_u64_Ok split: if_splits)

lemma decode_basic_not_Panic [simp]: "decode_basic bs \<noteq> Panic"
  by (auto simp: decode_basic_def result_simps)

lemma decode_create_not_Panic [simp]: "decode_create bs \<noteq> Panic"
  by (auto simp: decode_create_def result_simps)

lemma decode_basic_Ok: "decode_basic bs = Ok p \<longleftrightarrow> wf_basic p \<and> encode_basic p [] = bs"
  using decode_encode_basic encode_decode_basic by blast

lemma decode_create_Ok: "decode_create bs = Ok p \<longleftrightarrow> wf_create p \<and> encode_create p [] = bs"
  using decode_encode_create encode_decode_create by blast

lemma decode_payload_Ok: "decode_payload bs = Ok p \<longleftrightarrow> wf_payload p \<and> encode_payload p = Ok bs"
proof (cases bs)
  case Nil
  then show ?thesis
    by (cases p rule: protocol_tag.cases)
       (simp_all add: decode_payload_def encode_payload_def encode_basic_append [of _ "[_]"]
         encode_create_append [of _ "[_]"] Let_def)
next
  case (Cons tag inner)
  then show ?thesis
    by (cases p rule: protocol_tag.cases)
       (auto simp: decode_payload_def encode_payload_def encode_basic_append [of _ "[_]"]
         encode_create_append [of _ "[_]"] Let_def result_simps decode_basic_Ok decode_create_Ok
         ensure_supported_tag_def TAG_BASIC_def TAG_CREATE_def)
qed

lemma decode_payload_not_Panic: "decode_payload bs \<noteq> Panic"
  by (cases bs) (auto simp: decode_payload_def result_simps ensure_supported_tag_def)

interpretation payload_codec: wire_codec encode_payload decode_payload wf_payload
  by unfold_locales
     (auto simp: decode_payload_Ok decode_payload_not_Panic encode_payload_def Let_def)

section \<open>Authorization proofs\<close>

lemma encode_authorization_eq:
  "encode_authorization a =
     Ok ([auth_scheme_id a] @ auth_payload_root a @ u32_to_le_bytes 37 @ auth_signature a)"
  by (simp add: encode_authorization_def push_defs fixed_size_defs usize_as_u32_def Let_def)

lemma decode_authorization_Ok:
  "decode_authorization bs = Ok a \<longleftrightarrow> wf_authorization a \<and> encode_authorization a = Ok bs"
proof
  assume "decode_authorization bs = Ok a"
  then show "wf_authorization a \<and> encode_authorization a = Ok bs"
    by (cases bs) (auto simp: decode_authorization_def encode_authorization_eq fixed_size_defs
        wf_authorization_def result_simps read_int_Ok_flipped join_fields unat_u32_eq
        simp del: read_u32_Ok split: if_splits)
next
  assume "wf_authorization a \<and> encode_authorization a = Ok bs"
  then show "decode_authorization bs = Ok a"
    by (cases a) (auto simp: decode_authorization_def encode_authorization_eq fixed_size_defs
        wf_authorization_def result_simps unat_u32_eq)
qed

lemma decode_authorization_not_Panic [simp]: "decode_authorization bs \<noteq> Panic"
  by (auto simp: decode_authorization_def fixed_size_defs result_simps index_at_def)

interpretation authorization_codec: wire_codec encode_authorization decode_authorization wf_authorization
  by unfold_locales (auto simp: decode_authorization_Ok encode_authorization_eq)

section \<open>Authorization list proofs\<close>

text \<open>
  The specification of the offset table: the running sums of the element lengths, and the
  segments of a buffer that a list of offsets cuts out.
\<close>

fun offsets_from :: "nat \<Rightarrow> bytes list \<Rightarrow> nat list" where
  "offsets_from n [] = []"
| "offsets_from n (p # ps) = n # offsets_from (n + length p) ps"

fun segments :: "bytes \<Rightarrow> nat list \<Rightarrow> bytes list" where
  "segments bs [] = []"
| "segments bs [i] = [drop i bs]"
| "segments bs (i # j # os) = take (j - i) (drop i bs) # segments bs (j # os)"

definition auth_bytes :: "Authorization \<Rightarrow> bytes" where
  "auth_bytes a = [auth_scheme_id a] @ auth_payload_root a @ u32_to_le_bytes 37 @ auth_signature a"

definition table_bytes :: "nat list \<Rightarrow> bytes" where
  "table_bytes os = concat (map (\<lambda>n. u32_to_le_bytes (word_of_nat n)) os)"

lemma encode_authorization_bytes: "encode_authorization a = Ok (auth_bytes a)"
  by (simp add: encode_authorization_eq auth_bytes_def)

lemma length_offsets_from [simp]: "length (offsets_from n ps) = length ps"
  by (induction ps arbitrary: n) auto

lemma offsets_from_range:
  "i \<in> set (offsets_from n ps) \<Longrightarrow> n \<le> i \<and> i \<le> n + length (concat ps)"
  by (induction ps arbitrary: n) fastforce+

lemma sorted_offsets_from: "sorted (offsets_from n ps)"
  by (induction ps arbitrary: n) (auto dest: offsets_from_range)

lemma length_segments [simp]: "length (segments bs os) = length os"
  by (induction bs os rule: segments.induct) auto

lemma nth_segments:
  assumes "i < length os" "\<forall>j \<in> set os. j \<le> length bs"
  shows "segments bs os ! i =
     take ((if i + 1 < length os then os ! (i + 1) else length bs) - os ! i) (drop (os ! i) bs)"
  using assms
proof (induction bs os arbitrary: i rule: segments.induct)
  case (3 bs k j os)
  then show ?case by (cases i) auto
qed auto

lemma concat_segments: "sorted (j # os) \<Longrightarrow> concat (segments bs (j # os)) = drop j bs"
  by (induction os arbitrary: j) (auto intro: join_fields)

lemma offsets_from_segments:
  "sorted (j # os) \<Longrightarrow> \<forall>i \<in> set (j # os). i \<le> length bs \<Longrightarrow> offsets_from j (segments bs (j # os)) = j # os"
  by (induction os arbitrary: j) auto

lemma segments_offsets_from:
  "ps \<noteq> [] \<Longrightarrow> segments (pre @ concat ps) (offsets_from (length pre) ps) = ps"
proof (induction ps arbitrary: pre)
  case (Cons p ps)
  then show ?case
    using Cons.IH [of "pre @ p"] by (cases ps) simp_all
qed simp

lemma length_table_bytes [simp]: "length (table_bytes os) = 4 * length os"
  by (induction os) (simp_all add: table_bytes_def)

lemma table_bytes_read:
  assumes "4 * length os \<le> length bs" "\<forall>j \<in> set os. j < 2 ^ 32"
  shows "take (4 * length os) bs = table_bytes os \<longleftrightarrow>
     (\<forall>i < length os. take 4 (drop (i * 4) bs) = u32_to_le_bytes (word_of_nat (os ! i)))"
  using assms
proof (induction os arbitrary: bs)
  case (Cons j os)
  have "take (4 * length (j # os)) bs = take 4 bs @ take (4 * length os) (drop 4 bs)"
    using take_add [of 4 "4 * length os" bs] by simp
  then have "take (4 * length (j # os)) bs = table_bytes (j # os) \<longleftrightarrow>
      take 4 bs = u32_to_le_bytes (word_of_nat j) \<and> take (4 * length os) (drop 4 bs) = table_bytes os"
    using Cons.prems by (simp add: table_bytes_def append_eq_same_length)
  also have "\<dots> \<longleftrightarrow> (\<forall>i < length (j # os).
      take 4 (drop (i * 4) bs) = u32_to_le_bytes (word_of_nat ((j # os) ! i)))"
    using Cons.prems by (subst Cons.IH) (auto simp: less_Suc_eq_0_disj algebra_simps)
  finally show ?case .
qed (simp add: table_bytes_def)

lemma encode_offset_loop_Ok:
  "encode_offset_loop as out parts n = Ok (out', parts') \<longleftrightarrow>
     (\<forall>i \<in> set (offsets_from n (map auth_bytes as)). i < 2 ^ 32) \<and>
     (as = [] \<or> n + length (concat (map auth_bytes as)) < usize_bound) \<and>
     out' = out @ table_bytes (offsets_from n (map auth_bytes as)) \<and>
     parts' = parts @ map auth_bytes as"
proof (induction as arbitrary: out parts n)
  case Nil
  then show ?case by (auto simp: table_bytes_def)
next
  case (Cons a as)
  show ?case
    by (cases "as = []")
       (auto simp: Cons.IH encode_authorization_bytes result_simps u32_try_from_Some push_u32_def
         checked_add_usize_def table_bytes_def split: if_splits)
qed

lemma fold_append: "fold (\<lambda>e out. out @ e) ps out = out @ concat ps"
  by (induction ps arbitrary: out) auto

lemma encode_authorization_list_Ok:
  "encode_authorization_list as = Ok bs \<longleftrightarrow>
     (let parts = map auth_bytes as; os = offsets_from (4 * length as) parts in
      4 * length as < usize_bound \<and> (\<forall>i \<in> set os. i < 2 ^ 32) \<and>
      (as = [] \<or> 4 * length as + length (concat parts) < usize_bound) \<and>
      bs = table_bytes os @ concat parts)"
  by (auto simp: encode_authorization_list_def checked_mul_usize_def result_simps Let_def
      encode_offset_loop_Ok fold_append mult.commute split: if_splits prod.splits)

lemma read_list_offset_Ok [result_simps]:
  "read_list_offset bs first i = Ok n \<longleftrightarrow>
     i * 4 + 4 \<le> length bs \<and> take 4 (drop (i * 4) bs) = u32_to_le_bytes (word_of_nat n) \<and>
     n < 2 ^ 32 \<and> first \<le> n \<and> n \<le> length bs"
proof -
  have "unat v < 4294967296" for v :: u32
    using unat_bound_u32 [of v] by simp
  then show ?thesis
    by (auto simp: read_list_offset_def result_simps Let_def intro!: exI [of _ "word_of_nat n :: u32"]
        split: if_splits)
qed

lemma read_list_offsets_Ok:
  assumes "4 * count \<le> length bs"
  shows "collect_results (read_list_offset bs first) [0..<count] = Ok os \<longleftrightarrow>
     length os = count \<and> (\<forall>j \<in> set os. j < 2 ^ 32 \<and> first \<le> j \<and> j \<le> length bs) \<and>
     take (4 * count) bs = table_bytes os"
proof -
  have "collect_results (read_list_offset bs first) [0..<count] = Ok os \<longleftrightarrow>
     length os = count \<and> (\<forall>j \<in> set os. j < 2 ^ 32 \<and> first \<le> j \<and> j \<le> length bs) \<and>
     (\<forall>i < length os. take 4 (drop (i * 4) bs) = u32_to_le_bytes (word_of_nat (os ! i)))"
    using assms by (auto simp: result_simps list_all2_conv_all_nth all_set_conv_all_nth)
  also have "\<dots> \<longleftrightarrow> length os = count \<and> (\<forall>j \<in> set os. j < 2 ^ 32 \<and> first \<le> j \<and> j \<le> length bs) \<and>
     take (4 * count) bs = table_bytes os"
    using assms table_bytes_read [of os bs] by auto
  finally show ?thesis .
qed

lemma decode_list_element_Ok:
  assumes "\<forall>j \<in> set os. j \<le> length bs" "i < length os"
  shows "decode_list_element bs os i = Ok a \<longleftrightarrow>
     (i + 1 < length os \<longrightarrow> os ! i \<le> os ! (i + 1)) \<and> decode_authorization (segments bs os ! i) = Ok a"
proof -
  have "os ! i \<le> length bs" "i + 1 < length os \<Longrightarrow> os ! (i + 1) \<le> length bs"
    using assms by simp_all
  then show ?thesis
    using assms(2) by (auto simp: decode_list_element_def Let_def nth_segments [OF assms(2,1)])
qed

lemma decode_list_elements_Ok:
  assumes "\<forall>j \<in> set os. j \<le> length bs"
  shows "collect_results (decode_list_element bs os) [0..<length os] = Ok as \<longleftrightarrow>
     sorted os \<and> segments bs os = map auth_bytes as \<and> (\<forall>a \<in> set as. wf_authorization a)"
proof -
  have "collect_results (decode_list_element bs os) [0..<length os] = Ok as \<longleftrightarrow>
     length as = length os \<and> sorted os \<and>
     (\<forall>i < length as. wf_authorization (as ! i) \<and> segments bs os ! i = auth_bytes (as ! i))"
    using assms by (auto simp: result_simps list_all2_conv_all_nth decode_list_element_Ok
        decode_authorization_Ok encode_authorization_bytes sorted_iff_nth_Suc)
  also have "\<dots> \<longleftrightarrow> sorted os \<and> segments bs os = map auth_bytes as \<and> (\<forall>a \<in> set as. wf_authorization a)"
    by (auto simp: all_set_conv_all_nth list_eq_iff_nth_eq)
  finally show ?thesis .
qed

lemma decode_authorization_list_sound:
  assumes len: "length bs < usize_bound" and dec: "decode_authorization_list bs = Ok as"
  shows "(\<forall>a \<in> set as. wf_authorization a) \<and> encode_authorization_list as = Ok bs"
proof (cases "bs = []")
  case True
  then show ?thesis
    using dec by (auto simp: decode_authorization_list_def encode_authorization_list_Ok table_bytes_def
        usize_bound_def Let_def)
next
  case False
  then obtain v os where v: "take 4 bs = u32_to_le_bytes v" "4 \<le> length bs"
    and first: "unat v \<noteq> 0" "4 dvd unat v" "unat v \<le> length bs"
    and os: "collect_results (read_list_offset bs (unat v)) [0..<unat v div 4] = Ok os"
    and as: "collect_results (decode_list_element bs os) [0..<unat v div 4] = Ok as"
    using dec by (auto simp: decode_authorization_list_def Let_def result_simps(1-2) read_u32_Ok split: if_splits)
  from os first have length_os: "length os = unat v div 4"
    and range: "\<forall>j \<in> set os. j < 2 ^ 32 \<and> unat v \<le> j \<and> j \<le> length bs"
    and table: "take (unat v) bs = table_bytes os"
    by (auto simp: read_list_offsets_Ok)
  from first length_os have "os \<noteq> []" by auto
  then obtain j os' where cons: "os = j # os'" by (cases os) auto
  have "4 \<le> unat v" using first by (auto elim!: dvdE)
  then have "take 4 bs = take 4 (table_bytes os)"
    using table by (metis min.absorb1 take_take)
  then have "v = word_of_nat j"
    using v cons by (simp add: table_bytes_def)
  then have j: "j = unat v"
    using range cons by simp
  from as have "collect_results (decode_list_element bs os) [0..<length os] = Ok as"
    by (simp only: length_os)
  then have sorted: "sorted os" and seg: "segments bs os = map auth_bytes as"
    and wf: "\<forall>a \<in> set as. wf_authorization a"
    using range by (simp_all add: decode_list_elements_Ok)
  have parts: "concat (map auth_bytes as) = drop (unat v) bs"
    and offsets: "offsets_from (unat v) (map auth_bytes as) = os"
    using concat_segments [of j os' bs] offsets_from_segments [of j os' bs] cons j range sorted
    by (simp_all flip: seg)
  have "length as = length os" using seg by (metis length_map length_segments)
  then have "unat v = 4 * length as" using first length_os by simp
  moreover have "bs = table_bytes os @ drop (unat v) bs"
    using table by (metis append_take_drop_id)
  ultimately show ?thesis
    using wf len first range parts offsets
    by (auto simp: encode_authorization_list_Ok Let_def)
qed

lemma decode_authorization_list_complete:
  assumes wf: "\<forall>a \<in> set as. wf_authorization a" and enc: "encode_authorization_list as = Ok bs"
  shows "decode_authorization_list bs = Ok as"
proof (cases "as = []")
  case True
  then show ?thesis
    using enc by (simp add: decode_authorization_list_def encode_authorization_list_Ok table_bytes_def Let_def)
next
  case False
  let ?n = "4 * length as" and ?parts = "map auth_bytes as"
  let ?os = "offsets_from ?n ?parts"
  from enc False have range: "\<forall>i \<in> set ?os. i < 2 ^ 32" and bs: "bs = table_bytes ?os @ concat ?parts"
    by (auto simp: encode_authorization_list_Ok Let_def)
  from False obtain os' where cons: "?os = ?n # os'" by (cases as) auto
  have n: "?n < 2 ^ 32" using range cons by (metis list.set_intros(1))
  have first: "read_u32 bs 0 = Ok (word_of_nat ?n)"
    using bs cons by (simp add: read_u32_Ok table_bytes_def)
  have in_range: "\<forall>j \<in> set ?os. j < 2 ^ 32 \<and> ?n \<le> j \<and> j \<le> length bs"
    using range bs by (auto dest!: offsets_from_range)
  have "collect_results (read_list_offset bs ?n) [0..<length as] = Ok ?os"
    using in_range bs by (subst read_list_offsets_Ok) auto
  moreover have "segments bs ?os = ?parts"
    using False bs segments_offsets_from [of ?parts "table_bytes ?os"] by simp
  then have "collect_results (decode_list_element bs ?os) [0..<length ?os] = Ok as"
    using in_range wf by (subst decode_list_elements_Ok) (auto simp: sorted_offsets_from)
  moreover obtain v where v: "read_u32 bs 0 = Ok v" "unat v = ?n"
    using first n by (metis unat_word_of_nat_u32)
  moreover have "bs \<noteq> []" using v by (auto simp: read_u32_Ok)
  ultimately show ?thesis
    using False bs by (simp add: decode_authorization_list_def Let_def)
qed

lemma decode_authorization_list_not_Panic: "decode_authorization_list bs \<noteq> Panic"
proof -
  have "decode_list_element bs os i \<noteq> Panic"
    if "\<forall>j \<in> set os. j \<le> length bs" "i < length os" for os i
    using that nth_mem [of i os] nth_mem [of "i + 1" os]
    by (auto simp: decode_list_element_def Let_def result_simps slice_index_def slice_get_def)
  then have "collect_results (decode_list_element bs os) [0..<n] \<noteq> Panic"
    if "\<forall>j \<in> set os. j \<le> length bs" "length os = n" for os n
    using that by (intro collect_results_not_Panic) auto
  moreover have "collect_results (read_list_offset bs f) xs \<noteq> Panic" for f xs
    by (intro collect_results_not_Panic) (auto simp: read_list_offset_def result_simps Let_def)
  ultimately show ?thesis
    by (auto simp: decode_authorization_list_def Let_def bind_result_Panic_iff read_list_offsets_Ok)
qed

lemma encode_authorization_list_not_Panic: "encode_authorization_list as \<noteq> Panic"
proof -
  have "encode_offset_loop as out parts n \<noteq> Panic" for out parts n
    by (induction as out parts n rule: encode_offset_loop.induct)
       (auto simp: result_simps encode_authorization_eq)
  then show ?thesis
    by (auto simp: encode_authorization_list_def result_simps split: prod.splits)
qed

definition wf_authorizations :: "Authorization list \<Rightarrow> bool" where
  "wf_authorizations as \<longleftrightarrow> (\<forall>a \<in> set as. wf_authorization a)"

interpretation list_codec: wire_codec encode_authorization_list decode_authorization_list wf_authorizations
proof
  show "decode_authorization_list bs = Ok as \<longleftrightarrow> wf_authorizations as \<and> encode_authorization_list as = Ok bs"
    if "length bs < usize_bound" for bs as
    unfolding wf_authorizations_def
    using decode_authorization_list_sound [OF that, of as] decode_authorization_list_complete [of as bs]
    by blast
qed (rule encode_authorization_list_not_Panic decode_authorization_list_not_Panic)+

section \<open>Envelope proofs\<close>

lemma decode_envelope_sound:
  assumes len: "length bs < usize_bound" and dec: "decode_envelope bs = Ok e"
  shows "wf_envelope e \<and> encode_envelope e = Ok bs"
proof -
  obtain v payload authorizations where v: "u32_to_le_bytes v = take 4 (drop 4 bs)"
    and first: "u32_to_le_bytes 8 = take 4 bs" and range: "8 \<le> unat v" "unat v \<le> length bs"
    and payload: "decode_payload (take (unat v - 8) (drop 8 bs)) = Ok payload"
    and list: "decode_authorization_list (drop (unat v) bs) = Ok authorizations"
    and e: "e = \<lparr>env_payload = payload, env_authorizations = authorizations\<rparr>"
    using dec by (auto simp: decode_envelope_def Let_def result_simps read_int_Ok_flipped fixed_size_defs
        unat_u32_eq simp del: read_u32_Ok split: if_splits)
  have "wf_payload payload" "encode_payload payload = Ok (take (unat v - 8) (drop 8 bs))"
    using payload by (simp_all add: decode_payload_Ok)
  moreover have "wf_authorizations authorizations"
    "encode_authorization_list authorizations = Ok (drop (unat v) bs)"
    using list_codec.encode_decode [OF list] len by simp_all
  moreover have "unat v < usize_bound" "unat v < 2 ^ 32"
    using range len unat_bound_u32 [of v] by auto
  moreover have "8 + length (take (unat v - 8) (drop 8 bs)) = unat v" using range by simp
  ultimately show ?thesis
    using range v first e
    by (simp add: wf_envelope_def wf_authorizations_def encode_envelope_def Let_def checked_add_usize_def
        u32_try_from_def push_defs fixed_size_defs usize_as_u32_def join_fields del: length_take)
qed

lemma decode_envelope_complete:
  assumes wf: "wf_envelope e" and enc: "encode_envelope e = Ok bs" and len: "length bs < usize_bound"
  shows "decode_envelope bs = Ok e"
proof -
  obtain p l where p: "encode_payload (env_payload e) = Ok p"
    and l: "encode_authorization_list (env_authorizations e) = Ok l"
    and small: "8 + length p < 2 ^ 32"
    and bs: "bs = u32_to_le_bytes 8 @ u32_to_le_bytes (word_of_nat (8 + length p)) @ p @ l"
    using enc by (auto simp: encode_envelope_def Let_def result_simps u32_try_from_Some
        checked_add_usize_def push_defs fixed_size_defs usize_as_u32_def split: if_splits)
  have "decode_payload p = Ok (env_payload e)"
    using wf p by (simp add: decode_payload_Ok wf_envelope_def)
  moreover have "decode_authorization_list l = Ok (env_authorizations e)"
    using wf l len bs by (intro list_codec.decode_encode) (auto simp: wf_envelope_def wf_authorizations_def)
  moreover obtain v where v: "u32_to_le_bytes (word_of_nat (8 + length p)) = u32_to_le_bytes v"
    "unat v = 8 + length p"
    using small by (metis unat_word_of_nat_u32)
  moreover have "read_u32 bs 0 = Ok 8" "read_u32 bs 4 = Ok v"
    using bs v by (simp_all add: read_u32_Ok)
  ultimately show ?thesis
    using bs by (simp add: decode_envelope_def Let_def fixed_size_defs)
qed

lemma decode_envelope_not_Panic: "decode_envelope bs \<noteq> Panic"
  by (auto simp: decode_envelope_def Let_def result_simps decode_payload_not_Panic
      decode_authorization_list_not_Panic)

lemma encode_envelope_not_Panic: "encode_envelope e \<noteq> Panic"
  by (auto simp: encode_envelope_def Let_def result_simps payload_codec.encode_not_Panic
      encode_authorization_list_not_Panic)

interpretation envelope_codec: wire_codec encode_envelope decode_envelope wf_envelope
proof
  show "decode_envelope bs = Ok e \<longleftrightarrow> wf_envelope e \<and> encode_envelope e = Ok bs"
    if "length bs < usize_bound" for bs e
    using decode_envelope_sound [OF that, of e] decode_envelope_complete [OF _ _ that, of e] by blast
qed (rule encode_envelope_not_Panic decode_envelope_not_Panic)+

section \<open>Typing\<close>

text \<open>
  The errors a decoder may report: malformed bytes, or a payload tag that is neither frozen tag.
  \<open>typed_codec\<close> extends the contract of a codec by it; a typed result carries a well-formed value or
  such an error, and it is never a panic.
\<close>

fun codec_error :: "PrimitiveError \<Rightarrow> bool" where
  "codec_error (MalformedSsz _) \<longleftrightarrow> True"
| "codec_error (UnsupportedPayloadVariant t) \<longleftrightarrow> t \<noteq> TAG_BASIC \<and> t \<noteq> TAG_CREATE"
| "codec_error _ \<longleftrightarrow> False"

fun typed_result :: "('a \<Rightarrow> bool) \<Rightarrow> ('a, PrimitiveError) result \<Rightarrow> bool" where
  "typed_result P (Ok x) \<longleftrightarrow> P x"
| "typed_result P (Err e) \<longleftrightarrow> codec_error e"
| "typed_result P Panic \<longleftrightarrow> False"

definition errors_typed :: "('a, PrimitiveError) result \<Rightarrow> bool" where
  "errors_typed r \<longleftrightarrow> (\<forall>e. r = Err e \<longrightarrow> codec_error e)"

named_theorems typing

lemma errors_typed_simps [typing]: "errors_typed (Ok x)" "errors_typed Panic" "errors_typed (Err (MalformedSsz c))"
  by (simp_all add: errors_typed_def)

lemma errors_typed_bind [typing]:
  "errors_typed m \<Longrightarrow> (\<And>x. m = Ok x \<Longrightarrow> errors_typed (f x)) \<Longrightarrow> errors_typed (bind_result m f)"
  by (cases m) (simp_all add: errors_typed_def)

lemma errors_typed_if [typing]:
  "(b \<Longrightarrow> errors_typed m) \<Longrightarrow> (\<not> b \<Longrightarrow> errors_typed n) \<Longrightarrow> errors_typed (if b then m else n)"
  by simp

lemma errors_typed_ok_or [typing]: "errors_typed (ok_or v (MalformedSsz c))"
  by (cases v) (simp_all add: errors_typed_def)

lemma errors_typed_map_ok [typing]: "errors_typed m \<Longrightarrow> errors_typed (map_ok f m)"
  by (cases m) (simp_all add: errors_typed_def)

lemma errors_typed_collect [typing]: "(\<And>x. errors_typed (f x)) \<Longrightarrow> errors_typed (collect_results f xs)"
  by (induction xs) (auto intro!: typing)

lemma errors_typed_slices [typing]:
  "errors_typed (index_at bs i)" "errors_typed (slice_from bs i)" "errors_typed (slice_index bs i j)"
  by (simp_all add: errors_typed_def index_at_def slice_from_def slice_index_def split: option.splits)

lemma errors_typed_reads [typing]:
  "errors_typed (read_u32 bs i)" "errors_typed (read_u64 bs i)" "errors_typed (read_bytes32 bs i)"
  "errors_typed (read_address bs i)" "errors_typed (read_fees bs i)"
  unfolding read_u32_def read_u64_def read_bytes32_def read_address_def read_fees_def
  by (intro typing)+

lemma errors_typed_tag [typing]: "errors_typed (ensure_supported_tag t)"
  by (simp add: ensure_supported_tag_def errors_typed_def)

lemma decode_payload_errors [typing]: "errors_typed (decode_payload bs)"
  unfolding decode_payload_def decode_basic_def decode_create_def by (intro typing)

lemma decode_authorization_errors [typing]: "errors_typed (decode_authorization bs)"
  unfolding decode_authorization_def by (intro typing)

lemma decode_authorization_list_errors [typing]: "errors_typed (decode_authorization_list bs)"
  unfolding decode_authorization_list_def read_list_offset_def decode_list_element_def Let_def
  by (intro typing)

lemma decode_envelope_errors [typing]: "errors_typed (decode_envelope bs)"
  unfolding decode_envelope_def Let_def by (intro typing)

locale typed_codec = wire_codec +
  assumes decode_errors: "errors_typed (decode bs)"
begin

lemma decode_typed: "length bs < usize_bound \<Longrightarrow> typed_result wf (decode bs)"
  using canonical [of bs] decode_not_Panic [of bs] decode_errors [of bs]
  by (cases "decode bs") (auto simp: errors_typed_def)

end

interpretation payload_typed: typed_codec encode_payload decode_payload wf_payload
  by unfold_locales (rule typing)

interpretation authorization_typed: typed_codec encode_authorization decode_authorization wf_authorization
  by unfold_locales (rule typing)

interpretation list_typed: typed_codec encode_authorization_list decode_authorization_list wf_authorizations
  by unfold_locales (rule typing)

interpretation envelope_typed: typed_codec encode_envelope decode_envelope wf_envelope
  by unfold_locales (rule typing)

section \<open>Properties\<close>

text \<open>
  C3: \<open>decode_envelope\<close> accepts exactly the encodings of well-formed envelopes. So every envelope
  has one wire form, malleated bytes (shifted offsets, gaps or overlaps between list elements,
  trailing bytes) are rejected, and decoding inverts encoding.
\<close>

theorem envelope_codec_canonical:
  assumes "length bs < usize_bound"
  shows "decode_envelope bs = Ok e \<longleftrightarrow> wf_envelope e \<and> encode_envelope e = Ok bs"
  using assms by (rule envelope_codec.canonical)

definition sample_envelope :: TransactionEnvelope where
  "sample_envelope = \<lparr>env_payload = default_payload, env_authorizations =
     [\<lparr>auth_scheme_id = 1, auth_payload_root = zero_bytes 32, auth_signature = [1, 2, 3]\<rparr>,
      \<lparr>auth_scheme_id = 2, auth_payload_root = zero_bytes 32, auth_signature = []\<rparr>]\<rparr>"

theorem envelope_codec_canonical_witness:
  "\<exists>bs. length bs = 8 + 233 + 8 + 77 \<and> decode_envelope bs = Ok sample_envelope"
proof -
  have wf: "wf_envelope sample_envelope"
    by (simp add: sample_envelope_def wf_envelope_def wf_authorization_def)
  obtain bs where "encode_envelope sample_envelope = Ok bs" "length bs = 8 + 233 + 8 + 77"
    by (auto simp: sample_envelope_def encode_envelope_def encode_payload_def default_payload_def
        default_basic_payload_def default_fees_def default_gas_price_def encode_basic_def push_defs
        encode_authorization_list_def checked_mul_usize_def checked_add_usize_def usize_bound_def
        u32_try_from_def encode_authorization_eq fixed_size_defs Let_def)
  then show ?thesis
    using wf envelope_codec_canonical [of bs sample_envelope] by (auto simp: usize_bound_def)
qed

text \<open>
  C21: the decoders are well typed on whatever bytes a peer sends: each returns a well-formed value (32-byte
  roots and integers, 20-byte addresses, in every field), or a \<open>MalformedSsz\<close> error, or an
  \<open>UnsupportedPayloadVariant\<close> error with a tag that is neither frozen tag; no index, slice or
  \<open>unreachable!\<close> of a decoder panics, and no other error of the crate comes out of one.
\<close>

theorem decoders_typed:
  assumes "length bs < usize_bound"
  shows "typed_result wf_payload (decode_payload bs) \<and>
    typed_result wf_authorization (decode_authorization bs) \<and>
    typed_result wf_authorizations (decode_authorization_list bs) \<and>
    typed_result wf_envelope (decode_envelope bs)"
  using assms
  by (simp add: payload_typed.decode_typed authorization_typed.decode_typed list_typed.decode_typed
      envelope_typed.decode_typed)

theorem decoders_typed_witness:
  "typed_result wf_envelope (decode_envelope [8, 0, 0, 0, 9, 0, 0, 0, 2]) \<and>
   decode_envelope [8, 0, 0, 0, 9, 0, 0, 0, 2] = Err (UnsupportedPayloadVariant 2)"
proof
  show "typed_result wf_envelope (decode_envelope [8, 0, 0, 0, 9, 0, 0, 0, 2])"
    using decoders_typed [of "[8, 0, 0, 0, 9, 0, 0, 0, 2]"] by (simp add: usize_bound_def)
  show "decode_envelope [8, 0, 0, 0, 9, 0, 0, 0, 2] = Err (UnsupportedPayloadVariant 2)"
    by code_simp
qed

text \<open>
  The payload decoder reports \<open>UnsupportedPayloadVariant\<close> on exactly the non-empty inputs
  whose first byte is neither frozen tag, and it reports that byte.
\<close>

theorem unsupported_tag_exactly:
  "decode_payload bs = Err (UnsupportedPayloadVariant t) \<longleftrightarrow>
     (\<exists>rest. bs = t # rest) \<and> t \<noteq> TAG_BASIC \<and> t \<noteq> TAG_CREATE"
proof -
  have "decode_basic x \<noteq> Err (UnsupportedPayloadVariant t)" "decode_create x \<noteq> Err (UnsupportedPayloadVariant t)" for x
    by (auto simp: decode_basic_def decode_create_def result_simps read_u64_def read_u32_def
        read_bytes32_def read_address_def read_fees_def)
  then show ?thesis
    by (cases bs) (auto simp: decode_payload_def ensure_supported_tag_def result_simps)
qed

end
