(* ===== verification/Ssz.thy ===== *)
theory Ssz
  imports Primitives
begin

text \<open>
  SSZ Merkleization and the canonical roots of \<^verbatim>\<open>crates/shell-primitives/src/ssz.rs\<close>, with the
  closed-rule checks of \<^verbatim>\<open>validation.rs\<close>.

  SHA-256 comes from the \<^verbatim>\<open>sha2\<close> crate and is the parameter \<open>sha\<close> of every root function; the
  theorems that need its output width assume \<open>digest32 sha\<close>. \<open>merkleize\<close> is the release-profile
  function (its \<open>debug_assert!\<close>s compiled out), \<open>merkleize_debug\<close> the debug-profile one.

  The specification side is the plain binary tree \<open>hash_tree\<close>: \<open>merkleize\<close> is shown to be the
  root of the zero-padded tree over its chunks, and a root is shown to determine the object it
  was computed from unless two of the messages hashed for it collide.
\<close>

section \<open>Merkle helpers\<close>

type_synonym hash_fun = "bytes \<Rightarrow> bytes"

definition digest32 :: "hash_fun \<Rightarrow> bool" where
  "digest32 sha \<longleftrightarrow> (\<forall>m. length (sha m) = 32)"

definition sha256_pair :: "hash_fun \<Rightarrow> bytes \<Rightarrow> bytes \<Rightarrow> bytes" where
  "sha256_pair sha l r = sha (l @ r)"

fun zero_hash :: "hash_fun \<Rightarrow> nat \<Rightarrow> bytes" where
  "zero_hash sha 0 = zero_bytes 32"
| "zero_hash sha (Suc n) = (let h = zero_hash sha n in sha256_pair sha h h)"

fun trailing_zeros :: "nat \<Rightarrow> nat" where
  "trailing_zeros n =
     (if n = 0 then 64 else if odd n then 0 else Suc (trailing_zeros (n div 2)))"

declare trailing_zeros.simps [simp del]

definition is_power_of_two :: "nat \<Rightarrow> bool" where
  "is_power_of_two n \<longleftrightarrow> n \<noteq> 0 \<and> n = 2 ^ trailing_zeros n"

function merkleize :: "hash_fun \<Rightarrow> bytes list \<Rightarrow> nat \<Rightarrow> bytes" where
  "merkleize sha chunks limit =
     (if limit = 0 then zero_bytes 32
      else if limit = 1 then (case chunks of [] \<Rightarrow> zero_bytes 32 | c # _ \<Rightarrow> c)
      else
        let half = limit div 2;
            left = merkleize sha (take (min (length chunks) half) chunks) half;
            right = (if length chunks > half then merkleize sha (drop half chunks) half
                     else zero_hash sha (trailing_zeros half))
        in sha256_pair sha left right)"
  by pat_completeness auto
termination
  by (relation "measure (\<lambda>(sha, chunks, limit). limit)") auto

declare merkleize.simps [simp del]

function merkleize_debug :: "hash_fun \<Rightarrow> bytes list \<Rightarrow> nat \<Rightarrow> (bytes, unit) result" where
  "merkleize_debug sha chunks limit =
     (if \<not> (limit = 0 \<or> is_power_of_two limit) then Panic
      else if \<not> length chunks \<le> limit then Panic
      else if limit = 0 then Ok (zero_bytes 32)
      else if limit = 1 then Ok (case chunks of [] \<Rightarrow> zero_bytes 32 | c # _ \<Rightarrow> c)
      else
        let half = limit div 2 in
        bind_result (merkleize_debug sha (take (min (length chunks) half) chunks) half) (\<lambda>left.
        bind_result (if length chunks > half then merkleize_debug sha (drop half chunks) half
                     else Ok (zero_hash sha (trailing_zeros half))) (\<lambda>right.
        Ok (sha256_pair sha left right))))"
  by pat_completeness auto
termination
  by (relation "measure (\<lambda>(sha, chunks, limit). limit)") auto

declare merkleize_debug.simps [simp del]

definition div_ceil :: "nat \<Rightarrow> nat \<Rightarrow> nat" where
  "div_ceil a b = (a + b - 1) div b"

definition pack_chunk :: "bytes \<Rightarrow> nat \<Rightarrow> bytes" where
  "pack_chunk bs i =
     (let start = i * 32; stop = min (start + 32) (length bs)
      in copy_into (zero_bytes 32) 0 (take (stop - start) (drop start bs)))"

definition pack_bytes :: "bytes \<Rightarrow> bytes list" where
  "pack_bytes bs = (if bs = [] then [] else map (pack_chunk bs) [0..<div_ceil (length bs) 32])"

definition mix_in_length :: "hash_fun \<Rightarrow> bytes \<Rightarrow> nat \<Rightarrow> bytes" where
  "mix_in_length sha root len =
     sha256_pair sha root (copy_into (zero_bytes 32) 0 (u64_to_le_bytes (usize_as_u64 len)))"

definition mix_in_selector :: "hash_fun \<Rightarrow> bytes \<Rightarrow> u8 \<Rightarrow> bytes" where
  "mix_in_selector sha root selector = sha256_pair sha root ((zero_bytes 32)[0 := selector])"

section \<open>Field and container roots\<close>

definition htr_u64 :: "u64 \<Rightarrow> bytes" where
  "htr_u64 v = copy_into (zero_bytes 32) 0 (u64_to_le_bytes v)"

definition htr_u256 :: "bytes \<Rightarrow> bytes" where
  "htr_u256 bs = bs"

definition htr_address :: "ExecutionAddress \<Rightarrow> bytes" where
  "htr_address addr = copy_into (zero_bytes 32) 0 addr"

definition htr_fees :: "hash_fun \<Rightarrow> BasicFeesPerGas \<Rightarrow> bytes" where
  "htr_fees sha fees =
     merkleize sha
       [htr_u256 (u256_bytes (gas_price_value (regular fees))),
        htr_u256 (u256_bytes (gas_price_value (max_priority_fee_per_gas fees))),
        htr_u256 (u256_bytes (gas_price_value (max_witness_priority_fee fees))),
        zero_bytes 32] 4"

definition CHUNK_LIMIT :: usize where
  "CHUNK_LIMIT = MOCK_PROGRESSIVE_BYTE_LIST_LIMIT div 32"

definition htr_byte_list :: "hash_fun \<Rightarrow> bytes \<Rightarrow> bytes" where
  "htr_byte_list sha bs = mix_in_length sha (merkleize sha (pack_bytes bs) CHUNK_LIMIT) (length bs)"

definition htr_basic_payload :: "hash_fun \<Rightarrow> BasicTransactionPayload \<Rightarrow> bytes" where
  "htr_basic_payload sha p =
     merkleize sha
       [htr_u256 (u256_bytes (chain_id_value (basic_chain_id p))),
        htr_u64 (basic_nonce p),
        htr_u64 (basic_gas_limit p),
        htr_fees sha (basic_fees p),
        htr_address (basic_to p),
        htr_u256 (u256_bytes (tx_value (basic_value p))),
        htr_byte_list sha (basic_input p),
        basic_access_commitment p] 8"

definition htr_create_payload :: "hash_fun \<Rightarrow> CreateTransactionPayload \<Rightarrow> bytes" where
  "htr_create_payload sha p =
     merkleize sha
       [htr_u256 (u256_bytes (chain_id_value (create_chain_id p))),
        htr_u64 (create_nonce p),
        htr_u64 (create_gas_limit p),
        htr_fees sha (create_fees p),
        htr_u256 (u256_bytes (tx_value (create_value p))),
        htr_byte_list sha (create_initcode p),
        create_access_commitment p,
        zero_bytes 32] 8"

definition htr_authorization :: "hash_fun \<Rightarrow> Authorization \<Rightarrow> bytes" where
  "htr_authorization sha a =
     merkleize sha
       [(zero_bytes 32)[0 := auth_scheme_id a],
        auth_payload_root a,
        htr_byte_list sha (auth_signature a),
        zero_bytes 32] 4"

definition htr_authorization_list :: "hash_fun \<Rightarrow> Authorization list \<Rightarrow> bytes" where
  "htr_authorization_list sha authorizations =
     mix_in_length sha
       (merkleize sha (map (htr_authorization sha) authorizations) MOCK_PROGRESSIVE_LIST_LIMIT)
       (length authorizations)"

fun payload_hash_tree_root :: "hash_fun \<Rightarrow> TransactionPayloadSsz \<Rightarrow> (Root, PrimitiveError) result" where
  "payload_hash_tree_root sha (TransactionPayloadSsz (Basic p)) =
     Ok (mix_in_selector sha (htr_basic_payload sha p) TAG_BASIC)"
| "payload_hash_tree_root sha (TransactionPayloadSsz (Create p)) =
     Ok (mix_in_selector sha (htr_create_payload sha p) TAG_CREATE)"

definition payload_root :: "hash_fun \<Rightarrow> TransactionEnvelope \<Rightarrow> (Root, PrimitiveError) result" where
  "payload_root sha e = payload_hash_tree_root sha (env_payload e)"

definition envelope_hash_tree_root ::
  "hash_fun \<Rightarrow> TransactionEnvelope \<Rightarrow> (Root, PrimitiveError) result" where
  "envelope_hash_tree_root sha e =
     bind_result (payload_hash_tree_root sha (env_payload e)) (\<lambda>p_root.
       Ok (merkleize sha [p_root, htr_authorization_list sha (env_authorizations e)] 2))"

definition signing_data_encode_ssz :: "SigningData \<Rightarrow> (bytes, PrimitiveError) result" where
  "signing_data_encode_ssz d = Ok (object_root d @ domain_type d)"

definition signing_data_hash_tree_root ::
  "hash_fun \<Rightarrow> SigningData \<Rightarrow> (Root, PrimitiveError) result" where
  "signing_data_hash_tree_root sha d =
     Ok (merkleize sha [object_root d, copy_into (zero_bytes 32) 0 (domain_type d)] 2)"

definition signing_root :: "hash_fun \<Rightarrow> SigningData \<Rightarrow> (Root, PrimitiveError) result" where
  "signing_root sha d = signing_data_hash_tree_root sha d"

section \<open>Closed-rule checks\<close>

definition MAX_USER_SIGNATURE_BYTES :: usize where
  "MAX_USER_SIGNATURE_BYTES = 8 * 1024"

definition check_authorization_count :: "Authorization list \<Rightarrow> (unit, PrimitiveError) result" where
  "check_authorization_count authorizations =
     (if authorizations = [] then Err (AuthorizationCount 1 0) else Ok ())"

definition check_user_signature_size :: "bytes \<Rightarrow> (unit, PrimitiveError) result" where
  "check_user_signature_size sig =
     (if length sig > MAX_USER_SIGNATURE_BYTES
      then Err (SignatureSizeExceeded MAX_USER_SIGNATURE_BYTES (length sig)) else Ok ())"

definition check_authorization_payload_roots ::
  "hash_fun \<Rightarrow> TransactionPayloadSsz \<Rightarrow> Authorization list \<Rightarrow> (unit, PrimitiveError) result" where
  "check_authorization_payload_roots sha payload authorizations =
     bind_result (payload_hash_tree_root sha payload) (\<lambda>expected.
       for_each (\<lambda>a. if auth_payload_root a \<noteq> expected
                     then Err (PayloadRootMismatch expected (auth_payload_root a)) else Ok ())
         authorizations)"

section \<open>The reference tree\<close>

datatype hash_tree = Leaf bytes | Node hash_tree hash_tree

fun tree_root :: "hash_fun \<Rightarrow> hash_tree \<Rightarrow> bytes" where
  "tree_root sha (Leaf c) = c"
| "tree_root sha (Node l r) = sha (tree_root sha l @ tree_root sha r)"

fun tree_leaves :: "hash_tree \<Rightarrow> bytes list" where
  "tree_leaves (Leaf c) = [c]"
| "tree_leaves (Node l r) = tree_leaves l @ tree_leaves r"

text \<open>The messages hashed while computing the root.\<close>

fun tree_messages :: "hash_fun \<Rightarrow> hash_tree \<Rightarrow> bytes set" where
  "tree_messages sha (Leaf c) = {}"
| "tree_messages sha (Node l r) =
     insert (tree_root sha l @ tree_root sha r) (tree_messages sha l \<union> tree_messages sha r)"

fun same_shape :: "hash_tree \<Rightarrow> hash_tree \<Rightarrow> bool" where
  "same_shape (Leaf _) (Leaf _) = True"
| "same_shape (Node a b) (Node c d) = (same_shape a c \<and> same_shape b d)"
| "same_shape _ _ = False"

definition wf_tree :: "hash_tree \<Rightarrow> bool" where
  "wf_tree t \<longleftrightarrow> (\<forall>c \<in> set (tree_leaves t). length c = 32)"

definition collision :: "hash_fun \<Rightarrow> bytes set \<Rightarrow> bool" where
  "collision sha M \<longleftrightarrow> (\<exists>x \<in> M. \<exists>y \<in> M. x \<noteq> y \<and> sha x = sha y)"

text \<open>A tree over the subtrees \<open>ts\<close> of depth \<open>d\<close>, filled up with zero chunks.\<close>

fun merkle_tree :: "nat \<Rightarrow> hash_tree list \<Rightarrow> hash_tree" where
  "merkle_tree 0 ts = (case ts of [] \<Rightarrow> Leaf (zero_bytes 32) | t # _ \<Rightarrow> t)"
| "merkle_tree (Suc d) ts = Node (merkle_tree d (take (2 ^ d) ts)) (merkle_tree d (drop (2 ^ d) ts))"

lemma collision_mono: "collision sha M \<Longrightarrow> M \<subseteq> N \<Longrightarrow> collision sha N"
  unfolding collision_def by blast

lemma wf_tree_simps [simp]:
  "wf_tree (Leaf c) \<longleftrightarrow> length c = 32" "wf_tree (Node l r) \<longleftrightarrow> wf_tree l \<and> wf_tree r"
  by (auto simp: wf_tree_def)

lemma length_tree_root: "digest32 sha \<Longrightarrow> wf_tree t \<Longrightarrow> length (tree_root sha t) = 32"
  by (cases t) (simp_all add: digest32_def)

text \<open>
  \<open>agree\<close> compares two trees node by node. Two trees with the same root agree, or two of the
  messages hashed for them collide; trees of the same shape that agree are equal. Every binding
  theorem below is an instance.
\<close>

fun agree :: "hash_fun \<Rightarrow> hash_tree \<Rightarrow> hash_tree \<Rightarrow> bool" where
  "agree sha (Leaf c) (Leaf d) \<longleftrightarrow> c = d"
| "agree sha (Node a b) (Node c d) \<longleftrightarrow> agree sha a c \<and> agree sha b d"
| "agree sha s t \<longleftrightarrow> tree_root sha s = tree_root sha t"

lemma tree_root_binding:
  assumes "digest32 sha" "wf_tree s" "wf_tree t" "tree_root sha s = tree_root sha t"
  shows "agree sha s t \<or> collision sha (tree_messages sha s \<union> tree_messages sha t)"
  using assms
proof (induction sha s t rule: agree.induct)
  case (2 sha a b c d)
  let ?x = "tree_root sha a @ tree_root sha b" and ?y = "tree_root sha c @ tree_root sha d"
  let ?M = "tree_messages sha (Node a b) \<union> tree_messages sha (Node c d)"
  show ?case
  proof (cases "?x = ?y")
    case True
    with 2 have "tree_root sha a = tree_root sha c" "tree_root sha b = tree_root sha d"
      by (auto simp: append_eq_same_length length_tree_root)
    with 2 have "agree sha a c \<or> collision sha (tree_messages sha a \<union> tree_messages sha c)"
      "agree sha b d \<or> collision sha (tree_messages sha b \<union> tree_messages sha d)" by auto
    moreover have "collision sha ?M"
      if "collision sha (tree_messages sha a \<union> tree_messages sha c) \<or>
          collision sha (tree_messages sha b \<union> tree_messages sha d)"
      using that by (elim disjE) (erule collision_mono; auto)+
    ultimately show ?thesis by auto
  next
    case False
    with 2 have "collision sha ?M"
      unfolding collision_def by (intro bexI [of _ ?x] bexI [of _ ?y]) auto
    then show ?thesis ..
  qed
qed auto

lemma agree_same_shape: "agree sha s t \<Longrightarrow> same_shape s t \<Longrightarrow> s = t"
  by (induction sha s t rule: agree.induct) auto

lemma same_shape_merkle_tree:
  "list_all2 same_shape ts us \<Longrightarrow> same_shape (merkle_tree d ts) (merkle_tree d us)"
proof (induction d arbitrary: ts us)
  case 0
  then show ?case by (cases ts; cases us) auto
next
  case (Suc d)
  then show ?case by (simp add: list_all2_takeI list_all2_dropI)
qed

lemma wf_merkle_tree: "(\<forall>t \<in> set ts. wf_tree t) \<Longrightarrow> wf_tree (merkle_tree d ts)"
proof (induction d arbitrary: ts)
  case 0
  then show ?case by (auto split: list.splits)
next
  case (Suc d)
  then show ?case by (auto dest: in_set_takeD in_set_dropD)
qed

lemma trailing_zeros_pow2 [simp]: "trailing_zeros (2 ^ d) = d"
  by (induction d) (subst trailing_zeros.simps, simp)+

lemma is_power_of_two_pow2 [simp]: "is_power_of_two (2 ^ d)"
  by (simp add: is_power_of_two_def)

lemma zero_hash_tree: "zero_hash sha d = tree_root sha (merkle_tree d [])"
  by (induction d) (simp_all add: sha256_pair_def Let_def)

text \<open>
  \<open>merkleize\<close> computes the root of the zero-padded tree over its chunks. The equation has no
  bound on the number of chunks: chunks beyond the limit do not enter the tree.
\<close>

lemma merkleize_tree_root:
  "merkleize sha (map (tree_root sha) ts) (2 ^ d) = tree_root sha (merkle_tree d ts)"
proof (induction d arbitrary: ts)
  case 0
  show ?case by (subst merkleize.simps) (simp split: list.splits)
next
  case (Suc d)
  have half: "(2 ^ Suc d) div 2 = (2 :: nat) ^ d" by simp
  have big: "(2 :: nat) ^ Suc d \<noteq> 0" "(2 :: nat) ^ Suc d \<noteq> 1" by (simp_all del: power_Suc add: power_Suc)
  have "take (min (length ts) (2 ^ d)) (map (tree_root sha) ts) = map (tree_root sha) (take (2 ^ d) ts)"
    by (simp add: take_map take_min_length)
  then have left: "merkleize sha (take (min (length ts) (2 ^ d)) (map (tree_root sha) ts)) (2 ^ d) =
      tree_root sha (merkle_tree d (take (2 ^ d) ts))"
    using Suc.IH [of "take (2 ^ d) ts"] by simp
  have right: "(if length ts > 2 ^ d then merkleize sha (drop (2 ^ d) (map (tree_root sha) ts)) (2 ^ d)
      else zero_hash sha d) = tree_root sha (merkle_tree d (drop (2 ^ d) ts))"
    using Suc.IH [of "drop (2 ^ d) ts"] by (simp add: drop_map zero_hash_tree)
  show ?case
    by (subst merkleize.simps)
       (simp only: half big if_False Let_def length_map left right trailing_zeros_pow2 sha256_pair_def
          merkle_tree.simps tree_root.simps)
qed

lemma merkleize_chunks: "merkleize sha cs (2 ^ d) = tree_root sha (merkle_tree d (map Leaf cs))"
  using merkleize_tree_root [of sha "map Leaf cs" d] by (simp add: o_def)

lemma merkleize_debug_ok:
  "length cs \<le> 2 ^ d \<Longrightarrow> merkleize_debug sha cs (2 ^ d) = Ok (merkleize sha cs (2 ^ d))"
proof (induction d arbitrary: cs)
  case 0
  then show ?case
    by (subst merkleize_debug.simps, subst merkleize.simps) (simp add: is_power_of_two_pow2 [of 0, simplified])
next
  case (Suc d)
  have half: "(2 ^ Suc d) div 2 = (2 :: nat) ^ d" by simp
  have big: "(2 :: nat) ^ Suc d \<noteq> 0" "(2 :: nat) ^ Suc d \<noteq> 1" by (simp_all del: power_Suc add: power_Suc)
  have "length (drop (2 ^ d) cs) \<le> 2 ^ d" using Suc.prems by simp
  with Suc.IH have "merkleize_debug sha (drop (2 ^ d) cs) (2 ^ d) = Ok (merkleize sha (drop (2 ^ d) cs) (2 ^ d))"
    by blast
  moreover have "merkleize_debug sha (take (min (length cs) (2 ^ d)) cs) (2 ^ d) =
      Ok (merkleize sha (take (min (length cs) (2 ^ d)) cs) (2 ^ d))"
    by (rule Suc.IH) simp
  ultimately show ?case
    using Suc.prems
    by (subst merkleize_debug.simps, subst merkleize.simps [of sha cs "2 ^ Suc d"])
       (simp only: half big is_power_of_two_pow2 if_True if_False Let_def bind_result.simps simp_thms
          if_distrib [of Ok, symmetric] split: if_splits)
qed

section \<open>Trees of the protocol objects\<close>

definition length_leaf :: "nat \<Rightarrow> hash_tree" where
  "length_leaf n = Leaf (copy_into (zero_bytes 32) 0 (u64_to_le_bytes (usize_as_u64 n)))"

definition byte_list_tree :: "bytes \<Rightarrow> hash_tree" where
  "byte_list_tree bs = Node (merkle_tree 15 (map Leaf (pack_bytes bs))) (length_leaf (length bs))"

definition fees_tree :: "BasicFeesPerGas \<Rightarrow> hash_tree" where
  "fees_tree f = merkle_tree 2
     [Leaf (u256_bytes (gas_price_value (regular f))),
      Leaf (u256_bytes (gas_price_value (max_priority_fee_per_gas f))),
      Leaf (u256_bytes (gas_price_value (max_witness_priority_fee f))), Leaf (zero_bytes 32)]"

definition basic_tree :: "BasicTransactionPayload \<Rightarrow> hash_tree" where
  "basic_tree p = merkle_tree 3
     [Leaf (u256_bytes (chain_id_value (basic_chain_id p))), Leaf (htr_u64 (basic_nonce p)),
      Leaf (htr_u64 (basic_gas_limit p)), fees_tree (basic_fees p), Leaf (htr_address (basic_to p)),
      Leaf (u256_bytes (tx_value (basic_value p))), byte_list_tree (basic_input p),
      Leaf (basic_access_commitment p)]"

definition create_tree :: "CreateTransactionPayload \<Rightarrow> hash_tree" where
  "create_tree p = merkle_tree 3
     [Leaf (u256_bytes (chain_id_value (create_chain_id p))), Leaf (htr_u64 (create_nonce p)),
      Leaf (htr_u64 (create_gas_limit p)), fees_tree (create_fees p),
      Leaf (u256_bytes (tx_value (create_value p))), byte_list_tree (create_initcode p),
      Leaf (create_access_commitment p), Leaf (zero_bytes 32)]"

fun payload_tree :: "TransactionPayloadSsz \<Rightarrow> hash_tree" where
  "payload_tree (TransactionPayloadSsz (Basic p)) = Node (basic_tree p) (Leaf ((zero_bytes 32)[0 := TAG_BASIC]))"
| "payload_tree (TransactionPayloadSsz (Create p)) = Node (create_tree p) (Leaf ((zero_bytes 32)[0 := TAG_CREATE]))"

definition authorization_tree :: "Authorization \<Rightarrow> hash_tree" where
  "authorization_tree a = merkle_tree 2
     [Leaf ((zero_bytes 32)[0 := auth_scheme_id a]), Leaf (auth_payload_root a),
      byte_list_tree (auth_signature a), Leaf (zero_bytes 32)]"

definition envelope_tree :: "TransactionEnvelope \<Rightarrow> hash_tree" where
  "envelope_tree e = Node (payload_tree (env_payload e))
     (Node (merkle_tree 13 (map authorization_tree (env_authorizations e)))
       (length_leaf (length (env_authorizations e))))"

definition signing_data_tree :: "SigningData \<Rightarrow> hash_tree" where
  "signing_data_tree d = Node (Leaf (object_root d)) (Leaf (copy_into (zero_bytes 32) 0 (domain_type d)))"

lemma merkle_tree_1: "merkle_tree 1 [a, b] = Node a b"
  by simp

lemma merkle_tree_2: "merkle_tree 2 [a, b, c, d] = Node (Node a b) (Node c d)"
  by (simp add: numeral_2_eq_2)

lemma merkle_tree_3:
  "merkle_tree 3 [a, b, c, d, e, f, g, h] = Node (Node (Node a b) (Node c d)) (Node (Node e f) (Node g h))"
  by (simp add: numeral_3_eq_3)

lemmas merkle_tree_small = merkle_tree_1 merkle_tree_2 merkle_tree_3

lemma tree_root_byte_list: "tree_root sha (byte_list_tree bs) = htr_byte_list sha bs"
  using merkleize_chunks [of sha "pack_bytes bs" 15]
  by (simp add: byte_list_tree_def htr_byte_list_def mix_in_length_def sha256_pair_def length_leaf_def
      CHUNK_LIMIT_def MOCK_PROGRESSIVE_BYTE_LIST_LIMIT_def)

lemma tree_root_fees: "tree_root sha (fees_tree f) = htr_fees sha f"
  unfolding htr_fees_def fees_tree_def
  by (subst merkleize_tree_root [of _ _ 2, symmetric, simplified]) (simp add: htr_u256_def)

lemma tree_root_basic: "tree_root sha (basic_tree p) = htr_basic_payload sha p"
  unfolding htr_basic_payload_def basic_tree_def
  by (subst merkleize_tree_root [of _ _ 3, symmetric, simplified])
     (simp add: htr_u256_def tree_root_fees tree_root_byte_list)

lemma tree_root_create: "tree_root sha (create_tree p) = htr_create_payload sha p"
  unfolding htr_create_payload_def create_tree_def
  by (subst merkleize_tree_root [of _ _ 3, symmetric, simplified])
     (simp add: htr_u256_def tree_root_fees tree_root_byte_list)

lemma tree_root_payload: "payload_hash_tree_root sha p = Ok (tree_root sha (payload_tree p))"
  by (cases p rule: payload_tree.cases)
     (simp_all add: mix_in_selector_def sha256_pair_def tree_root_basic tree_root_create)

lemma tree_root_authorization: "tree_root sha (authorization_tree a) = htr_authorization sha a"
  unfolding htr_authorization_def authorization_tree_def
  by (subst merkleize_tree_root [of _ _ 2, symmetric, simplified]) (simp add: tree_root_byte_list)

lemma tree_root_envelope: "envelope_hash_tree_root sha e = Ok (tree_root sha (envelope_tree e))"
proof -
  have "merkleize sha (map (htr_authorization sha) as) MOCK_PROGRESSIVE_LIST_LIMIT =
      tree_root sha (merkle_tree 13 (map authorization_tree as))" for as
    by (subst merkleize_tree_root [of _ _ 13, symmetric, simplified])
       (simp add: MOCK_PROGRESSIVE_LIST_LIMIT_def tree_root_authorization o_def)
  moreover have "merkleize sha [x, y] 2 = sha (x @ y)" for x y
    using merkleize_chunks [of sha "[x, y]" 1] by simp
  ultimately show ?thesis
    by (simp add: envelope_hash_tree_root_def tree_root_payload envelope_tree_def
        htr_authorization_list_def mix_in_length_def sha256_pair_def length_leaf_def)
qed

lemma tree_root_signing_data: "signing_data_hash_tree_root sha d = Ok (tree_root sha (signing_data_tree d))"
  using merkleize_chunks [of sha "[object_root d, copy_into (zero_bytes 32) 0 (domain_type d)]" 1]
  by (simp add: signing_data_hash_tree_root_def signing_data_tree_def)

section \<open>Binding\<close>

lemma length_pack_bytes: "length (pack_bytes bs) = div_ceil (length bs) 32"
  by (simp add: pack_bytes_def div_ceil_def)

lemma length_pack_chunk: "length (pack_chunk bs i) = 32"
  by (simp add: pack_chunk_def Let_def copy_into_def)

lemma pack_chunk_nth:
  assumes "32 * i + j < length bs" "j < 32"
  shows "pack_chunk bs i ! j = bs ! (32 * i + j)"
  using assms
  by (auto simp: pack_chunk_def Let_def copy_into_zero_front zero_bytes_def nth_append min_def algebra_simps)

lemma pack_bytes_inj:
  assumes len: "length a = length b" and eq: "pack_bytes a = pack_bytes b"
  shows "a = b"
proof (rule nth_equalityI [OF len])
  fix k assume k: "k < length a"
  then have i: "k div 32 < div_ceil (length a) 32" by (simp add: div_ceil_def)
  have "map (pack_chunk a) [0..<div_ceil (length a) 32] = map (pack_chunk b) [0..<div_ceil (length a) 32]"
    using eq len k by (auto simp: pack_bytes_def split: if_splits)
  then have "pack_chunk a (k div 32) = pack_chunk b (k div 32)" using i by simp
  then have "pack_chunk a (k div 32) ! (k mod 32) = pack_chunk b (k div 32) ! (k mod 32)" by simp
  then show "a ! k = b ! k" using k len by (simp add: pack_chunk_nth)
qed

lemma tree_leaves_merkle_chunks:
  "tree_leaves (merkle_tree d (map Leaf cs)) = take (2 ^ d) (cs @ replicate (2 ^ d) (zero_bytes 32))"
proof (induction d arbitrary: cs)
  case 0
  then show ?case by (cases cs) auto
next
  case (Suc d)
  let ?z = "zero_bytes 32" and ?n = "(2 :: nat) ^ d"
  have "tree_leaves (merkle_tree (Suc d) (map Leaf cs)) =
      take ?n (take ?n cs @ replicate ?n ?z) @ take ?n (drop ?n cs @ replicate ?n ?z)"
    using Suc.IH [of "take ?n cs"] Suc.IH [of "drop ?n cs"] by (simp add: take_map drop_map)
  also have "\<dots> = take (?n + ?n) (cs @ replicate (?n + ?n) ?z)"
  proof (cases "length cs \<le> ?n")
    case True
    then show ?thesis
      by (simp add: take_add replicate_add drop_replicate min_def) (simp add: replicate_add [symmetric], arith)
  next
    case False
    then show ?thesis by (simp add: take_add min_def)
  qed
  finally show ?case by (simp add: mult_2)
qed

lemma length_leaf_inject:
  "m < 2 ^ 64 \<Longrightarrow> n < 2 ^ 64 \<Longrightarrow> length_leaf m = length_leaf n \<longleftrightarrow> m = n"
  by (simp add: length_leaf_def copy_into_zero_front zero_bytes_def usize_as_u64_inject)

lemma byte_list_tree_agree:
  assumes agree: "agree sha (byte_list_tree a) (byte_list_tree b)"
    and la: "length a \<le> MOCK_PROGRESSIVE_BYTE_LIST_LIMIT" and lb: "length b \<le> MOCK_PROGRESSIVE_BYTE_LIST_LIMIT"
  shows "a = b"
proof -
  let ?t = "\<lambda>x. merkle_tree 15 (map Leaf (pack_bytes x))"
  from agree have "length_leaf (length a) = length_leaf (length b)" and t: "agree sha (?t a) (?t b)"
    by (simp_all add: byte_list_tree_def length_leaf_def)
  with la lb have len: "length a = length b"
    by (simp add: length_leaf_inject MOCK_PROGRESSIVE_BYTE_LIST_LIMIT_def)
  then have "list_all2 same_shape (map Leaf (pack_bytes a)) (map Leaf (pack_bytes b))"
    by (simp add: list_all2_conv_all_nth length_pack_bytes)
  with t have "tree_leaves (?t a) = tree_leaves (?t b)"
    by (metis agree_same_shape same_shape_merkle_tree)
  moreover have "length (pack_bytes x) \<le> 2 ^ 15" if "length x \<le> MOCK_PROGRESSIVE_BYTE_LIST_LIMIT" for x
    using that by (simp add: length_pack_bytes div_ceil_def MOCK_PROGRESSIVE_BYTE_LIST_LIMIT_def)
  ultimately have "pack_bytes a = pack_bytes b"
    using la lb len by (simp add: tree_leaves_merkle_chunks length_pack_bytes)
  with len show ?thesis by (rule pack_bytes_inj)
qed

lemma padded_inject [simp]:
  "length x = length y \<Longrightarrow> copy_into (zero_bytes n) 0 x = copy_into (zero_bytes n) 0 y \<longleftrightarrow> x = y"
  by (simp add: copy_into_zero_front zero_bytes_def)

lemma htr_u64_inject [simp]: "htr_u64 a = htr_u64 b \<longleftrightarrow> a = b"
  by (simp add: htr_u64_def)

lemma fees_tree_agree: "agree sha (fees_tree f) (fees_tree g) \<Longrightarrow> f = g"
  by (cases f; cases g)
     (auto simp: fees_tree_def merkle_tree_2 intro!: GasPrice.expand U256.expand)

lemma selector_leaf_inject [simp]: "(zero_bytes 32)[0 := a] = (zero_bytes 32)[0 := b] \<longleftrightarrow> a = b"
  by (simp add: zero_bytes_def numeral_eq_Suc)

definition within_limits :: "TransactionPayloadSsz \<Rightarrow> bool" where
  "within_limits p \<longleftrightarrow> (case ssz_payload p of
       Basic b \<Rightarrow> length (basic_input b) \<le> MOCK_PROGRESSIVE_BYTE_LIST_LIMIT
     | Create c \<Rightarrow> length (create_initcode c) \<le> MOCK_PROGRESSIVE_BYTE_LIST_LIMIT)"

lemma basic_tree_agree:
  assumes "agree sha (basic_tree p) (basic_tree q)" "wf_basic p" "wf_basic q"
    "length (basic_input p) \<le> MOCK_PROGRESSIVE_BYTE_LIST_LIMIT"
    "length (basic_input q) \<le> MOCK_PROGRESSIVE_BYTE_LIST_LIMIT"
  shows "p = q"
  using assms
  by (cases p; cases q)
     (auto simp: basic_tree_def merkle_tree_3 wf_basic_def htr_address_def
       intro!: ChainId.expand TxValue.expand U256.expand dest: fees_tree_agree byte_list_tree_agree)

lemma create_tree_agree:
  assumes "agree sha (create_tree p) (create_tree q)"
    "length (create_initcode p) \<le> MOCK_PROGRESSIVE_BYTE_LIST_LIMIT"
    "length (create_initcode q) \<le> MOCK_PROGRESSIVE_BYTE_LIST_LIMIT"
  shows "p = q"
  using assms
  by (cases p; cases q)
     (auto simp: create_tree_def merkle_tree_3
       intro!: ChainId.expand TxValue.expand U256.expand dest: fees_tree_agree byte_list_tree_agree)

lemma payload_tree_agree:
  assumes "agree sha (payload_tree p) (payload_tree q)" "wf_payload p" "wf_payload q"
    "within_limits p" "within_limits q"
  shows "p = q"
  using assms
  by (cases p rule: payload_tree.cases; cases q rule: payload_tree.cases)
     (auto simp: within_limits_def TAG_BASIC_def TAG_CREATE_def dest: basic_tree_agree create_tree_agree)

lemma authorization_tree_agree:
  assumes "agree sha (authorization_tree a) (authorization_tree b)"
    "length (auth_signature a) \<le> MOCK_PROGRESSIVE_BYTE_LIST_LIMIT"
    "length (auth_signature b) \<le> MOCK_PROGRESSIVE_BYTE_LIST_LIMIT"
  shows "a = b"
  using assms
  by (cases a; cases b) (auto simp: authorization_tree_def merkle_tree_2 dest: byte_list_tree_agree)

lemma wf_byte_list_tree [simp]: "wf_tree (byte_list_tree bs)"
proof -
  have "\<forall>c \<in> set (pack_bytes bs). length c = 32"
    by (auto simp: pack_bytes_def length_pack_chunk)
  then have "wf_tree (merkle_tree 15 (map Leaf (pack_bytes bs)))" by (intro wf_merkle_tree) auto
  then show ?thesis by (simp add: byte_list_tree_def length_leaf_def copy_into_zero_front zero_bytes_def)
qed

lemma wf_payload_tree: "wf_payload p \<Longrightarrow> wf_tree (payload_tree p)"
  by (cases p rule: payload_tree.cases)
     (auto simp: basic_tree_def create_tree_def fees_tree_def merkle_tree_small wf_basic_def
       wf_create_def wf_fees_def wf_u256_def htr_u64_def htr_address_def copy_into_zero_front zero_bytes_def)

lemma wf_authorization_tree: "wf_authorization a \<Longrightarrow> wf_tree (authorization_tree a)"
  by (simp add: authorization_tree_def merkle_tree_2 wf_authorization_def)

lemma wf_envelope_tree: "wf_envelope e \<Longrightarrow> wf_tree (envelope_tree e)"
  by (simp add: envelope_tree_def wf_envelope_def wf_payload_tree wf_authorization_tree wf_merkle_tree
      length_leaf_def copy_into_zero_front zero_bytes_def)

lemma same_shape_byte_list_tree:
  "length x = length y \<Longrightarrow> same_shape (byte_list_tree x) (byte_list_tree y)"
  by (simp add: byte_list_tree_def length_leaf_def length_pack_bytes list_all2_conv_all_nth
      same_shape_merkle_tree)

text \<open>
  Agreement of two trees over equally many subtrees is agreement of the subtrees, as long as
  they fit: the padding on both sides is the same.
\<close>

lemma agree_merkle_tree:
  assumes "agree sha (merkle_tree d ts) (merkle_tree d us)" "length ts = length us" "length ts \<le> 2 ^ d"
  shows "list_all2 (agree sha) ts us"
  using assms
proof (induction d arbitrary: ts us)
  case 0
  then show ?case by (cases ts; cases us) auto
next
  case (Suc d)
  let ?n = "(2 :: nat) ^ d"
  have "list_all2 (agree sha) (take ?n ts) (take ?n us)"
    using Suc.prems by (intro Suc.IH) auto
  moreover have "list_all2 (agree sha) (drop ?n ts) (drop ?n us)"
    using Suc.prems by (intro Suc.IH) auto
  ultimately have "list_all2 (agree sha) (take ?n ts @ drop ?n ts) (take ?n us @ drop ?n us)"
    by (rule list_all2_appendI)
  then show ?case by simp
qed

definition envelope_within_limits :: "TransactionEnvelope \<Rightarrow> bool" where
  "envelope_within_limits e \<longleftrightarrow> within_limits (env_payload e) \<and>
     length (env_authorizations e) \<le> MOCK_PROGRESSIVE_LIST_LIMIT \<and>
     (\<forall>a \<in> set (env_authorizations e). length (auth_signature a) \<le> MOCK_PROGRESSIVE_BYTE_LIST_LIMIT)"

lemma envelope_tree_agree:
  assumes agree: "agree sha (envelope_tree e) (envelope_tree f)"
    and wf: "wf_envelope e" "wf_envelope f"
    and lim: "envelope_within_limits e" "envelope_within_limits f"
  shows "e = f"
proof -
  let ?as = "env_authorizations e" and ?bs = "env_authorizations f"
  from agree have payload: "agree sha (payload_tree (env_payload e)) (payload_tree (env_payload f))"
    and list: "agree sha (merkle_tree 13 (map authorization_tree ?as)) (merkle_tree 13 (map authorization_tree ?bs))"
    and "length_leaf (length ?as) = length_leaf (length ?bs)"
    by (simp_all add: envelope_tree_def length_leaf_def)
  then have len: "length ?as = length ?bs"
    using lim by (simp add: length_leaf_inject envelope_within_limits_def MOCK_PROGRESSIVE_LIST_LIMIT_def)
  have "list_all2 (agree sha) (map authorization_tree ?as) (map authorization_tree ?bs)"
    using lim len by (intro agree_merkle_tree [OF list])
      (simp_all add: envelope_within_limits_def MOCK_PROGRESSIVE_LIST_LIMIT_def)
  then have "?as ! i = ?bs ! i" if "i < length ?as" for i
    using that len lim
    by (intro authorization_tree_agree) (auto simp: list_all2_conv_all_nth envelope_within_limits_def)
  with len have "?as = ?bs" by (simp add: nth_equalityI)
  moreover have "env_payload e = env_payload f"
    using payload wf lim by (intro payload_tree_agree)
      (simp_all add: wf_envelope_def envelope_within_limits_def)
  ultimately show ?thesis by simp
qed

section \<open>Properties\<close>

fun perfect :: "nat \<Rightarrow> hash_tree \<Rightarrow> bool" where
  "perfect 0 (Leaf _) = True"
| "perfect (Suc d) (Node l r) = (perfect d l \<and> perfect d r)"
| "perfect _ _ = False"

lemma perfect_merkle_chunks: "perfect d (merkle_tree d (map Leaf cs))"
proof (induction d arbitrary: cs)
  case 0
  then show ?case by (cases cs) auto
next
  case (Suc d)
  then show ?case by (simp add: take_map drop_map)
qed

text \<open>
  C22: \<open>merkleize\<close>, which never builds the zero part of the tree, returns the root of the perfect
  binary tree of depth \<open>d\<close> whose leaves are the chunks followed by zero chunks.
\<close>

theorem merkleize_perfect_tree:
  "\<exists>t. perfect d t \<and>
       tree_leaves t = take (2 ^ d) (chunks @ replicate (2 ^ d) (zero_bytes 32)) \<and>
       merkleize sha chunks (2 ^ d) = tree_root sha t"
  by (intro exI [of _ "merkle_tree d (map Leaf chunks)"])
     (simp add: perfect_merkle_chunks tree_leaves_merkle_chunks merkleize_chunks)

text \<open>
  Within the limit the \<open>debug_assert!\<close>s of \<open>merkleize\<close> never fire, on any recursive call, and
  both build profiles compute the same root.
\<close>

theorem merkleize_asserts_hold:
  assumes "length chunks \<le> 2 ^ d"
  shows "merkleize_debug sha chunks (2 ^ d) = Ok (merkleize sha chunks (2 ^ d))"
  using assms by (rule merkleize_debug_ok)

theorem merkleize_asserts_hold_witness:
  "length [zero_bytes 32, [1], [2]] \<le> 2 ^ 2 \<and>
   merkleize_debug (\<lambda>m. m) [zero_bytes 32, [1], [2]] (2 ^ 2) =
     Ok (merkleize (\<lambda>m. m) [zero_bytes 32, [1], [2]] (2 ^ 2))"
  using merkleize_asserts_hold [of "[zero_bytes 32, [1], [2]]" 2 "\<lambda>m. m"] by simp

text \<open>
  The payload root binds the payload. Two well-formed payloads within the list limits with
  the same root are the same payload, unless two of the messages hashed for the two roots
  collide under SHA-256.
\<close>

theorem payload_root_binding:
  assumes "digest32 sha" "wf_payload p" "wf_payload q" "within_limits p" "within_limits q"
    and "payload_hash_tree_root sha p = payload_hash_tree_root sha q"
  shows "p = q \<or> collision sha (tree_messages sha (payload_tree p) \<union> tree_messages sha (payload_tree q))"
  using assms tree_root_binding [of sha "payload_tree p" "payload_tree q"]
  by (auto simp: tree_root_payload wf_payload_tree intro: payload_tree_agree)

lemma within_limits_default [simp]: "within_limits default_payload"
  by (simp add: within_limits_def default_payload_def default_basic_payload_def)

lemma within_limits_default_create [simp]:
  "within_limits (TransactionPayloadSsz (Create default_create_payload))"
  by (simp add: within_limits_def default_create_payload_def)

lemma payload_root_constant_hash: "payload_hash_tree_root (\<lambda>m. c) p = Ok c"
  by (cases p rule: payload_tree.cases) (simp_all add: mix_in_selector_def sha256_pair_def)

lemma envelope_root_constant_hash: "envelope_hash_tree_root (\<lambda>m. c) e = Ok c"
  by (simp add: envelope_hash_tree_root_def payload_root_constant_hash merkleize.simps [of _ _ 2]
      sha256_pair_def Let_def)

theorem payload_root_binding_witness:
  "let sha = (\<lambda>m. replicate 32 0); p = default_payload;
       q = TransactionPayloadSsz (Create default_create_payload) in
   p = q \<or> collision sha (tree_messages sha (payload_tree p) \<union> tree_messages sha (payload_tree q))"
  unfolding Let_def
  by (rule payload_root_binding) (simp_all add: digest32_def payload_root_constant_hash)

text \<open>
  C7: the transaction root (\<open>canonical_root\<close> of an envelope) binds the payload, the number and
  the order of the authorizations and every field of each authorization, in the same sense.
\<close>

theorem envelope_root_binding:
  assumes "digest32 sha" "wf_envelope e" "wf_envelope f"
    "envelope_within_limits e" "envelope_within_limits f"
    and "envelope_hash_tree_root sha e = envelope_hash_tree_root sha f"
  shows "e = f \<or> collision sha (tree_messages sha (envelope_tree e) \<union> tree_messages sha (envelope_tree f))"
  using assms tree_root_binding [of sha "envelope_tree e" "envelope_tree f"]
  by (auto simp: tree_root_envelope wf_envelope_tree intro: envelope_tree_agree)

theorem envelope_root_binding_witness:
  "let sha = (\<lambda>m. replicate 32 0);
       e = \<lparr>env_payload = default_payload, env_authorizations = []\<rparr>;
       f = e\<lparr>env_authorizations :=
             [\<lparr>auth_scheme_id = 0, auth_payload_root = zero_bytes 32, auth_signature = [7]\<rparr>]\<rparr> in
   e = f \<or> collision sha (tree_messages sha (envelope_tree e) \<union> tree_messages sha (envelope_tree f))"
  unfolding Let_def
  by (rule envelope_root_binding)
     (simp_all add: digest32_def wf_envelope_def wf_authorization_def envelope_within_limits_def
       envelope_root_constant_hash MOCK_PROGRESSIVE_LIST_LIMIT_def MOCK_PROGRESSIVE_BYTE_LIST_LIMIT_def)

text \<open>
  C12: Signing roots are separated by domain: a signing root determines the object root and the
  domain bytes, so a transaction authorization never signs a validator message, unless two of
  the hashed messages collide.
\<close>

theorem signing_root_domain_separation:
  assumes "digest32 sha" "length (object_root c) = 32" "length (object_root d) = 32"
    "length (domain_type c) = 4" "length (domain_type d) = 4"
    and "signing_root sha c = signing_root sha d"
  shows "c = d \<or> collision sha (tree_messages sha (signing_data_tree c) \<union> tree_messages sha (signing_data_tree d))"
proof -
  have wf: "wf_tree (signing_data_tree x)" if "length (object_root x) = 32" "length (domain_type x) = 4" for x :: SigningData
    using that by (simp add: signing_data_tree_def copy_into_zero_front zero_bytes_def)
  have "c = d" if "agree sha (signing_data_tree c) (signing_data_tree d)"
    using that assms by (cases c; cases d) (simp add: signing_data_tree_def)
  then show ?thesis
    using assms wf tree_root_binding [of sha "signing_data_tree c" "signing_data_tree d"]
    by (auto simp: signing_root_def tree_root_signing_data)
qed

theorem signing_root_domain_separation_witness:
  "let sha = (\<lambda>m. replicate 32 0);
       c = \<lparr>object_root = zero_bytes 32, domain_type = DOMAIN_TX_SHELL\<rparr>;
       d = \<lparr>object_root = zero_bytes 32, domain_type = DOMAIN_VALIDATOR_MESSAGE\<rparr> in
   c = d \<or> collision sha (tree_messages sha (signing_data_tree c) \<union> tree_messages sha (signing_data_tree d))"
  unfolding Let_def
  by (rule signing_root_domain_separation)
     (simp_all add: digest32_def DOMAIN_TX_SHELL_def DOMAIN_VALIDATOR_MESSAGE_def signing_root_def
       signing_data_hash_tree_root_def merkleize.simps [of _ _ 2] sha256_pair_def Let_def)

text \<open>
  The limit of a progressive byte list is not checked before hashing. Bytes past the limit are
  outside the tree: only their number enters the root.
\<close>

lemma merkle_tree_take: "merkle_tree d (take (2 ^ d) ts) = merkle_tree d ts"
proof (induction d arbitrary: ts)
  case 0
  then show ?case by (cases ts) auto
next
  case (Suc d)
  have "merkle_tree d (drop (2 ^ d) (take (2 ^ Suc d) ts)) = merkle_tree d (take (2 ^ d) (drop (2 ^ d) ts))"
    by (simp add: drop_take)
  then show ?case by (simp add: Suc.IH)
qed

lemma merkleize_take: "merkleize sha cs (2 ^ d) = merkleize sha (take (2 ^ d) cs) (2 ^ d)"
  by (simp add: merkleize_chunks merkle_tree_take flip: take_map)

lemma CHUNK_LIMIT_pow2: "CHUNK_LIMIT = 2 ^ 15"
  by (simp add: CHUNK_LIMIT_def MOCK_PROGRESSIVE_BYTE_LIST_LIMIT_def)

lemma take_upt_min: "take n [0..<m] = [0..<min n m]"
  by (simp add: min_def)

lemma take_pack_bytes:
  assumes "take (32 * n) xs = take (32 * n) ys" "length xs = length ys"
  shows "take n (pack_bytes xs) = take n (pack_bytes ys)"
proof -
  have "take (32 * n) xs ! j = take (32 * n) ys ! j" for j
    using assms by simp
  then have nth: "xs ! j = ys ! j" if "j < 32 * n" for j
    using that by (metis nth_take)
  have "pack_chunk xs i = pack_chunk ys i" if "i < n" for i
  proof -
    have "take (m - i * 32) (drop (i * 32) xs) = take (m - i * 32) (drop (i * 32) ys)"
      if m: "m = min (i * 32 + 32) (length xs)" for m
      using m \<open>i < n\<close> assms(2) by (intro nth_equalityI) (auto intro!: nth)
    then show ?thesis by (simp add: pack_chunk_def Let_def assms(2))
  qed
  then show ?thesis
    using assms(2) by (auto simp: pack_bytes_def take_map take_upt_min)
qed

lemma htr_byte_list_oversize:
  assumes "length xs = length ys"
    and "take MOCK_PROGRESSIVE_BYTE_LIST_LIMIT xs = take MOCK_PROGRESSIVE_BYTE_LIST_LIMIT ys"
  shows "htr_byte_list sha xs = htr_byte_list sha ys"
proof -
  have "take (2 ^ 15) (pack_bytes xs) = take (2 ^ 15) (pack_bytes ys)"
    using assms by (intro take_pack_bytes) (simp_all add: MOCK_PROGRESSIVE_BYTE_LIST_LIMIT_def)
  then show ?thesis
    using assms(1) unfolding htr_byte_list_def CHUNK_LIMIT_pow2
    by (metis merkleize_take)
qed

definition basic_with_input :: "bytes \<Rightarrow> TransactionPayloadSsz" where
  "basic_with_input bs = TransactionPayloadSsz (Basic (default_basic_payload\<lparr>basic_input := bs\<rparr>))"

text \<open>
  C38: past the limit the payload root no longer binds the payload, for every hash function: two different well-formed
  payloads, one byte over the limit, have the same root in a release build, while in a debug
  build the assertion of \<open>merkleize\<close> fails on their input.
\<close>

theorem payload_root_oversize_gap:
  "\<exists>xs ys. wf_payload (basic_with_input xs) \<and> wf_payload (basic_with_input ys) \<and>
     basic_with_input xs \<noteq> basic_with_input ys \<and>
     (\<forall>sha. payload_hash_tree_root sha (basic_with_input xs) =
            payload_hash_tree_root sha (basic_with_input ys) \<and>
            merkleize_debug sha (pack_bytes xs) CHUNK_LIMIT = Panic)"
proof (intro exI conjI allI)
  let ?L = MOCK_PROGRESSIVE_BYTE_LIST_LIMIT
  let ?p = "replicate ?L 0 @ [0]" and ?q = "replicate ?L 0 @ [1 :: u8]"
  show "basic_with_input ?p \<noteq> basic_with_input ?q"
    by (simp add: basic_with_input_def default_basic_payload_def)
  show "payload_hash_tree_root sha (basic_with_input ?p) = payload_hash_tree_root sha (basic_with_input ?q)" for sha
    using htr_byte_list_oversize [of ?p ?q sha] by (simp add: basic_with_input_def htr_basic_payload_def)
  show "merkleize_debug sha (pack_bytes ?p) CHUNK_LIMIT = Panic" for sha
    by (subst merkleize_debug.simps)
       (simp add: length_pack_bytes div_ceil_def CHUNK_LIMIT_def MOCK_PROGRESSIVE_BYTE_LIST_LIMIT_def)
qed (simp_all add: basic_with_input_def wf_basic_def default_basic_payload_def)

end
