(* ===== verification/BTree_Map.thy ===== *)
theory BTree_Map
  imports Prelude
begin

text \<open>
  The standard library's \<^verbatim>\<open>BTreeMap\<close>, as far as the crates use it: a strictly sorted association
  list with lookup, insertion (which returns the value it replaces), iteration in key order and
  the two range queries \<open>range(..k).next_back()\<close> and
  \<open>range((Excluded(k), Unbounded)).next()\<close>.

  The locale \<open>ordered_map\<close> is the contract the clients rely on; its lemmas (extensionality,
  neighbours) are proved from the contract alone. The interpretation \<open>btree\<close> discharges it for
  the association-list model. The accumulator of the state crate, the material tables of the
  runtime and the admission table of the consensus adapter are the clients.
\<close>

type_synonym ('k, 'v) btree_map = "('k \<times> 'v) list"

fun btree_get :: "('k::linorder, 'v) btree_map \<Rightarrow> 'k \<Rightarrow> 'v option" where
  "btree_get [] k = None"
| "btree_get ((a, v) # m) k = (if k = a then Some v else btree_get m k)"

fun btree_put :: "'k::linorder \<Rightarrow> 'v \<Rightarrow> ('k, 'v) btree_map \<Rightarrow> ('k, 'v) btree_map" where
  "btree_put k v [] = [(k, v)]"
| "btree_put k v ((a, u) # m) =
     (if k < a then (k, v) # (a, u) # m
      else if k = a then (k, v) # m
      else (a, u) # btree_put k v m)"

definition btree_insert ::
  "'k::linorder \<Rightarrow> 'v \<Rightarrow> ('k, 'v) btree_map \<Rightarrow> 'v option \<times> ('k, 'v) btree_map" where
  "btree_insert k v m = (btree_get m k, btree_put k v m)"

definition btree_before :: "('k::linorder, 'v) btree_map \<Rightarrow> 'k \<Rightarrow> ('k \<times> 'v) option" where
  "btree_before m k =
     (case filter (\<lambda>(a, _). a < k) m of [] \<Rightarrow> None | es \<Rightarrow> Some (last es))"

definition btree_after :: "('k::linorder, 'v) btree_map \<Rightarrow> 'k \<Rightarrow> ('k \<times> 'v) option" where
  "btree_after m k =
     (case filter (\<lambda>(a, _). k < a) m of [] \<Rightarrow> None | e # es \<Rightarrow> Some e)"

definition btree_invar :: "('k::linorder, 'v) btree_map \<Rightarrow> bool" where
  "btree_invar m \<longleftrightarrow> sorted_wrt (<) (map fst m)"

section \<open>The contract\<close>

locale ordered_map =
  fixes empty :: 'm
    and insert :: "'k::linorder \<Rightarrow> 'v \<Rightarrow> 'm \<Rightarrow> 'v option \<times> 'm"
    and get :: "'m \<Rightarrow> 'k \<Rightarrow> 'v option"
    and entries :: "'m \<Rightarrow> ('k \<times> 'v) list"
    and before :: "'m \<Rightarrow> 'k \<Rightarrow> ('k \<times> 'v) option"
    and after :: "'m \<Rightarrow> 'k \<Rightarrow> ('k \<times> 'v) option"
    and invar :: "'m \<Rightarrow> bool"
  assumes invar_empty: "invar empty"
    and invar_insert: "invar m \<Longrightarrow> invar (snd (insert k v m))"
    and get_empty: "get empty k = None"
    and get_insert: "invar m \<Longrightarrow> get (snd (insert k v m)) = (get m)(k \<mapsto> v)"
    and insert_old: "fst (insert k v m) = get m k"
    and entries_sorted: "invar m \<Longrightarrow> sorted_wrt (<) (map fst (entries m))"
    and entries_get: "invar m \<Longrightarrow> map_of (entries m) = get m"
    and before_Some: "invar m \<Longrightarrow> before m k = Some (a, v) \<longleftrightarrow>
          get m a = Some v \<and> a < k \<and> (\<forall>b. get m b \<noteq> None \<longrightarrow> b < k \<longrightarrow> b \<le> a)"
    and after_Some: "invar m \<Longrightarrow> after m k = Some (a, v) \<longleftrightarrow>
          get m a = Some v \<and> k < a \<and> (\<forall>b. get m b \<noteq> None \<longrightarrow> k < b \<longrightarrow> a \<le> b)"
begin

lemma entries_distinct: "invar m \<Longrightarrow> distinct (map fst (entries m))"
  using entries_sorted by (simp add: strict_sorted_iff)

lemma entries_mem: "invar m \<Longrightarrow> (k, v) \<in> set (entries m) \<longleftrightarrow> get m k = Some v"
  using entries_distinct [of m] entries_get [of m] by (metis map_of_eq_Some_iff)

lemma entries_keys: "invar m \<Longrightarrow> fst ` set (entries m) = dom (get m)"
  using entries_get [of m] by (metis dom_map_of_conv_image_fst)

text \<open>Two maps with the same lookups iterate over the same entries in the same order.\<close>

lemma entries_ext:
  assumes "invar m" "invar n" "get m = get n"
  shows "entries m = entries n"
proof (rule map_sorted_distinct_set_unique [where f = fst])
  show "inj_on fst (set (entries m) \<union> set (entries n))"
    using assms by (auto simp: inj_on_def entries_mem)
  show "set (entries m) = set (entries n)"
    using assms by (auto simp: entries_mem)
qed (use assms entries_sorted entries_distinct in \<open>auto simp: strict_sorted_iff\<close>)

lemma before_entry: "invar m \<Longrightarrow> before m k = Some (a, v) \<Longrightarrow> get m a = Some v \<and> a < k"
  by (simp add: before_Some)

lemma after_entry: "invar m \<Longrightarrow> after m k = Some (a, v) \<Longrightarrow> get m a = Some v \<and> k < a"
  by (simp add: after_Some)

text \<open>
  Inserting a list of entries one after the other. The result looks up the last value written
  for a key and falls back to the old map, as the update \<open>m ++ map_of (rev es)\<close> does.
\<close>

fun insert_all :: "('k \<times> 'v) list \<Rightarrow> 'm \<Rightarrow> 'm" where
  "insert_all [] m = m"
| "insert_all ((k, v) # es) m = insert_all es (snd (insert k v m))"

lemma insert_all_invar: "invar m \<Longrightarrow> invar (insert_all es m)"
  by (induction es m rule: insert_all.induct) (auto simp: invar_insert)

lemma insert_all_get: "invar m \<Longrightarrow> get (insert_all es m) = get m ++ map_of (rev es)"
proof (induction es m rule: insert_all.induct)
  case (1 m)
  then show ?case by simp
next
  case (2 k v es m)
  then have "get (insert_all es (snd (insert k v m))) = (get m)(k \<mapsto> v) ++ map_of (rev es)"
    by (simp only: invar_insert get_insert)
  then show ?case by (simp add: map_add_assoc [symmetric] map_add_upd_left fun_upd_def [symmetric] map_add_def fun_eq_iff split: option.splits)
qed

end

section \<open>The association-list model meets it\<close>

lemma btree_get_map_of [simp]: "btree_get m = map_of m"
proof
  show "btree_get m k = map_of m k" for k by (induction m k rule: btree_get.induct) auto
qed

lemma map_of_btree_put [simp]: "map_of (btree_put k v m) = (map_of m)(k \<mapsto> v)"
  by (induction k v m rule: btree_put.induct) (auto simp: fun_eq_iff)

lemma keys_btree_put: "fst ` set (btree_put k v m) = insert k (fst ` set m)"
  by (induction k v m rule: btree_put.induct) auto

lemma btree_put_invar: "btree_invar m \<Longrightarrow> btree_invar (btree_put k v m)"
  unfolding btree_invar_def
proof (induction k v m rule: btree_put.induct)
  case (1 k v)
  then show ?case by simp
next
  case (2 k v a u m)
  then have "\<forall>b \<in> fst ` set (btree_put k v m). b = k \<or> b \<in> fst ` set m"
    by (simp add: keys_btree_put)
  with 2 show ?case by fastforce
qed

lemma btree_distinct: "btree_invar m \<Longrightarrow> distinct (map fst m)"
  by (simp add: btree_invar_def strict_sorted_iff)

lemma btree_mem: "btree_invar m \<Longrightarrow> (k, v) \<in> set m \<longleftrightarrow> map_of m k = Some v"
  by (metis btree_distinct map_of_eq_Some_iff)

lemma sorted_last_max:
  fixes es :: "('k::linorder \<times> 'v) list"
  assumes "sorted_wrt (<) (map fst es)" "e \<in> set es"
  shows "fst e \<le> fst (last es)"
  using assms by (induction es) (auto simp: order.strict_implies_order)

lemma sorted_hd_min:
  fixes es :: "('k::linorder \<times> 'v) list"
  assumes "sorted_wrt (<) (map fst es)" "e \<in> set es"
  shows "fst (hd es) \<le> fst e"
  using assms by (cases es) auto

lemma sorted_filter_keys:
  fixes es :: "('k::linorder \<times> 'v) list"
  assumes "sorted_wrt (<) (map fst es)"
  shows "sorted_wrt (<) (map fst (filter P es))"
  using assms by (induction es) auto

lemma btree_before_Some:
  assumes inv: "btree_invar m"
  shows "btree_before m k = Some (a, v) \<longleftrightarrow>
    map_of m a = Some v \<and> a < k \<and> (\<forall>b. map_of m b \<noteq> None \<longrightarrow> b < k \<longrightarrow> b \<le> a)"
proof -
  define es where "es = filter (\<lambda>(a, _). a < k) m"
  have sorted: "sorted_wrt (<) (map fst es)"
    using inv by (simp add: es_def btree_invar_def sorted_filter_keys)
  have mem: "(b, u) \<in> set es \<longleftrightarrow> map_of m b = Some u \<and> b < k" for b u
    using inv by (auto simp: es_def btree_mem)
  have before: "btree_before m k = (if es = [] then None else Some (last es))"
    by (simp add: btree_before_def es_def split: list.splits)
  show ?thesis
  proof
    assume "btree_before m k = Some (a, v)"
    then have "es \<noteq> []" and last: "last es = (a, v)" by (auto simp: before split: if_splits)
    then have "(a, v) \<in> set es" by (metis last_in_set)
    moreover have "b \<le> a" if "map_of m b = Some u" "b < k" for b u
      using sorted_last_max [OF sorted, of "(b, u)"] that last by (simp add: mem)
    ultimately show "map_of m a = Some v \<and> a < k \<and> (\<forall>b. map_of m b \<noteq> None \<longrightarrow> b < k \<longrightarrow> b \<le> a)"
      by (auto simp: mem)
  next
    assume r: "map_of m a = Some v \<and> a < k \<and> (\<forall>b. map_of m b \<noteq> None \<longrightarrow> b < k \<longrightarrow> b \<le> a)"
    then have in_es: "(a, v) \<in> set es" by (simp add: mem)
    then have ne: "es \<noteq> []" by auto
    obtain b u where bu: "last es = (b, u)" by fastforce
    then have "(b, u) \<in> set es" using ne by (metis last_in_set)
    then have b: "map_of m b = Some u" "b < k" by (simp_all add: mem)
    moreover have "a \<le> b" using sorted_last_max [OF sorted in_es] bu by simp
    ultimately have "b = a" using r by force
    with b r bu ne show "btree_before m k = Some (a, v)" by (simp add: before)
  qed
qed

lemma btree_after_Some:
  assumes inv: "btree_invar m"
  shows "btree_after m k = Some (a, v) \<longleftrightarrow>
    map_of m a = Some v \<and> k < a \<and> (\<forall>b. map_of m b \<noteq> None \<longrightarrow> k < b \<longrightarrow> a \<le> b)"
proof -
  define es where "es = filter (\<lambda>(a, _). k < a) m"
  have sorted: "sorted_wrt (<) (map fst es)"
    using inv by (simp add: es_def btree_invar_def sorted_filter_keys)
  have mem: "(b, u) \<in> set es \<longleftrightarrow> map_of m b = Some u \<and> k < b" for b u
    using inv by (auto simp: es_def btree_mem)
  have after: "btree_after m k = (if es = [] then None else Some (hd es))"
    by (simp add: btree_after_def es_def split: list.splits)
  show ?thesis
  proof
    assume "btree_after m k = Some (a, v)"
    then have "es \<noteq> []" and hd: "hd es = (a, v)" by (auto simp: after split: if_splits)
    then have "(a, v) \<in> set es" by (metis hd_in_set)
    moreover have "a \<le> b" if "map_of m b = Some u" "k < b" for b u
      using sorted_hd_min [OF sorted, of "(b, u)"] that hd by (simp add: mem)
    ultimately show "map_of m a = Some v \<and> k < a \<and> (\<forall>b. map_of m b \<noteq> None \<longrightarrow> k < b \<longrightarrow> a \<le> b)"
      by (auto simp: mem)
  next
    assume r: "map_of m a = Some v \<and> k < a \<and> (\<forall>b. map_of m b \<noteq> None \<longrightarrow> k < b \<longrightarrow> a \<le> b)"
    then have in_es: "(a, v) \<in> set es" by (simp add: mem)
    then have ne: "es \<noteq> []" by auto
    obtain b u where bu: "hd es = (b, u)" by fastforce
    then have "(b, u) \<in> set es" using ne by (metis hd_in_set)
    then have b: "map_of m b = Some u" "k < b" by (simp_all add: mem)
    moreover have "b \<le> a" using sorted_hd_min [OF sorted in_es] bu by simp
    ultimately have "b = a" using r by force
    with b r bu ne show "btree_after m k = Some (a, v)" by (simp add: after)
  qed
qed

interpretation btree: ordered_map "[]" btree_insert btree_get "\<lambda>m. m" btree_before btree_after btree_invar
proof (unfold_locales, goal_cases)
  case 1
  then show ?case by (simp add: btree_invar_def)
next
  case (6 m)
  then show ?case by (simp add: btree_invar_def)
qed (simp_all add: btree_insert_def btree_put_invar btree_before_Some btree_after_Some)

end
