(* ===== verification/State.thy ===== *)
theory State
  imports Ssz BTree_Map
begin

text \<open>
  The reference state backend (\<^verbatim>\<open>crates/shell-state/src\<close>: \<^verbatim>\<open>transition.rs\<close>, \<^verbatim>\<open>witness.rs\<close>,
  \<^verbatim>\<open>accumulator.rs\<close>, \<^verbatim>\<open>reference_applier.rs\<close>, \<^verbatim>\<open>views.rs\<close>).

  \<open>InMemoryAccumulator\<close> keeps its leaves in a \<open>BTreeMap\<close> and a stored root; its mutating method is
  an action on it. Its specification is the partial function \<open>contents\<close> from state keys to
  values. The locale \<open>state_accumulator\<close> is the contract of the \<open>StateAccumulator\<close> and
  \<open>WitnessVerifier\<close> traits over that function, the locale \<open>transition_applier\<close> the contract of
  \<open>StateTransitionApplier\<close>; both are interpreted on the reference backend.
\<close>

section \<open>Errors and patches\<close>

datatype StateError =
    InvalidStateKeyEncoding string
  | NonCanonicalWitnessOrdering (ordering_index: usize) (ordering_context: string)
  | RootContinuityMismatch (continuity_expected: Root) (continuity_actual: Root)
  | WitnessVerificationFailed string
  | UnsupportedProofShape string
  | TransitionShapeMismatch (shape_accesses: usize) (shape_new_values: usize)
  | Backend string

record StatePatch =
  accesses :: "StateKey list"
  new_values :: "bytes list"

definition validate_shape :: "StatePatch \<Rightarrow> (unit, StateError) result" where
  "validate_shape patch =
     (if length (accesses patch) \<noteq> length (new_values patch)
      then Err (TransitionShapeMismatch (length (accesses patch)) (length (new_values patch)))
      else Ok ())"

record StateTransitionOutcome =
  post_state_root :: Root

section \<open>Canonical order\<close>

text \<open>The loop over \<open>windows(2).enumerate()\<close>, started at window \<open>index\<close>.\<close>

fun check_key_windows :: "string \<Rightarrow> nat \<Rightarrow> StateKey list \<Rightarrow> (unit, StateError) result" where
  "check_key_windows context index (a # b # rest) =
     (if compare_state_keys a b \<noteq> Less then Err (NonCanonicalWitnessOrdering (index + 1) context)
      else check_key_windows context (index + 1) (b # rest))"
| "check_key_windows context index _ = Ok ()"

definition ensure_canonical_witness_order :: "StateWitness list \<Rightarrow> (unit, StateError) result" where
  "ensure_canonical_witness_order witnesses =
     check_key_windows ''witness keys must be strictly increasing in canonical StateKey order'' 0
       (map witness_key witnesses)"

definition ensure_canonical_access_order :: "StateKey list \<Rightarrow> (unit, StateError) result" where
  "ensure_canonical_access_order keys =
     check_key_windows ''access keys must be strictly increasing in canonical StateKey order'' 0 keys"

definition REFERENCE_BACKEND_PROOF_SHAPE_CONTEXT :: string where
  "REFERENCE_BACKEND_PROOF_SHAPE_CONTEXT =
     ''reference backend derives proof paths locally and does not interpret committed proof bytes''"

definition ensure_reference_backend_proof_shape :: "StateWitness \<Rightarrow> (unit, StateError) result" where
  "ensure_reference_backend_proof_shape w =
     (case proof_shape w of
        ReferenceEmpty \<Rightarrow> Ok ()
      | PlaceholderCommittedNodes \<Rightarrow> Err (UnsupportedProofShape REFERENCE_BACKEND_PROOF_SHAPE_CONTEXT))"

section \<open>The accumulator\<close>

record StoredLeaf =
  stored_key :: StateKey
  stored_value :: bytes

record InMemoryAccumulator =
  leaves :: "(StateKeyBytes, StoredLeaf) btree_map"
  acc_root :: Root

record ReferenceProofLeaf =
  proof_key :: StateKey
  proof_canonical_key :: StateKeyBytes
  proof_leaf_value :: bytes

record ReferenceProofPath =
  path_expected_root :: Root
  path_leaf :: ReferenceProofLeaf
  path_left_neighbor :: "ReferenceProofLeaf option"
  path_right_neighbor :: "ReferenceProofLeaf option"

definition path_verify_witness ::
  "ReferenceProofPath \<Rightarrow> StateWitness \<Rightarrow> Root \<Rightarrow> (unit, StateError) result" where
  "path_verify_witness path w expected_state_root =
     (if path_expected_root path \<noteq> expected_state_root
      then Err (WitnessVerificationFailed ''reference proof path was built against a different state root'')
      else if proof_key (path_leaf path) \<noteq> witness_key w
      then Err (WitnessVerificationFailed ''reference proof leaf does not match witness key'')
      else if proof_leaf_value (path_leaf path) \<noteq> witness_leaf_value w
      then Err (WitnessVerificationFailed ''reference proof leaf does not match witness value'')
      else if (case path_left_neighbor path of None \<Rightarrow> False
               | Some l \<Rightarrow> compare_state_keys (proof_key l) (witness_key w) \<noteq> Less)
      then Err (WitnessVerificationFailed
             ''reference proof left boundary is not ordered before the witness key'')
      else if (case path_right_neighbor path of None \<Rightarrow> False
               | Some r \<Rightarrow> compare_state_keys (witness_key w) (proof_key r) \<noteq> Less)
      then Err (WitnessVerificationFailed
             ''reference proof right boundary is not ordered after the witness key'')
      else Ok ())"

definition new_accumulator :: InMemoryAccumulator where
  "new_accumulator = \<lparr>leaves = [], acc_root = zero_bytes 32\<rparr>"

definition acc_len :: "InMemoryAccumulator \<Rightarrow> usize" where
  "acc_len acc = length (leaves acc)"

definition acc_is_empty :: "InMemoryAccumulator \<Rightarrow> bool" where
  "acc_is_empty acc = (leaves acc = [])"

definition from_stored_leaf :: "StateKeyBytes \<Rightarrow> StoredLeaf \<Rightarrow> ReferenceProofLeaf" where
  "from_stored_leaf canonical_key leaf =
     \<lparr>proof_key = stored_key leaf, proof_canonical_key = canonical_key, proof_leaf_value = stored_value leaf\<rparr>"

definition proof_path_for_access ::
  "InMemoryAccumulator \<Rightarrow> StateKey \<Rightarrow> (ReferenceProofPath, StateError) result" where
  "proof_path_for_access acc access =
     (let canonical_key = encode_state_key access in
      bind_result (ok_or (btree_get (leaves acc) canonical_key)
                     (Backend ''reference backend only supports proof paths for materialized keys'')) (\<lambda>leaf.
      Ok \<lparr>path_expected_root = acc_root acc,
          path_leaf = from_stored_leaf canonical_key leaf,
          path_left_neighbor =
            map_option (\<lambda>(k, l). from_stored_leaf k l) (btree_before (leaves acc) canonical_key),
          path_right_neighbor =
            map_option (\<lambda>(k, l). from_stored_leaf k l) (btree_after (leaves acc) canonical_key)\<rparr>))"

definition derive_proof_path ::
  "InMemoryAccumulator \<Rightarrow> StateWitness \<Rightarrow> (ReferenceProofPath, StateError) result" where
  "derive_proof_path acc w =
     bind_result (ensure_reference_backend_proof_shape w) (\<lambda>_.
     bind_result (proof_path_for_access acc (witness_key w)) (\<lambda>path.
     bind_result (path_verify_witness path w (acc_root acc)) (\<lambda>_.
     Ok path)))"

definition apply_leaf :: "StateKey \<Rightarrow> bytes \<Rightarrow> InMemoryAccumulator \<Rightarrow> InMemoryAccumulator" where
  "apply_leaf key v acc =
     acc\<lparr>leaves := snd (btree_insert (encode_state_key key) \<lparr>stored_key = key, stored_value = v\<rparr> (leaves acc))\<rparr>"

definition leaf_preimage :: "StateKeyBytes \<Rightarrow> StoredLeaf \<Rightarrow> bytes" where
  "leaf_preimage canonical_key leaf =
     ascii ''shell-state/reference-leaf/v1''
     @ u32_to_be_bytes (usize_as_u32 (length (as_slice canonical_key)))
     @ as_slice canonical_key
     @ u32_to_be_bytes (usize_as_u32 (length (stored_value leaf)))
     @ stored_value leaf"

definition reference_leaf_digest :: "hash_fun \<Rightarrow> StateKeyBytes \<Rightarrow> StoredLeaf \<Rightarrow> Root" where
  "reference_leaf_digest sha canonical_key leaf = sha (leaf_preimage canonical_key leaf)"

definition root_preimage :: "hash_fun \<Rightarrow> (StateKeyBytes, StoredLeaf) btree_map \<Rightarrow> bytes" where
  "root_preimage sha m =
     ascii ''shell-state/reference-root/v1''
     @ concat (map (\<lambda>(k, leaf). reference_leaf_digest sha k leaf) m)"

definition compute_reference_root :: "hash_fun \<Rightarrow> (StateKeyBytes, StoredLeaf) btree_map \<Rightarrow> Root" where
  "compute_reference_root sha m = sha (root_preimage sha m)"

definition recompute_root :: "hash_fun \<Rightarrow> InMemoryAccumulator \<Rightarrow> InMemoryAccumulator" where
  "recompute_root sha acc = acc\<lparr>acc_root := compute_reference_root sha (leaves acc)\<rparr>"

definition get_witness_for_accesses ::
  "InMemoryAccumulator \<Rightarrow> StateKey list \<Rightarrow> (StateWitness list, StateError) result" where
  "get_witness_for_accesses acc keys =
     bind_result (ensure_canonical_access_order keys) (\<lambda>_.
     collect_results (\<lambda>access.
       bind_result (proof_path_for_access acc access) (\<lambda>path.
       Ok \<lparr>witness_key = access, witness_leaf_value = proof_leaf_value (path_leaf path),
           witness_proof = []\<rparr>)) keys)"

definition acc_apply_transition ::
  "hash_fun \<Rightarrow> StatePatch \<Rightarrow> (InMemoryAccumulator, Root, StateError) action" where
  "acc_apply_transition sha patch =
     bind_action (lift_result (validate_shape patch)) (\<lambda>_.
     bind_action (lift_result (ensure_canonical_access_order (accesses patch))) (\<lambda>_ acc.
       let acc = fold (\<lambda>(access, new_value). apply_leaf access new_value)
                   (zip (accesses patch) (new_values patch)) acc;
           acc = recompute_root sha acc
       in (Ok (acc_root acc), acc)))"

definition acc_verify_witness ::
  "InMemoryAccumulator \<Rightarrow> StateWitness \<Rightarrow> Root \<Rightarrow> (unit, StateError) result" where
  "acc_verify_witness acc w expected_state_root =
     bind_result (derive_proof_path acc w) (\<lambda>path. path_verify_witness path w expected_state_root)"

text \<open>The provided method \<open>WitnessVerifier::verify_witnesses\<close>, over any \<open>verify_witness\<close>.\<close>

definition verify_witnesses ::
  "(StateWitness \<Rightarrow> Root \<Rightarrow> (unit, StateError) result) \<Rightarrow> StateWitness list \<Rightarrow> Root \<Rightarrow> (unit, StateError) result" where
  "verify_witnesses verify_witness witnesses expected_state_root =
     bind_result (ensure_canonical_witness_order witnesses) (\<lambda>_.
     for_each (\<lambda>w. verify_witness w expected_state_root) witnesses)"

section \<open>The applier\<close>

text \<open>A \<open>RefCell\<close>: its value and whether a borrow is outstanding when the method is called.\<close>

record ReferenceStateApplier =
  applier_accumulator :: InMemoryAccumulator
  applier_borrowed :: bool

definition new_applier :: "InMemoryAccumulator \<Rightarrow> ReferenceStateApplier" where
  "new_applier acc = \<lparr>applier_accumulator = acc, applier_borrowed = False\<rparr>"

definition applier_state_root :: "ReferenceStateApplier \<Rightarrow> Root" where
  "applier_state_root applier = acc_root (applier_accumulator applier)"

definition applier_apply_transition ::
  "hash_fun \<Rightarrow> Root \<Rightarrow> StatePatch \<Rightarrow> (ReferenceStateApplier, StateTransitionOutcome, StateError) action" where
  "applier_apply_transition sha pre_state_root patch applier =
     (if applier_borrowed applier
      then (Err (Backend ''reference state applier accumulator is already borrowed''), applier)
      else
        let accumulator = applier_accumulator applier; actual_root = acc_root accumulator in
        if actual_root \<noteq> pre_state_root
        then (Err (RootContinuityMismatch pre_state_root actual_root), applier)
        else
          case acc_apply_transition sha patch accumulator of
            (r, accumulator') \<Rightarrow>
              (map_ok (\<lambda>root. \<lparr>post_state_root = root\<rparr>) r, applier\<lparr>applier_accumulator := accumulator'\<rparr>))"

section \<open>Views\<close>

record ReadOnlyStateView =
  view_account_nonce :: "ExecutionAddress \<Rightarrow> u64 option"
  view_account_balance :: "ExecutionAddress \<Rightarrow> U256 option"

record StateMetadata =
  account_nonce :: "ExecutionAddress \<Rightarrow> u64 option"
  account_balance :: "ExecutionAddress \<Rightarrow> U256 option"

definition MetadataAdapter :: "ReadOnlyStateView \<Rightarrow> StateMetadata" where
  "MetadataAdapter inner = \<lparr>account_nonce = view_account_nonce inner, account_balance = view_account_balance inner\<rparr>"

section \<open>Order lemmas\<close>

lemma check_key_windows_Ok:
  "check_key_windows ctx i ks = Ok u \<longleftrightarrow> sorted_wrt (<) (map encode_state_key ks)"
  by (induction ctx i ks rule: check_key_windows.induct)
     (auto simp: compare_state_keys_Less intro: less_trans)

lemma check_key_windows_not_Panic [simp]: "check_key_windows ctx i ks \<noteq> Panic"
  by (induction ctx i ks rule: check_key_windows.induct) auto

lemma ensure_order_Ok [result_simps]:
  "ensure_canonical_access_order ks = Ok u \<longleftrightarrow> sorted_wrt (<) (map encode_state_key ks)"
  "ensure_canonical_witness_order ws = Ok u \<longleftrightarrow> sorted_wrt (<) (map (encode_state_key \<circ> witness_key) ws)"
  by (simp_all add: ensure_canonical_access_order_def ensure_canonical_witness_order_def check_key_windows_Ok)

lemma ensure_order_not_Panic [simp]:
  "ensure_canonical_access_order ks \<noteq> Panic" "ensure_canonical_witness_order ws \<noteq> Panic"
  by (simp_all add: ensure_canonical_access_order_def ensure_canonical_witness_order_def)

lemma validate_shape_simps [result_simps]:
  "validate_shape p = Ok u \<longleftrightarrow> length (accesses p) = length (new_values p)"
  "validate_shape p \<noteq> Panic"
  by (auto simp: validate_shape_def)

section \<open>Invariant and contents\<close>

definition wf_patch :: "StatePatch \<Rightarrow> bool" where
  "wf_patch p \<longleftrightarrow> (\<forall>k \<in> set (accesses p). wf_state_key k)"

definition canonical_patch :: "StatePatch \<Rightarrow> bool" where
  "canonical_patch p \<longleftrightarrow> length (accesses p) = length (new_values p) \<and>
     sorted_wrt (<) (map encode_state_key (accesses p))"

definition patch_map :: "StatePatch \<Rightarrow> StateKey \<Rightarrow> bytes option" where
  "patch_map p = map_of (zip (accesses p) (new_values p))"

text \<open>Every leaf sits under the canonical bytes of its own key, and keys have their Rust widths.\<close>

definition acc_invar :: "InMemoryAccumulator \<Rightarrow> bool" where
  "acc_invar acc \<longleftrightarrow> btree_invar (leaves acc) \<and>
     (\<forall>(k, leaf) \<in> set (leaves acc). k = encode_state_key (stored_key leaf) \<and> wf_state_key (stored_key leaf))"

definition contents :: "InMemoryAccumulator \<Rightarrow> StateKey \<Rightarrow> bytes option" where
  "contents acc k =
     (case btree_get (leaves acc) (encode_state_key k) of
        Some leaf \<Rightarrow> if stored_key leaf = k then Some (stored_value leaf) else None
      | None \<Rightarrow> None)"

lemma acc_invar_new [simp]: "acc_invar new_accumulator"
  by (simp add: acc_invar_def new_accumulator_def btree_invar_def)

lemma contents_new [simp]: "contents new_accumulator = Map.empty"
  by (simp add: contents_def new_accumulator_def fun_eq_iff)

lemma leaf_of_contents:
  assumes "acc_invar acc" "wf_state_key k"
  shows "map_of (leaves acc) (encode_state_key k) =
    map_option (\<lambda>v. \<lparr>stored_key = k, stored_value = v\<rparr>) (contents acc k)"
proof (cases "map_of (leaves acc) (encode_state_key k)")
  case (Some leaf)
  then have "(encode_state_key k, leaf) \<in> set (leaves acc)" by (rule map_of_SomeD)
  with assms have "stored_key leaf = k"
    by (auto simp: acc_invar_def dest: encode_state_key_inj)
  with Some show ?thesis by (simp add: contents_def)
qed (simp add: contents_def)

lemma contents_wf: "acc_invar acc \<Longrightarrow> contents acc k = Some v \<Longrightarrow> wf_state_key k"
  by (auto simp: contents_def acc_invar_def split: option.splits if_splits dest!: map_of_SomeD)

lemma apply_leaf_invar: "acc_invar acc \<Longrightarrow> wf_state_key k \<Longrightarrow> acc_invar (apply_leaf k v acc)"
proof -
  have "set (btree_put a b m) \<subseteq> insert (a, b) (set m)" for a :: StateKeyBytes and b :: StoredLeaf and m
    by (induction a b m rule: btree_put.induct) auto
  then show "acc_invar acc \<Longrightarrow> wf_state_key k \<Longrightarrow> acc_invar (apply_leaf k v acc)"
    by (fastforce simp: acc_invar_def apply_leaf_def btree_insert_def btree_put_invar)
qed

lemma contents_apply_leaf:
  assumes "acc_invar acc" "wf_state_key k"
  shows "contents (apply_leaf k v acc) = (contents acc)(k \<mapsto> v)"
proof
  fix l
  show "contents (apply_leaf k v acc) l = ((contents acc)(k \<mapsto> v)) l"
  proof (cases "wf_state_key l")
    case True
    with assms have "encode_state_key l = encode_state_key k \<longleftrightarrow> l = k"
      by (auto dest: encode_state_key_inj)
    then show ?thesis by (simp add: contents_def apply_leaf_def btree_insert_def)
  next
    case False
    with assms have "contents acc l = None" "contents (apply_leaf k v acc) l = None"
      using contents_wf apply_leaf_invar by (metis not_None_eq)+
    with False assms(2) show ?thesis by auto
  qed
qed

lemma apply_leaves:
  assumes "acc_invar acc" "\<forall>k \<in> fst ` set es. wf_state_key k"
  shows "acc_invar (fold (\<lambda>(k, v). apply_leaf k v) es acc) \<and>
    contents (fold (\<lambda>(k, v). apply_leaf k v) es acc) = contents acc ++ map_of (rev es)"
  using assms
proof (induction es arbitrary: acc)
  case (Cons e es)
  then show ?case
    by (cases e) (simp add: apply_leaf_invar contents_apply_leaf map_add_def fun_eq_iff split: option.splits)
qed simp

lemma canonical_patch_distinct: "canonical_patch p \<Longrightarrow> distinct (accesses p)"
  by (metis canonical_patch_def distinct_map strict_sorted_iff)

lemma recompute_root_simps [simp]:
  "acc_invar (recompute_root sha acc) = acc_invar acc" "contents (recompute_root sha acc) = contents acc"
  "leaves (recompute_root sha acc) = leaves acc"
  "acc_root (recompute_root sha acc) = compute_reference_root sha (leaves acc)"
  by (simp_all add: recompute_root_def acc_invar_def contents_def fun_eq_iff)

lemma acc_apply_transition_ok:
  assumes "acc_invar acc" "wf_patch p" "canonical_patch p"
  obtains acc' where "acc_apply_transition sha p acc = (Ok (acc_root acc'), acc')" "acc_invar acc'"
    "contents acc' = contents acc ++ patch_map p" "acc_root acc' = compute_reference_root sha (leaves acc')"
proof -
  let ?es = "zip (accesses p) (new_values p)"
  let ?acc = "fold (\<lambda>(k, v). apply_leaf k v) ?es acc"
  have "fst ` set ?es \<subseteq> set (accesses p)" by (auto dest: set_zip_leftD)
  with assms have "acc_invar ?acc" "contents ?acc = contents acc ++ map_of (rev ?es)"
    using apply_leaves [of acc ?es] by (auto simp: wf_patch_def)
  moreover have "map_of (rev ?es) = patch_map p"
    using assms canonical_patch_distinct [of p]
    by (simp add: patch_map_def canonical_patch_def map_of_inject_set rev_map [symmetric])
  moreover have "acc_apply_transition sha p acc = (Ok (acc_root (recompute_root sha ?acc)), recompute_root sha ?acc)"
  proof -
    have "ensure_canonical_access_order (accesses p) = Ok ()"
      using assms(3) by (simp add: ensure_order_Ok canonical_patch_def)
    then show ?thesis
      using assms(3) by (simp add: acc_apply_transition_def validate_shape_def canonical_patch_def Let_def)
  qed
  ultimately show ?thesis
    using that [of "recompute_root sha ?acc"] by simp
qed

lemma acc_apply_transition_bad:
  assumes "\<not> canonical_patch p"
  obtains e where "acc_apply_transition sha p acc = (Err e, acc)"
  using assms
  by (cases "validate_shape p"; cases "ensure_canonical_access_order (accesses p)")
     (auto simp: acc_apply_transition_def canonical_patch_def validate_shape_simps ensure_order_Ok)

lemma acc_apply_transition_Ok:
  assumes "acc_apply_transition sha p acc = (Ok r, acc')" "acc_invar acc" "wf_patch p"
  shows "canonical_patch p \<and> acc_invar acc' \<and> contents acc' = contents acc ++ patch_map p \<and>
    r = acc_root acc' \<and> acc_root acc' = compute_reference_root sha (leaves acc')"
proof (cases "canonical_patch p")
  case True
  then show ?thesis using acc_apply_transition_ok [OF assms(2,3), of sha] assms(1) by (metis Pair_inject result.inject(1))
next
  case False
  then show ?thesis using acc_apply_transition_bad [of p sha acc] assms(1) by auto
qed

text \<open>Two accumulators with the same contents have the same leaves, so the same computed root.\<close>

lemma contents_leaves:
  assumes "acc_invar a" "acc_invar b" "contents a = contents b"
  shows "leaves a = leaves b"
proof (rule btree.entries_ext)
  have sub: "map_of (leaves x) k = Some leaf \<Longrightarrow> map_of (leaves y) k = Some leaf"
    if "acc_invar x" "acc_invar y" "contents x = contents y" for x y k leaf
  proof -
    assume leaf: "map_of (leaves x) k = Some leaf"
    then have "k = encode_state_key (stored_key leaf)" "wf_state_key (stored_key leaf)"
      using that(1) by (auto simp: acc_invar_def dest!: map_of_SomeD)
    then show "map_of (leaves y) k = Some leaf"
      using leaf leaf_of_contents [OF that(1)] leaf_of_contents [OF that(2)] that(3) by simp
  qed
  have "map_of (leaves a) k = map_of (leaves b) k" for k
    using sub [of a b k] sub [of b a k] assms by (cases "map_of (leaves a) k"; cases "map_of (leaves b) k") auto
  then show "btree_get (leaves a) = btree_get (leaves b)" by (simp add: fun_eq_iff)
qed (use assms in \<open>simp_all add: acc_invar_def\<close>)

section \<open>Witness lemmas\<close>

lemma proof_path_Ok:
  "proof_path_for_access acc k = Ok path \<longleftrightarrow>
     (\<exists>leaf. map_of (leaves acc) (encode_state_key k) = Some leaf \<and>
        path = \<lparr>path_expected_root = acc_root acc,
          path_leaf = from_stored_leaf (encode_state_key k) leaf,
          path_left_neighbor = map_option (\<lambda>(k, l). from_stored_leaf k l)
             (btree_before (leaves acc) (encode_state_key k)),
          path_right_neighbor = map_option (\<lambda>(k, l). from_stored_leaf k l)
             (btree_after (leaves acc) (encode_state_key k))\<rparr>)"
  by (auto simp: proof_path_for_access_def Let_def result_simps)

lemma neighbors_ordered:
  assumes "acc_invar acc"
  shows "btree_before (leaves acc) (encode_state_key k) = Some (a, l) \<Longrightarrow>
      compare_state_keys (stored_key l) k = Less"
    and "btree_after (leaves acc) (encode_state_key k) = Some (b, r) \<Longrightarrow>
      compare_state_keys k (stored_key r) = Less"
proof -
  have leaf: "a = encode_state_key (stored_key l)" if "map_of (leaves acc) a = Some l" for a l
    using that assms by (auto simp: acc_invar_def dest!: map_of_SomeD)
  show "btree_before (leaves acc) (encode_state_key k) = Some (a, l) \<Longrightarrow> compare_state_keys (stored_key l) k = Less"
    using assms leaf [of a l] btree.before_entry [of "leaves acc" "encode_state_key k" a l]
    by (simp add: acc_invar_def compare_state_keys_Less)
  show "btree_after (leaves acc) (encode_state_key k) = Some (b, r) \<Longrightarrow> compare_state_keys k (stored_key r) = Less"
    using assms leaf [of b r] btree.after_entry [of "leaves acc" "encode_state_key k" b r]
    by (simp add: acc_invar_def compare_state_keys_Less)
qed

lemma path_verify_own:
  assumes "acc_invar acc" "wf_state_key (witness_key w)" "proof_path_for_access acc (witness_key w) = Ok path"
  shows "path_verify_witness path w r = Ok () \<longleftrightarrow>
    r = acc_root acc \<and> contents acc (witness_key w) = Some (witness_leaf_value w)"
  using assms leaf_of_contents [OF assms(1,2)] neighbors_ordered [OF assms(1), of "witness_key w"]
  by (auto simp: proof_path_Ok path_verify_witness_def from_stored_leaf_def split: option.splits)

lemma acc_verify_witness_Ok:
  assumes "acc_invar acc" "wf_state_key (witness_key w)"
  shows "acc_verify_witness acc w r = Ok () \<longleftrightarrow>
    r = acc_root acc \<and> witness_proof w = [] \<and> contents acc (witness_key w) = Some (witness_leaf_value w)"
proof -
  have "\<exists>path. proof_path_for_access acc (witness_key w) = Ok path" if "contents acc (witness_key w) = Some v" for v
    using that leaf_of_contents [OF assms] by (simp add: proof_path_Ok)
  then show ?thesis
    using path_verify_own [OF assms]
    by (auto simp: acc_verify_witness_def derive_proof_path_def result_simps
        ensure_reference_backend_proof_shape_def proof_shape_def)
qed

lemma get_witness_Ok:
  assumes "acc_invar acc" "\<forall>k \<in> set ks. wf_state_key k"
  shows "get_witness_for_accesses acc ks = Ok ws \<longleftrightarrow>
    sorted_wrt (<) (map encode_state_key ks) \<and> (\<forall>k \<in> set ks. contents acc k \<noteq> None) \<and>
    ws = map (\<lambda>k. \<lparr>witness_key = k, witness_leaf_value = the (contents acc k), witness_proof = []\<rparr>) ks"
proof -
  have step: "bind_result (proof_path_for_access acc k) (\<lambda>path.
      Ok \<lparr>witness_key = k, witness_leaf_value = proof_leaf_value (path_leaf path), witness_proof = []\<rparr>) = Ok w \<longleftrightarrow>
    contents acc k \<noteq> None \<and>
    w = \<lparr>witness_key = k, witness_leaf_value = the (contents acc k), witness_proof = []\<rparr>"
    if "k \<in> set ks" for k w
    using that assms by (auto simp: result_simps proof_path_Ok from_stored_leaf_def leaf_of_contents)
  have elements: "list_all2 (\<lambda>k w. bind_result (proof_path_for_access acc k) (\<lambda>path.
      Ok \<lparr>witness_key = k, witness_leaf_value = proof_leaf_value (path_leaf path), witness_proof = []\<rparr>) = Ok w) ks ws \<longleftrightarrow>
    list_all2 (\<lambda>k w. contents acc k \<noteq> None \<and>
      w = \<lparr>witness_key = k, witness_leaf_value = the (contents acc k), witness_proof = []\<rparr>) ks ws"
    by (rule list.rel_cong [OF refl refl]) (rule step)
  show ?thesis
  proof (cases "ensure_canonical_access_order ks")
    case (Ok u)
    then show ?thesis
      using elements ensure_order_Ok(1) [of ks u]
      by (simp add: get_witness_for_accesses_def collect_results_Ok_iff)
         (auto simp: list_all2_conv_all_nth list_eq_iff_nth_eq all_set_conv_all_nth)
  qed (use ensure_order_Ok(1) [of ks "()"] in \<open>auto simp: get_witness_for_accesses_def\<close>)
qed

section \<open>The contract of an accumulator\<close>

locale state_accumulator =
  fixes step :: "StatePatch \<Rightarrow> ('acc, Root, StateError) action"
    and witnesses :: "'acc \<Rightarrow> StateKey list \<Rightarrow> (StateWitness list, StateError) result"
    and verify :: "'acc \<Rightarrow> StateWitness \<Rightarrow> Root \<Rightarrow> (unit, StateError) result"
    and root :: "'acc \<Rightarrow> Root"
    and abs :: "'acc \<Rightarrow> StateKey \<Rightarrow> bytes option"
    and invar :: "'acc \<Rightarrow> bool"
  assumes apply_canonical: "invar a \<Longrightarrow> wf_patch p \<Longrightarrow> canonical_patch p \<Longrightarrow>
      \<exists>a'. step p a = (Ok (root a'), a') \<and> invar a' \<and> abs a' = abs a ++ patch_map p"
    and apply_rejected: "\<not> canonical_patch p \<Longrightarrow> \<exists>e. step p a = (Err e, a)"
    and root_of_contents: "step p a = (Ok r, a') \<Longrightarrow> step q b = (Ok s, b') \<Longrightarrow> invar a \<Longrightarrow> invar b \<Longrightarrow>
      wf_patch p \<Longrightarrow> wf_patch q \<Longrightarrow> abs a' = abs b' \<Longrightarrow> r = s"
    and verify_iff: "invar a \<Longrightarrow> wf_state_key (witness_key w) \<Longrightarrow> verify a w r = Ok () \<longleftrightarrow>
      r = root a \<and> witness_proof w = [] \<and> abs a (witness_key w) = Some (witness_leaf_value w)"
    and witnesses_iff: "invar a \<Longrightarrow> \<forall>k \<in> set ks. wf_state_key k \<Longrightarrow> witnesses a ks = Ok ws \<longleftrightarrow>
      sorted_wrt (<) (map encode_state_key ks) \<and> (\<forall>k \<in> set ks. abs a k \<noteq> None) \<and>
      ws = map (\<lambda>k. \<lparr>witness_key = k, witness_leaf_value = the (abs a k), witness_proof = []\<rparr>) ks"
begin

definition run :: "StatePatch list \<Rightarrow> 'acc \<Rightarrow> 'acc" where
  "run ps a = fold (\<lambda>p a. snd (step p a)) ps a"

text \<open>A run of patches is the run of its canonical patches on the contents.\<close>

lemma run_contents:
  assumes "invar a" "\<forall>p \<in> set ps. wf_patch p"
  shows "invar (run ps a) \<and>
    abs (run ps a) = fold (\<lambda>p m. if canonical_patch p then m ++ patch_map p else m) ps (abs a)"
  using assms
proof (induction ps arbitrary: a)
  case (Cons p ps)
  have "invar (snd (step p a)) \<and>
    abs (snd (step p a)) = (if canonical_patch p then abs a ++ patch_map p else abs a)"
    using Cons.prems apply_canonical [of a p] apply_rejected [of p a] by (cases "canonical_patch p") auto
  with Cons show ?case by (simp add: run_def)
qed (simp add: run_def)

lemma served_witnesses_verify:
  assumes "invar a" "\<forall>k \<in> set ks. wf_state_key k" "witnesses a ks = Ok ws"
  shows "verify_witnesses (verify a) ws (root a) = Ok ()"
  using assms
  by (auto simp: witnesses_iff verify_witnesses_def result_simps verify_iff o_def)

lemma verified_witnesses_true:
  assumes "invar a" "\<forall>w \<in> set ws. wf_witness w" "verify_witnesses (verify a) ws r = Ok ()"
  shows "r = root a \<or> ws = []" "\<forall>w \<in> set ws. abs a (witness_key w) = Some (witness_leaf_value w)"
    "distinct (map witness_key ws)"
proof -
  have "\<forall>w \<in> set ws. verify a w r = Ok ()"
    and sorted: "sorted_wrt (<) (map (encode_state_key \<circ> witness_key) ws)"
    using assms(3) by (auto simp: verify_witnesses_def result_simps)
  then show "r = root a \<or> ws = []" "\<forall>w \<in> set ws. abs a (witness_key w) = Some (witness_leaf_value w)"
    using assms(1,2) verify_iff by (cases ws; fastforce simp: wf_witness_def)+
  show "distinct (map witness_key ws)"
    using sorted by (metis distinct_map map_map strict_sorted_iff)
qed

end

interpretation acc: state_accumulator "acc_apply_transition sha" get_witness_for_accesses
  acc_verify_witness acc_root contents acc_invar for sha
proof
  show "\<exists>a'. acc_apply_transition sha p a = (Ok (acc_root a'), a') \<and> acc_invar a' \<and>
      contents a' = contents a ++ patch_map p"
    if "acc_invar a" "wf_patch p" "canonical_patch p" for a p
    using acc_apply_transition_ok [OF that] by metis
  show "\<exists>e. acc_apply_transition sha p a = (Err e, a)" if "\<not> canonical_patch p" for p a
    using acc_apply_transition_bad [OF that] by metis
  show "r = s" if "acc_apply_transition sha p a = (Ok r, a')" "acc_apply_transition sha q b = (Ok s, b')"
    "acc_invar a" "acc_invar b" "wf_patch p" "wf_patch q" "contents a' = contents b'" for p a r a' q b s b'
    using acc_apply_transition_Ok [OF that(1,3,5)] acc_apply_transition_Ok [OF that(2,4,6)]
      contents_leaves [of a' b'] that(7) by simp
qed (simp_all add: acc_verify_witness_Ok get_witness_Ok)

section \<open>The contract of a transition applier\<close>

locale transition_applier =
  fixes step :: "Root \<Rightarrow> StatePatch \<Rightarrow> ('w, StateTransitionOutcome, StateError) action"
    and root :: "'w \<Rightarrow> Root"
  assumes apply_Ok: "step pre p w = (Ok out, w') \<Longrightarrow> root w = pre \<and> root w' = post_state_root out"
    and apply_Err: "step pre p w = (Err e, w') \<Longrightarrow> w' = w"
    and apply_not_Panic: "fst (step pre p w) \<noteq> Panic"
begin

text \<open>Feeding each post root into the next call: the roots chain, and a failure changes nothing.\<close>

fun chain :: "Root \<Rightarrow> StatePatch list \<Rightarrow> ('w, Root, StateError) action" where
  "chain pre [] w = (Ok pre, w)"
| "chain pre (p # ps) w = bind_action (step pre p) (\<lambda>out. chain (post_state_root out) ps) w"

lemma chain_Ok: "chain pre ps w = (Ok r, w') \<Longrightarrow> ps \<noteq> [] \<Longrightarrow> root w = pre \<and> root w' = r"
proof (induction ps arbitrary: pre w)
  case (Cons p ps)
  from Cons.prems obtain out u where step: "step pre p w = (Ok out, u)" "chain (post_state_root out) ps u = (Ok r, w')"
    by (auto simp: bind_action_Ok_iff)
  with Cons.IH show ?case using apply_Ok [OF step(1)] by (cases "ps = []") auto
qed simp

lemma stale_root_rejected: "root w \<noteq> pre \<Longrightarrow> \<exists>e. step pre p w = (Err e, w)"
  using apply_Ok apply_Err apply_not_Panic
  by (metis prod.collapse result.exhaust)

end

lemma acc_apply_cases:
  obtains e where "acc_apply_transition sha p acc = (Err e, acc)"
  | acc' where "acc_apply_transition sha p acc = (Ok (acc_root acc'), acc')"
  by (cases "length (accesses p) = length (new_values p)"; cases "ensure_canonical_access_order (accesses p)")
     (auto simp: acc_apply_transition_def validate_shape_def Let_def)

lemma acc_apply_not_Panic: "fst (acc_apply_transition sha p acc) \<noteq> Panic"
  by (cases rule: acc_apply_cases [of sha p acc]) auto

lemma acc_apply_Err: "acc_apply_transition sha p acc = (Err e, acc') \<Longrightarrow> acc' = acc"
  by (cases rule: acc_apply_cases [of sha p acc]) auto

lemma acc_apply_root: "acc_apply_transition sha p acc = (Ok r, acc') \<Longrightarrow> acc_root acc' = r"
  by (cases rule: acc_apply_cases [of sha p acc]) auto

interpretation applier: transition_applier "applier_apply_transition sha" applier_state_root for sha
proof
  show "applier_state_root w = pre \<and> applier_state_root w' = post_state_root out"
    if "applier_apply_transition sha pre p w = (Ok out, w')" for pre p w out w'
    using that by (auto simp: applier_apply_transition_def applier_state_root_def Let_def result_simps
        dest: acc_apply_root split: if_splits prod.splits)
  show "w' = w" if "applier_apply_transition sha pre p w = (Err e, w')" for pre p w e w'
    using that by (auto simp: applier_apply_transition_def Let_def result_simps
        dest!: acc_apply_Err split: if_splits prod.splits)
  show "fst (applier_apply_transition sha pre p w) \<noteq> Panic" for pre p w
    using acc_apply_not_Panic [of sha p "applier_accumulator w"]
    by (auto simp: applier_apply_transition_def Let_def result_simps split: prod.splits)
qed

section \<open>Root binding\<close>

text \<open>The messages hashed for a state root: one per leaf, and the list of leaf digests.\<close>

definition state_messages :: "hash_fun \<Rightarrow> InMemoryAccumulator \<Rightarrow> bytes set" where
  "state_messages sha acc =
     insert (root_preimage sha (leaves acc)) ((\<lambda>(k, leaf). leaf_preimage k leaf) ` set (leaves acc))"

lemma leaf_preimage_inj:
  assumes "leaf_preimage k l = leaf_preimage k' l'" "k = encode_state_key (stored_key l)"
    "k' = encode_state_key (stored_key l')" "wf_state_key (stored_key l)" "wf_state_key (stored_key l')"
  shows "(k, l) = (k', l')"
proof -
  have len: "length (as_slice k) < 2 ^ 32" "length (as_slice k') < 2 ^ 32"
    using length_encode_state_key [of "stored_key l"] length_encode_state_key [of "stored_key l'"] assms by auto
  have "usize_as_u32 (length (as_slice k)) = usize_as_u32 (length (as_slice k'))"
    using assms(1) by (simp add: leaf_preimage_def append_eq_same_length)
  with len have same: "length (as_slice k) = length (as_slice k')" by (simp add: usize_as_u32_inject)
  then have "as_slice k = as_slice k'" "stored_value l = stored_value l'"
    using assms(1) by (simp_all add: leaf_preimage_def append_eq_same_length)
  then have "k = k'" by (simp add: StateKeyBytes.expand)
  then have "stored_key l = stored_key l'" using assms by (auto dest: encode_state_key_inj)
  with \<open>k = k'\<close> \<open>stored_value l = stored_value l'\<close> show ?thesis by simp
qed

lemma leaves_binding:
  assumes "acc_invar a" "acc_invar b" "digest32 sha"
    and "root_preimage sha (leaves a) = root_preimage sha (leaves b)"
  shows "leaves a = leaves b \<or> collision sha (state_messages sha a \<union> state_messages sha b)"
proof -
  let ?d = "\<lambda>(k, leaf). reference_leaf_digest sha k leaf" and ?m = "\<lambda>(k, leaf). leaf_preimage k leaf"
  have "map ?d (leaves a) = map ?d (leaves b)"
    using assms(3,4) by (intro concat_fixed_width_inj [where w = 32])
      (auto simp: root_preimage_def reference_leaf_digest_def digest32_def)
  then have digests: "list_all2 (\<lambda>x y. sha (?m x) = sha (?m y)) (leaves a) (leaves b)"
    by (auto simp: list_all2_conv_all_nth list_eq_iff_nth_eq reference_leaf_digest_def split: prod.splits)
  show ?thesis
  proof (cases "\<exists>x \<in> set (leaves a). \<exists>y \<in> set (leaves b). sha (?m x) = sha (?m y) \<and> ?m x \<noteq> ?m y")
    case True
    then obtain x y where xy: "x \<in> set (leaves a)" "y \<in> set (leaves b)" "sha (?m x) = sha (?m y)" "?m x \<noteq> ?m y"
      by blast
    then have "?m x \<in> state_messages sha a" "?m y \<in> state_messages sha b"
      unfolding state_messages_def by blast+
    with xy(3,4) show ?thesis unfolding collision_def by blast
  next
    case False
    have "x = y" if "x \<in> set (leaves a)" "y \<in> set (leaves b)" "sha (?m x) = sha (?m y)" for x y
      using that False assms(1,2) leaf_preimage_inj [of "fst x" "snd x" "fst y" "snd y"]
      by (fastforce simp: acc_invar_def)
    with digests have "list_all2 (=) (leaves a) (leaves b)" by (auto elim: list.rel_mono_strong)
    then show ?thesis by (simp add: list.rel_eq)
  qed
qed

text \<open>Equal roots bind the contents of two accumulators that satisfy the invariant.\<close>

lemma equal_roots_bind:
  assumes "digest32 sha" "acc_invar a" "acc_invar b"
    and "sha (root_preimage sha (leaves a)) = sha (root_preimage sha (leaves b))"
  shows "contents a = contents b \<or> collision sha (state_messages sha a \<union> state_messages sha b)"
proof (cases "root_preimage sha (leaves a) = root_preimage sha (leaves b)")
  case True
  with assms have "leaves a = leaves b \<or> collision sha (state_messages sha a \<union> state_messages sha b)"
    by (intro leaves_binding)
  then show ?thesis by (auto simp: contents_def fun_eq_iff)
next
  case False
  with assms(4) show ?thesis by (auto simp: collision_def state_messages_def)
qed

section \<open>Properties\<close>

text \<open>
  C4: A run of transitions on a fresh accumulator refines updates of a partial function: canonical
  patches are applied in order, a patch with mismatched lengths or keys out of order changes
  nothing, and the leaf invariant holds throughout.
\<close>

theorem accumulator_refines_map:
  assumes "\<forall>p \<in> set ps. wf_patch p"
  shows "acc_invar (acc.run sha ps new_accumulator) \<and>
    contents (acc.run sha ps new_accumulator) =
      fold (\<lambda>p m. if canonical_patch p then m ++ patch_map p else m) ps Map.empty"
  using acc.run_contents [of new_accumulator ps sha] assms by simp

definition sample_key :: "u8 \<Rightarrow> StateKey" where
  "sample_key b = RawTreeKey (replicate 32 b)"

definition sample_patch :: "u8 \<Rightarrow> u8 \<Rightarrow> StatePatch" where
  "sample_patch a b = \<lparr>accesses = [sample_key a, sample_key b], new_values = [[a], [b]]\<rparr>"

lemma wf_sample_patch [simp]: "wf_patch (sample_patch a b)"
  by (simp add: wf_patch_def sample_patch_def sample_key_def)

lemma canonical_sample_patch [simp]: "canonical_patch (sample_patch a b) \<longleftrightarrow> a < b"
  using replicate_Suc [of 31 a] replicate_Suc [of 31 b]
  by (cases "a = b") (simp_all add: canonical_patch_def sample_patch_def sample_key_def)

theorem accumulator_refines_map_witness:
  "contents (acc.run (\<lambda>_. zero_bytes 32) [sample_patch 1 2, sample_patch 9 2, sample_patch 2 3] new_accumulator)
     (sample_key 3) = Some [3] \<and>
   contents (acc.run (\<lambda>_. zero_bytes 32) [sample_patch 1 2, sample_patch 9 2, sample_patch 2 3] new_accumulator)
     (sample_key 9) = None"
  using accumulator_refines_map [of "[sample_patch 1 2, sample_patch 9 2, sample_patch 2 3]" "\<lambda>_. zero_bytes 32"]
  by (simp add: patch_map_def) (simp add: sample_patch_def sample_key_def)

text \<open>
  The state root after an accepted transition is a function of the contents: two histories that
  end with the same contents report the same root, whatever the order and number of their patches.
\<close>

theorem state_root_history_independent:
  assumes "acc_invar a" "acc_invar b" "wf_patch p" "wf_patch q"
    and "acc_apply_transition sha p a = (Ok r, a')" "acc_apply_transition sha q b = (Ok s, b')"
    and "contents a' = contents b'"
  shows "r = s"
  using assms(5,6,1-4,7) by (rule acc.root_of_contents)

theorem state_root_history_independent_witness:
  "\<exists>a b r s. acc_apply_transition (\<lambda>m. m) (sample_patch 1 2) new_accumulator = (Ok r, a) \<and>
     acc_apply_transition (\<lambda>m. m) (sample_patch 1 2) a = (Ok s, b) \<and> r = s"
proof -
  obtain a where a: "acc_apply_transition (\<lambda>m. m) (sample_patch 1 2) new_accumulator = (Ok (acc_root a), a)"
    "acc_invar a" "contents a = Map.empty ++ patch_map (sample_patch 1 2)"
    using acc.apply_canonical [of new_accumulator "sample_patch 1 2" "\<lambda>m. m"] by auto
  obtain b where b: "acc_apply_transition (\<lambda>m. m) (sample_patch 1 2) a = (Ok (acc_root b), b)"
    "contents b = contents a ++ patch_map (sample_patch 1 2)"
    using acc.apply_canonical [of a "sample_patch 1 2" "\<lambda>m. m"] a(2) by auto
  have "acc_root a = acc_root b"
    by (rule state_root_history_independent [OF acc_invar_new a(2) wf_sample_patch wf_sample_patch a(1) b(1)])
       (simp add: a(3) b(2) map_add_def fun_eq_iff split: option.splits)
  with a(1) b(1) show ?thesis by blast
qed

text \<open>
  C9: Conversely the state root binds the contents: equal roots mean equal contents, or two of the
  messages hashed for the two roots collide.
\<close>

theorem state_root_binding:
  assumes "digest32 sha" "acc_invar a" "acc_invar b" "wf_patch p" "wf_patch q"
    and "acc_apply_transition sha p a = (Ok r, a')" "acc_apply_transition sha q b = (Ok r, b')"
  shows "contents a' = contents b' \<or> collision sha (state_messages sha a' \<union> state_messages sha b')"
proof -
  have a': "acc_invar a'" "sha (root_preimage sha (leaves a')) = r"
    using acc_apply_transition_Ok [OF assms(6,2,4)] by (simp_all add: compute_reference_root_def)
  have b': "acc_invar b'" "sha (root_preimage sha (leaves b')) = r"
    using acc_apply_transition_Ok [OF assms(7,3,5)] by (simp_all add: compute_reference_root_def)
  show ?thesis
    using equal_roots_bind [OF assms(1) a'(1) b'(1)] a'(2) b'(2) by simp
qed

theorem state_root_binding_witness:
  "\<exists>a b r. acc_apply_transition (\<lambda>m. zero_bytes 32) (sample_patch 1 2) new_accumulator = (Ok r, a) \<and>
     acc_apply_transition (\<lambda>m. zero_bytes 32) (sample_patch 1 3) new_accumulator = (Ok r, b) \<and>
     (contents a = contents b \<or>
      collision (\<lambda>m. zero_bytes 32) (state_messages (\<lambda>m. zero_bytes 32) a \<union> state_messages (\<lambda>m. zero_bytes 32) b))"
proof -
  let ?sha = "\<lambda>m :: bytes. zero_bytes 32"
  have step: "\<exists>a. acc_apply_transition ?sha (sample_patch 1 k) new_accumulator = (Ok (zero_bytes 32), a)"
    if "1 < k" for k
    using acc_apply_transition_ok [of new_accumulator "sample_patch 1 k" ?sha] that
    by (metis acc_invar_new wf_sample_patch canonical_sample_patch compute_reference_root_def)
  obtain a b where a: "acc_apply_transition ?sha (sample_patch 1 2) new_accumulator = (Ok (zero_bytes 32), a)"
    and b: "acc_apply_transition ?sha (sample_patch 1 3) new_accumulator = (Ok (zero_bytes 32), b)"
    using step [of 2] step [of 3] by auto
  have "digest32 ?sha" by (simp add: digest32_def)
  from state_root_binding [OF this acc_invar_new acc_invar_new wf_sample_patch wf_sample_patch a b] a b
  show ?thesis by blast
qed

definition one_leaf_accumulator :: InMemoryAccumulator where
  "one_leaf_accumulator = snd (acc_apply_transition (\<lambda>_. zero_bytes 32)
     \<lparr>accesses = [sample_key 5], new_values = [[8]]\<rparr> new_accumulator)"

lemma one_leaf_accumulator:
  "acc_invar one_leaf_accumulator" "contents one_leaf_accumulator (sample_key 5) = Some [8]"
  by (simp_all add: one_leaf_accumulator_def acc_apply_transition_def validate_shape_def
      ensure_canonical_access_order_def apply_leaf_def new_accumulator_def recompute_root_def
      btree_insert_def acc_invar_def btree_invar_def sample_key_def contents_def)

text \<open>
  C31: A list of witnesses verifies against a state root exactly when its keys are strictly
  increasing, none carries proof nodes, every witness states the stored value of its key and the
  root is the accumulator's root (an empty list verifies against any root).
\<close>

theorem verify_witnesses_exact:
  assumes "acc_invar acc" "\<forall>w \<in> set ws. wf_witness w"
  shows "verify_witnesses (acc_verify_witness acc) ws r = Ok () \<longleftrightarrow>
    sorted_wrt (<) (map (encode_state_key \<circ> witness_key) ws) \<and>
    (\<forall>w \<in> set ws. r = acc_root acc \<and> witness_proof w = [] \<and>
       contents acc (witness_key w) = Some (witness_leaf_value w))"
  using assms by (auto simp: verify_witnesses_def result_simps acc_verify_witness_Ok wf_witness_def)

theorem verify_witnesses_exact_witness:
  "verify_witnesses (acc_verify_witness one_leaf_accumulator)
     [\<lparr>witness_key = sample_key 5, witness_leaf_value = [8], witness_proof = []\<rparr>]
     (acc_root one_leaf_accumulator) = Ok () \<and>
   verify_witnesses (acc_verify_witness one_leaf_accumulator)
     [\<lparr>witness_key = sample_key 5, witness_leaf_value = [9], witness_proof = []\<rparr>]
     (acc_root one_leaf_accumulator) \<noteq> Ok ()"
  by (subst (1 2) verify_witnesses_exact)
     (simp_all add: one_leaf_accumulator wf_witness_def, simp_all add: sample_key_def)

text \<open>
  C32: Witnesses served by the accumulator verify against its own root: for strictly increasing
  materialized keys \<open>get_witness_for_accesses\<close> succeeds, and what it returns is accepted.
\<close>

theorem served_witnesses_accepted:
  assumes "acc_invar acc" "\<forall>k \<in> set ks. contents acc k \<noteq> None"
    and "sorted_wrt (<) (map encode_state_key ks)"
  shows "\<exists>ws. get_witness_for_accesses acc ks = Ok ws \<and> map witness_key ws = ks \<and>
    verify_witnesses (acc_verify_witness acc) ws (acc_root acc) = Ok ()"
proof -
  have wf: "\<forall>k \<in> set ks. wf_state_key k" using assms(1,2) contents_wf by blast
  let ?ws = "map (\<lambda>k. \<lparr>witness_key = k, witness_leaf_value = the (contents acc k), witness_proof = []\<rparr>) ks"
  have ws: "get_witness_for_accesses acc ks = Ok ?ws"
    using assms get_witness_Ok [OF assms(1) wf, of ?ws] by simp
  then have "verify_witnesses (acc_verify_witness acc) ?ws (acc_root acc) = Ok ()"
    by (rule acc.served_witnesses_verify [OF assms(1) wf])
  with ws show ?thesis by (intro exI [of _ ?ws]) (simp add: o_def)
qed

theorem served_witnesses_accepted_witness:
  "\<exists>ws. get_witness_for_accesses one_leaf_accumulator [sample_key 5] = Ok ws \<and>
     map witness_key ws = [sample_key 5] \<and>
     verify_witnesses (acc_verify_witness one_leaf_accumulator) ws (acc_root one_leaf_accumulator) = Ok ()"
  by (rule served_witnesses_accepted) (simp_all add: one_leaf_accumulator)

text \<open>
  The applier enforces root continuity. A successful call started from the current root and
  leaves the reported root as the current one; a stale pre-state root, an outstanding borrow or a
  bad patch is an error that leaves the applier as it was; and it never panics.
\<close>

theorem applier_root_continuity:
  "case applier_apply_transition sha pre patch w of
     (Ok out, w') \<Rightarrow> applier_state_root w = pre \<and> applier_state_root w' = post_state_root out \<and>
                     \<not> applier_borrowed w
   | (Err e, w') \<Rightarrow> w' = w \<and>
       (\<not> applier_borrowed w \<longrightarrow> applier_state_root w \<noteq> pre \<longrightarrow>
          e = RootContinuityMismatch pre (applier_state_root w))
   | (Panic, _) \<Rightarrow> False"
proof (cases "applier_apply_transition sha pre patch w")
  case (Pair r w')
  show ?thesis
  proof (cases r)
    case (Ok out)
    with Pair show ?thesis
      using applier.apply_Ok [of sha pre patch w out w'] by (auto simp: applier_apply_transition_def split: if_splits)
  next
    case (Err e)
    with Pair show ?thesis
      using applier.apply_Err [of sha pre patch w e w']
      by (auto simp: applier_apply_transition_def applier_state_root_def Let_def split: if_splits)
  next
    case Panic
    with Pair show ?thesis using applier.apply_not_Panic [of sha pre patch w] by simp
  qed
qed

theorem applier_root_continuity_witness:
  "applier_apply_transition (\<lambda>m. m) [1] (sample_patch 1 2) (new_applier new_accumulator) =
     (Err (RootContinuityMismatch [1] (zero_bytes 32)), new_applier new_accumulator)"
proof -
  obtain r w' where res: "applier_apply_transition (\<lambda>m. m) [1] (sample_patch 1 2) (new_applier new_accumulator) = (r, w')"
    by fastforce
  have "applier_state_root (new_applier new_accumulator) = zero_bytes 32" "zero_bytes 32 \<noteq> [1]"
    by (simp_all add: applier_state_root_def new_applier_def new_accumulator_def zero_bytes_def numeral_eq_Suc)
  with res applier_root_continuity [where sha = "\<lambda>m. m" and pre = "[1]" and patch = "sample_patch 1 2" and
      w = "new_applier new_accumulator"]
  show ?thesis by (auto simp: new_applier_def split: result.splits)
qed

end
