(* ===== verification/Execution.thy ===== *)
theory Execution
  imports State
begin

text \<open>
  Block execution (\<^verbatim>\<open>crates/shell-execution/src\<close>: \<^verbatim>\<open>outputs.rs\<close>, \<^verbatim>\<open>engine.rs\<close>,
  \<^verbatim>\<open>planned.rs\<close>, \<^verbatim>\<open>errors.rs\<close>).

  \<open>StatelessBlockExecutor::execute_block\<close> threads a state root through two trait objects, a
  transaction executor and a state applier; both are actions on one world. The locale
  \<open>block_execution\<close> extends the applier contract of the state crate by the law an executor has to
  obey (it does not move the state root); its interpretation \<open>planned\<close> is the scripted
  \<open>PlannedTransactionExecutor\<close> with the reference applier.
\<close>

section \<open>Outputs\<close>

record ExecutionReceipt =
  status_code :: u8
  receipt_output :: bytes

definition receipt_preimage :: "ExecutionReceipt \<Rightarrow> bytes" where
  "receipt_preimage r =
     ascii ''shell-execution/receipt-v1''
     @ [status_code r]
     @ u64_to_be_bytes (usize_as_u64 (length (receipt_output r)))
     @ receipt_output r"

definition receipt_canonical_root :: "hash_fun \<Rightarrow> ExecutionReceipt \<Rightarrow> Root" where
  "receipt_canonical_root sha r = sha (receipt_preimage r)"

record TransactionExecutionOutcome =
  tx_transaction_root :: Root
  tx_post_state_root :: Root
  tx_receipt :: ExecutionReceipt

record BlockExecutionOutcome =
  block_post_state_root :: Root
  block_receipts_root :: Root
  transaction_outcomes :: "TransactionExecutionOutcome list"

record CommittedExecutionRoots =
  committed_state_root :: Root
  committed_receipts_root :: Root

definition receipts_preimage :: "hash_fun \<Rightarrow> ExecutionReceipt list \<Rightarrow> bytes" where
  "receipts_preimage sha receipts =
     ascii ''shell-execution/receipts-root-v1''
     @ u64_to_be_bytes (usize_as_u64 (length receipts))
     @ concat (map (receipt_canonical_root sha) receipts)"

definition compute_receipts_root :: "hash_fun \<Rightarrow> ExecutionReceipt list \<Rightarrow> Root" where
  "compute_receipts_root sha receipts = sha (receipts_preimage sha receipts)"

datatype ExecutionError =
    TransactionRoot PrimitiveError
  | StateTransition StateError
  | Executor string
  | PostStateRootMismatch (post_expected: Root) (post_actual: Root)
  | ReceiptsRootMismatch (receipts_expected: Root) (receipts_actual: Root)

definition ensure_matches ::
  "BlockExecutionOutcome \<Rightarrow> CommittedExecutionRoots \<Rightarrow> (unit, ExecutionError) result" where
  "ensure_matches outcome committed_roots =
     (if block_post_state_root outcome \<noteq> committed_state_root committed_roots
      then Err (PostStateRootMismatch (committed_state_root committed_roots) (block_post_state_root outcome))
      else if block_receipts_root outcome \<noteq> committed_receipts_root committed_roots
      then Err (ReceiptsRootMismatch (committed_receipts_root committed_roots) (block_receipts_root outcome))
      else Ok ())"

section \<open>The engine\<close>

record TransactionExecutionPlan =
  plan_state_patch :: StatePatch
  plan_receipt :: ExecutionReceipt

type_synonym 'w transaction_executor =
  "Root \<Rightarrow> TransactionEnvelope \<Rightarrow> ('w, TransactionExecutionPlan, ExecutionError) action"

type_synonym 'w state_applier =
  "Root \<Rightarrow> StatePatch \<Rightarrow> ('w, StateTransitionOutcome, StateError) action"

text \<open>The loop of \<open>execute_block\<close> with its three accumulating locals.\<close>

fun execute_loop ::
  "hash_fun \<Rightarrow> 'w transaction_executor \<Rightarrow> 'w state_applier \<Rightarrow> TransactionEnvelope list \<Rightarrow> Root \<Rightarrow>
   ExecutionReceipt list \<Rightarrow> TransactionExecutionOutcome list \<Rightarrow>
   ('w, Root \<times> ExecutionReceipt list \<times> TransactionExecutionOutcome list, ExecutionError) action" where
  "execute_loop sha executor state_applier [] current_state_root receipts outcomes =
     lift_result (Ok (current_state_root, receipts, outcomes))"
| "execute_loop sha executor state_applier (transaction # transactions) current_state_root receipts outcomes =
     bind_action (lift_result (map_err TransactionRoot (envelope_hash_tree_root sha transaction))) (\<lambda>transaction_root.
     bind_action (executor current_state_root transaction) (\<lambda>plan.
     bind_action (map_err_action StateTransition (state_applier current_state_root (plan_state_patch plan)))
       (\<lambda>transition_outcome.
     let current_state_root = post_state_root transition_outcome;
         receipts = receipts @ [plan_receipt plan];
         outcomes = outcomes @ [\<lparr>tx_transaction_root = transaction_root,
           tx_post_state_root = current_state_root, tx_receipt = plan_receipt plan\<rparr>]
     in execute_loop sha executor state_applier transactions current_state_root receipts outcomes)))"

definition execute_block ::
  "hash_fun \<Rightarrow> Root \<Rightarrow> TransactionEnvelope list \<Rightarrow> 'w transaction_executor \<Rightarrow> 'w state_applier \<Rightarrow>
   ('w, BlockExecutionOutcome, ExecutionError) action" where
  "execute_block sha pre_state_root transactions executor state_applier =
     bind_action (execute_loop sha executor state_applier transactions pre_state_root [] [])
       (\<lambda>(current_state_root, receipts, outcomes).
     lift_result (Ok \<lparr>block_post_state_root = current_state_root,
       block_receipts_root = compute_receipts_root sha receipts, transaction_outcomes = outcomes\<rparr>))"

section \<open>Planned transactions\<close>

record PlannedTransaction =
  planned_transaction_root :: Root
  planned_plan :: TransactionExecutionPlan

definition from_transaction ::
  "hash_fun \<Rightarrow> TransactionEnvelope \<Rightarrow> TransactionExecutionPlan \<Rightarrow> (PlannedTransaction, ExecutionError) result" where
  "from_transaction sha transaction plan =
     bind_result (map_err TransactionRoot (envelope_hash_tree_root sha transaction)) (\<lambda>transaction_root.
     Ok \<lparr>planned_transaction_root = transaction_root, planned_plan = plan\<rparr>)"

record PlannedTransactionExecutor =
  planned_transactions :: "PlannedTransaction list"
  next_index :: usize

definition new_planned :: "PlannedTransaction list \<Rightarrow> PlannedTransactionExecutor" where
  "new_planned ps = \<lparr>planned_transactions = ps, next_index = 0\<rparr>"

definition is_exhausted :: "PlannedTransactionExecutor \<Rightarrow> bool" where
  "is_exhausted ex = (next_index ex = length (planned_transactions ex))"

definition ensure_exhausted :: "PlannedTransactionExecutor \<Rightarrow> (unit, ExecutionError) result" where
  "ensure_exhausted ex =
     (if is_exhausted ex then Ok () else Err (Executor ''unconsumed planned transaction steps''))"

definition planned_execute_transaction ::
  "hash_fun \<Rightarrow> PlannedTransactionExecutor transaction_executor" where
  "planned_execute_transaction sha pre_state_root transaction ex =
     (let index = next_index ex in
      case ok_or (if index < length (planned_transactions ex) then Some (planned_transactions ex ! index) else None)
             (Executor ''missing planned transaction step'') of
        Err e \<Rightarrow> (Err e, ex)
      | Panic \<Rightarrow> (Panic, ex)
      | Ok planned \<Rightarrow>
          (case map_err TransactionRoot (envelope_hash_tree_root sha transaction) of
             Err e \<Rightarrow> (Err e, ex)
           | Panic \<Rightarrow> (Panic, ex)
           | Ok transaction_root \<Rightarrow>
               if transaction_root \<noteq> planned_transaction_root planned
               then (Err (Executor ''planned transaction root mismatch''), ex)
               else (Ok (planned_plan planned), ex\<lparr>next_index := index + 1\<rparr>)))"

section \<open>The contract of block execution\<close>

definition tx_root :: "hash_fun \<Rightarrow> TransactionEnvelope \<Rightarrow> Root" where
  "tx_root sha e = tree_root sha (envelope_tree e)"

lemma canonical_root_Ok [simp]: "envelope_hash_tree_root sha e = Ok (tx_root sha e)"
  by (simp add: tree_root_envelope tx_root_def)

locale block_execution = transition_applier state_applier root
  for state_applier :: "'w state_applier" and root :: "'w \<Rightarrow> Root" +
  fixes executor :: "'w transaction_executor"
  assumes executor_root: "executor pre tx w = (r, w') \<Longrightarrow> root w' = root w"
begin

text \<open>Whatever a successful loop adds to its accumulators, transaction by transaction.\<close>

lemma execute_loop_Ok:
  assumes "execute_loop sha executor state_applier txs cur rs os w = (Ok (cur', rs', os'), w')"
  shows "\<exists>new. os' = os @ new \<and> rs' = rs @ map tx_receipt new \<and>
    map tx_transaction_root new = map (tx_root sha) txs \<and>
    cur' = last (cur # map tx_post_state_root new) \<and>
    (txs \<noteq> [] \<longrightarrow> root w = cur \<and> root w' = cur')"
  using assms
proof (induction txs arbitrary: cur rs os w)
  case Nil
  then show ?case by auto
next
  case (Cons tx txs)
  from Cons.prems obtain plan u out v where plan: "executor cur tx w = (Ok plan, u)"
    and out: "state_applier cur (plan_state_patch plan) u = (Ok out, v)"
    and rest: "execute_loop sha executor state_applier txs (post_state_root out) (rs @ [plan_receipt plan])
      (os @ [\<lparr>tx_transaction_root = tx_root sha tx, tx_post_state_root = post_state_root out,
        tx_receipt = plan_receipt plan\<rparr>]) v = (Ok (cur', rs', os'), w')"
    by (auto simp: result_simps Let_def)
  have roots: "root w = cur" "root v = post_state_root out"
    using executor_root [OF plan] apply_Ok [OF out] by simp_all
  from Cons.IH [OF rest] obtain new where
    "os' = os @ [\<lparr>tx_transaction_root = tx_root sha tx, tx_post_state_root = post_state_root out,
      tx_receipt = plan_receipt plan\<rparr>] @ new"
    "rs' = rs @ [plan_receipt plan] @ map tx_receipt new"
    "map tx_transaction_root new = map (tx_root sha) txs"
    "cur' = last (post_state_root out # map tx_post_state_root new)"
    "txs \<noteq> [] \<longrightarrow> root v = post_state_root out \<and> root w' = cur'"
    by auto
  moreover have "txs = [] \<Longrightarrow> w' = v" using rest by simp
  ultimately show ?case
    using roots by (intro exI [of _ "\<lparr>tx_transaction_root = tx_root sha tx, tx_post_state_root = post_state_root out,
      tx_receipt = plan_receipt plan\<rparr> # new"]) (cases "txs = []"; auto)
qed

lemma execute_block_Ok:
  assumes "execute_block sha pre txs executor state_applier w = (Ok out, w')"
  shows "map tx_transaction_root (transaction_outcomes out) = map (tx_root sha) txs"
    "block_receipts_root out = compute_receipts_root sha (map tx_receipt (transaction_outcomes out))"
    "block_post_state_root out = last (pre # map tx_post_state_root (transaction_outcomes out))"
    "txs \<noteq> [] \<Longrightarrow> root w = pre \<and> root w' = block_post_state_root out"
  using assms execute_loop_Ok [of sha txs pre "[]" "[]" w]
  by (auto simp: execute_block_def result_simps)

end

lemma planned_root:
  "on_fst (planned_execute_transaction sha pre tx) w = (r, w') \<Longrightarrow> applier_state_root (snd w') = applier_state_root (snd w)"
  by (cases w) auto

interpretation planned: block_execution "\<lambda>pre p. on_snd (applier_apply_transition sha pre p)"
  "\<lambda>w. applier_state_root (snd w)" "\<lambda>pre tx. on_fst (planned_execute_transaction sha pre tx)" for sha
proof
  fix pre p out e tx r and w w' :: "PlannedTransactionExecutor \<times> ReferenceStateApplier"
  show "on_snd (applier_apply_transition sha pre p) w = (Ok out, w') \<Longrightarrow>
      applier_state_root (snd w) = pre \<and> applier_state_root (snd w') = post_state_root out"
    using applier.apply_Ok [of sha pre p "snd w" out] by (cases w) auto
  show "on_snd (applier_apply_transition sha pre p) w = (Err e, w') \<Longrightarrow> w' = w"
    using applier.apply_Err [of sha pre p "snd w" e] by (cases w) auto
  show "fst (on_snd (applier_apply_transition sha pre p) w) \<noteq> Panic"
    using applier.apply_not_Panic [of sha pre p "snd w"] by (auto simp: on_snd_def split: prod.splits)
  show "on_fst (planned_execute_transaction sha pre tx) w = (r, w') \<Longrightarrow>
      applier_state_root (snd w') = applier_state_root (snd w)"
    by (rule planned_root)
qed

section \<open>Scripted execution\<close>

lemma planned_execute_hit:
  assumes "next_index ex < length (planned_transactions ex)"
    and "planned_transaction_root (planned_transactions ex ! next_index ex) = tx_root sha tx"
  shows "planned_execute_transaction sha pre tx ex =
    (Ok (planned_plan (planned_transactions ex ! next_index ex)), ex\<lparr>next_index := next_index ex + 1\<rparr>)"
  using assms by (simp add: planned_execute_transaction_def Let_def)

lemma applier_canonical:
  assumes "\<not> applier_borrowed ap" "acc_invar (applier_accumulator ap)" "wf_patch p" "canonical_patch p"
  obtains ap' where
    "applier_apply_transition sha (applier_state_root ap) p ap = (Ok \<lparr>post_state_root = applier_state_root ap'\<rparr>, ap')"
    "\<not> applier_borrowed ap'" "acc_invar (applier_accumulator ap')"
    "contents (applier_accumulator ap') = contents (applier_accumulator ap) ++ patch_map p"
proof -
  obtain acc' where "acc_apply_transition sha p (applier_accumulator ap) = (Ok (acc_root acc'), acc')" "acc_invar acc'"
    "contents acc' = contents (applier_accumulator ap) ++ patch_map p"
    using acc.apply_canonical [OF assms(2-4), of sha] by blast
  then show ?thesis
    using assms(1) that [of "ap\<lparr>applier_accumulator := acc'\<rparr>"]
    by (simp add: applier_apply_transition_def applier_state_root_def Let_def)
qed

definition applicable_plan :: "PlannedTransaction \<Rightarrow> bool" where
  "applicable_plan p \<longleftrightarrow> wf_patch (plan_state_patch (planned_plan p)) \<and> canonical_patch (plan_state_patch (planned_plan p))"

definition planned_contents :: "PlannedTransaction list \<Rightarrow> (StateKey \<Rightarrow> bytes option) \<Rightarrow> StateKey \<Rightarrow> bytes option" where
  "planned_contents ps m = fold (\<lambda>p m. m ++ patch_map (plan_state_patch (planned_plan p))) ps m"

text \<open>
  The loop on a script that matches the transactions, with the script position, the receipts and
  the contents it ends with.
\<close>

lemma planned_loop:
  assumes "list_all2 (\<lambda>p tx. planned_transaction_root p = tx_root sha tx) ps txs" "\<forall>p \<in> set ps. applicable_plan p"
    and "planned_transactions ex = done @ ps @ rest" "next_index ex = length done"
    and "\<not> applier_borrowed ap" "acc_invar (applier_accumulator ap)"
  shows "\<exists>cur rs' os' ex' ap'.
    execute_loop sha (\<lambda>pre tx. on_fst (planned_execute_transaction sha pre tx))
      (\<lambda>pre p. on_snd (applier_apply_transition sha pre p)) txs (applier_state_root ap) rs os (ex, ap) =
      (Ok (cur, rs', os'), (ex', ap')) \<and>
    rs' = rs @ map (plan_receipt \<circ> planned_plan) ps \<and> cur = applier_state_root ap' \<and>
    planned_transactions ex' = planned_transactions ex \<and> next_index ex' = length done + length ps \<and>
    \<not> applier_borrowed ap' \<and> acc_invar (applier_accumulator ap') \<and>
    contents (applier_accumulator ap') = planned_contents ps (contents (applier_accumulator ap))"
  using assms
proof (induction ps txs arbitrary: ex ap "done" rs os rule: list_all2_induct)
  case Nil
  then show ?case by (simp add: planned_contents_def)
next
  case (Cons p ps tx txs)
  let ?ex = "ex\<lparr>next_index := next_index ex + 1\<rparr>"
  have step: "planned_execute_transaction sha (applier_state_root ap) tx ex = (Ok (planned_plan p), ?ex)"
    using Cons by (subst planned_execute_hit) (auto simp: nth_append)
  have "wf_patch (plan_state_patch (planned_plan p))" "canonical_patch (plan_state_patch (planned_plan p))"
    using Cons.prems(1) by (simp_all add: applicable_plan_def)
  then obtain ap1 where ap1:
    "applier_apply_transition sha (applier_state_root ap) (plan_state_patch (planned_plan p)) ap =
       (Ok \<lparr>post_state_root = applier_state_root ap1\<rparr>, ap1)"
    "\<not> applier_borrowed ap1" "acc_invar (applier_accumulator ap1)"
    "contents (applier_accumulator ap1) =
       contents (applier_accumulator ap) ++ patch_map (plan_state_patch (planned_plan p))"
    using applier_canonical [OF Cons.prems(4,5)] by metis
  define rs1 where "rs1 = rs @ [plan_receipt (planned_plan p)]"
  define os1 where "os1 = os @ [\<lparr>tx_transaction_root = tx_root sha tx,
    tx_post_state_root = applier_state_root ap1, tx_receipt = plan_receipt (planned_plan p)\<rparr>]"
  have unfold: "execute_loop sha (\<lambda>pre tx. on_fst (planned_execute_transaction sha pre tx))
      (\<lambda>pre p. on_snd (applier_apply_transition sha pre p)) (tx # txs) (applier_state_root ap) rs os (ex, ap) =
    execute_loop sha (\<lambda>pre tx. on_fst (planned_execute_transaction sha pre tx))
      (\<lambda>pre p. on_snd (applier_apply_transition sha pre p)) txs (applier_state_root ap1) rs1 os1 (?ex, ap1)"
    using step ap1(1) by (simp add: bind_action.simps on_fst_def on_snd_def map_err_action_def Let_def rs1_def os1_def)
  show ?case
    using Cons.IH [of ?ex "done @ [p]" ap1 rs1 os1] Cons.prems ap1(2-)
    unfolding unfold by (auto simp: rs1_def planned_contents_def)
qed

lemma planned_block_run:
  assumes "list_all2 (\<lambda>p tx. planned_transaction_root p = tx_root sha tx) ps txs"
    and "\<forall>p \<in> set ps. applicable_plan p" "acc_invar acc"
  shows "\<exists>out ex' ap'.
    execute_block sha (acc_root acc) txs (\<lambda>pre tx. on_fst (planned_execute_transaction sha pre tx))
      (\<lambda>pre p. on_snd (applier_apply_transition sha pre p)) (new_planned ps, new_applier acc) =
      (Ok out, (ex', ap')) \<and>
    ensure_exhausted ex' = Ok () \<and>
    block_post_state_root out = applier_state_root ap' \<and>
    block_receipts_root out = compute_receipts_root sha (map (plan_receipt \<circ> planned_plan) ps) \<and>
    map tx_transaction_root (transaction_outcomes out) = map (tx_root sha) txs \<and>
    contents (applier_accumulator ap') = planned_contents ps (contents acc)"
proof -
  obtain cur rs' os' ex' ap' where run:
    "execute_loop sha (\<lambda>pre tx. on_fst (planned_execute_transaction sha pre tx))
      (\<lambda>pre p. on_snd (applier_apply_transition sha pre p)) txs (acc_root acc) [] [] (new_planned ps, new_applier acc) =
      (Ok (cur, rs', os'), (ex', ap'))"
    and res: "rs' = map (plan_receipt \<circ> planned_plan) ps" "cur = applier_state_root ap'"
      "planned_transactions ex' = ps" "next_index ex' = length ps"
      "contents (applier_accumulator ap') = planned_contents ps (contents acc)"
    using planned_loop [OF assms(1,2), of "new_planned ps" "[]" "[]" "new_applier acc" "[]" "[]"] assms(3)
    by (auto simp: new_planned_def new_applier_def applier_state_root_def)
  let ?out = "\<lparr>block_post_state_root = cur, block_receipts_root = compute_receipts_root sha rs',
    transaction_outcomes = os'\<rparr>"
  have block: "execute_block sha (acc_root acc) txs (\<lambda>pre tx. on_fst (planned_execute_transaction sha pre tx))
      (\<lambda>pre p. on_snd (applier_apply_transition sha pre p)) (new_planned ps, new_applier acc) = (Ok ?out, (ex', ap'))"
    using run by (simp add: execute_block_def bind_action.simps)
  with planned.execute_block_Ok(1) [OF block] res show ?thesis
    by (intro exI [of _ ?out] exI [of _ ex'] exI [of _ ap']) (simp add: ensure_exhausted_def is_exhausted_def)
qed

text \<open>
  Conversely, a loop that succeeds has consumed the next steps of the script, one per transaction,
  each under the transaction's root and with a canonical patch.
\<close>

lemma planned_execute_Ok:
  assumes "planned_execute_transaction sha pre tx ex = (Ok plan, ex')"
  shows "next_index ex < length (planned_transactions ex) \<and> ex' = ex\<lparr>next_index := next_index ex + 1\<rparr> \<and>
    planned_transaction_root (planned_transactions ex ! next_index ex) = tx_root sha tx \<and>
    plan = planned_plan (planned_transactions ex ! next_index ex)"
  using assms by (auto simp: planned_execute_transaction_def Let_def split: if_splits)

lemma applier_Ok_accumulator:
  assumes "applier_apply_transition sha pre p ap = (Ok out, ap')"
  shows "applier_accumulator ap' = acc.run sha [p] (applier_accumulator ap)"
  using assms by (cases "acc_apply_transition sha p (applier_accumulator ap)")
    (auto simp: applier_apply_transition_def Let_def acc.run_def split: if_splits)

lemma applier_Ok_canonical:
  assumes "applier_apply_transition sha pre p ap = (Ok out, ap')"
  shows "canonical_patch p"
proof (rule ccontr)
  assume "\<not> canonical_patch p"
  then obtain e where "acc_apply_transition sha p (applier_accumulator ap) = (Err e, applier_accumulator ap)"
    using acc_apply_transition_bad by blast
  with assms show False
    by (simp add: applier_apply_transition_def Let_def split: if_splits)
qed

lemma planned_loop_Ok:
  assumes "execute_loop sha (\<lambda>pre tx. on_fst (planned_execute_transaction sha pre tx))
      (\<lambda>pre p. on_snd (applier_apply_transition sha pre p)) txs cur rs os (ex, ap) = (Ok res, (ex', ap'))"
  shows "next_index ex' = next_index ex + length txs \<and> planned_transactions ex' = planned_transactions ex \<and>
    (let ps = take (length txs) (drop (next_index ex) (planned_transactions ex)) in
     list_all2 (\<lambda>p tx. planned_transaction_root p = tx_root sha tx) ps txs \<and>
     (\<forall>p \<in> set ps. canonical_patch (plan_state_patch (planned_plan p))) \<and>
     applier_accumulator ap' = acc.run sha (map (plan_state_patch \<circ> planned_plan) ps) (applier_accumulator ap))"
  using assms
proof (induction txs arbitrary: cur rs os ex ap)
  case Nil
  then show ?case by (simp add: acc.run_def)
next
  case (Cons tx txs)
  from Cons.prems obtain plan ex1 out ap1 cur1 rs1 os1 where
    plan: "planned_execute_transaction sha cur tx ex = (Ok plan, ex1)"
    and out: "applier_apply_transition sha cur (plan_state_patch plan) ap = (Ok out, ap1)"
    and rest: "execute_loop sha (\<lambda>pre tx. on_fst (planned_execute_transaction sha pre tx))
      (\<lambda>pre p. on_snd (applier_apply_transition sha pre p)) txs cur1 rs1 os1 (ex1, ap1) = (Ok res, (ex', ap'))"
    by (auto simp: result_simps Let_def)
  have "take (length (tx # txs)) (drop (next_index ex) (planned_transactions ex)) =
      planned_transactions ex ! next_index ex # take (length txs) (drop (next_index ex1) (planned_transactions ex1))"
    using planned_execute_Ok [OF plan] by (simp add: Cons_nth_drop_Suc [symmetric])
  then show ?case
    using Cons.IH [OF rest] planned_execute_Ok [OF plan] applier_Ok_canonical [OF out]
      applier_Ok_accumulator [OF out] by (simp add: Let_def acc.run_def)
qed

lemma planned_block_Ok:
  assumes "execute_block sha pre txs (\<lambda>pre tx. on_fst (planned_execute_transaction sha pre tx))
      (\<lambda>pre p. on_snd (applier_apply_transition sha pre p)) (new_planned ps, ap) = (Ok out, (ex', ap'))"
    and "ensure_exhausted ex' = Ok ()"
  shows "list_all2 (\<lambda>p tx. planned_transaction_root p = tx_root sha tx) ps txs \<and>
    (\<forall>p \<in> set ps. canonical_patch (plan_state_patch (planned_plan p))) \<and>
    applier_accumulator ap' = acc.run sha (map (plan_state_patch \<circ> planned_plan) ps) (applier_accumulator ap)"
proof -
  from assms(1) obtain res where run: "execute_loop sha (\<lambda>pre tx. on_fst (planned_execute_transaction sha pre tx))
      (\<lambda>pre p. on_snd (applier_apply_transition sha pre p)) txs pre [] [] (new_planned ps, ap) = (Ok res, (ex', ap'))"
    by (auto simp: execute_block_def result_simps)
  have "length ps = length txs"
    using planned_loop_Ok [OF run] assms(2)
    by (auto simp: ensure_exhausted_def is_exhausted_def new_planned_def split: if_splits)
  then show ?thesis
    using planned_loop_Ok [OF run] by (simp add: new_planned_def Let_def)
qed

section \<open>Properties\<close>

text \<open>
  C15: A block whose transactions match the script and whose planned patches can be applied (well-formed,
  one value per access, accesses in canonical order) executes completely from the root of a well-formed
  accumulator: every planned step is consumed, the state ends with the planned patches applied in block
  order, the receipts root commits to the planned receipts in block order, and the reported post-state
  root is the applier's. A patch that is not in canonical order stops the block instead.
\<close>

theorem planned_block_executes:
  assumes "list_all2 (\<lambda>p tx. planned_transaction_root p = tx_root sha tx) ps txs"
    and "\<forall>p \<in> set ps. applicable_plan p" "acc_invar acc"
  shows "\<exists>out ex' ap'.
    execute_block sha (acc_root acc) txs (\<lambda>pre tx. on_fst (planned_execute_transaction sha pre tx))
      (\<lambda>pre p. on_snd (applier_apply_transition sha pre p)) (new_planned ps, new_applier acc) =
      (Ok out, (ex', ap')) \<and>
    ensure_exhausted ex' = Ok () \<and>
    block_post_state_root out = applier_state_root ap' \<and>
    block_receipts_root out = compute_receipts_root sha (map (plan_receipt \<circ> planned_plan) ps) \<and>
    map tx_transaction_root (transaction_outcomes out) = map (tx_root sha) txs \<and>
    contents (applier_accumulator ap') = planned_contents ps (contents acc)"
  using assms by (rule planned_block_run)

definition sample_transaction :: TransactionEnvelope where
  "sample_transaction = \<lparr>env_payload = default_payload, env_authorizations = []\<rparr>"

definition sample_plan :: "hash_fun \<Rightarrow> PlannedTransaction" where
  "sample_plan sha = \<lparr>planned_transaction_root = tx_root sha sample_transaction,
     planned_plan = \<lparr>plan_state_patch = \<lparr>accesses = [sample_key 5], new_values = [[8]]\<rparr>,
       plan_receipt = \<lparr>status_code = 1, receipt_output = []\<rparr>\<rparr>\<rparr>"

lemma applicable_sample_plan [simp]: "applicable_plan (sample_plan sha)"
  by (simp add: applicable_plan_def sample_plan_def wf_patch_def canonical_patch_def sample_key_def)

lemma sample_plan_root [simp]: "planned_transaction_root (sample_plan sha) = tx_root sha sample_transaction"
  by (simp add: sample_plan_def)

theorem planned_block_executes_witness:
  "\<exists>out ex' ap'.
    execute_block (\<lambda>m. m) (acc_root new_accumulator) [sample_transaction]
      (\<lambda>pre tx. on_fst (planned_execute_transaction (\<lambda>m. m) pre tx))
      (\<lambda>pre p. on_snd (applier_apply_transition (\<lambda>m. m) pre p))
      (new_planned [sample_plan (\<lambda>m. m)], new_applier new_accumulator) = (Ok out, (ex', ap')) \<and>
    ensure_exhausted ex' = Ok () \<and>
    contents (applier_accumulator ap') (sample_key 5) = Some [8]"
proof -
  have "planned_contents [sample_plan (\<lambda>m. m)] Map.empty (sample_key 5) = Some [8]"
    by (simp add: planned_contents_def patch_map_def sample_plan_def)
  then show ?thesis
    using planned_block_executes [of "\<lambda>m. m" "[sample_plan (\<lambda>m. m)]" "[sample_transaction]" new_accumulator]
    by clarsimp
qed

text \<open>
  Whatever the script and the state, a successful block execution reports one outcome per
  transaction in block order under the transaction's canonical root, a receipts root over exactly
  those outcomes, and a post-state root that is the last outcome's root (the given root for an
  empty block) and the applier's final root.
\<close>

theorem executed_block_report:
  assumes "execute_block sha pre txs (\<lambda>pre tx. on_fst (planned_execute_transaction sha pre tx))
      (\<lambda>pre p. on_snd (applier_apply_transition sha pre p)) w = (Ok out, w')"
  shows "map tx_transaction_root (transaction_outcomes out) = map (tx_root sha) txs \<and>
    block_receipts_root out = compute_receipts_root sha (map tx_receipt (transaction_outcomes out)) \<and>
    block_post_state_root out = last (pre # map tx_post_state_root (transaction_outcomes out)) \<and>
    (txs \<noteq> [] \<longrightarrow> applier_state_root (snd w) = pre \<and> applier_state_root (snd w') = block_post_state_root out)"
  using planned.execute_block_Ok [OF assms] by blast

theorem executed_block_report_witness:
  "\<exists>out w'. execute_block (\<lambda>m. m) (acc_root new_accumulator) [sample_transaction]
      (\<lambda>pre tx. on_fst (planned_execute_transaction (\<lambda>m. m) pre tx))
      (\<lambda>pre p. on_snd (applier_apply_transition (\<lambda>m. m) pre p))
      (new_planned [sample_plan (\<lambda>m. m)], new_applier new_accumulator) = (Ok out, w') \<and>
    map tx_transaction_root (transaction_outcomes out) = [tx_root (\<lambda>m. m) sample_transaction] \<and>
    applier_state_root (snd w') = block_post_state_root out"
proof -
  let ?w = "(new_planned [sample_plan (\<lambda>m. m)], new_applier new_accumulator)"
  obtain out w' where run: "execute_block (\<lambda>m. m) (acc_root new_accumulator) [sample_transaction]
      (\<lambda>pre tx. on_fst (planned_execute_transaction (\<lambda>m. m) pre tx))
      (\<lambda>pre p. on_snd (applier_apply_transition (\<lambda>m. m) pre p)) ?w = (Ok out, w')"
    using planned_block_run [of "\<lambda>m. m" "[sample_plan (\<lambda>m. m)]" "[sample_transaction]" new_accumulator] by auto
  with executed_block_report [OF run] show ?thesis by auto
qed

text \<open>The messages hashed for a receipts root.\<close>

definition receipts_messages :: "hash_fun \<Rightarrow> ExecutionReceipt list \<Rightarrow> bytes set" where
  "receipts_messages sha rs = insert (receipts_preimage sha rs) (receipt_preimage ` set rs)"

lemma receipt_preimage_inj:
  assumes "receipt_preimage r = receipt_preimage s"
  shows "r = s"
  using assms by (cases r; cases s) (simp add: receipt_preimage_def append_eq_same_length)

text \<open>
  The receipts root binds the receipts: two receipt lists with the same root are equal, in
  number, order, status and output, or two of the hashed messages collide.
\<close>

theorem receipts_root_binding:
  assumes "digest32 sha" "compute_receipts_root sha rs = compute_receipts_root sha ss"
  shows "rs = ss \<or> collision sha (receipts_messages sha rs \<union> receipts_messages sha ss)"
proof (cases "receipts_preimage sha rs = receipts_preimage sha ss")
  case False
  with assms(2) show ?thesis
    by (auto simp: compute_receipts_root_def collision_def receipts_messages_def)
next
  case True
  then have "map (receipt_canonical_root sha) rs = map (receipt_canonical_root sha) ss"
    using assms(1) by (intro concat_fixed_width_inj [where w = 32])
      (auto simp: receipts_preimage_def append_eq_same_length receipt_canonical_root_def digest32_def)
  then have digests: "list_all2 (\<lambda>r s. sha (receipt_preimage r) = sha (receipt_preimage s)) rs ss"
    by (auto simp: list_all2_conv_all_nth list_eq_iff_nth_eq receipt_canonical_root_def)
  show ?thesis
  proof (cases "\<exists>r \<in> set rs. \<exists>s \<in> set ss. sha (receipt_preimage r) = sha (receipt_preimage s) \<and>
      receipt_preimage r \<noteq> receipt_preimage s")
    case True
    then show ?thesis unfolding collision_def receipts_messages_def by blast
  next
    case False
    with digests have "list_all2 (=) rs ss"
      by (auto elim!: list.rel_mono_strong intro: receipt_preimage_inj)
    then show ?thesis by (simp add: list.rel_eq)
  qed
qed

theorem receipts_root_binding_witness:
  "[\<lparr>status_code = 1, receipt_output = []\<rparr>] = ([] :: ExecutionReceipt list) \<or>
   collision (\<lambda>_. zero_bytes 32)
     (receipts_messages (\<lambda>_. zero_bytes 32) [\<lparr>status_code = 1, receipt_output = []\<rparr>] \<union>
      receipts_messages (\<lambda>_. zero_bytes 32) [])"
  by (rule receipts_root_binding) (simp_all add: digest32_def compute_receipts_root_def)

end
