(* ===== verification/Crypto.thy ===== *)
theory Crypto
  imports Primitives
begin

text \<open>
  Signature verification and dispatch (\<^verbatim>\<open>crates/shell-crypto/src\<close>: \<^verbatim>\<open>errors.rs\<close>, \<^verbatim>\<open>traits.rs\<close>,
  \<^verbatim>\<open>dispatch.rs\<close>, \<^verbatim>\<open>schemes/ed25519.rs\<close>).

  A \<open>SignatureVerifier\<close> trait object is a record; its \<open>verify\<close> is an action, so the theorems see
  whether it was called. The \<open>ed25519_dalek\<close> crate is the record of functions \<open>ed25519_dalek\<close>,
  an argument of \<open>ed25519_verify\<close>. The locale \<open>verifier_registry\<close> is the contract of the
  registration interface of \<open>SignatureDispatcher\<close>; \<open>VerifierRegistry\<close> is its interpretation.
\<close>

section \<open>Traits and errors\<close>

datatype VerificationPath = TransactionAuthorization | ValidatorMessage

record SignatureVerificationRequest =
  public_key_material :: bytes
  req_signing_root :: Root
  req_signature :: bytes

datatype SignatureLimitKind = RepositoryRule | LocalTransportGuard | Scheme

record SignatureSizeExceededError =
  exceeded_max_size :: usize
  exceeded_actual_size :: usize
  exceeded_path :: VerificationPath
  exceeded_kind :: SignatureLimitKind

record VerificationFailure =
  failure_scheme_id :: u8
  failure_context :: string

datatype CryptoError =
    UnsupportedScheme u8
  | SignatureSizeExceeded SignatureSizeExceededError
  | VerificationFailed VerificationFailure

fun crypto_network_validation_outcome :: "CryptoError \<Rightarrow> ValidationOutcome option" where
  "crypto_network_validation_outcome (UnsupportedScheme _) = Some Reject"
| "crypto_network_validation_outcome (VerificationFailed _) = Some Reject"
| "crypto_network_validation_outcome (SignatureSizeExceeded error) =
     (if exceeded_path error = ValidatorMessage \<and> exceeded_kind error = LocalTransportGuard
      then Some PolicyReject else Some Reject)"

record 'w SignatureVerifier =
  verifier_scheme_id :: u8
  verifier_max_signature_size :: "VerificationPath \<Rightarrow> usize option"
  verifier_verify :: "SignatureVerificationRequest \<Rightarrow> ('w, unit, VerificationFailure) action"

section \<open>Dispatch\<close>

definition DEFAULT_USER_PATH_MAX_SIGNATURE_SIZE :: usize where
  "DEFAULT_USER_PATH_MAX_SIGNATURE_SIZE = 8 * 1024"

record DispatcherConfig =
  user_path_max_signature_size :: usize
  validator_path_max_signature_size :: "usize option"

definition default_dispatcher_config :: DispatcherConfig where
  "default_dispatcher_config =
     \<lparr>user_path_max_signature_size = DEFAULT_USER_PATH_MAX_SIGNATURE_SIZE,
      validator_path_max_signature_size = None\<rparr>"

record 'w VerifierRegistry =
  reg_config :: DispatcherConfig
  reg_verifiers :: "'w SignatureVerifier list"

record ResolvedSignatureLimit =
  limit_max_size :: usize
  limit_kind :: SignatureLimitKind

definition with_config :: "DispatcherConfig \<Rightarrow> 'w VerifierRegistry" where
  "with_config config = \<lparr>reg_config = config, reg_verifiers = []\<rparr>"

definition new_registry :: "'w VerifierRegistry" where
  "new_registry = \<lparr>reg_config = default_dispatcher_config, reg_verifiers = []\<rparr>"

text \<open>\<open>iter_mut().find\<close> with \<open>mem::replace\<close>: the first verifier of that scheme is swapped out.\<close>

fun replace_first ::
  "'w SignatureVerifier \<Rightarrow> 'w SignatureVerifier list \<Rightarrow> ('w SignatureVerifier \<times> 'w SignatureVerifier list) option" where
  "replace_first v [] = None"
| "replace_first v (existing # rest) =
     (if verifier_scheme_id existing = verifier_scheme_id v then Some (existing, v # rest)
      else map_option (map_prod id ((#) existing)) (replace_first v rest))"

definition register_verifier ::
  "'w SignatureVerifier \<Rightarrow> 'w VerifierRegistry \<Rightarrow> 'w SignatureVerifier option \<times> 'w VerifierRegistry" where
  "register_verifier v reg =
     (case replace_first v (reg_verifiers reg) of
        Some (existing, verifiers) \<Rightarrow> (Some existing, reg\<lparr>reg_verifiers := verifiers\<rparr>)
      | None \<Rightarrow> (None, reg\<lparr>reg_verifiers := reg_verifiers reg @ [v]\<rparr>))"

definition registry_verifier :: "'w VerifierRegistry \<Rightarrow> u8 \<Rightarrow> 'w SignatureVerifier option" where
  "registry_verifier reg scheme_id = find (\<lambda>v. verifier_scheme_id v = scheme_id) (reg_verifiers reg)"

definition max_signature_size ::
  "'w VerifierRegistry \<Rightarrow> 'w SignatureVerifier \<Rightarrow> VerificationPath \<Rightarrow> ResolvedSignatureLimit option" where
  "max_signature_size reg v path =
     (let chosen =
        (case path of
           TransactionAuthorization \<Rightarrow>
             Some \<lparr>limit_max_size = user_path_max_signature_size (reg_config reg), limit_kind = RepositoryRule\<rparr>
         | ValidatorMessage \<Rightarrow>
             map_option (\<lambda>max_size. \<lparr>limit_max_size = max_size, limit_kind = LocalTransportGuard\<rparr>)
               (validator_path_max_signature_size (reg_config reg)))
      in
        case verifier_max_signature_size v path of
          None \<Rightarrow> chosen
        | Some max_size \<Rightarrow>
            if (case chosen of Some current \<Rightarrow> max_size < limit_max_size current | None \<Rightarrow> True)
            then Some \<lparr>limit_max_size = max_size, limit_kind = Scheme\<rparr>
            else chosen)"

definition verify_for_path ::
  "'w VerifierRegistry \<Rightarrow> u8 \<Rightarrow> SignatureVerificationRequest \<Rightarrow> VerificationPath \<Rightarrow> ('w, unit, CryptoError) action" where
  "verify_for_path reg scheme_id request path =
     bind_action (lift_result (ok_or (registry_verifier reg scheme_id) (UnsupportedScheme scheme_id))) (\<lambda>v.
     bind_action
       (lift_result
         (case max_signature_size reg v path of
            Some limit \<Rightarrow>
              if length (req_signature request) > limit_max_size limit
              then Err (SignatureSizeExceeded
                     \<lparr>exceeded_max_size = limit_max_size limit,
                      exceeded_actual_size = length (req_signature request),
                      exceeded_path = path, exceeded_kind = limit_kind limit\<rparr>)
              else Ok ()
          | None \<Rightarrow> Ok ())) (\<lambda>_.
     map_err_action VerificationFailed (verifier_verify v request)))"

definition verify_transaction_authorization ::
  "'w VerifierRegistry \<Rightarrow> u8 \<Rightarrow> SignatureVerificationRequest \<Rightarrow> ('w, unit, CryptoError) action" where
  "verify_transaction_authorization reg scheme_id request =
     verify_for_path reg scheme_id request TransactionAuthorization"

definition verify_validator_message ::
  "'w VerifierRegistry \<Rightarrow> u8 \<Rightarrow> SignatureVerificationRequest \<Rightarrow> ('w, unit, CryptoError) action" where
  "verify_validator_message reg scheme_id request =
     verify_for_path reg scheme_id request ValidatorMessage"

section \<open>Ed25519\<close>

definition SCHEME_ID_ED25519 :: u8 where
  "SCHEME_ID_ED25519 = 0"

text \<open>The functions of \<open>ed25519_dalek\<close> that the scheme calls; \<open>'k\<close> and \<open>'s\<close> are its key and signature types.\<close>

record ('k, 's) ed25519_dalek =
  signature_byte_size :: usize
  verifying_key_from_bytes :: "bytes \<Rightarrow> 'k option"
  signature_from_slice :: "bytes \<Rightarrow> 's option"
  key_verify :: "'k \<Rightarrow> bytes \<Rightarrow> 's \<Rightarrow> bool"

definition ed25519_failure :: "string \<Rightarrow> VerificationFailure" where
  "ed25519_failure context = \<lparr>failure_scheme_id = SCHEME_ID_ED25519, failure_context = context\<rparr>"

definition ed25519_verify ::
  "('k, 's) ed25519_dalek \<Rightarrow> SignatureVerificationRequest \<Rightarrow> (unit, VerificationFailure) result" where
  "ed25519_verify dalek request =
     bind_result
       (ok_or (if length (public_key_material request) = 32 then Some (public_key_material request) else None)
         (ed25519_failure ''Invalid public key length'')) (\<lambda>public_key_bytes.
     bind_result
       (ok_or (verifying_key_from_bytes dalek public_key_bytes)
         (ed25519_failure ''Malformed public key'')) (\<lambda>public_key.
     bind_result
       (ok_or (signature_from_slice dalek (req_signature request))
         (ed25519_failure ''Invalid signature length or encoding'')) (\<lambda>signature.
     if key_verify dalek public_key (req_signing_root request) signature then Ok ()
     else Err (ed25519_failure ''Signature verification failed''))))"

definition Ed25519Verifier :: "('k, 's) ed25519_dalek \<Rightarrow> 'w SignatureVerifier" where
  "Ed25519Verifier dalek =
     \<lparr>verifier_scheme_id = SCHEME_ID_ED25519,
      verifier_max_signature_size = (\<lambda>_. Some (signature_byte_size dalek)),
      verifier_verify = (\<lambda>request. lift_result (ed25519_verify dalek request))\<rparr>"

section \<open>The registration interface\<close>

locale verifier_registry =
  fixes register :: "'v \<Rightarrow> 'r \<Rightarrow> 'v option \<times> 'r"
    and lookup :: "'r \<Rightarrow> u8 \<Rightarrow> 'v option"
    and scheme :: "'v \<Rightarrow> u8"
    and invar :: "'r \<Rightarrow> bool"
  assumes lookup_register: "invar r \<Longrightarrow> lookup (snd (register v r)) = (lookup r)(scheme v \<mapsto> v)"
    and register_old: "invar r \<Longrightarrow> fst (register v r) = lookup r (scheme v)"
    and register_invar: "invar r \<Longrightarrow> invar (snd (register v r))"
    and lookup_scheme: "lookup r s = Some v \<Longrightarrow> scheme v = s"
begin

definition register_all :: "'v list \<Rightarrow> 'r \<Rightarrow> 'r" where
  "register_all vs r = fold (\<lambda>v r. snd (register v r)) vs r"

lemma register_all_simps [simp]:
  "register_all [] r = r" "register_all (v # vs) r = register_all vs (snd (register v r))"
  by (simp_all add: register_all_def)

lemma register_all_invar: "invar r \<Longrightarrow> invar (register_all vs r)"
  by (induction vs arbitrary: r) (auto simp: register_invar)

text \<open>After any sequence of registrations the last verifier registered for a scheme answers for it.\<close>

lemma lookup_register_all:
  "invar r \<Longrightarrow> lookup (register_all vs r) = lookup r ++ map_of (rev (map (\<lambda>v. (scheme v, v)) vs))"
  by (induction vs arbitrary: r) (auto simp: lookup_register register_invar fun_eq_iff map_add_def
      split: option.splits)

end

definition registry_invar :: "'w VerifierRegistry \<Rightarrow> bool" where
  "registry_invar reg \<longleftrightarrow> distinct (map verifier_scheme_id (reg_verifiers reg))"

lemma replace_first_None:
  "replace_first v vs = None \<longleftrightarrow> find (\<lambda>w. verifier_scheme_id w = verifier_scheme_id v) vs = None"
  by (induction vs) auto

lemma replace_first_Some:
  assumes "replace_first v vs = Some (old, vs')"
  shows "map verifier_scheme_id vs' = map verifier_scheme_id vs"
    and "find (\<lambda>w. verifier_scheme_id w = verifier_scheme_id v) vs = Some old"
    and "find (\<lambda>w. verifier_scheme_id w = s) vs' =
       (if s = verifier_scheme_id v then Some v else find (\<lambda>w. verifier_scheme_id w = s) vs)"
  using assms by (induction vs arbitrary: vs') (auto split: if_splits)

lemma find_append: "find P (xs @ ys) = (case find P xs of Some x \<Rightarrow> Some x | None \<Rightarrow> find P ys)"
  by (induction xs) auto

interpretation registry:
  verifier_registry register_verifier registry_verifier verifier_scheme_id registry_invar
proof
  fix reg :: "'w VerifierRegistry" and v
  consider old vs where "replace_first v (reg_verifiers reg) = Some (old, vs)"
    | "replace_first v (reg_verifiers reg) = None" by fastforce
  note register_cases = this
  show "registry_verifier (snd (register_verifier v reg)) = (registry_verifier reg)(verifier_scheme_id v \<mapsto> v)"
    by (cases rule: register_cases)
       (auto simp: fun_eq_iff register_verifier_def registry_verifier_def replace_first_Some(3) find_append
         replace_first_None split: option.splits)
  show "fst (register_verifier v reg) = registry_verifier reg (verifier_scheme_id v)"
    by (cases rule: register_cases)
       (auto simp: register_verifier_def registry_verifier_def replace_first_Some(2) replace_first_None
         split: option.splits)
  show "registry_invar (snd (register_verifier v reg))" if "registry_invar reg"
    using that
    by (cases rule: register_cases)
       (auto simp: register_verifier_def registry_invar_def replace_first_Some(1) replace_first_None
         find_None_iff split: option.splits)
  show "registry_verifier reg s = Some v \<Longrightarrow> verifier_scheme_id v = s" for s
    by (auto simp: registry_verifier_def find_Some_iff)
qed

section \<open>Properties\<close>

lemma new_registry_invar [simp]: "registry_invar (with_config config)" "registry_invar new_registry"
  by (simp_all add: registry_invar_def with_config_def new_registry_def)

lemma new_registry_lookup [simp]:
  "registry_verifier (with_config config) = Map.empty" "registry_verifier new_registry = Map.empty"
  by (simp_all add: registry_verifier_def with_config_def new_registry_def fun_eq_iff)

text \<open>
  After any sequence of \<open>register_verifier\<close> calls on a fresh registry, the verifier that answers
  for a scheme is the last one registered for it, each scheme has one verifier, and a further
  registration returns the verifier it displaces.
\<close>

theorem registration_last_wins:
  "let reg = registry.register_all vs (with_config config) in
   registry_verifier reg = map_of (rev (map (\<lambda>v. (verifier_scheme_id v, v)) vs)) \<and>
   distinct (map verifier_scheme_id (reg_verifiers reg)) \<and>
   fst (register_verifier v reg) = registry_verifier reg (verifier_scheme_id v)"
proof -
  have "registry_invar (registry.register_all vs (with_config config))"
    by (intro registry.register_all_invar) simp
  then show ?thesis
    by (simp add: Let_def registry.lookup_register_all registry.register_old registry_invar_def [symmetric])
qed

text \<open>The limits that apply to one verification, by their source.\<close>

definition config_limits :: "'w VerifierRegistry \<Rightarrow> VerificationPath \<Rightarrow> usize set" where
  "config_limits reg path =
     (case path of TransactionAuthorization \<Rightarrow> {user_path_max_signature_size (reg_config reg)}
        | ValidatorMessage \<Rightarrow> set_option (validator_path_max_signature_size (reg_config reg)))"

definition applicable_limits ::
  "'w VerifierRegistry \<Rightarrow> 'w SignatureVerifier \<Rightarrow> VerificationPath \<Rightarrow> usize set" where
  "applicable_limits reg v path = config_limits reg path \<union> set_option (verifier_max_signature_size v path)"

definition limit_source ::
  "'w VerifierRegistry \<Rightarrow> 'w SignatureVerifier \<Rightarrow> VerificationPath \<Rightarrow> SignatureLimitKind" where
  "limit_source reg v path =
     (if \<exists>m \<in> set_option (verifier_max_signature_size v path). \<forall>c \<in> config_limits reg path. m < c then Scheme
      else case path of TransactionAuthorization \<Rightarrow> RepositoryRule | ValidatorMessage \<Rightarrow> LocalTransportGuard)"

lemma finite_applicable_limits [simp]: "finite (applicable_limits reg v path)"
  by (simp add: applicable_limits_def config_limits_def split: VerificationPath.splits)

lemma max_signature_size_None:
  "max_signature_size reg v path = None \<longleftrightarrow> applicable_limits reg v path = {}"
  by (auto simp: max_signature_size_def applicable_limits_def config_limits_def Let_def
      split: VerificationPath.splits option.splits)

lemma max_signature_size_Some:
  assumes "max_signature_size reg v path = Some l"
  shows "limit_max_size l = Min (applicable_limits reg v path)" "limit_kind l = limit_source reg v path"
proof -
  have "limit_max_size l \<in> applicable_limits reg v path \<and> (\<forall>m \<in> applicable_limits reg v path. limit_max_size l \<le> m)"
    using assms by (auto simp: max_signature_size_def applicable_limits_def config_limits_def Let_def
        split: VerificationPath.splits option.splits if_splits)
  then show "limit_max_size l = Min (applicable_limits reg v path)" by (auto intro!: Min_eqI [symmetric])
  show "limit_kind l = limit_source reg v path"
    using assms by (auto simp: max_signature_size_def limit_source_def config_limits_def Let_def
        split: VerificationPath.splits option.splits if_splits)
qed

lemma verify_for_path_eq:
  "verify_for_path reg scheme_id request path w =
     (case registry_verifier reg scheme_id of
        None \<Rightarrow> (Err (UnsupportedScheme scheme_id), w)
      | Some v \<Rightarrow>
          if \<forall>m \<in> applicable_limits reg v path. length (req_signature request) \<le> m
          then map_prod (map_err VerificationFailed) id (verifier_verify v request w)
          else (Err (SignatureSizeExceeded
                  \<lparr>exceeded_max_size = Min (applicable_limits reg v path),
                   exceeded_actual_size = length (req_signature request), exceeded_path = path,
                   exceeded_kind = limit_source reg v path\<rparr>), w))"
proof (cases "registry_verifier reg scheme_id")
  case None
  then show ?thesis by (simp add: verify_for_path_def)
next
  case (Some v)
  show ?thesis
  proof (cases "max_signature_size reg v path")
    case None
    then have "applicable_limits reg v path = {}" using max_signature_size_None [of reg v path] by simp
    with Some None show ?thesis
      by (simp add: verify_for_path_def map_err_action_def map_prod_def split: prod.splits)
  next
    case limit: (Some l)
    then have "applicable_limits reg v path \<noteq> {}" using max_signature_size_None [of reg v path] by simp
    then have "(\<forall>m \<in> applicable_limits reg v path. length (req_signature request) \<le> m) \<longleftrightarrow>
        length (req_signature request) \<le> limit_max_size l"
      by (simp add: max_signature_size_Some [OF limit])
    with Some limit show ?thesis
      by (simp add: verify_for_path_def max_signature_size_Some [OF limit, symmetric] map_err_action_def
          map_prod_def split: prod.splits)
  qed
qed

text \<open>
  C24: The dispatcher reaches the scheme's verifier exactly when the scheme is registered and the
  signature respects every applicable limit (repository rule, transport guard and scheme limit);
  then it returns the verifier's verdict. Otherwise it fails, naming the smallest limit and its
  source, and the verifier is not called.
\<close>

theorem verify_for_path_behaviour:
  "verify_for_path reg scheme_id request path w =
     (case registry_verifier reg scheme_id of
        None \<Rightarrow> (Err (UnsupportedScheme scheme_id), w)
      | Some v \<Rightarrow>
          if \<forall>m \<in> applicable_limits reg v path. length (req_signature request) \<le> m
          then map_prod (map_err VerificationFailed) id (verifier_verify v request w)
          else (Err (SignatureSizeExceeded
                  \<lparr>exceeded_max_size = Min (applicable_limits reg v path),
                   exceeded_actual_size = length (req_signature request), exceeded_path = path,
                   exceeded_kind = limit_source reg v path\<rparr>), w))"
  by (rule verify_for_path_eq)

theorem verify_for_path_behaviour_witness:
  "verify_for_path
     \<lparr>reg_config = default_dispatcher_config,
      reg_verifiers = [\<lparr>verifier_scheme_id = 7, verifier_max_signature_size = (\<lambda>_. Some 2),
        verifier_verify = (\<lambda>_ calls. (Ok (), Suc calls))\<rparr>]\<rparr> 7
     \<lparr>public_key_material = [], req_signing_root = [], req_signature = [1, 2, 3]\<rparr>
     TransactionAuthorization 0 =
   (Err (SignatureSizeExceeded
      \<lparr>exceeded_max_size = 2, exceeded_actual_size = 3, exceeded_path = TransactionAuthorization,
       exceeded_kind = Scheme\<rparr>), 0 :: nat)"
  by (subst verify_for_path_behaviour)
     (simp add: registry_verifier_def applicable_limits_def config_limits_def limit_source_def
       default_dispatcher_config_def DEFAULT_USER_PATH_MAX_SIGNATURE_SIZE_def)

text \<open>
  C26: A failed verification is a \<open>PolicyReject\<close> exactly for a validator message over the locally
  configured transport guard, when no stricter scheme limit exists; every other failure of the
  dispatcher is a \<open>Reject\<close>. In particular the transaction path never produces a policy outcome.
\<close>

theorem policy_reject_only_transport_guard:
  assumes "fst (verify_for_path reg scheme_id request path w) = Err e"
  shows "crypto_network_validation_outcome e =
     Some (if \<exists>guard v. path = ValidatorMessage \<and>
        validator_path_max_signature_size (reg_config reg) = Some guard \<and>
        registry_verifier reg scheme_id = Some v \<and> guard < length (req_signature request) \<and>
        (\<forall>m \<in> set_option (verifier_max_signature_size v path). guard \<le> m)
      then PolicyReject else Reject)"
proof (cases "registry_verifier reg scheme_id")
  case None
  with assms show ?thesis by (auto simp: verify_for_path_eq)
next
  case (Some v)
  show ?thesis
  proof (cases "\<forall>m \<in> applicable_limits reg v path. length (req_signature request) \<le> m")
    case True
    with assms Some have "\<exists>d. e = VerificationFailed d"
      by (auto simp: verify_for_path_eq result_simps)
    with True Some show ?thesis
      by (auto simp: applicable_limits_def config_limits_def)
  next
    case False
    with assms Some have "e = SignatureSizeExceeded
        \<lparr>exceeded_max_size = Min (applicable_limits reg v path),
         exceeded_actual_size = length (req_signature request), exceeded_path = path,
         exceeded_kind = limit_source reg v path\<rparr>"
      by (simp add: verify_for_path_eq if_not_P)
    with False Some show ?thesis
      by (cases path; cases "validator_path_max_signature_size (reg_config reg)";
          cases "verifier_max_signature_size v path")
         (auto simp: applicable_limits_def config_limits_def limit_source_def)
  qed
qed

definition counting_verifier :: "u8 \<Rightarrow> nat SignatureVerifier" where
  "counting_verifier scheme_id =
     \<lparr>verifier_scheme_id = scheme_id, verifier_max_signature_size = (\<lambda>_. None),
      verifier_verify = (\<lambda>_ calls. (Ok (), Suc calls))\<rparr>"

theorem policy_reject_only_transport_guard_witness:
  "crypto_network_validation_outcome
     (SignatureSizeExceeded \<lparr>exceeded_max_size = 2, exceeded_actual_size = 3,
        exceeded_path = ValidatorMessage, exceeded_kind = LocalTransportGuard\<rparr>) = Some PolicyReject"
  by (subst policy_reject_only_transport_guard
       [of "\<lparr>reg_config = \<lparr>user_path_max_signature_size = 0, validator_path_max_signature_size = Some 2\<rparr>,
             reg_verifiers = [counting_verifier 7]\<rparr>" 7
          "\<lparr>public_key_material = [], req_signing_root = [], req_signature = [1, 2, 3]\<rparr>" ValidatorMessage 0])
     (simp_all add: verify_for_path_def registry_verifier_def counting_verifier_def max_signature_size_def)

lemma Ed25519Verifier_simps [simp]:
  "verifier_scheme_id (Ed25519Verifier dalek) = SCHEME_ID_ED25519"
  "verifier_max_signature_size (Ed25519Verifier dalek) path = Some (signature_byte_size dalek)"
  "verifier_verify (Ed25519Verifier dalek) request w = (ed25519_verify dalek request, w)"
  by (simp_all add: Ed25519Verifier_def)

lemma ed25519_verify_Ok:
  "ed25519_verify dalek request = Ok () \<longleftrightarrow>
     length (public_key_material request) = 32 \<and>
     (\<exists>key sig. verifying_key_from_bytes dalek (public_key_material request) = Some key \<and>
        signature_from_slice dalek (req_signature request) = Some sig \<and>
        key_verify dalek key (req_signing_root request) sig)"
  by (auto simp: ed25519_verify_def result_simps split: if_splits)

lemma reg_config_register [simp]: "reg_config (snd (register_verifier v reg)) = reg_config reg"
  by (simp add: register_verifier_def split: option.splits prod.splits)

text \<open>
  C25: The Ed25519 scheme behind the dispatcher accepts a transaction authorization exactly when the
  key has 32 bytes and parses, the signature parses and is not longer than either limit, and the
  curve equation check of \<open>ed25519_dalek\<close> succeeds on the signing root.
\<close>

theorem ed25519_dispatch_accepts:
  "fst (verify_transaction_authorization
          (snd (register_verifier (Ed25519Verifier dalek) new_registry)) SCHEME_ID_ED25519 request w) = Ok () \<longleftrightarrow>
     length (req_signature request) \<le> 8192 \<and> length (req_signature request) \<le> signature_byte_size dalek \<and>
     length (public_key_material request) = 32 \<and>
     (\<exists>key sig. verifying_key_from_bytes dalek (public_key_material request) = Some key \<and>
        signature_from_slice dalek (req_signature request) = Some sig \<and>
        key_verify dalek key (req_signing_root request) sig)"
  by (auto simp: verify_transaction_authorization_def verify_for_path_eq registry.lookup_register
      applicable_limits_def config_limits_def new_registry_def [THEN arg_cong [of _ _ reg_config]]
      default_dispatcher_config_def DEFAULT_USER_PATH_MAX_SIGNATURE_SIZE_def ed25519_verify_Ok
      map_err_Ok_iff split: if_splits)

end
