(* ===== verification/Mempool.thy ===== *)
theory Mempool
  imports Ssz Crypto
begin

text \<open>
  Transaction admission (\<^verbatim>\<open>crates/shell-mempool/src\<close>: \<^verbatim>\<open>fees.rs\<close>, \<^verbatim>\<open>errors.rs\<close>,
  \<^verbatim>\<open>outcomes.rs\<close>, \<^verbatim>\<open>admission.rs\<close>).

  The pipeline borrows a signature dispatcher; it is a function to actions, so that the theorems
  speak about which verifications are started. Structural screening, fee floors and the nonce
  window come first, signatures last. The specification of screening is the pair of
  predicates \<open>structurally_valid\<close> and \<open>policy_valid\<close>; fee comparison is specified by the numbers the 256-bit little-endian arrays denote.
  The locale \<open>stateless_dispatcher\<close> is the contract under which admission is a decision procedure;
  it is interpreted for the registry of the crypto crate with the Ed25519 scheme.
\<close>

section \<open>Fees\<close>

datatype FeeLane = Payload | Witness

record FeeSchedule =
  payload_lane_base_fee :: GasPrice
  witness_lane_base_fee :: GasPrice

definition transaction_fees :: "TransactionEnvelope \<Rightarrow> BasicFeesPerGas" where
  "transaction_fees e =
     (case ssz_payload (env_payload e) of Basic p \<Rightarrow> basic_fees p | Create p \<Rightarrow> create_fees p)"

definition payload_lane_fee :: "TransactionEnvelope \<Rightarrow> GasPrice" where
  "payload_lane_fee e = regular (transaction_fees e)"

definition witness_lane_fee :: "TransactionEnvelope \<Rightarrow> GasPrice" where
  "witness_lane_fee e = max_witness_priority_fee (transaction_fees e)"

definition cmp_u8 :: "u8 \<Rightarrow> u8 \<Rightarrow> ordering" where
  "cmp_u8 a b = (if a < b then Less else if a = b then Equal else Greater)"

fun compare_bytes :: "(u8 \<times> u8) list \<Rightarrow> ordering" where
  "compare_bytes [] = Equal"
| "compare_bytes ((l, r) # rest) =
     (case cmp_u8 l r of Equal \<Rightarrow> compare_bytes rest | unequal \<Rightarrow> unequal)"

definition compare_u256 :: "U256 \<Rightarrow> U256 \<Rightarrow> ordering" where
  "compare_u256 l r = compare_bytes (zip (rev (u256_bytes l)) (rev (u256_bytes r)))"

definition gas_price_covers :: "GasPrice \<Rightarrow> GasPrice \<Rightarrow> bool" where
  "gas_price_covers actual required = (compare_u256 (gas_price_value actual) (gas_price_value required) \<noteq> Less)"

section \<open>Errors and outcomes\<close>

record FeeFloorError =
  floor_lane :: FeeLane
  floor_required :: GasPrice
  floor_actual :: GasPrice

datatype ValidationError =
    Primitive PrimitiveError
  | UnsupportedScheme u8
  | SignatureSizeExceeded SignatureSizeExceededError
  | SignatureVerification VerificationFailure
  | FeeFloor FeeFloorError
  | NoncePolicyViolation string
  | SigningRootUnavailable string
  | AuthorizationMaterialCount (material_expected: usize) (material_actual: usize)

fun mempool_network_validation_outcome :: "ValidationError \<Rightarrow> ValidationOutcome option" where
  "mempool_network_validation_outcome (Primitive error) = primitive_network_validation_outcome error"
| "mempool_network_validation_outcome (ValidationError.UnsupportedScheme _) = Some Reject"
| "mempool_network_validation_outcome (ValidationError.SignatureSizeExceeded _) = Some Reject"
| "mempool_network_validation_outcome (SignatureVerification _) = Some Reject"
| "mempool_network_validation_outcome (FeeFloor _) = Some PolicyReject"
| "mempool_network_validation_outcome (NoncePolicyViolation _) = Some PolicyReject"
| "mempool_network_validation_outcome (SigningRootUnavailable _) = None"
| "mempool_network_validation_outcome (AuthorizationMaterialCount _ _) = None"

record TentativeAccepted =
  tentative_payload_root :: Root
  authorization_count :: usize

record AuthorizationValidated =
  validated_payload_root :: Root
  validated_signing_root :: Root
  verified_authorization_count :: usize

section \<open>Policy\<close>

record NoncePolicy =
  max_future_nonce_gap :: u64

datatype TransactionAuthorizationDomain = Canonical | Explicit Bytes4

datatype MultiAuthorizationPolicy = RequireAll

record AdmissionPolicy =
  fee_schedule :: FeeSchedule
  nonce_policy :: NoncePolicy
  authorization_domain :: TransactionAuthorizationDomain
  multi_authorization_policy :: MultiAuthorizationPolicy

record AuthorizationMaterial =
  material_public_key :: bytes

type_synonym admission_state_view = "TransactionEnvelope \<Rightarrow> u64 option"

type_synonym 'w dispatcher = "u8 \<Rightarrow> SignatureVerificationRequest \<Rightarrow> ('w, unit, CryptoError) action"

definition domain_signing_root ::
  "hash_fun \<Rightarrow> TransactionAuthorizationDomain \<Rightarrow> Root \<Rightarrow> (Root, string) result" where
  "domain_signing_root sha domain p_root =
     bind_result
       (case domain of
          Canonical \<Rightarrow>
            map_err (\<lambda>_. ''failed to construct signing_root from the canonical transaction authorization domain'')
              (build_signing_data p_root TransactionAuthorizationDomainSelector)
        | Explicit domain_bytes \<Rightarrow> Ok \<lparr>object_root = p_root, domain_type = domain_bytes\<rparr>)
       (\<lambda>signing_data.
     map_err (\<lambda>_. ''failed to construct signing_root from transaction authorization domain bytes'')
       (signing_data_hash_tree_root sha signing_data))"

definition transaction_nonce :: "TransactionEnvelope \<Rightarrow> u64" where
  "transaction_nonce e =
     (case ssz_payload (env_payload e) of Basic p \<Rightarrow> basic_nonce p | Create p \<Rightarrow> create_nonce p)"

fun map_crypto_error :: "CryptoError \<Rightarrow> ValidationError" where
  "map_crypto_error (CryptoError.UnsupportedScheme error) = ValidationError.UnsupportedScheme error"
| "map_crypto_error (CryptoError.SignatureSizeExceeded error) = ValidationError.SignatureSizeExceeded error"
| "map_crypto_error (VerificationFailed error) = SignatureVerification error"

section \<open>The pipeline\<close>

definition check_fee_policy :: "AdmissionPolicy \<Rightarrow> TransactionEnvelope \<Rightarrow> (unit, ValidationError) result" where
  "check_fee_policy policy e =
     (let payload_fee = payload_lane_fee e in
      if \<not> gas_price_covers payload_fee (payload_lane_base_fee (fee_schedule policy))
      then Err (FeeFloor \<lparr>floor_lane = Payload,
             floor_required = payload_lane_base_fee (fee_schedule policy), floor_actual = payload_fee\<rparr>)
      else
        let witness_fee = witness_lane_fee e in
        if \<not> gas_price_covers witness_fee (witness_lane_base_fee (fee_schedule policy))
        then Err (FeeFloor \<lparr>floor_lane = Witness,
               floor_required = witness_lane_base_fee (fee_schedule policy), floor_actual = witness_fee\<rparr>)
        else Ok ())"

definition check_nonce_policy ::
  "AdmissionPolicy \<Rightarrow> TransactionEnvelope \<Rightarrow> admission_state_view option \<Rightarrow> (unit, ValidationError) result" where
  "check_nonce_policy policy e state_view =
     (case state_view of
        None \<Rightarrow> Ok ()
      | Some observed_nonce_of \<Rightarrow>
          (case observed_nonce_of e of
             None \<Rightarrow> Ok ()
           | Some observed_nonce \<Rightarrow>
               let tx_nonce = transaction_nonce e in
               if tx_nonce < observed_nonce
               then Err (NoncePolicyViolation ''transaction nonce is lower than the observed replay lane nonce'')
               else
                 let max_nonce = saturating_add_u64 observed_nonce (max_future_nonce_gap (nonce_policy policy)) in
                 if tx_nonce > max_nonce
                 then Err (NoncePolicyViolation ''transaction nonce exceeds the configured future replay lane gap'')
                 else Ok ()))"

definition screen_transaction ::
  "hash_fun \<Rightarrow> AdmissionPolicy \<Rightarrow> TransactionEnvelope \<Rightarrow> admission_state_view option \<Rightarrow>
   (TentativeAccepted, ValidationError) result" where
  "screen_transaction sha policy e state_view =
     bind_result (map_err Primitive (payload_root sha e)) (\<lambda>p_root.
     bind_result (map_err Primitive (ensure_supported_tag (protocol_tag (env_payload e)))) (\<lambda>_.
     bind_result (map_err Primitive (check_authorization_count (env_authorizations e))) (\<lambda>_.
     bind_result (map_err Primitive
       (check_authorization_payload_roots sha (env_payload e) (env_authorizations e))) (\<lambda>_.
     bind_result (for_each (\<lambda>a. map_err Primitive (check_user_signature_size (auth_signature a)))
       (env_authorizations e)) (\<lambda>_.
     bind_result (check_fee_policy policy e) (\<lambda>_.
     bind_result (check_nonce_policy policy e state_view) (\<lambda>_.
     Ok \<lparr>tentative_payload_root = p_root, authorization_count = length (env_authorizations e)\<rparr>)))))))"

definition verification_request :: "Root \<Rightarrow> Authorization \<times> AuthorizationMaterial \<Rightarrow> SignatureVerificationRequest" where
  "verification_request s_root am =
     \<lparr>public_key_material = material_public_key (snd am), req_signing_root = s_root,
      req_signature = auth_signature (fst am)\<rparr>"

definition verify_authorizations ::
  "hash_fun \<Rightarrow> 'w dispatcher \<Rightarrow> AdmissionPolicy \<Rightarrow> TransactionEnvelope \<Rightarrow> TentativeAccepted \<Rightarrow>
   AuthorizationMaterial list \<Rightarrow> ('w, AuthorizationValidated, ValidationError) action" where
  "verify_authorizations sha dispatcher policy e accepted materials =
     (if length materials \<noteq> length (env_authorizations e)
      then lift_result (Err (AuthorizationMaterialCount (length (env_authorizations e)) (length materials)))
      else
        bind_action (lift_result (map_err SigningRootUnavailable
          (domain_signing_root sha (authorization_domain policy) (tentative_payload_root accepted)))) (\<lambda>s_root.
        bind_action
          (case multi_authorization_policy policy of
             RequireAll \<Rightarrow>
               for_each_action (\<lambda>am.
                 map_err_action map_crypto_error
                   (dispatcher (auth_scheme_id (fst am)) (verification_request s_root am)))
               (zip (env_authorizations e) materials)) (\<lambda>_.
        lift_result (Ok \<lparr>validated_payload_root = tentative_payload_root accepted,
          validated_signing_root = s_root,
          verified_authorization_count = length (env_authorizations e)\<rparr>))))"

definition admit_and_verify ::
  "hash_fun \<Rightarrow> 'w dispatcher \<Rightarrow> AdmissionPolicy \<Rightarrow> TransactionEnvelope \<Rightarrow> admission_state_view option \<Rightarrow>
   AuthorizationMaterial list \<Rightarrow> ('w, AuthorizationValidated, ValidationError) action" where
  "admit_and_verify sha dispatcher policy e state_view materials =
     bind_action (lift_result (screen_transaction sha policy e state_view)) (\<lambda>accepted.
     verify_authorizations sha dispatcher policy e accepted materials)"

section \<open>Fee comparison is numeric\<close>

lemma le_nat_append: "le_nat (xs @ ys) = le_nat xs + 256 ^ length xs * le_nat ys"
  by (induction xs) (simp_all add: algebra_simps)

lemma compare_bytes_numeric:
  assumes "length xs = length ys"
  shows "compare_bytes (zip xs ys) =
    (if le_nat (rev xs) < le_nat (rev ys) then Less
     else if le_nat (rev xs) = le_nat (rev ys) then Equal else Greater)"
  using assms
proof (induction xs ys rule: list_induct2)
  case (Cons x xs y ys)
  have bound: "le_nat (rev xs) < 256 ^ length ys" "le_nat (rev ys) < 256 ^ length ys"
    using le_nat_bound [of "rev xs"] le_nat_bound [of "rev ys"] Cons.hyps by simp_all
  have less: "a + 256 ^ n * unat x < b + 256 ^ n * unat y" if "x < y" "a < 256 ^ n" for x y :: u8 and a b n :: nat
  proof -
    from \<open>x < y\<close> have "Suc (unat x) \<le> unat y" by (simp add: word_less_nat_alt)
    then have "256 ^ n * Suc (unat x) \<le> 256 ^ n * unat y" by (rule mult_le_mono2)
    with \<open>a < 256 ^ n\<close> show ?thesis by simp
  qed
  consider "x < y" | "x = y" | "y < x" by fastforce
  then show ?case
  proof cases
    case 1
    then show ?thesis using less [OF 1 bound(1), of "le_nat (rev ys)"] Cons.hyps
      by (simp add: le_nat_append cmp_u8_def)
  next
    case 2
    then show ?thesis using Cons by (simp add: le_nat_append cmp_u8_def)
  next
    case 3
    then show ?thesis using less [OF 3 bound(2), of "le_nat (rev xs)"] Cons.hyps
      by (auto simp: le_nat_append cmp_u8_def)
  qed
qed simp

definition u256_nat :: "U256 \<Rightarrow> nat" where
  "u256_nat v = le_nat (u256_bytes v)"

lemma compare_u256_numeric:
  "wf_u256 l \<Longrightarrow> wf_u256 r \<Longrightarrow> compare_u256 l r = Less \<longleftrightarrow> u256_nat l < u256_nat r"
  by (simp add: compare_u256_def compare_bytes_numeric wf_u256_def u256_nat_def)

lemma gas_price_covers_numeric:
  "wf_u256 (gas_price_value a) \<Longrightarrow> wf_u256 (gas_price_value r) \<Longrightarrow>
     gas_price_covers a r \<longleftrightarrow> u256_nat (gas_price_value r) \<le> u256_nat (gas_price_value a)"
  by (simp add: gas_price_covers_def compare_u256_numeric not_less)

section \<open>What screening accepts\<close>

definition nonce_in_window :: "AdmissionPolicy \<Rightarrow> TransactionEnvelope \<Rightarrow> admission_state_view option \<Rightarrow> bool" where
  "nonce_in_window policy e view \<longleftrightarrow>
     (case Option.bind view (\<lambda>f. f e) of
        None \<Rightarrow> True
      | Some observed \<Rightarrow>
          unat observed \<le> unat (transaction_nonce e) \<and>
          unat (transaction_nonce e) \<le> unat observed + unat (max_future_nonce_gap (nonce_policy policy)))"

definition structurally_valid :: "hash_fun \<Rightarrow> TransactionEnvelope \<Rightarrow> bool" where
  "structurally_valid sha e \<longleftrightarrow> env_authorizations e \<noteq> [] \<and>
     (\<forall>a \<in> set (env_authorizations e). payload_root sha e = Ok (auth_payload_root a)) \<and>
     (\<forall>a \<in> set (env_authorizations e). length (auth_signature a) \<le> 8192)"

definition policy_valid :: "AdmissionPolicy \<Rightarrow> TransactionEnvelope \<Rightarrow> admission_state_view option \<Rightarrow> bool" where
  "policy_valid policy e view \<longleftrightarrow>
     gas_price_covers (payload_lane_fee e) (payload_lane_base_fee (fee_schedule policy)) \<and>
     gas_price_covers (witness_lane_fee e) (witness_lane_base_fee (fee_schedule policy)) \<and>
     nonce_in_window policy e view"

definition e_root :: "hash_fun \<Rightarrow> TransactionEnvelope \<Rightarrow> Root" where
  "e_root sha e = tree_root sha (payload_tree (env_payload e))"

lemma payload_root_Ok [simp]: "payload_root sha e = Ok (e_root sha e)"
  by (simp add: payload_root_def tree_root_payload e_root_def)

lemma payload_hash_tree_root_Ok [simp]: "payload_hash_tree_root sha (env_payload e) = Ok (e_root sha e)"
  by (simp add: tree_root_payload e_root_def)

lemma check_fee_policy_Ok [result_simps]:
  "check_fee_policy policy e = Ok u \<longleftrightarrow>
     gas_price_covers (payload_lane_fee e) (payload_lane_base_fee (fee_schedule policy)) \<and>
     gas_price_covers (witness_lane_fee e) (witness_lane_base_fee (fee_schedule policy))"
  by (auto simp: check_fee_policy_def Let_def)

lemma le_saturating_add: "v \<le> saturating_add_u64 a b \<longleftrightarrow> unat v \<le> unat a + unat b"
proof -
  have "unat v \<le> 2 ^ 64 - 1" using unat_bound_u64 [of v] by simp
  then show ?thesis by (simp add: word_le_nat_alt unat_saturating_add_u64)
qed

lemma saturating_add_less: "saturating_add_u64 a b < v \<longleftrightarrow> unat a + unat b < unat v"
  using le_saturating_add [of v a b] by (simp flip: not_le)

lemma check_nonce_policy_Ok [result_simps]:
  "check_nonce_policy policy e view = Ok u \<longleftrightarrow> nonce_in_window policy e view"
  by (auto simp: check_nonce_policy_def nonce_in_window_def Let_def not_less word_less_nat_alt
      saturating_add_less [unfolded word_less_nat_alt] le_saturating_add [unfolded word_le_nat_alt]
      split: option.splits)

lemma check_authorization_count_Ok [result_simps]:
  "check_authorization_count as = Ok u \<longleftrightarrow> as \<noteq> []"
  by (simp add: check_authorization_count_def)

lemma check_user_signature_size_Ok [result_simps]:
  "check_user_signature_size sig = Ok u \<longleftrightarrow> length sig \<le> 8192"
  by (auto simp: check_user_signature_size_def MAX_USER_SIGNATURE_BYTES_def)

lemma check_payload_roots_Ok [result_simps]:
  "check_authorization_payload_roots sha (env_payload e) as = Ok u \<longleftrightarrow> (\<forall>a \<in> set as. auth_payload_root a = e_root sha e)"
  by (auto simp: check_authorization_payload_roots_def result_simps)

lemma screen_transaction_Ok:
  "screen_transaction sha policy e view = Ok t \<longleftrightarrow>
     structurally_valid sha e \<and> policy_valid policy e view \<and>
     t = \<lparr>tentative_payload_root = e_root sha e, authorization_count = length (env_authorizations e)\<rparr>"
  by (auto simp: screen_transaction_def result_simps structurally_valid_def policy_valid_def)

lemma check_not_Panic [simp]:
  "check_authorization_count as \<noteq> Panic" "check_user_signature_size sig \<noteq> Panic"
  "check_fee_policy policy e \<noteq> Panic" "check_nonce_policy policy e view \<noteq> Panic"
  "check_authorization_payload_roots sha (env_payload (e :: TransactionEnvelope)) as \<noteq> Panic"
  by (auto simp: check_authorization_count_def check_user_signature_size_def check_fee_policy_def
      check_nonce_policy_def check_authorization_payload_roots_def Let_def result_simps
      intro!: for_each_not_Panic split: option.splits if_splits)

lemma screen_not_Panic [simp]: "screen_transaction sha policy e view \<noteq> Panic"
  by (auto simp: screen_transaction_def result_simps for_each_not_Panic)

text \<open>Every structural failure is reported before, and in place of, any policy failure.\<close>

lemma structural_check_Reject:
  "check_authorization_count as = Err d \<Longrightarrow> primitive_network_validation_outcome d = Some Reject"
  "check_user_signature_size sig = Err d \<Longrightarrow> primitive_network_validation_outcome d = Some Reject"
  "check_authorization_payload_roots sha (env_payload (e :: TransactionEnvelope)) as = Err d \<Longrightarrow> primitive_network_validation_outcome d = Some Reject"
  by (auto simp: check_authorization_count_def check_user_signature_size_def
      check_authorization_payload_roots_def result_simps split: if_splits)

lemma screen_structural_error:
  assumes "\<not> structurally_valid sha e"
  shows "\<exists>err. screen_transaction sha policy e view = Err (Primitive err) \<and>
    primitive_network_validation_outcome err = Some Reject"
proof (cases "check_authorization_count (env_authorizations e)")
  case count: (Ok u)
  show ?thesis
  proof (cases "check_authorization_payload_roots sha (env_payload e) (env_authorizations e)")
    case roots: (Ok v)
    show ?thesis
    proof (cases "for_each (\<lambda>a. map_err Primitive (check_user_signature_size (auth_signature a))) (env_authorizations e)")
      case sizes: (Ok x)
      have "structurally_valid sha e"
        using count roots sizes by (auto simp: structurally_valid_def result_simps)
      with assms show ?thesis by simp
    next
      case (Err d)
      with count roots show ?thesis
        by (auto simp: screen_transaction_def dest: structural_check_Reject)
           (auto simp: result_simps dest: structural_check_Reject)
    next
      case Panic
      have "for_each (\<lambda>a. map_err Primitive (check_user_signature_size (auth_signature a))) (env_authorizations e) \<noteq> Panic"
        by (rule for_each_not_Panic) (simp add: result_simps)
      with Panic show ?thesis by simp
    qed
  next
    case (Err d)
    with count show ?thesis by (auto simp: screen_transaction_def dest: structural_check_Reject)
  qed simp
next
  case (Err d)
  then show ?thesis by (auto simp: screen_transaction_def dest: structural_check_Reject)
qed simp

lemma screen_policy_error:
  assumes "structurally_valid sha e" "\<not> policy_valid policy e view"
  shows "\<exists>err. screen_transaction sha policy e view = Err err \<and> mempool_network_validation_outcome err = Some PolicyReject"
proof -
  have "check_authorization_count (env_authorizations e) = Ok ()"
    "check_authorization_payload_roots sha (env_payload e) (env_authorizations e) = Ok ()"
    "for_each (\<lambda>a. map_err Primitive (check_user_signature_size (auth_signature a))) (env_authorizations e) = Ok ()"
    using assms(1) by (auto simp: structurally_valid_def result_simps)
  then show ?thesis
    using assms(2) unfolding policy_valid_def check_nonce_policy_Ok [of _ _ _ "()", symmetric]
    by (auto simp: screen_transaction_def check_fee_policy_def check_nonce_policy_def Let_def
        split: option.splits)
qed

section \<open>Signatures\<close>

fun domain_bytes :: "TransactionAuthorizationDomain \<Rightarrow> Bytes4" where
  "domain_bytes Canonical = DOMAIN_TX_SHELL"
| "domain_bytes (Explicit d) = d"

definition authorization_root :: "hash_fun \<Rightarrow> AdmissionPolicy \<Rightarrow> TransactionEnvelope \<Rightarrow> Root" where
  "authorization_root sha policy e =
     tree_root sha (signing_data_tree
       \<lparr>object_root = e_root sha e, domain_type = domain_bytes (authorization_domain policy)\<rparr>)"

lemma domain_signing_root_Ok:
  "domain_signing_root sha d r = Ok (tree_root sha (signing_data_tree \<lparr>object_root = r, domain_type = domain_bytes d\<rparr>))"
  by (cases d) (simp_all add: domain_signing_root_def build_signing_data_def tree_root_signing_data)

definition screened :: "hash_fun \<Rightarrow> AdmissionPolicy \<Rightarrow> TransactionEnvelope \<Rightarrow> admission_state_view option \<Rightarrow>
    AuthorizationMaterial list \<Rightarrow> bool" where
  "screened sha policy e view ms \<longleftrightarrow>
     structurally_valid sha e \<and> policy_valid policy e view \<and> length ms = length (env_authorizations e)"

definition verification_calls :: "hash_fun \<Rightarrow> AdmissionPolicy \<Rightarrow> TransactionEnvelope \<Rightarrow>
    AuthorizationMaterial list \<Rightarrow> (u8 \<times> SignatureVerificationRequest) list" where
  "verification_calls sha policy e ms =
     map (\<lambda>am. (auth_scheme_id (fst am), verification_request (authorization_root sha policy e) am))
       (zip (env_authorizations e) ms)"

lemma admit_screened:
  assumes "screened sha policy e view ms"
  shows "admit_and_verify sha dispatcher policy e view ms =
    bind_action (for_each_action (\<lambda>(s, r). map_err_action map_crypto_error (dispatcher s r))
      (verification_calls sha policy e ms)) (\<lambda>_.
    lift_result (Ok \<lparr>validated_payload_root = e_root sha e, validated_signing_root = authorization_root sha policy e,
      verified_authorization_count = length (env_authorizations e)\<rparr>))"
proof -
  have map: "for_each_action f (map g xs) w = for_each_action (f \<circ> g) xs w" for f g and xs :: "'x list" and w
    by (induction xs arbitrary: w) (simp_all add: bind_action.simps split: prod.splits result.splits)
  have "screen_transaction sha policy e view =
      Ok \<lparr>tentative_payload_root = e_root sha e, authorization_count = length (env_authorizations e)\<rparr>"
    using assms by (simp add: screen_transaction_Ok screened_def)
  moreover have "multi_authorization_policy policy = RequireAll"
    by (cases "multi_authorization_policy policy")
  ultimately show ?thesis
    using assms by (simp add: admit_and_verify_def verify_authorizations_def screened_def domain_signing_root_Ok
        verification_calls_def authorization_root_def map [abs_def] o_def)
qed

lemma admit_not_screened:
  assumes "\<not> screened sha policy e view ms"
  shows "\<exists>err. admit_and_verify sha dispatcher policy e view ms = lift_result (Err err)"
proof (cases "screen_transaction sha policy e view")
  case (Ok t)
  then have "length ms \<noteq> length (env_authorizations e)"
    using assms screen_transaction_Ok [of sha policy e view t] by (auto simp: screened_def)
  with Ok show ?thesis by (auto simp: admit_and_verify_def verify_authorizations_def)
qed (auto simp: admit_and_verify_def)

locale stateless_dispatcher =
  fixes verify :: "'w dispatcher"
    and accepts :: "u8 \<Rightarrow> SignatureVerificationRequest \<Rightarrow> bool"
  assumes verify_world: "snd (verify s r w) = w"
    and verify_Ok: "fst (verify s r w) = Ok () \<longleftrightarrow> accepts s r"
begin

lemma for_each_accepts:
  "for_each_action (\<lambda>(s, r). map_err_action g (verify s r)) cs w = (Ok u, w') \<longleftrightarrow>
     w' = w \<and> (\<forall>(s, r) \<in> set cs. accepts s r)"
proof (induction cs)
  case (Cons c cs)
  have "verify s r w = (Ok x, v) \<longleftrightarrow> accepts s r \<and> v = w" for s r x v
    using verify_world [of s r w] verify_Ok [of s r w] by (cases "verify s r w") auto
  with Cons show ?case by (cases c) (auto simp: result_simps)
qed auto

text \<open>Admission succeeds exactly on screened transactions all of whose authorizations are accepted.\<close>

lemma admit_iff:
  "admit_and_verify sha verify policy e view ms w = (Ok v, w') \<longleftrightarrow>
     screened sha policy e view ms \<and>
     (\<forall>(s, r) \<in> set (verification_calls sha policy e ms). accepts s r) \<and>
     v = \<lparr>validated_payload_root = e_root sha e, validated_signing_root = authorization_root sha policy e,
       verified_authorization_count = length (env_authorizations e)\<rparr> \<and> w' = w"
proof (cases "screened sha policy e view ms")
  case True
  then show ?thesis by (auto simp: admit_screened result_simps for_each_accepts)
next
  case False
  then show ?thesis using admit_not_screened [of sha policy e view ms verify] by auto
qed

end

text \<open>The registry of the crypto crate with the Ed25519 scheme registered, as the runtime sets it up.\<close>

definition ed25519_registry :: "('k, 's) ed25519_dalek \<Rightarrow> 'w VerifierRegistry" where
  "ed25519_registry dalek = snd (register_verifier (Ed25519Verifier dalek) new_registry)"

definition ed25519_accepts ::
  "('k, 's) ed25519_dalek \<Rightarrow> u8 \<Rightarrow> SignatureVerificationRequest \<Rightarrow> bool" where
  "ed25519_accepts dalek s r \<longleftrightarrow> s = SCHEME_ID_ED25519 \<and>
     length (req_signature r) \<le> 8192 \<and> length (req_signature r) \<le> signature_byte_size dalek \<and>
     ed25519_verify dalek r = Ok ()"

lemma ed25519_registry_lookup:
  "registry_verifier (ed25519_registry dalek) s = (if s = SCHEME_ID_ED25519 then Some (Ed25519Verifier dalek) else None)"
  by (simp add: ed25519_registry_def registry.lookup_register)

lemma ed25519_registry_config: "reg_config (ed25519_registry dalek) = default_dispatcher_config"
  by (simp add: ed25519_registry_def new_registry_def)

interpretation ed25519: stateless_dispatcher
  "verify_transaction_authorization (ed25519_registry dalek)" "ed25519_accepts dalek" for dalek
proof
  show "snd (verify_transaction_authorization (ed25519_registry dalek) s r w) = w" for s r w
    by (simp add: verify_transaction_authorization_def verify_for_path_eq ed25519_registry_lookup)
  show "fst (verify_transaction_authorization (ed25519_registry dalek) s r w) = Ok () \<longleftrightarrow> ed25519_accepts dalek s r"
    for s r w
    by (auto simp: verify_transaction_authorization_def verify_for_path_eq ed25519_registry_lookup
        ed25519_registry_config ed25519_accepts_def applicable_limits_def config_limits_def
        default_dispatcher_config_def DEFAULT_USER_PATH_MAX_SIGNATURE_SIZE_def map_err_Ok_iff split: if_splits)
qed

section \<open>Properties\<close>

text \<open>
  C27: Screening accepts exactly the transactions that are structurally valid (some authorization;
  every authorization commits to the payload root; no signature over 8 KiB) and pass the fee floors
  of both lanes and the nonce window. A structurally invalid transaction is a \<open>Reject\<close> whatever its
  fees and nonce are; only a structurally valid one is ever a \<open>PolicyReject\<close>.
\<close>

theorem screening_exact:
  "case screen_transaction sha policy e view of
     Ok t \<Rightarrow> structurally_valid sha e \<and> policy_valid policy e view \<and>
       t = \<lparr>tentative_payload_root = e_root sha e, authorization_count = length (env_authorizations e)\<rparr>
   | Err err \<Rightarrow> mempool_network_validation_outcome err =
       (if structurally_valid sha e then Some PolicyReject else Some Reject) \<and>
       \<not> (structurally_valid sha e \<and> policy_valid policy e view)
   | Panic \<Rightarrow> False"
proof (cases "structurally_valid sha e \<and> policy_valid policy e view")
  case True
  then have "screen_transaction sha policy e view =
      Ok \<lparr>tentative_payload_root = e_root sha e, authorization_count = length (env_authorizations e)\<rparr>"
    by (simp add: screen_transaction_Ok)
  with True show ?thesis by simp
next
  case False
  then consider "\<not> structurally_valid sha e" | "structurally_valid sha e" "\<not> policy_valid policy e view" by blast
  then show ?thesis
    using screen_structural_error [of sha e policy view] screen_policy_error [of sha e policy view] by cases auto
qed

text \<open>
  C29: The nonce window is computed without overflow: the saturating 64-bit check accepts exactly the
  nonces between the observed nonce and the observed nonce plus the gap, as unbounded numbers.
\<close>

theorem nonce_window_unbounded:
  "check_nonce_policy policy e (Some (\<lambda>_. Some observed)) = Ok () \<longleftrightarrow>
     unat observed \<le> unat (transaction_nonce e) \<and>
     unat (transaction_nonce e) \<le> unat observed + unat (max_future_nonce_gap (nonce_policy policy))"
  by (simp add: check_nonce_policy_Ok nonce_in_window_def)

text \<open>
  C30: Fee floors are compared as 256-bit numbers: the byte-wise comparison from the most significant
  end accepts exactly the prices whose number is at least the required one.
\<close>

theorem fee_floor_numeric:
  assumes "wf_envelope e" "wf_u256 (gas_price_value (payload_lane_base_fee (fee_schedule policy)))"
    and "wf_u256 (gas_price_value (witness_lane_base_fee (fee_schedule policy)))"
  shows "check_fee_policy policy e = Ok () \<longleftrightarrow>
    u256_nat (gas_price_value (payload_lane_base_fee (fee_schedule policy))) \<le> u256_nat (gas_price_value (payload_lane_fee e)) \<and>
    u256_nat (gas_price_value (witness_lane_base_fee (fee_schedule policy))) \<le> u256_nat (gas_price_value (witness_lane_fee e))"
proof -
  have "wf_fees (transaction_fees e)"
    using assms(1) by (cases "env_payload e" rule: wf_payload.cases)
      (auto simp: wf_envelope_def transaction_fees_def wf_basic_def wf_create_def)
  then show ?thesis
    using assms(2,3) by (simp add: check_fee_policy_Ok gas_price_covers_numeric payload_lane_fee_def
        witness_lane_fee_def wf_fees_def)
qed

definition fee_of :: "nat \<Rightarrow> GasPrice" where
  "fee_of n = GasPrice (U256 (le_bytes 32 n))"

definition sample_policy :: "nat \<Rightarrow> AdmissionPolicy" where
  "sample_policy n = \<lparr>fee_schedule = \<lparr>payload_lane_base_fee = fee_of n, witness_lane_base_fee = fee_of 0\<rparr>,
     nonce_policy = \<lparr>max_future_nonce_gap = 3\<rparr>, authorization_domain = Canonical,
     multi_authorization_policy = RequireAll\<rparr>"

theorem fee_floor_numeric_witness:
  "check_fee_policy (sample_policy 256)
     \<lparr>env_payload = TransactionPayloadSsz (Basic (default_basic_payload\<lparr>basic_fees :=
        default_fees\<lparr>regular := fee_of 300\<rparr>\<rparr>)), env_authorizations = []\<rparr> = Ok ()"
  by (subst fee_floor_numeric)
     (simp_all add: wf_envelope_def wf_basic_def wf_fees_def wf_u256_def fee_of_def sample_policy_def
       default_basic_payload_def default_fees_def default_gas_price_def payload_lane_fee_def witness_lane_fee_def
       transaction_fees_def u256_nat_def le_nat_le_bytes)

text \<open>A dispatcher that records its calls; its verdicts are arbitrary.\<close>

definition logging_dispatcher ::
  "(u8 \<Rightarrow> SignatureVerificationRequest \<Rightarrow> (unit, CryptoError) result) \<Rightarrow>
   (u8 \<times> SignatureVerificationRequest) list dispatcher" where
  "logging_dispatcher verdict s r log = (verdict s r, log @ [(s, r)])"

fun until_failure :: "('a \<Rightarrow> bool) \<Rightarrow> 'a list \<Rightarrow> 'a list" where
  "until_failure ok [] = []"
| "until_failure ok (x # xs) = x # (if ok x then until_failure ok xs else [])"

lemma logged_calls:
  "snd (for_each_action (\<lambda>(s, r). map_err_action g (logging_dispatcher verdict s r)) cs log) =
     log @ until_failure (\<lambda>(s, r). verdict s r = Ok ()) cs"
proof (induction cs arbitrary: log)
  case (Cons c cs)
  then show ?case
    by (cases c; cases "verdict (fst c) (snd c)")
       (simp_all add: bind_action.simps map_err_action_def logging_dispatcher_def)
qed simp

text \<open>
  C28: Signature verification is reached only after screening and the material count check, one call
  per authorization in envelope order, each on the authorization's own scheme, signature and key
  material and on one common signing root; it stops at the first failure. Without passing the
  screen not a single verification is started.
\<close>

theorem admission_verification_calls:
  "snd (admit_and_verify sha (logging_dispatcher verdict) policy e view ms log) =
     log @ (if screened sha policy e view ms
            then until_failure (\<lambda>(s, r). verdict s r = Ok ()) (verification_calls sha policy e ms) else [])"
proof (cases "screened sha policy e view ms")
  case True
  then have "snd (admit_and_verify sha (logging_dispatcher verdict) policy e view ms log) =
    snd (for_each_action (\<lambda>(s, r). map_err_action map_crypto_error (logging_dispatcher verdict s r))
      (verification_calls sha policy e ms) log)"
    by (simp add: admit_screened bind_action.simps split: prod.splits result.splits)
  with True show ?thesis by (simp add: logged_calls)
next
  case False
  then show ?thesis using admit_not_screened [of sha policy e view ms "logging_dispatcher verdict"] by auto
qed

text \<open>
  C6: With the Ed25519 registry, admission succeeds exactly when the transaction is screened, one key
  per authorization is supplied and every authorization is an Ed25519 signature that verifies under
  its key over the signing root of the payload root in the configured domain.
\<close>

theorem ed25519_admission_exact:
  "fst (admit_and_verify sha (verify_transaction_authorization (ed25519_registry dalek)) policy e view ms w) = Ok v \<longleftrightarrow>
     screened sha policy e view ms \<and>
     list_all (\<lambda>(s, r). ed25519_accepts dalek s r) (verification_calls sha policy e ms) \<and>
     v = \<lparr>validated_payload_root = e_root sha e, validated_signing_root = authorization_root sha policy e,
       verified_authorization_count = length (env_authorizations e)\<rparr>"
  by (simp add: fst_Ok_iff ed25519.admit_iff list_all_iff)

end
