(* ===== verification/Consensus.thy ===== *)
theory Consensus
  imports Execution Mempool
begin

text \<open>
  Block import (\<^verbatim>\<open>crates/shell-consensus/src\<close>: \<^verbatim>\<open>header_checks.rs\<close>, \<^verbatim>\<open>import.rs\<close>,
  \<^verbatim>\<open>sidecars.rs\<close>, \<^verbatim>\<open>execution_bridge.rs\<close>, \<^verbatim>\<open>objects.rs\<close>, \<^verbatim>\<open>outcomes.rs\<close>).

  The traits \<open>ConsensusHeader\<close>, \<open>ConsensusBody\<close> and \<open>ConsensusSidecar\<close> are records of their
  getters; \<open>CanonicalBlockHeader\<close> and its siblings are the structs with their implementations as
  conversions. The five services of \<open>import_block\<close> are actions on one world. For arbitrary services
  the theorems give what a successful import establishes and when no service is reached; for
  services that log their calls they give the exact sequence of calls.
\<close>

section \<open>Headers, bodies and sidecars\<close>

record ConsensusHeader =
  header_canonical_root :: "(Root, PrimitiveError) result"
  header_witness_bytes :: u64
  header_transactions_root :: Root
  header_execution_witnesses_root :: Root
  header_state_root :: Root
  header_receipts_root :: Root
  header_proposer_signature :: bytes
  header_proposer_index_hint :: "u64 option"

record ConsensusBody =
  body_transactions_root :: "(Root, PrimitiveError) result"
  body_transactions :: "TransactionEnvelope list"

record ConsensusSidecar =
  sidecar_block_root :: Root
  sidecar_committed_root :: Root

record CanonicalBlockHeader =
  ch_block_root :: Root
  ch_block_number :: u64
  ch_timestamp :: u64
  ch_parent_root :: Root
  ch_witness_bytes :: u64
  ch_transactions_root :: Root
  ch_execution_witnesses_root :: Root
  ch_state_root :: Root
  ch_receipts_root :: Root
  ch_proposer_signature :: bytes
  ch_proposer_index_hint :: "u64 option"

definition canonical_header :: "CanonicalBlockHeader \<Rightarrow> ConsensusHeader" where
  "canonical_header h =
     \<lparr>header_canonical_root = Ok (ch_block_root h), header_witness_bytes = ch_witness_bytes h,
      header_transactions_root = ch_transactions_root h,
      header_execution_witnesses_root = ch_execution_witnesses_root h,
      header_state_root = ch_state_root h, header_receipts_root = ch_receipts_root h,
      header_proposer_signature = ch_proposer_signature h,
      header_proposer_index_hint = ch_proposer_index_hint h\<rparr>"

record CanonicalBlockBody =
  cb_transactions :: "TransactionEnvelope list"
  cb_transactions_root :: Root

definition canonical_body :: "CanonicalBlockBody \<Rightarrow> ConsensusBody" where
  "canonical_body b = \<lparr>body_transactions_root = Ok (cb_transactions_root b), body_transactions = cb_transactions b\<rparr>"

record CanonicalBlockSidecar =
  cs_block_root :: Root
  cs_execution_witnesses_root :: Root
  cs_witnesses :: "StateWitness list"

definition canonical_sidecar :: "CanonicalBlockSidecar \<Rightarrow> ConsensusSidecar" where
  "canonical_sidecar s = \<lparr>sidecar_block_root = cs_block_root s, sidecar_committed_root = cs_execution_witnesses_root s\<rparr>"

record CanonicalBlock =
  block_header :: CanonicalBlockHeader
  block_body :: CanonicalBlockBody
  block_sidecar :: CanonicalBlockSidecar

definition block_split :: "CanonicalBlock \<Rightarrow> ConsensusHeader \<times> ConsensusBody \<times> ConsensusSidecar" where
  "block_split b = (canonical_header (block_header b), canonical_body (block_body b), canonical_sidecar (block_sidecar b))"

section \<open>Errors and outcomes\<close>

datatype ConsensusError =
    Primitive PrimitiveError
  | Domain DomainError
  | Crypto CryptoError
  | TransactionValidation ValidationError
  | Execution ExecutionError
  | State StateError
  | ProposerCredentialResolution ProposerCredentialResolutionError
  | WitnessByteLimitExceeded (limit_max_bytes: u64) (limit_actual_bytes: u64)
  | HeaderBodyRootMismatch (body_expected: Root) (body_actual: Root)
  | SidecarBlockRootMismatch (sidecar_expected: Root) (sidecar_actual: Root)
  | SidecarCommitmentMismatch (commitment_expected: Root) (commitment_actual: Root)

fun consensus_network_validation_outcome :: "ConsensusError \<Rightarrow> ValidationOutcome option" where
  "consensus_network_validation_outcome (ConsensusError.Primitive error) = primitive_network_validation_outcome error"
| "consensus_network_validation_outcome (Domain _) = None"
| "consensus_network_validation_outcome (Crypto error) = crypto_network_validation_outcome error"
| "consensus_network_validation_outcome (TransactionValidation error) = mempool_network_validation_outcome error"
| "consensus_network_validation_outcome (Execution _) = Some Reject"
| "consensus_network_validation_outcome (State _) = Some Reject"
| "consensus_network_validation_outcome (HeaderBodyRootMismatch _ _) = Some Reject"
| "consensus_network_validation_outcome (SidecarBlockRootMismatch _ _) = Some Reject"
| "consensus_network_validation_outcome (SidecarCommitmentMismatch _ _) = Some Reject"
| "consensus_network_validation_outcome (ProposerCredentialResolution error) =
     (if is_consensus_invalid error then Some Reject else None)"
| "consensus_network_validation_outcome (WitnessByteLimitExceeded _ _) = Some PolicyReject"

record BlockImportOutcome =
  import_block_root :: Root
  import_post_state_root :: Root
  import_receipts_root :: Root

section \<open>Header checks\<close>

record HeaderPrefilterConfig =
  max_witness_bytes :: "u64 option"

record HeaderCheckOutcome =
  check_block_root :: Root

definition prefilter_header ::
  "ConsensusHeader \<Rightarrow> HeaderPrefilterConfig \<Rightarrow> (HeaderCheckOutcome, ConsensusError) result" where
  "prefilter_header header config =
     bind_result (map_err ConsensusError.Primitive (header_canonical_root header)) (\<lambda>block_root.
     bind_result
       (case max_witness_bytes config of
          None \<Rightarrow> Ok ()
        | Some witness_cap \<Rightarrow>
            let witness_len = header_witness_bytes header in
            if witness_len > witness_cap then Err (WitnessByteLimitExceeded witness_cap witness_len) else Ok ()) (\<lambda>_.
     Ok \<lparr>check_block_root = block_root\<rparr>))"

type_synonym 'w credential_resolver =
  "ProposerCredentialQuery \<Rightarrow> ('w, ProposerCredential, ProposerCredentialResolutionError) action"

definition verify_header_signature ::
  "hash_fun \<Rightarrow> ConsensusHeader \<Rightarrow> Root \<Rightarrow> 'w credential_resolver \<Rightarrow> 'w dispatcher \<Rightarrow>
   ('w, unit, ConsensusError) action" where
  "verify_header_signature sha header block_root resolver dispatcher =
     bind_action (map_err_action ProposerCredentialResolution
       (resolver \<lparr>query_block_root = block_root, query_proposer_index_hint = header_proposer_index_hint header\<rparr>))
       (\<lambda>credential.
     bind_action (lift_result (map_err Domain (build_signing_data block_root ValidatorMessageDomainSelector)))
       (\<lambda>signing_data.
     bind_action (lift_result (map_err ConsensusError.Primitive (signing_root sha signing_data))) (\<lambda>s_root.
     map_err_action Crypto
       (dispatcher (cred_scheme_id credential)
         \<lparr>public_key_material = cred_public_key_material credential, req_signing_root = s_root,
          req_signature = header_proposer_signature header\<rparr>))))"

section \<open>Body, sidecar and execution\<close>

definition verify_body_binding :: "ConsensusHeader \<Rightarrow> ConsensusBody \<Rightarrow> (unit, ConsensusError) result" where
  "verify_body_binding header body =
     bind_result (map_err ConsensusError.Primitive (body_transactions_root body)) (\<lambda>actual.
     let expected = header_transactions_root header in
     if actual \<noteq> expected then Err (HeaderBodyRootMismatch expected actual) else Ok ())"

type_synonym 'w revalidator =
  "TransactionEnvelope \<Rightarrow> MultiAuthorizationPolicy \<Rightarrow> ('w, unit, ValidationError) action"

definition revalidate_body_transactions ::
  "ConsensusBody \<Rightarrow> 'w revalidator \<Rightarrow> MultiAuthorizationPolicy \<Rightarrow> ('w, unit, ConsensusError) action" where
  "revalidate_body_transactions body revalidator policy =
     for_each_action (\<lambda>transaction. map_err_action TransactionValidation (revalidator transaction policy))
       (body_transactions body)"

type_synonym 'w witness_preparer =
  "ConsensusHeader \<Rightarrow> ConsensusSidecar \<Rightarrow> ('w, unit, StateError) action"

definition verify_sidecar_binding ::
  "ConsensusHeader \<Rightarrow> Root \<Rightarrow> ConsensusSidecar \<Rightarrow> 'w witness_preparer \<Rightarrow> ('w, unit, ConsensusError) action" where
  "verify_sidecar_binding header block_root sidecar preparer =
     (if sidecar_block_root sidecar \<noteq> block_root
      then lift_result (Err (SidecarBlockRootMismatch block_root (sidecar_block_root sidecar)))
      else if sidecar_committed_root sidecar \<noteq> header_execution_witnesses_root header
      then lift_result (Err (SidecarCommitmentMismatch (header_execution_witnesses_root header)
             (sidecar_committed_root sidecar)))
      else map_err_action State (preparer header sidecar))"

type_synonym 'w execution_engine =
  "ConsensusHeader \<Rightarrow> ConsensusBody \<Rightarrow> ConsensusSidecar \<Rightarrow> ('w, BlockExecutionOutcome, ExecutionError) action"

definition execute_and_compare ::
  "ConsensusHeader \<Rightarrow> ConsensusBody \<Rightarrow> ConsensusSidecar \<Rightarrow> 'w execution_engine \<Rightarrow>
   ('w, BlockExecutionOutcome, ConsensusError) action" where
  "execute_and_compare header body sidecar engine =
     bind_action (map_err_action Execution (engine header body sidecar)) (\<lambda>outcome.
     bind_action (lift_result (map_err Execution (ensure_matches outcome
       \<lparr>committed_state_root = header_state_root header, committed_receipts_root = header_receipts_root header\<rparr>)))
       (\<lambda>_. lift_result (Ok outcome)))"

section \<open>Import\<close>

record 'w BlockImportServices =
  svc_resolver :: "'w credential_resolver"
  svc_dispatcher :: "'w dispatcher"
  svc_revalidator :: "'w revalidator"
  svc_preparer :: "'w witness_preparer"
  svc_execution_engine :: "'w execution_engine"

record BlockImportConfig =
  header_prefilter :: HeaderPrefilterConfig
  import_multi_authorization_policy :: MultiAuthorizationPolicy

definition import_block ::
  "hash_fun \<Rightarrow> BlockImportConfig \<Rightarrow> ConsensusHeader \<Rightarrow> ConsensusBody \<Rightarrow> ConsensusSidecar \<Rightarrow>
   'w BlockImportServices \<Rightarrow> ('w, BlockImportOutcome, ConsensusError) action" where
  "import_block sha config header body sidecar services =
     bind_action (lift_result (prefilter_header header (header_prefilter config))) (\<lambda>header_outcome.
     bind_action (lift_result (verify_body_binding header body)) (\<lambda>_.
     bind_action (verify_header_signature sha header (check_block_root header_outcome)
       (svc_resolver services) (svc_dispatcher services)) (\<lambda>_.
     bind_action (revalidate_body_transactions body (svc_revalidator services)
       (import_multi_authorization_policy config)) (\<lambda>_.
     bind_action (verify_sidecar_binding header (check_block_root header_outcome) sidecar
       (svc_preparer services)) (\<lambda>_.
     bind_action (execute_and_compare header body sidecar (svc_execution_engine services))
       (\<lambda>execution_outcome.
     lift_result (Ok \<lparr>import_block_root = check_block_root header_outcome,
       import_post_state_root = block_post_state_root execution_outcome,
       import_receipts_root = block_receipts_root execution_outcome\<rparr>)))))))"

section \<open>Check lemmas\<close>

definition within_witness_limit :: "ConsensusHeader \<Rightarrow> HeaderPrefilterConfig \<Rightarrow> bool" where
  "within_witness_limit header config \<longleftrightarrow>
     (\<forall>m \<in> set_option (max_witness_bytes config). header_witness_bytes header \<le> m)"

lemma prefilter_header_Ok [result_simps]:
  "prefilter_header header config = Ok out \<longleftrightarrow>
     header_canonical_root header = Ok (check_block_root out) \<and> within_witness_limit header config"
  by (cases out) (auto simp: prefilter_header_def result_simps within_witness_limit_def Let_def not_less
      split: option.splits if_splits)

lemma verify_body_binding_Ok [result_simps]:
  "verify_body_binding header body = Ok u \<longleftrightarrow> body_transactions_root body = Ok (header_transactions_root header)"
  by (auto simp: verify_body_binding_def result_simps Let_def split: if_splits)

lemma ensure_matches_Ok [result_simps]:
  "ensure_matches out roots = Ok u \<longleftrightarrow>
     block_post_state_root out = committed_state_root roots \<and> block_receipts_root out = committed_receipts_root roots"
  by (auto simp: ensure_matches_def)

definition proposer_signing_root :: "hash_fun \<Rightarrow> Root \<Rightarrow> Root" where
  "proposer_signing_root sha block_root =
     tree_root sha (signing_data_tree \<lparr>object_root = block_root, domain_type = DOMAIN_VALIDATOR_MESSAGE\<rparr>)"

definition proposer_request :: "hash_fun \<Rightarrow> ConsensusHeader \<Rightarrow> Root \<Rightarrow> ProposerCredential \<Rightarrow> SignatureVerificationRequest" where
  "proposer_request sha header block_root credential =
     \<lparr>public_key_material = cred_public_key_material credential,
      req_signing_root = proposer_signing_root sha block_root,
      req_signature = header_proposer_signature header\<rparr>"

lemma verify_header_signature_eq:
  "verify_header_signature sha header block_root resolver dispatcher =
     bind_action (map_err_action ProposerCredentialResolution
       (resolver \<lparr>query_block_root = block_root, query_proposer_index_hint = header_proposer_index_hint header\<rparr>))
       (\<lambda>credential. map_err_action Crypto
         (dispatcher (cred_scheme_id credential) (proposer_request sha header block_root credential)))"
  by (simp add: verify_header_signature_def build_signing_data_def signing_root_def tree_root_signing_data
      proposer_signing_root_def proposer_request_def)

definition sidecar_bound :: "ConsensusHeader \<Rightarrow> ConsensusSidecar \<Rightarrow> Root \<Rightarrow> bool" where
  "sidecar_bound header sidecar block_root \<longleftrightarrow> sidecar_block_root sidecar = block_root \<and>
     sidecar_committed_root sidecar = header_execution_witnesses_root header"

lemma verify_sidecar_binding_eq:
  "sidecar_bound header sidecar r \<Longrightarrow> verify_sidecar_binding header r sidecar preparer = map_err_action State (preparer header sidecar)"
  "\<not> sidecar_bound header sidecar r \<Longrightarrow> \<exists>e. verify_sidecar_binding header r sidecar preparer = lift_result (Err e)"
  by (auto simp: verify_sidecar_binding_def sidecar_bound_def)

definition header_accepted :: "BlockImportConfig \<Rightarrow> ConsensusHeader \<Rightarrow> ConsensusBody \<Rightarrow> Root \<Rightarrow> bool" where
  "header_accepted config header body block_root \<longleftrightarrow>
     header_canonical_root header = Ok block_root \<and>
     within_witness_limit header (header_prefilter config) \<and>
     body_transactions_root body = Ok (header_transactions_root header)"

text \<open>The stateful part of an import, once the header and the body root are accepted.\<close>

definition import_stages ::
  "hash_fun \<Rightarrow> BlockImportConfig \<Rightarrow> ConsensusHeader \<Rightarrow> ConsensusBody \<Rightarrow> ConsensusSidecar \<Rightarrow>
   'w BlockImportServices \<Rightarrow> Root \<Rightarrow> ('w, BlockImportOutcome, ConsensusError) action" where
  "import_stages sha config header body sidecar services block_root =
     bind_action (map_err_action ProposerCredentialResolution (svc_resolver services
       \<lparr>query_block_root = block_root, query_proposer_index_hint = header_proposer_index_hint header\<rparr>)) (\<lambda>credential.
     bind_action (map_err_action Crypto (svc_dispatcher services (cred_scheme_id credential)
       (proposer_request sha header block_root credential))) (\<lambda>_.
     bind_action (for_each_action (\<lambda>tx. map_err_action TransactionValidation
       (svc_revalidator services tx (import_multi_authorization_policy config))) (body_transactions body)) (\<lambda>_.
     bind_action (verify_sidecar_binding header block_root sidecar (svc_preparer services)) (\<lambda>_.
     bind_action (map_err_action Execution (svc_execution_engine services header body sidecar)) (\<lambda>outcome.
     lift_result (bind_result (map_err Execution (ensure_matches outcome
       \<lparr>committed_state_root = header_state_root header, committed_receipts_root = header_receipts_root header\<rparr>)) (\<lambda>_.
     Ok \<lparr>import_block_root = block_root, import_post_state_root = block_post_state_root outcome,
       import_receipts_root = block_receipts_root outcome\<rparr>)))))))"

lemma bind_action_assoc: "bind_action (bind_action m f) g = bind_action m (\<lambda>x. bind_action (f x) g)"
  by (rule ext) (simp add: bind_action.simps split: prod.splits result.splits)

lemma import_block_accepted:
  assumes "header_accepted config header body block_root"
  shows "import_block sha config header body sidecar services =
    import_stages sha config header body sidecar services block_root"
proof -
  have "prefilter_header header (header_prefilter config) = Ok \<lparr>check_block_root = block_root\<rparr>"
    "verify_body_binding header body = Ok ()"
    using assms by (simp_all add: header_accepted_def prefilter_header_Ok verify_body_binding_Ok)
  then show ?thesis
    by (simp add: import_block_def import_stages_def verify_header_signature_eq revalidate_body_transactions_def
        execute_and_compare_def bind_action_assoc bind_result_assoc)
qed

lemma import_block_not_accepted:
  assumes "\<forall>r. \<not> header_accepted config header body r"
  shows "\<exists>res. \<not> is_ok res \<and> import_block sha config header body sidecar services = lift_result res"
proof (cases "prefilter_header header (header_prefilter config)")
  case (Ok out)
  have "verify_body_binding header body \<noteq> Ok u" for u
    using assms Ok by (auto simp: header_accepted_def prefilter_header_Ok verify_body_binding_Ok)
  with Ok show ?thesis
    by (cases "verify_body_binding header body") (auto simp: import_block_def intro: exI [of _ Panic] exI [of _ "Err _"])
qed (auto simp: import_block_def intro: exI [of _ Panic] exI [of _ "Err _"])

section \<open>Logging services\<close>

datatype service_call =
    ResolveCall ProposerCredentialQuery
  | VerifyCall u8 SignatureVerificationRequest
  | RevalidateCall TransactionEnvelope MultiAuthorizationPolicy
  | PrepareCall ConsensusHeader ConsensusSidecar
  | ExecuteCall ConsensusHeader ConsensusBody ConsensusSidecar

record service_verdicts =
  v_resolve :: "ProposerCredentialQuery \<Rightarrow> (ProposerCredential, ProposerCredentialResolutionError) result"
  v_verify :: "u8 \<Rightarrow> SignatureVerificationRequest \<Rightarrow> (unit, CryptoError) result"
  v_revalidate :: "TransactionEnvelope \<Rightarrow> MultiAuthorizationPolicy \<Rightarrow> (unit, ValidationError) result"
  v_prepare :: "ConsensusHeader \<Rightarrow> ConsensusSidecar \<Rightarrow> (unit, StateError) result"
  v_execute :: "ConsensusHeader \<Rightarrow> ConsensusBody \<Rightarrow> ConsensusSidecar \<Rightarrow> (BlockExecutionOutcome, ExecutionError) result"

definition logging_services :: "service_verdicts \<Rightarrow> service_call list BlockImportServices" where
  "logging_services v =
     \<lparr>svc_resolver = (\<lambda>q log. (v_resolve v q, log @ [ResolveCall q])),
      svc_dispatcher = (\<lambda>s r log. (v_verify v s r, log @ [VerifyCall s r])),
      svc_revalidator = (\<lambda>tx p log. (v_revalidate v tx p, log @ [RevalidateCall tx p])),
      svc_preparer = (\<lambda>h s log. (v_prepare v h s, log @ [PrepareCall h s])),
      svc_execution_engine = (\<lambda>h b s log. (v_execute v h b s, log @ [ExecuteCall h b s]))\<rparr>"

fun call_ok :: "service_verdicts \<Rightarrow> service_call \<Rightarrow> bool" where
  "call_ok v (ResolveCall q) = is_ok (v_resolve v q)"
| "call_ok v (VerifyCall s r) = is_ok (v_verify v s r)"
| "call_ok v (RevalidateCall tx p) = is_ok (v_revalidate v tx p)"
| "call_ok v (PrepareCall h s) = is_ok (v_prepare v h s)"
| "call_ok v (ExecuteCall h b s) = is_ok (v_execute v h b s)"

text \<open>The calls of a complete import, in order; none past a failed sidecar binding.\<close>

definition planned_calls ::
  "hash_fun \<Rightarrow> service_verdicts \<Rightarrow> BlockImportConfig \<Rightarrow> ConsensusHeader \<Rightarrow> ConsensusBody \<Rightarrow> ConsensusSidecar \<Rightarrow>
   Root \<Rightarrow> service_call list" where
  "planned_calls sha v config header body sidecar block_root =
     (let q = \<lparr>query_block_root = block_root, query_proposer_index_hint = header_proposer_index_hint header\<rparr> in
      ResolveCall q #
      (case v_resolve v q of
         Ok credential \<Rightarrow>
           VerifyCall (cred_scheme_id credential) (proposer_request sha header block_root credential) #
           map (\<lambda>tx. RevalidateCall tx (import_multi_authorization_policy config)) (body_transactions body) @
           (if sidecar_bound header sidecar block_root
            then [PrepareCall header sidecar, ExecuteCall header body sidecar] else [])
       | _ \<Rightarrow> []))"

lemma until_failure_append:
  "until_failure ok (xs @ ys) = until_failure ok xs @ (if \<forall>x \<in> set xs. ok x then until_failure ok ys else [])"
  by (induction xs) auto

lemma revalidate_logged:
  fixes v p
  defines "calls \<equiv> map (\<lambda>tx. RevalidateCall tx p)"
  shows "for_each_action (\<lambda>tx. map_err_action g (svc_revalidator (logging_services v) tx p)) txs log = (r, log') \<Longrightarrow>
     log' = log @ until_failure (call_ok v) (calls txs) \<and> (is_ok r \<longleftrightarrow> (\<forall>c \<in> set (calls txs). call_ok v c))"
proof (induction txs arbitrary: log)
  case (Cons tx txs)
  then show ?case
    using Cons.IH [of "log @ [RevalidateCall tx p]"]
    by (cases "v_revalidate v tx p")
       (auto simp: calls_def bind_action.simps map_err_action_def logging_services_def)
qed (auto simp: calls_def)

lemma is_ok_map_err [simp]: "is_ok (map_err g r) = is_ok r"
  by (cases r) auto

lemma logging_services_simps [simp]:
  "svc_resolver (logging_services v) q log = (v_resolve v q, log @ [ResolveCall q])"
  "svc_dispatcher (logging_services v) s r log = (v_verify v s r, log @ [VerifyCall s r])"
  "svc_preparer (logging_services v) h sc log = (v_prepare v h sc, log @ [PrepareCall h sc])"
  "svc_execution_engine (logging_services v) h b sc log = (v_execute v h b sc, log @ [ExecuteCall h b sc])"
  by (simp_all add: logging_services_def)

lemma import_stages_logged:
  "snd (import_stages sha config header body sidecar (logging_services v) r log) =
     log @ until_failure (call_ok v) (planned_calls sha v config header body sidecar r)"
proof -
  let ?q = "\<lparr>query_block_root = r, query_proposer_index_hint = header_proposer_index_hint header\<rparr>"
  let ?reval = "for_each_action (\<lambda>tx. map_err_action TransactionValidation
    (svc_revalidator (logging_services v) tx (import_multi_authorization_policy config))) (body_transactions body)"
  show ?thesis
  proof (cases "v_resolve v ?q")
    case (Ok credential)
    let ?req = "proposer_request sha header r credential"
    let ?log = "log @ [ResolveCall ?q, VerifyCall (cred_scheme_id credential) ?req]"
    obtain res log' where run: "?reval ?log = (res, log')" by fastforce
    note reval = revalidate_logged [OF run]
    show ?thesis
    proof (cases "v_verify v (cred_scheme_id credential) ?req")
      case verified: (Ok u)
      show ?thesis
      proof (cases res)
        case revalidated: (Ok u)
        show ?thesis
        proof (cases "sidecar_bound header sidecar r")
          case True
          then show ?thesis
            using Ok verified run reval revalidated
            by (cases "v_prepare v header sidecar")
               (auto simp: import_stages_def planned_calls_def Let_def bind_action.simps map_err_action_def
                 verify_sidecar_binding_eq until_failure_append split: result.splits)
        next
          case False
          then obtain e where "verify_sidecar_binding header r sidecar (svc_preparer (logging_services v)) = lift_result (Err e)"
            using verify_sidecar_binding_eq(2) by blast
          with False show ?thesis
            using Ok verified run reval revalidated
            by (auto simp: import_stages_def planned_calls_def Let_def bind_action.simps map_err_action_def
                until_failure_append)
        qed
      qed (use Ok verified run reval in \<open>auto simp: import_stages_def planned_calls_def Let_def bind_action.simps
            map_err_action_def until_failure_append\<close>)
    qed (use Ok in \<open>simp_all add: import_stages_def planned_calls_def Let_def bind_action.simps map_err_action_def\<close>)
  qed (simp_all add: import_stages_def planned_calls_def Let_def bind_action.simps map_err_action_def)
qed

lemma is_ok_iff: "is_ok r \<longleftrightarrow> (\<exists>x. r = Ok x)"
  by (cases r) auto

lemma revalidate_logged_Ok:
  "for_each_action (\<lambda>tx. map_err_action g (svc_revalidator (logging_services v) tx p)) txs log = (Ok u, log') \<longleftrightarrow>
     list_all (call_ok v) (map (\<lambda>tx. RevalidateCall tx p) txs) \<and> log' = log @ map (\<lambda>tx. RevalidateCall tx p) txs"
  by (induction txs arbitrary: log) (auto simp: result_simps is_ok_iff logging_services_def)

lemma import_stages_accepts:
  "fst (import_stages sha config header body sidecar (logging_services v) r log) = Ok out \<longleftrightarrow>
     sidecar_bound header sidecar r \<and> list_all (call_ok v) (planned_calls sha v config header body sidecar r) \<and>
     (\<exists>outcome. v_execute v header body sidecar = Ok outcome \<and>
        block_post_state_root outcome = header_state_root header \<and>
        block_receipts_root outcome = header_receipts_root header \<and>
        out = \<lparr>import_block_root = r, import_post_state_root = header_state_root header,
          import_receipts_root = header_receipts_root header\<rparr>)"
proof (cases "sidecar_bound header sidecar r")
  case True
  then show ?thesis
    unfolding fst_Ok_iff import_stages_def bind_action_Ok_iff map_err_action_Ok_iff
    by (simp add: verify_sidecar_binding_eq planned_calls_def Let_def revalidate_logged_Ok)
       (auto simp: is_ok_iff result_simps split: result.splits)
next
  case False
  then show ?thesis
    using verify_sidecar_binding_eq(2) [OF False, of "svc_preparer (logging_services v)"]
    by (auto simp: fst_Ok_iff import_stages_def result_simps)
qed

section \<open>A sample block\<close>

definition sample_header :: ConsensusHeader where
  "sample_header = \<lparr>header_canonical_root = Ok [1], header_witness_bytes = 10, header_transactions_root = [2],
     header_execution_witnesses_root = [3], header_state_root = [4], header_receipts_root = [5],
     header_proposer_signature = [6], header_proposer_index_hint = None\<rparr>"

definition sample_body :: ConsensusBody where
  "sample_body = \<lparr>body_transactions_root = Ok [2], body_transactions = [sample_transaction]\<rparr>"

definition sample_sidecar :: ConsensusSidecar where
  "sample_sidecar = \<lparr>sidecar_block_root = [1], sidecar_committed_root = [3]\<rparr>"

definition sample_config :: BlockImportConfig where
  "sample_config = \<lparr>header_prefilter = \<lparr>max_witness_bytes = Some 10\<rparr>, import_multi_authorization_policy = RequireAll\<rparr>"

definition sample_verdicts :: service_verdicts where
  "sample_verdicts =
     \<lparr>v_resolve = (\<lambda>_. Ok \<lparr>cred_scheme_id = 0, cred_public_key_material = [9]\<rparr>), v_verify = (\<lambda>_ _. Ok ()),
      v_revalidate = (\<lambda>_ _. Ok ()), v_prepare = (\<lambda>_ _. Ok ()),
      v_execute = (\<lambda>_ _ _. Ok \<lparr>block_post_state_root = [4], block_receipts_root = [5], transaction_outcomes = []\<rparr>)\<rparr>"

lemmas sample_block_defs = sample_header_def sample_body_def sample_sidecar_def sample_config_def sample_verdicts_def

lemma sample_accepted: "header_accepted sample_config sample_header sample_body [1]"
  by (simp add: header_accepted_def within_witness_limit_def sample_block_defs)

lemma sample_imports:
  "fst (import_block sha sample_config sample_header sample_body sample_sidecar (logging_services sample_verdicts) log) =
     Ok \<lparr>import_block_root = [1], import_post_state_root = [4], import_receipts_root = [5]\<rparr>"
  by (subst import_block_accepted [OF sample_accepted])
     (simp add: import_stages_accepts sidecar_bound_def planned_calls_def Let_def sample_block_defs)

section \<open>Properties\<close>

text \<open>
  C2: Whatever the services do, an imported block satisfies every binding the pipeline checks: its
  root and witness size pass the prefilter, its body and sidecar are bound to the header, and the
  reported state and receipts roots are the ones the header commits to.
\<close>

theorem imported_block_bound:
  assumes "import_block sha config header body sidecar services w = (Ok out, w')"
  shows "header_accepted config header body (import_block_root out) \<and>
    sidecar_bound header sidecar (import_block_root out) \<and>
    import_post_state_root out = header_state_root header \<and>
    import_receipts_root out = header_receipts_root header"
proof (cases "\<exists>r. header_accepted config header body r")
  case True
  then obtain r where r: "header_accepted config header body r" ..
  with assms have run: "import_stages sha config header body sidecar services r w = (Ok out, w')"
    by (simp add: import_block_accepted)
  have "sidecar_bound header sidecar r"
    using run verify_sidecar_binding_eq(2) [of header sidecar r "svc_preparer services"]
    by (force simp: import_stages_def result_simps)
  moreover have "import_block_root out = r \<and> import_post_state_root out = header_state_root header \<and>
      import_receipts_root out = header_receipts_root header"
    using run by (auto simp: import_stages_def result_simps)
  ultimately show ?thesis using r by simp
next
  case False
  then show ?thesis
    using assms import_block_not_accepted [of config header body sha sidecar services] by force
qed

theorem imported_block_bound_witness:
  "header_accepted sample_config sample_header sample_body [1] \<and> sidecar_bound sample_header sample_sidecar [1]"
proof -
  obtain w' where "import_block (\<lambda>m. m) sample_config sample_header sample_body sample_sidecar
      (logging_services sample_verdicts) [] =
    (Ok \<lparr>import_block_root = [1], import_post_state_root = [4], import_receipts_root = [5]\<rparr>, w')"
    using sample_imports [of "\<lambda>m. m" "[]"] by (auto simp: fst_Ok_iff)
  from imported_block_bound [OF this] show ?thesis by simp
qed

text \<open>
  C14: A block that fails the header prefilter or the body root comparison is refused before any
  service is consulted: no credential lookup, signature check, revalidation or execution happens,
  and the world is unchanged.
\<close>

theorem cheap_rejection_first:
  assumes "\<forall>r. \<not> header_accepted config header body r"
  shows "snd (import_block sha config header body sidecar services w) = w \<and>
    \<not> is_ok (fst (import_block sha config header body sidecar services w))"
  using import_block_not_accepted [OF assms, of sha sidecar services] by auto

theorem cheap_rejection_first_witness:
  "snd (import_block (\<lambda>m. m) sample_config (sample_header\<lparr>header_witness_bytes := 11\<rparr>) sample_body sample_sidecar
     (logging_services sample_verdicts) []) = []"
  using cheap_rejection_first [of sample_config "sample_header\<lparr>header_witness_bytes := 11\<rparr>" sample_body
      "\<lambda>m. m" sample_sidecar "logging_services sample_verdicts" "[]"]
  by (simp add: header_accepted_def within_witness_limit_def sample_block_defs)

text \<open>
  C13: The services of an import are called in one fixed order: the proposer credential, the
  proposer signature on the validator domain, every body transaction in block order, the witness
  preparation and the execution. Each call happens exactly when all earlier ones succeeded; the last
  two only for a sidecar bound to this block.
\<close>

theorem import_call_sequence:
  assumes "header_accepted config header body block_root"
  shows "snd (import_block sha config header body sidecar (logging_services v) log) =
    log @ until_failure (call_ok v) (planned_calls sha v config header body sidecar block_root)"
  using assms by (simp add: import_block_accepted import_stages_logged)

theorem import_call_sequence_witness:
  "length (snd (import_block (\<lambda>m. m) sample_config sample_header sample_body sample_sidecar
     (logging_services sample_verdicts) [])) = 5"
  using import_call_sequence [OF sample_accepted, of "\<lambda>m. m" sample_sidecar sample_verdicts "[]"]
  by (simp add: planned_calls_def sidecar_bound_def Let_def sample_block_defs)

text \<open>
  C5: An import succeeds exactly when the header and body are accepted, the sidecar is bound, every
  planned service call succeeds and the execution reports the committed roots.
\<close>

theorem import_accepts_exactly:
  "fst (import_block sha config header body sidecar (logging_services v) log) = Ok out \<longleftrightarrow>
     header_accepted config header body (import_block_root out) \<and>
     sidecar_bound header sidecar (import_block_root out) \<and>
     list_all (call_ok v) (planned_calls sha v config header body sidecar (import_block_root out)) \<and>
     (\<exists>outcome. v_execute v header body sidecar = Ok outcome \<and>
        block_post_state_root outcome = header_state_root header \<and>
        block_receipts_root outcome = header_receipts_root header \<and>
        import_post_state_root out = header_state_root header \<and>
        import_receipts_root out = header_receipts_root header)"
proof (cases "\<exists>r. header_accepted config header body r")
  case True
  then obtain r where r: "header_accepted config header body r" ..
  then have "header_accepted config header body s \<longleftrightarrow> s = r" for s by (auto simp: header_accepted_def)
  then show ?thesis
    by (cases out) (auto simp: import_block_accepted [OF r] import_stages_accepts)
next
  case False
  then show ?thesis
    using import_block_not_accepted [of config header body sha sidecar "logging_services v"] by auto
qed

end
