(* ===== verification/Network.thy ===== *)
theory Network
  imports Consensus
begin

text \<open>
  Peer handling (\<^verbatim>\<open>crates/shell-network/src\<close>: \<^verbatim>\<open>lib.rs\<close>, \<^verbatim>\<open>reputation/mod.rs\<close>,
  \<^verbatim>\<open>reputation/scoring.rs\<close>, \<^verbatim>\<open>fetch/policy.rs\<close>, \<^verbatim>\<open>gossip/filtering.rs\<close>, \<^verbatim>\<open>errors.rs\<close>).

  Peer actions are specified by \<open>action_outcome\<close>, which reads an action back as the validation
  outcome it enforces. The lemmas compare it with the outcome every error type announces, and the
  fetch policies with the header prefilter of the consensus crate.
\<close>

section \<open>Origins\<close>

datatype PeerId = PeerId (peer_bytes: bytes)

datatype NetworkOrigin =
    Gossip PeerId
  | Fetch PeerId
  | Sync PeerId
  | LocalRpc
  | LocalBuilder
  | TestHarness

fun origin_peer_id :: "NetworkOrigin \<Rightarrow> PeerId option" where
  "origin_peer_id (Gossip peer) = Some peer"
| "origin_peer_id (NetworkOrigin.Fetch peer) = Some peer"
| "origin_peer_id (Sync peer) = Some peer"
| "origin_peer_id LocalRpc = None"
| "origin_peer_id LocalBuilder = None"
| "origin_peer_id TestHarness = None"

fun penalizes_peer :: "NetworkOrigin \<Rightarrow> bool" where
  "penalizes_peer (Gossip _) = True"
| "penalizes_peer (NetworkOrigin.Fetch _) = True"
| "penalizes_peer (Sync _) = True"
| "penalizes_peer _ = False"

datatype NetworkError =
    Primitive PrimitiveError
  | Validation ValidationError
  | Consensus ConsensusError
  | Storage string
  | Unavailable string

section \<open>Peer actions\<close>

datatype PeerActionHint =
    RejectedObject
  | MalformedAnnouncement
  | InvalidTransaction
  | InvalidBlock
  | InvalidSignature
  | OversizedObject
  | PolicyRejected
  | InternalError

record ReputationDelta =
  delta_value :: i32
  delta_hint :: PeerActionHint

datatype PeerAction =
    Accept
  | Ignore PeerActionHint
  | AdjustReputation ReputationDelta
  | Disconnect PeerActionHint

definition POLICY_REPUTATION_DELTA :: i32 where
  "POLICY_REPUTATION_DELTA = -10"

definition OVERSIZED_REPUTATION_DELTA :: i32 where
  "OVERSIZED_REPUTATION_DELTA = -5"

definition disconnect_action :: "NetworkOrigin \<Rightarrow> PeerActionHint \<Rightarrow> PeerAction" where
  "disconnect_action origin hint = (if penalizes_peer origin then Disconnect hint else Ignore hint)"

definition policy_action :: "NetworkOrigin \<Rightarrow> i32 \<Rightarrow> PeerActionHint \<Rightarrow> PeerAction" where
  "policy_action origin v hint =
     (if penalizes_peer origin then AdjustReputation \<lparr>delta_value = v, delta_hint = hint\<rparr> else Ignore hint)"

fun peer_action_for_validation_outcome :: "NetworkOrigin \<Rightarrow> ValidationOutcome \<Rightarrow> PeerAction" where
  "peer_action_for_validation_outcome origin ValidationOutcome.Accept = PeerAction.Accept"
| "peer_action_for_validation_outcome origin Reject = disconnect_action origin RejectedObject"
| "peer_action_for_validation_outcome origin PolicyReject =
     policy_action origin POLICY_REPUTATION_DELTA PolicyRejected"

fun peer_action_for_mempool_error :: "NetworkOrigin \<Rightarrow> ValidationStage \<Rightarrow> ValidationError \<Rightarrow> PeerAction" where
  "peer_action_for_mempool_error origin stage (ValidationError.Primitive primitive) =
     (case primitive of
        MalformedSsz _ \<Rightarrow>
          if stage = T0 then disconnect_action origin MalformedAnnouncement
          else disconnect_action origin InvalidTransaction
      | UnsupportedPayloadVariant _ \<Rightarrow> disconnect_action origin InvalidTransaction
      | PayloadRootMismatch _ _ \<Rightarrow> disconnect_action origin InvalidTransaction
      | AuthorizationCount _ _ \<Rightarrow> disconnect_action origin InvalidTransaction
      | PrimitiveError.SignatureSizeExceeded _ _ \<Rightarrow> disconnect_action origin InvalidTransaction
      | SigningRootConstruction _ \<Rightarrow> Ignore InternalError
      | Unimplemented _ \<Rightarrow> Ignore InternalError)"
| "peer_action_for_mempool_error origin stage (ValidationError.UnsupportedScheme _) =
     disconnect_action origin InvalidSignature"
| "peer_action_for_mempool_error origin stage (ValidationError.SignatureSizeExceeded _) =
     disconnect_action origin InvalidSignature"
| "peer_action_for_mempool_error origin stage (SignatureVerification _) =
     disconnect_action origin InvalidSignature"
| "peer_action_for_mempool_error origin stage (FeeFloor _) =
     policy_action origin POLICY_REPUTATION_DELTA PolicyRejected"
| "peer_action_for_mempool_error origin stage (NoncePolicyViolation _) =
     policy_action origin POLICY_REPUTATION_DELTA PolicyRejected"
| "peer_action_for_mempool_error origin stage (SigningRootUnavailable _) = Ignore InternalError"
| "peer_action_for_mempool_error origin stage (AuthorizationMaterialCount _ _) = Ignore InternalError"

fun peer_action_for_proposer_credential_error ::
  "NetworkOrigin \<Rightarrow> ProposerCredentialResolutionError \<Rightarrow> PeerAction" where
  "peer_action_for_proposer_credential_error origin ResolverUnavailable = Ignore InternalError"
| "peer_action_for_proposer_credential_error origin NotFound = disconnect_action origin InvalidBlock"
| "peer_action_for_proposer_credential_error origin (InvalidCredentialEncoding _ _) =
     disconnect_action origin InvalidBlock"

fun peer_action_for_consensus_crypto_error :: "NetworkOrigin \<Rightarrow> CryptoError \<Rightarrow> PeerAction" where
  "peer_action_for_consensus_crypto_error origin (CryptoError.SignatureSizeExceeded size_error) =
     (if exceeded_path size_error = ValidatorMessage \<and> exceeded_kind size_error = LocalTransportGuard
      then policy_action origin OVERSIZED_REPUTATION_DELTA OversizedObject
      else disconnect_action origin InvalidSignature)"
| "peer_action_for_consensus_crypto_error origin (CryptoError.UnsupportedScheme _) =
     disconnect_action origin InvalidSignature"
| "peer_action_for_consensus_crypto_error origin (VerificationFailed _) =
     disconnect_action origin InvalidSignature"

fun peer_action_for_consensus_error :: "NetworkOrigin \<Rightarrow> ConsensusError \<Rightarrow> PeerAction" where
  "peer_action_for_consensus_error origin (ConsensusError.Primitive _) =
     disconnect_action origin MalformedAnnouncement"
| "peer_action_for_consensus_error origin (Domain _) = Ignore InternalError"
| "peer_action_for_consensus_error origin (ProposerCredentialResolution error) =
     peer_action_for_proposer_credential_error origin error"
| "peer_action_for_consensus_error origin (Crypto error) = peer_action_for_consensus_crypto_error origin error"
| "peer_action_for_consensus_error origin (TransactionValidation error) =
     peer_action_for_mempool_error origin B3 error"
| "peer_action_for_consensus_error origin (Execution _) = disconnect_action origin InvalidBlock"
| "peer_action_for_consensus_error origin (State _) = disconnect_action origin InvalidBlock"
| "peer_action_for_consensus_error origin (WitnessByteLimitExceeded _ _) =
     policy_action origin OVERSIZED_REPUTATION_DELTA OversizedObject"
| "peer_action_for_consensus_error origin (HeaderBodyRootMismatch _ _) = disconnect_action origin InvalidBlock"
| "peer_action_for_consensus_error origin (SidecarBlockRootMismatch _ _) = disconnect_action origin InvalidBlock"
| "peer_action_for_consensus_error origin (SidecarCommitmentMismatch _ _) = disconnect_action origin InvalidBlock"

section \<open>Fetching\<close>

datatype FetchDecision = Fetch | Skip | Defer

record SidecarFetchPolicy =
  fetch_max_witness_bytes :: "u64 option"
  require_explicit_request :: bool

definition decide_for_header :: "SidecarFetchPolicy \<Rightarrow> ConsensusHeader \<Rightarrow> bool \<Rightarrow> FetchDecision" where
  "decide_for_header policy header was_requested =
     (if (case fetch_max_witness_bytes policy of Some limit \<Rightarrow> header_witness_bytes header > limit | None \<Rightarrow> False)
      then Skip
      else if require_explicit_request policy \<and> \<not> was_requested then Defer
      else FetchDecision.Fetch)"

record AnnouncementFilter =
  max_transaction_bytes :: "u64 option"
  max_sidecar_bytes :: "u64 option"
  allow_unsolicited_sidecars :: bool

definition transaction_fetch_decision :: "AnnouncementFilter \<Rightarrow> u64 \<Rightarrow> FetchDecision" where
  "transaction_fetch_decision flt announced_size =
     (if (case max_transaction_bytes flt of Some limit \<Rightarrow> announced_size > limit | None \<Rightarrow> False)
      then Skip else FetchDecision.Fetch)"

definition sidecar_fetch_decision :: "AnnouncementFilter \<Rightarrow> u64 \<Rightarrow> bool \<Rightarrow> FetchDecision" where
  "sidecar_fetch_decision flt announced_size was_requested =
     (if (case max_sidecar_bytes flt of Some limit \<Rightarrow> announced_size > limit | None \<Rightarrow> False)
      then Skip
      else if \<not> allow_unsolicited_sidecars flt \<and> \<not> was_requested then Defer
      else FetchDecision.Fetch)"

section \<open>Properties\<close>

text \<open>The outcome an action enforces on a peer; \<open>Ignore\<close> enforces none.\<close>

fun action_outcome :: "PeerAction \<Rightarrow> ValidationOutcome option" where
  "action_outcome PeerAction.Accept = Some ValidationOutcome.Accept"
| "action_outcome (Ignore _) = None"
| "action_outcome (AdjustReputation _) = Some PolicyReject"
| "action_outcome (Disconnect _) = Some Reject"

lemma action_outcome_actions [simp]:
  "action_outcome (disconnect_action origin hint) = (if penalizes_peer origin then Some Reject else None)"
  "action_outcome (policy_action origin v hint) = (if penalizes_peer origin then Some PolicyReject else None)"
  by (simp_all add: disconnect_action_def policy_action_def)

lemma penalizes_iff_peer: "penalizes_peer origin \<longleftrightarrow> origin_peer_id origin \<noteq> None"
  by (cases origin) auto

lemma mempool_action_outcome:
  "action_outcome (peer_action_for_mempool_error origin stage e) =
     (if penalizes_peer origin then mempool_network_validation_outcome e else None)"
  by (cases e) (auto split: PrimitiveError.splits)

lemma crypto_action_outcome:
  "action_outcome (peer_action_for_consensus_crypto_error origin e) =
     (if penalizes_peer origin then crypto_network_validation_outcome e else None)"
  by (cases e) auto

lemma credential_action_outcome:
  "action_outcome (peer_action_for_proposer_credential_error origin e) =
     (if penalizes_peer origin \<and> is_consensus_invalid e then Some Reject else None)"
  by (cases e) auto

lemma consensus_action_outcome:
  "action_outcome (peer_action_for_consensus_error origin e) =
     (if penalizes_peer origin
      then if \<exists>p. e = ConsensusError.Primitive p then Some Reject else consensus_network_validation_outcome e
      else None)"
  by (cases e) (auto simp: mempool_action_outcome crypto_action_outcome credential_action_outcome)

text \<open>
  For an object that came from a peer, the action taken on a mempool error enforces exactly the
  validation outcome the error announces, at every stage: a disconnect for a \<open>Reject\<close>, a reputation
  loss for a \<open>PolicyReject\<close>, and nothing for an internal error.
\<close>

theorem mempool_action_matches_outcome:
  assumes "origin_peer_id origin = Some peer"
  shows "action_outcome (peer_action_for_mempool_error origin stage e) = mempool_network_validation_outcome e"
  using assms by (simp add: mempool_action_outcome penalizes_iff_peer)

theorem mempool_action_matches_outcome_witness:
  "action_outcome (peer_action_for_mempool_error (Gossip (PeerId [])) T2
     (NoncePolicyViolation ''low'')) = Some PolicyReject"
  by (subst mempool_action_matches_outcome [of _ "PeerId []"]) simp_all

text \<open>
  C37: On consensus errors the action and the announced outcome agree except for one case: an
  internal primitive error (signing-root construction or an unimplemented path), which announces
  no outcome, still disconnects the peer.
\<close>

theorem consensus_action_matches_outcome_except:
  assumes "origin_peer_id origin = Some peer"
  shows "action_outcome (peer_action_for_consensus_error origin e) = consensus_network_validation_outcome e \<longleftrightarrow>
    \<not> (\<exists>p. e = ConsensusError.Primitive p \<and> primitive_network_validation_outcome p = None)"
proof (cases e)
  case (Primitive p)
  then show ?thesis
    using assms by (cases p) (simp_all add: consensus_action_outcome penalizes_iff_peer)
qed (use assms in \<open>simp_all add: consensus_action_outcome penalizes_iff_peer
       mempool_action_outcome crypto_action_outcome credential_action_outcome\<close>)

theorem consensus_action_matches_outcome_except_witness:
  "action_outcome (peer_action_for_consensus_error (Gossip (PeerId []))
     (ConsensusError.Primitive (Unimplemented ''x''))) \<noteq>
   consensus_network_validation_outcome (ConsensusError.Primitive (Unimplemented ''x''))"
  using consensus_action_matches_outcome_except
    [of "Gossip (PeerId [])" "PeerId []" "ConsensusError.Primitive (Unimplemented ''x'')"] by auto

text \<open>
  Objects from local origins never cost a peer anything, whatever the error or outcome: an
  action that disconnects or lowers a reputation implies that the origin names a peer.
\<close>

theorem penalties_need_a_peer:
  assumes "action_outcome a \<in> {Some Reject, Some PolicyReject}"
    and "a = peer_action_for_validation_outcome origin outcome \<or>
         a = peer_action_for_mempool_error origin stage ve \<or>
         a = peer_action_for_consensus_error origin ce"
  shows "origin_peer_id origin \<noteq> None"
proof -
  have "action_outcome (peer_action_for_validation_outcome origin outcome) \<in> {Some Reject, Some PolicyReject} \<Longrightarrow>
      penalizes_peer origin"
    by (cases outcome) (auto split: if_splits)
  with assms have "penalizes_peer origin"
    by (auto simp: mempool_action_outcome consensus_action_outcome split: if_splits)
  then show ?thesis
    by (simp add: penalizes_iff_peer)
qed

theorem penalties_need_a_peer_witness: "origin_peer_id (Sync (PeerId [7])) \<noteq> None"
  by (rule penalties_need_a_peer [of "Disconnect RejectedObject" _ Reject])
     (simp_all add: disconnect_action_def)

text \<open>
  Fetching and importing agree on witness size: with the same limit, a sidecar fetch is skipped
  exactly for the headers the import prefilter refuses as oversized, whatever was requested.
\<close>

theorem skip_iff_prefilter_oversized:
  assumes "header_canonical_root header = Ok root"
  shows "decide_for_header \<lparr>fetch_max_witness_bytes = limit, require_explicit_request = explicit\<rparr> header requested = Skip
    \<longleftrightarrow> (\<exists>m. prefilter_header header \<lparr>max_witness_bytes = limit\<rparr> =
           Err (WitnessByteLimitExceeded m (header_witness_bytes header)))"
  using assms by (auto simp: decide_for_header_def prefilter_header_def Let_def split: option.splits)

theorem skip_iff_prefilter_oversized_witness:
  "decide_for_header \<lparr>fetch_max_witness_bytes = Some 9, require_explicit_request = True\<rparr> sample_header True = Skip"
  by (subst skip_iff_prefilter_oversized [of _ "[1]"])
     (simp_all add: sample_header_def prefilter_header_def)

end
