(* ===== verification/Fixtures.thy ===== *)
theory Fixtures
  imports Execution
begin

text \<open>
  The fixture loader (\<^verbatim>\<open>crates/shell-fixtures/src/lib.rs\<close>) that turns JSON test vectors into the
  typed scenarios the reference runtime executes.

  Reading files and deserializing JSON is not modelled: the two loaders by identifier are
  parameters, and the vectors are the records \<open>serde\<close> produces. Every \<open>assert!\<close>, \<open>expect\<close> and
  \<open>unwrap_or_else(panic!)\<close> is the value \<open>Panic\<close>; these functions have no error result, which the
  type \<open>panics\<close> records. The theorems give the inputs the hex parser accepts, the binding of the two
  repository-local commitment roots, and what a scenario that resolves satisfies.
\<close>

section \<open>Panicking computations\<close>

type_synonym 'a panics = "('a, unit) result"

definition assert_that :: "bool \<Rightarrow> unit panics" where
  "assert_that b = (if b then Ok () else Panic)"

fun expect_ok :: "('a, 'e) result \<Rightarrow> 'a panics" where
  "expect_ok (Ok x) = Ok x"
| "expect_ok (Err e) = Panic"
| "expect_ok Panic = Panic"

fun expect_some :: "'a option \<Rightarrow> 'a panics" where
  "expect_some (Some x) = Ok x"
| "expect_some None = Panic"

definition expect_array :: "nat \<Rightarrow> bytes \<Rightarrow> bytes panics" where
  "expect_array n bs = (if length bs = n then Ok bs else Panic)"

section \<open>Hex strings\<close>

text \<open>A string is its UTF-8 bytes; a byte that is not ASCII is no hex digit.\<close>

definition strip_prefix :: "string \<Rightarrow> string \<Rightarrow> string option" where
  "strip_prefix p s = (if take (length p) s = p then Some (drop (length p) s) else None)"

definition to_digit_16 :: "char \<Rightarrow> nat option" where
  "to_digit_16 c =
     (let n = of_char c :: nat in
      if 48 \<le> n \<and> n \<le> 57 then Some (n - 48)
      else if 97 \<le> n \<and> n \<le> 102 then Some (n - 87)
      else if 65 \<le> n \<and> n \<le> 70 then Some (n - 55)
      else None)"

fun hex_digits :: "nat \<Rightarrow> string \<Rightarrow> nat option" where
  "hex_digits acc [] = Some acc"
| "hex_digits acc (c # cs) =
     (case to_digit_16 c of
        None \<Rightarrow> None
      | Some d \<Rightarrow> if acc * 16 + d < 256 then hex_digits (acc * 16 + d) cs else None)"

text \<open>\<open>u8::from_str_radix(_, 16)\<close>: an optional leading plus sign, then at least one digit.\<close>

definition u8_from_str_radix_16 :: "string \<Rightarrow> u8 option" where
  "u8_from_str_radix_16 s =
     (if s = [] then None
      else if hd s = CHR ''+'' \<and> tl s \<noteq> [] then map_option word_of_nat (hex_digits 0 (tl s))
      else map_option word_of_nat (hex_digits 0 s))"

text \<open>The \<open>step_by(2)\<close> loop of \<open>parse_hex\<close> over a string of even length.\<close>

fun hex_pairs :: "string \<Rightarrow> bytes panics" where
  "hex_pairs [] = Ok []"
| "hex_pairs [a] = Panic"
| "hex_pairs (a # b # rest) =
     bind_result (expect_some (u8_from_str_radix_16 [a, b])) (\<lambda>v.
     bind_result (hex_pairs rest) (\<lambda>vs. Ok (v # vs)))"

definition parse_hex :: "string \<Rightarrow> bytes panics" where
  "parse_hex s =
     bind_result (expect_some (strip_prefix ''0x'' s)) (\<lambda>hex.
     bind_result (assert_that (length hex mod 2 = 0)) (\<lambda>_.
     hex_pairs hex))"

definition parse_root :: "string \<Rightarrow> Root panics" where
  "parse_root s = bind_result (parse_hex s) (expect_array 32)"

definition parse_address :: "string \<Rightarrow> ExecutionAddress panics" where
  "parse_address s = bind_result (parse_hex s) (expect_array 20)"

definition parse_bytes_32 :: "string \<Rightarrow> Bytes32 panics" where
  "parse_bytes_32 s = bind_result (parse_hex s) (expect_array 32)"

definition parse_bytes_31 :: "string \<Rightarrow> Bytes31 panics" where
  "parse_bytes_31 s = bind_result (parse_hex s) (expect_array 31)"

section \<open>Root mutations\<close>

datatype PayloadRootMode = CanonicalPayloadRoot | FlipFirstPayloadByte

datatype RootMode = CanonicalRoot | FlipFirstRootByte

definition flip_first :: "u8 \<Rightarrow> Root \<Rightarrow> Root panics" where
  "flip_first m root = bind_result (index_at root 0) (\<lambda>b. Ok (root[0 := xor b m]))"

fun payload_root_mode_apply :: "PayloadRootMode \<Rightarrow> Root \<Rightarrow> Root panics" where
  "payload_root_mode_apply CanonicalPayloadRoot root = Ok root"
| "payload_root_mode_apply FlipFirstPayloadByte root = flip_first 0xFF root"

fun root_mode_apply :: "RootMode \<Rightarrow> Root \<Rightarrow> Root panics" where
  "root_mode_apply CanonicalRoot root = Ok root"
| "root_mode_apply FlipFirstRootByte root = flip_first 0x01 root"

section \<open>Transaction vectors\<close>

record FeeInput =
  fee_regular :: string
  fee_max_priority_fee_per_gas :: string
  fee_max_witness_priority_fee :: string

record BasicPayloadInput =
  bpi_chain_id :: string
  bpi_nonce :: u64
  bpi_gas_limit :: u64
  bpi_fees :: FeeInput
  bpi_to :: string
  bpi_value :: string
  bpi_input_hex :: string
  bpi_access_commitment :: string

record CreatePayloadInput =
  cpi_chain_id :: string
  cpi_nonce :: u64
  cpi_gas_limit :: u64
  cpi_fees :: FeeInput
  cpi_value :: string
  cpi_initcode_hex :: string
  cpi_access_commitment :: string

datatype TransactionPayloadInput = BasicInput BasicPayloadInput | CreateInput CreatePayloadInput

record TransactionExpectedError =
  te_kind :: string
  te_tag :: "u8 option"
  te_context :: "string option"

record TransactionVectorInput =
  tvi_payload :: "TransactionPayloadInput option"
  tvi_wire_hex :: "string option"

record TransactionVector =
  tv_id :: string
  tv_category :: string
  tv_description :: string
  tv_input :: TransactionVectorInput
  tv_expected_outcome :: string
  tv_expected_error :: "TransactionExpectedError option"
  tv_owned_by :: string
  tv_notes :: "string option"
  tv_payload_tag :: "u8 option"
  tv_payload_root :: "string option"
  tv_authorization_count :: "usize option"

definition parse_fees :: "FeeInput \<Rightarrow> BasicFeesPerGas panics" where
  "parse_fees fees =
     bind_result (parse_bytes_32 (fee_regular fees)) (\<lambda>r.
     bind_result (parse_bytes_32 (fee_max_priority_fee_per_gas fees)) (\<lambda>p.
     bind_result (parse_bytes_32 (fee_max_witness_priority_fee fees)) (\<lambda>w.
     Ok \<lparr>regular = GasPrice (U256 r), max_priority_fee_per_gas = GasPrice (U256 p),
         max_witness_priority_fee = GasPrice (U256 w)\<rparr>)))"

fun build_payload :: "TransactionPayloadInput \<Rightarrow> TransactionPayloadSsz panics" where
  "build_payload (BasicInput i) =
     bind_result (parse_bytes_32 (bpi_chain_id i)) (\<lambda>chain_id.
     bind_result (parse_fees (bpi_fees i)) (\<lambda>fees.
     bind_result (parse_address (bpi_to i)) (\<lambda>to.
     bind_result (parse_bytes_32 (bpi_value i)) (\<lambda>v.
     bind_result (parse_hex (bpi_input_hex i)) (\<lambda>input.
     bind_result (parse_root (bpi_access_commitment i)) (\<lambda>access_commitment.
     Ok (TransactionPayloadSsz (Basic
       \<lparr>basic_chain_id = ChainId (U256 chain_id), basic_nonce = bpi_nonce i, basic_gas_limit = bpi_gas_limit i,
        basic_fees = fees, basic_to = to, basic_value = TxValue (U256 v), basic_input = input,
        basic_access_commitment = access_commitment\<rparr>))))))))"
| "build_payload (CreateInput i) =
     bind_result (parse_bytes_32 (cpi_chain_id i)) (\<lambda>chain_id.
     bind_result (parse_fees (cpi_fees i)) (\<lambda>fees.
     bind_result (parse_bytes_32 (cpi_value i)) (\<lambda>v.
     bind_result (parse_hex (cpi_initcode_hex i)) (\<lambda>initcode.
     bind_result (parse_root (cpi_access_commitment i)) (\<lambda>access_commitment.
     Ok (TransactionPayloadSsz (Create
       \<lparr>create_chain_id = ChainId (U256 chain_id), create_nonce = cpi_nonce i, create_gas_limit = cpi_gas_limit i,
        create_fees = fees, create_value = TxValue (U256 v), create_initcode = initcode,
        create_access_commitment = access_commitment\<rparr>)))))))"

definition vector_payload :: "TransactionVector \<Rightarrow> TransactionPayloadSsz panics" where
  "vector_payload vector =
     bind_result (expect_some (tvi_payload (tv_input vector))) (\<lambda>payload. build_payload payload)"

definition vector_envelope :: "TransactionVector \<Rightarrow> TransactionEnvelope panics" where
  "vector_envelope vector =
     bind_result (vector_payload vector) (\<lambda>payload.
     Ok \<lparr>env_payload = payload, env_authorizations = []\<rparr>)"

section \<open>Witness vectors\<close>

datatype StateKeyInput =
    AccountHeaderInput (ski_address: string) (canonical_key_hex: "string option")
  | StorageSlotInput (ski_address: string) (ski_slot: string) (canonical_key_hex: "string option")
  | CodeChunkInput (ski_address: string) (ski_chunk_index: u32) (canonical_key_hex: "string option")
  | RawTreeKeyInput (ski_raw_key: string) (canonical_key_hex: "string option")
  | StemInput (ski_stem: string) (canonical_key_hex: "string option")

record WitnessFixture =
  wfx_key :: StateKeyInput
  wfx_leaf_value_hex :: string
  wfx_proof_hex :: "string list"

record MaterializedLeafFixture =
  mlf_key :: StateKeyInput
  mlf_leaf_value_hex :: string

record WitnessInput =
  wi_ordering_is_canonical :: "bool option"
  wi_proof_shape_kind :: "string option"
  wi_expected_state_root :: "string option"
  wi_witnesses :: "WitnessFixture list option"
  wi_witness :: "WitnessFixture option"
  wi_materialized_state :: "MaterializedLeafFixture list option"

record WitnessExpectedError =
  we_kind :: string
  we_index :: "usize option"
  we_context :: "string option"

record WitnessVector =
  wv_id :: string
  wv_category :: string
  wv_rule :: string
  wv_description :: string
  wv_input :: WitnessInput
  wv_expected_outcome :: string
  wv_expected_error :: "WitnessExpectedError option"
  wv_owned_by :: string
  wv_notes :: "string option"
  wv_state_keys :: "string list option"
  wv_proof_shape_kind :: "string option"

text \<open>The \<open>match\<close> of \<open>to_state_key\<close>, before the declared canonical bytes are compared.\<close>

fun state_key_of_input :: "StateKeyInput \<Rightarrow> StateKey panics" where
  "state_key_of_input (AccountHeaderInput address _) =
     bind_result (parse_address address) (\<lambda>a. Ok (AccountHeader a))"
| "state_key_of_input (StorageSlotInput address slot _) =
     bind_result (parse_address address) (\<lambda>a.
     bind_result (parse_bytes_32 slot) (\<lambda>s. Ok (StorageSlot a s)))"
| "state_key_of_input (CodeChunkInput address chunk_index _) =
     bind_result (parse_address address) (\<lambda>a. Ok (CodeChunk a chunk_index))"
| "state_key_of_input (RawTreeKeyInput raw_key _) =
     bind_result (parse_bytes_32 raw_key) (\<lambda>r. Ok (RawTreeKey r))"
| "state_key_of_input (StemInput stem _) =
     bind_result (parse_bytes_31 stem) (\<lambda>s. Ok (Stem s))"

definition to_state_key :: "StateKeyInput \<Rightarrow> StateKey panics" where
  "to_state_key input =
     bind_result (state_key_of_input input) (\<lambda>key.
     bind_result
       (case canonical_key_hex input of
          None \<Rightarrow> Ok ()
        | Some expected_hex \<Rightarrow>
            bind_result (parse_hex expected_hex) (\<lambda>expected.
            assert_that (as_slice (encode_state_key key) = expected))) (\<lambda>_.
     Ok key))"

definition to_entry :: "MaterializedLeafFixture \<Rightarrow> (StateKey \<times> bytes) panics" where
  "to_entry leaf =
     bind_result (to_state_key (mlf_key leaf)) (\<lambda>key.
     bind_result (parse_hex (mlf_leaf_value_hex leaf)) (\<lambda>v.
     Ok (key, v)))"

definition to_state_witness :: "WitnessFixture \<Rightarrow> StateWitness panics" where
  "to_state_witness fixture =
     bind_result (to_state_key (wfx_key fixture)) (\<lambda>key.
     bind_result (parse_hex (wfx_leaf_value_hex fixture)) (\<lambda>v.
     bind_result (collect_results parse_bytes_32 (wfx_proof_hex fixture)) (\<lambda>proof_nodes.
     Ok \<lparr>witness_key = key, witness_leaf_value = v, witness_proof = proof_nodes\<rparr>)))"

definition vector_witness :: "WitnessVector \<Rightarrow> StateWitness option panics" where
  "vector_witness vector =
     (case wi_witness (wv_input vector) of
        None \<Rightarrow> Ok None
      | Some fixture \<Rightarrow> map_ok Some (to_state_witness fixture))"

definition vector_witnesses :: "WitnessVector \<Rightarrow> StateWitness list panics" where
  "vector_witnesses vector =
     (case wi_witnesses (wv_input vector) of
        Some fixtures \<Rightarrow> collect_results to_state_witness fixtures
      | None \<Rightarrow>
          bind_result (vector_witness vector) (\<lambda>w.
          Ok (case w of Some witness \<Rightarrow> [witness] | None \<Rightarrow> [])))"

definition vector_materialized_state :: "WitnessVector \<Rightarrow> (StateKey \<times> bytes) list panics" where
  "vector_materialized_state vector =
     (case wi_materialized_state (wv_input vector) of
        Some entries \<Rightarrow> collect_results to_entry entries
      | None \<Rightarrow> Ok [])"

definition vector_expected_state_root :: "WitnessVector \<Rightarrow> Root option panics" where
  "vector_expected_state_root vector =
     (case wi_expected_state_root (wv_input vector) of
        None \<Rightarrow> Ok None
      | Some s \<Rightarrow> map_ok Some (parse_root s))"

section \<open>Root-check vectors\<close>

record RootCheckHeaderInput =
  rh_block_root :: string
  rh_block_number :: u64
  rh_timestamp :: u64
  rh_proposer_index :: u64
  rh_parent_root :: string
  rh_transactions_root :: string
  rh_execution_witnesses_root :: string
  rh_state_root :: string
  rh_receipts_root :: string
  rh_witness_bytes :: u64
  rh_proposer_signature_hex :: string

record RootCheckBodyInput =
  rbi_transaction_vector_ids :: "string list"

record RootCheckSidecarInput =
  rsi_block_root :: string
  rsi_witness_vector_ids :: "string list"

record RootCheckExecutionStep =
  res_transaction_vector_id :: string
  res_witness_vector_id :: string
  res_new_leaf_value_hex :: string
  res_receipt_status_code :: u8
  res_receipt_output_hex :: string

record RootCheckExecutionInput =
  rei_steps :: "RootCheckExecutionStep list"

record RootCheckInput =
  rci_header :: RootCheckHeaderInput
  rci_body :: RootCheckBodyInput
  rci_sidecar :: RootCheckSidecarInput
  rci_execution :: RootCheckExecutionInput

record RootCheckExpectedError =
  re_kind :: string
  re_expected_root :: string
  re_actual_root :: string

record RootCheckVector =
  rv_id :: string
  rv_category :: string
  rv_rule :: string
  rv_description :: string
  rv_input :: RootCheckInput
  rv_expected_outcome :: string
  rv_expected_error :: "RootCheckExpectedError option"
  rv_owned_by :: string
  rv_notes :: "string option"
  rv_transactions_root :: string
  rv_execution_witnesses_root :: string
  rv_state_root :: string
  rv_receipts_root :: string

record RootCheckScenarioHeader =
  sh_block_root :: Root
  sh_block_number :: u64
  sh_timestamp :: u64
  sh_proposer_index :: u64
  sh_parent_root :: Root
  sh_transactions_root :: Root
  sh_execution_witnesses_root :: Root
  sh_state_root :: Root
  sh_receipts_root :: Root
  sh_witness_bytes :: u64
  sh_proposer_signature :: bytes

record RootCheckScenarioSidecar =
  ss_block_root :: Root

record RootCheckScenarioStep =
  step_transaction_root :: Root
  step_key :: StateKey
  step_new_leaf_value :: bytes
  step_receipt_status_code :: u8
  step_receipt_output :: bytes

record RootCheckScenario =
  sc_header :: RootCheckScenarioHeader
  sc_sidecar :: RootCheckScenarioSidecar
  sc_transactions :: "TransactionEnvelope list"
  sc_witnesses :: "StateWitness list"
  sc_materialized_state :: "(StateKey \<times> bytes) list"
  sc_pre_state_root :: Root
  sc_steps :: "RootCheckScenarioStep list"

section \<open>Commitment roots and materialized state\<close>

definition transactions_preimage :: "Root list \<Rightarrow> bytes" where
  "transactions_preimage roots =
     ascii ''shell-fixtures/transactions-root/v1''
     @ u64_to_be_bytes (usize_as_u64 (length roots))
     @ concat roots"

definition compute_transactions_root ::
  "hash_fun \<Rightarrow> TransactionEnvelope list \<Rightarrow> (Root, PrimitiveError) result" where
  "compute_transactions_root sha transactions =
     bind_result (collect_results (envelope_hash_tree_root sha) transactions) (\<lambda>roots.
     Ok (sha (transactions_preimage roots)))"

definition witness_frame :: "StateWitness \<Rightarrow> bytes" where
  "witness_frame w =
     (let encoded_key = as_slice (encode_state_key (witness_key w)) in
      u64_to_be_bytes (usize_as_u64 (length encoded_key))
      @ encoded_key
      @ u64_to_be_bytes (usize_as_u64 (length (witness_leaf_value w)))
      @ witness_leaf_value w
      @ u64_to_be_bytes (usize_as_u64 (length (witness_proof w)))
      @ concat (witness_proof w))"

definition witnesses_preimage :: "StateWitness list \<Rightarrow> bytes" where
  "witnesses_preimage witnesses =
     ascii ''shell-fixtures/execution-witnesses-root/v1''
     @ u64_to_be_bytes (usize_as_u64 (length witnesses))
     @ concat (map witness_frame witnesses)"

definition compute_execution_witnesses_root :: "hash_fun \<Rightarrow> StateWitness list \<Rightarrow> Root" where
  "compute_execution_witnesses_root sha witnesses = sha (witnesses_preimage witnesses)"

definition materialization_patch :: "(StateKey \<times> bytes) list \<Rightarrow> StatePatch" where
  "materialization_patch entries = \<lparr>accesses = map fst entries, new_values = map snd entries\<rparr>"

definition materialize_root_check_accumulator ::
  "hash_fun \<Rightarrow> (StateKey \<times> bytes) list \<Rightarrow> InMemoryAccumulator panics" where
  "materialize_root_check_accumulator sha entries =
     (case acc_apply_transition sha (materialization_patch entries) new_accumulator of
        (r, accumulator) \<Rightarrow> bind_result (expect_ok r) (\<lambda>_. Ok accumulator))"

text \<open>\<open>sort_by\<close> is stable, as is \<open>sort_key\<close>; the comparison is the order of the encoded keys.\<close>

definition canonical_root_check_materialized_state ::
  "(StateKey \<times> bytes) list \<Rightarrow> (StateKey \<times> bytes) list panics" where
  "canonical_root_check_materialized_state entries =
     (let canonical = sort_key (\<lambda>entry. encode_state_key (fst entry)) entries in
      bind_result (assert_that (canonical \<noteq> [])) (\<lambda>_. Ok canonical))"

section \<open>Resolving a scenario\<close>

definition resolve_transaction ::
  "(string \<Rightarrow> TransactionVector panics) \<Rightarrow> string \<Rightarrow> TransactionEnvelope panics" where
  "resolve_transaction load_transaction_fixture_by_id vector_id =
     bind_result (load_transaction_fixture_by_id vector_id) (\<lambda>vector.
     bind_result (assert_that (tv_expected_outcome vector = ''accept'')) (\<lambda>_.
     vector_envelope vector))"

definition resolve_witness_vector ::
  "(string \<Rightarrow> WitnessVector panics) \<Rightarrow> string \<Rightarrow> WitnessVector panics" where
  "resolve_witness_vector load_witness_fixture_by_id vector_id =
     bind_result (load_witness_fixture_by_id vector_id) (\<lambda>vector.
     bind_result (assert_that (wv_expected_outcome vector = ''accept'')) (\<lambda>_.
     Ok vector))"

definition check_witness_agreement ::
  "Root \<Rightarrow> (StateKey \<times> bytes) list \<Rightarrow> WitnessVector \<Rightarrow> unit panics" where
  "check_witness_agreement pre_state_root base_materialized vector =
     bind_result (vector_expected_state_root vector) (\<lambda>r.
     bind_result (assert_that (r = Some pre_state_root)) (\<lambda>_.
     bind_result (vector_materialized_state vector) (\<lambda>m.
     bind_result (canonical_root_check_materialized_state m) (\<lambda>c.
     assert_that (c = base_materialized)))))"

definition resolve_step ::
  "hash_fun \<Rightarrow> WitnessVector list \<Rightarrow> (RootCheckExecutionStep \<times> string) \<times> TransactionEnvelope \<Rightarrow>
   RootCheckScenarioStep panics" where
  "resolve_step sha witness_vectors entry =
     (case entry of ((step, transaction_id), transaction) \<Rightarrow>
      bind_result (assert_that (res_transaction_vector_id step = transaction_id)) (\<lambda>_.
      bind_result
        (case find (\<lambda>vector. wv_id vector = res_witness_vector_id step) witness_vectors of
           None \<Rightarrow> Panic
         | Some vector \<Rightarrow> bind_result (vector_witness vector) expect_some) (\<lambda>witness.
      bind_result (expect_ok (envelope_hash_tree_root sha transaction)) (\<lambda>transaction_root.
      bind_result (parse_hex (res_new_leaf_value_hex step)) (\<lambda>new_leaf_value.
      bind_result (parse_hex (res_receipt_output_hex step)) (\<lambda>output.
      Ok \<lparr>step_transaction_root = transaction_root, step_key = witness_key witness,
          step_new_leaf_value = new_leaf_value, step_receipt_status_code = res_receipt_status_code step,
          step_receipt_output = output\<rparr>))))))"

text \<open>\<open>resolve_root_check_scenario\<close> in parts, in the order of the code: the transactions, the
  witnesses with the pre-state, the steps, and the header.\<close>

definition resolve_transactions ::
  "hash_fun \<Rightarrow> (string \<Rightarrow> TransactionVector panics) \<Rightarrow> RootCheckVector \<Rightarrow>
   (TransactionEnvelope list \<times> Root) panics" where
  "resolve_transactions sha load_tx fixture =
     bind_result (collect_results (resolve_transaction load_tx)
       (rbi_transaction_vector_ids (rci_body (rv_input fixture)))) (\<lambda>transactions.
     bind_result (parse_root (rv_transactions_root fixture)) (\<lambda>expected_transactions_root.
     bind_result (expect_ok (compute_transactions_root sha transactions)) (\<lambda>computed_transactions_root.
     bind_result (assert_that (computed_transactions_root = expected_transactions_root)) (\<lambda>_.
     bind_result (parse_root (rh_transactions_root (rci_header (rv_input fixture)))) (\<lambda>header_root.
     bind_result (assert_that (header_root = expected_transactions_root)) (\<lambda>_.
     Ok (transactions, expected_transactions_root)))))))"

record resolved_witnesses =
  rw_vectors :: "WitnessVector list"
  rw_witnesses :: "StateWitness list"
  rw_root :: Root
  rw_base_materialized :: "(StateKey \<times> bytes) list"
  rw_pre_state_root :: Root

definition resolve_witnesses ::
  "hash_fun \<Rightarrow> (string \<Rightarrow> WitnessVector panics) \<Rightarrow> RootCheckVector \<Rightarrow> resolved_witnesses panics" where
  "resolve_witnesses sha load_wit fixture =
     bind_result (collect_results (resolve_witness_vector load_wit)
       (rsi_witness_vector_ids (rci_sidecar (rv_input fixture)))) (\<lambda>witness_vectors.
     bind_result (collect_results (\<lambda>vector. bind_result (vector_witness vector) expect_some) witness_vectors)
       (\<lambda>witnesses.
     bind_result (parse_root (rv_execution_witnesses_root fixture)) (\<lambda>expected_witnesses_root.
     bind_result (assert_that (compute_execution_witnesses_root sha witnesses = expected_witnesses_root)) (\<lambda>_.
     bind_result (parse_root (rh_execution_witnesses_root (rci_header (rv_input fixture)))) (\<lambda>header_root.
     bind_result (assert_that (header_root = expected_witnesses_root)) (\<lambda>_.
     bind_result (case witness_vectors of [] \<Rightarrow> Panic | first # _ \<Rightarrow> Ok first) (\<lambda>first.
     bind_result (vector_materialized_state first) (\<lambda>materialized.
     bind_result (canonical_root_check_materialized_state materialized) (\<lambda>base_materialized.
     bind_result (bind_result (vector_expected_state_root first) expect_some) (\<lambda>pre_state_root.
     bind_result (materialize_root_check_accumulator sha base_materialized) (\<lambda>witness_accumulator.
     bind_result (assert_that (acc_root witness_accumulator = pre_state_root)) (\<lambda>_.
     bind_result (expect_ok (verify_witnesses (acc_verify_witness witness_accumulator) witnesses pre_state_root))
       (\<lambda>_.
     bind_result (for_each (check_witness_agreement pre_state_root base_materialized) (drop 1 witness_vectors))
       (\<lambda>_.
     Ok \<lparr>rw_vectors = witness_vectors, rw_witnesses = witnesses, rw_root = expected_witnesses_root,
         rw_base_materialized = base_materialized, rw_pre_state_root = pre_state_root\<rparr>))))))))))))))"

definition resolve_header ::
  "RootCheckVector \<Rightarrow> Root \<Rightarrow> Root \<Rightarrow> RootCheckScenarioHeader panics" where
  "resolve_header fixture expected_transactions_root expected_witnesses_root =
     (let header = rci_header (rv_input fixture) in
      bind_result (parse_root (rv_state_root fixture)) (\<lambda>expected_state_root.
      bind_result (parse_root (rv_receipts_root fixture)) (\<lambda>expected_receipts_root.
      bind_result (parse_root (rh_state_root header)) (\<lambda>header_state.
      bind_result (assert_that (header_state = expected_state_root)) (\<lambda>_.
      bind_result (parse_root (rh_receipts_root header)) (\<lambda>header_receipts.
      bind_result (assert_that (header_receipts = expected_receipts_root)) (\<lambda>_.
      bind_result (parse_root (rh_block_root header)) (\<lambda>expected_block_root.
      bind_result (parse_root (rsi_block_root (rci_sidecar (rv_input fixture)))) (\<lambda>sidecar_root.
      bind_result (assert_that (sidecar_root = expected_block_root)) (\<lambda>_.
      bind_result (parse_root (rh_parent_root header)) (\<lambda>parent_root.
      bind_result (parse_hex (rh_proposer_signature_hex header)) (\<lambda>proposer_signature.
      Ok \<lparr>sh_block_root = expected_block_root, sh_block_number = rh_block_number header,
          sh_timestamp = rh_timestamp header, sh_proposer_index = rh_proposer_index header,
          sh_parent_root = parent_root, sh_transactions_root = expected_transactions_root,
          sh_execution_witnesses_root = expected_witnesses_root, sh_state_root = expected_state_root,
          sh_receipts_root = expected_receipts_root, sh_witness_bytes = rh_witness_bytes header,
          sh_proposer_signature = proposer_signature\<rparr>))))))))))))"

definition resolve_root_check_scenario ::
  "hash_fun \<Rightarrow> (string \<Rightarrow> TransactionVector panics) \<Rightarrow> (string \<Rightarrow> WitnessVector panics) \<Rightarrow>
   RootCheckVector \<Rightarrow> RootCheckScenario panics" where
  "resolve_root_check_scenario sha load_tx load_wit fixture =
     bind_result (resolve_transactions sha load_tx fixture) (\<lambda>(transactions, expected_transactions_root).
     bind_result (resolve_witnesses sha load_wit fixture) (\<lambda>rw.
     bind_result (collect_results (resolve_step sha (rw_vectors rw))
       (zip (zip (rei_steps (rci_execution (rv_input fixture))) (rbi_transaction_vector_ids (rci_body (rv_input fixture))))
          transactions)) (\<lambda>steps.
     bind_result (assert_that (length steps = length transactions)) (\<lambda>_.
     bind_result (resolve_header fixture expected_transactions_root (rw_root rw)) (\<lambda>header.
     Ok \<lparr>sc_header = header, sc_sidecar = \<lparr>ss_block_root = sh_block_root header\<rparr>,
         sc_transactions = transactions, sc_witnesses = rw_witnesses rw,
         sc_materialized_state = rw_base_materialized rw, sc_pre_state_root = rw_pre_state_root rw,
         sc_steps = steps\<rparr>)))))"

text \<open>\<open>load_root_check_scenario\<close>, with the deserializing \<open>load_fixture\<close> as a parameter.\<close>

record LoadedRootCheckScenario =
  loaded_fixture :: RootCheckVector
  loaded_scenario :: RootCheckScenario

definition load_root_check_scenario ::
  "hash_fun \<Rightarrow> (string \<Rightarrow> TransactionVector panics) \<Rightarrow> (string \<Rightarrow> WitnessVector panics) \<Rightarrow>
   ('path \<Rightarrow> RootCheckVector panics) \<Rightarrow> 'path \<Rightarrow> LoadedRootCheckScenario panics" where
  "load_root_check_scenario sha load_tx load_wit load_fixture path =
     bind_result (load_fixture path) (\<lambda>fixture.
     bind_result (resolve_root_check_scenario sha load_tx load_wit fixture) (\<lambda>scenario.
     Ok \<lparr>loaded_fixture = fixture, loaded_scenario = scenario\<rparr>))"

section \<open>Execution-semantics vectors\<close>

record ExecutionSemanticsPatch =
  esp_writes :: "MaterializedLeafFixture list"

record ExecutionSemanticsStep =
  es_transaction_vector_id :: string
  es_patch :: ExecutionSemanticsPatch
  es_receipt_status_code :: u8
  es_receipt_output_hex :: string
  es_expected_post_state_root :: "string option"
  es_expected_receipt_root :: "string option"

record ExecutionSemanticsInput =
  esi_transaction_vector_ids :: "string list"
  esi_materialized_state :: "MaterializedLeafFixture list"
  esi_steps :: "ExecutionSemanticsStep list"

record ExecutionSemanticsExpectedError =
  ese_kind :: string
  ese_index :: "usize option"
  ese_context :: "string option"

record ExecutionSemanticsVector =
  esv_id :: string
  esv_category :: string
  esv_rule :: string
  esv_description :: string
  esv_input :: ExecutionSemanticsInput
  esv_expected_outcome :: string
  esv_expected_error :: "ExecutionSemanticsExpectedError option"
  esv_owned_by :: string
  esv_notes :: "string option"
  esv_pre_state_root :: string
  esv_post_state_root :: "string option"
  esv_receipts_root :: "string option"
  esv_planner_exhausted :: "bool option"

definition semantics_materialized_state :: "ExecutionSemanticsVector \<Rightarrow> (StateKey \<times> bytes) list panics" where
  "semantics_materialized_state vector = collect_results to_entry (esi_materialized_state (esv_input vector))"

definition step_state_patch :: "ExecutionSemanticsStep \<Rightarrow> StatePatch panics" where
  "step_state_patch step =
     bind_result (collect_results to_entry (esp_writes (es_patch step))) (\<lambda>entries.
     Ok \<lparr>accesses = map fst entries, new_values = map snd entries\<rparr>)"

definition step_receipt_output_bytes :: "ExecutionSemanticsStep \<Rightarrow> bytes panics" where
  "step_receipt_output_bytes step = parse_hex (es_receipt_output_hex step)"

section \<open>Lemmas on parsing\<close>

lemma assert_that_Ok_iff [result_simps]: "assert_that b = Ok u \<longleftrightarrow> b"
  by (simp add: assert_that_def)

lemma expect_ok_Ok_iff [result_simps]: "expect_ok r = Ok x \<longleftrightarrow> r = Ok x"
  by (cases r) auto

lemma expect_some_Ok_iff [result_simps]: "expect_some v = Ok x \<longleftrightarrow> v = Some x"
  by (cases v) auto

lemma expect_array_Ok_iff [result_simps]: "expect_array n bs = Ok xs \<longleftrightarrow> xs = bs \<and> length bs = n"
  by (auto simp: expect_array_def)

lemma panics_not_Err [simp]:
  "assert_that b \<noteq> Err e" "expect_some v \<noteq> Err e" "expect_ok r \<noteq> Err e"
  by (simp_all add: assert_that_def, cases v, simp_all, cases r, simp_all)

lemma to_digit_16_bound: "to_digit_16 c = Some d \<Longrightarrow> d < 16"
  by (auto simp: to_digit_16_def Let_def split: if_splits)

lemma to_digit_16_plus [simp]: "to_digit_16 (CHR ''+'') = None"
  by (simp add: to_digit_16_def)

text \<open>The two characters that stand for a byte: two digits, or a plus sign and one digit.\<close>

definition hex_byte :: "char \<Rightarrow> char \<Rightarrow> u8 \<Rightarrow> bool" where
  "hex_byte a b v \<longleftrightarrow> (\<exists>d. to_digit_16 b = Some d \<and>
     ((\<exists>h. to_digit_16 a = Some h \<and> unat v = 16 * h + d) \<or> (a = CHR ''+'' \<and> unat v = d)))"

lemma unat_u8_eq: "n < 256 \<Longrightarrow> unat (v :: u8) = n \<longleftrightarrow> v = word_of_nat n"
  by (auto simp: unat_of_nat)

lemma hex_byte_iff: "u8_from_str_radix_16 [a, b] = Some v \<longleftrightarrow> hex_byte a b v"
proof (cases "to_digit_16 a"; cases "to_digit_16 b")
  fix h d
  assume digits: "to_digit_16 a = Some h" "to_digit_16 b = Some d"
  then have "h < 16" "d < 16" "a \<noteq> CHR ''+''" by (auto dest: to_digit_16_bound)
  moreover from this have "h * 16 + d < 256" by simp
  ultimately show ?thesis
    using digits by (auto simp: u8_from_str_radix_16_def hex_byte_def unat_u8_eq mult.commute)
next
  fix d
  assume digits: "to_digit_16 a = None" "to_digit_16 b = Some d"
  then have "d < 256" by (auto dest: to_digit_16_bound)
  with digits show ?thesis by (auto simp: u8_from_str_radix_16_def hex_byte_def unat_u8_eq)
qed (auto simp: u8_from_str_radix_16_def hex_byte_def)

lemma hex_pairs_Ok:
  "hex_pairs s = Ok bs \<longleftrightarrow>
     (\<exists>ps. s = concat (map (\<lambda>(a, b). [a, b]) ps) \<and> list_all2 (\<lambda>(a, b) v. hex_byte a b v) ps bs)"
proof (induction s arbitrary: bs rule: hex_pairs.induct)
  case 1
  have "[] = concat (map (\<lambda>(a, b). [a, b]) ps) \<longleftrightarrow> ps = []" for ps :: "(char \<times> char) list"
    by (cases ps) auto
  then show ?case by auto
next
  case (2 a)
  have "[a] \<noteq> concat (map (\<lambda>(a, b). [a, b]) ps)" for ps :: "(char \<times> char) list"
    by (cases ps) auto
  then show ?case by auto
next
  case (3 a b rest)
  have cons: "a # b # rest = concat (map (\<lambda>(a, b). [a, b]) ps) \<longleftrightarrow>
      (\<exists>qs. ps = (a, b) # qs \<and> rest = concat (map (\<lambda>(a, b). [a, b]) qs))" for ps
    by (cases ps) auto
  show ?case
  proof (cases "u8_from_str_radix_16 [a, b]")
    case None
    then have "\<not> hex_byte a b v" for v using hex_byte_iff [of a b v] by simp
    with None show ?thesis unfolding cons by (auto simp: list_all2_Cons1)
  next
    case (Some v)
    then have "hex_byte a b w \<longleftrightarrow> w = v" for w using hex_byte_iff [of a b w] by auto
    with Some 3 show ?thesis unfolding cons by (auto simp: result_simps list_all2_Cons1) blast
  qed
qed

lemma hex_pairs_not_Err [simp]: "hex_pairs s \<noteq> Err e"
  by (induction s rule: hex_pairs.induct) (auto simp: result_simps)

lemma even_pairs: "length (concat (map (\<lambda>(a, b). [a, b]) ps)) = 2 * length ps"
  by (induction ps) auto

lemma parse_hex_Ok:
  "parse_hex s = Ok bs \<longleftrightarrow>
     (\<exists>ps. s = ''0x'' @ concat (map (\<lambda>(a, b). [a, b]) ps) \<and> list_all2 (\<lambda>(a, b) v. hex_byte a b v) ps bs)"
proof -
  have "strip_prefix ''0x'' s = Some h \<longleftrightarrow> s = ''0x'' @ h" for h
    by (metis (no_types, lifting) append_eq_conv_conj append_take_drop_id option.distinct(1) option.inject
        strip_prefix_def)
  then show ?thesis
    by (auto simp: parse_hex_def result_simps hex_pairs_Ok even_pairs)
qed

text \<open>A hex printer, so that concrete vectors can be written down.\<close>

definition hex_char :: "nat \<Rightarrow> char" where
  "hex_char n = char_of (if n < 10 then n + 48 else n + 87)"

definition hex_string :: "bytes \<Rightarrow> string" where
  "hex_string bs = ''0x'' @ concat (map (\<lambda>b. [hex_char (unat b div 16), hex_char (unat b mod 16)]) bs)"

lemma to_digit_hex_char: "n < 16 \<Longrightarrow> to_digit_16 (hex_char n) = Some n"
  by (auto simp: to_digit_16_def hex_char_def Let_def)

lemma parse_hex_string [simp]: "parse_hex (hex_string bs) = Ok bs"
proof -
  let ?ps = "map (\<lambda>b. (hex_char (unat b div 16), hex_char (unat b mod 16))) bs"
  have "hex_byte (hex_char (unat b div 16)) (hex_char (unat b mod 16)) b" for b :: u8
    using unat_u8_bound [of b] by (auto simp: hex_byte_def to_digit_hex_char)
  then have "list_all2 (\<lambda>(a, b) v. hex_byte a b v) ?ps bs"
    by (simp add: list_all2_conv_all_nth)
  then show ?thesis
    unfolding parse_hex_Ok by (intro exI [of _ ?ps]) (simp add: hex_string_def o_def)
qed

lemma parse_array_hex_string [simp]:
  "parse_root (hex_string bs) = expect_array 32 bs" "parse_bytes_32 (hex_string bs) = expect_array 32 bs"
  "parse_address (hex_string bs) = expect_array 20 bs" "parse_bytes_31 (hex_string bs) = expect_array 31 bs"
  by (simp_all add: parse_root_def parse_bytes_32_def parse_address_def parse_bytes_31_def)

lemma parse_array_length:
  "parse_root s = Ok r \<Longrightarrow> length r = 32" "parse_bytes_32 s = Ok r \<Longrightarrow> length r = 32"
  "parse_address s = Ok r \<Longrightarrow> length r = 20" "parse_bytes_31 s = Ok r \<Longrightarrow> length r = 31"
  by (auto simp: parse_root_def parse_bytes_32_def parse_address_def parse_bytes_31_def result_simps)

text \<open>What the parsers build has the array widths of the Rust types.\<close>

lemma to_state_key_wf: "to_state_key i = Ok k \<Longrightarrow> wf_state_key k"
  by (cases i) (auto simp: to_state_key_def result_simps dest: parse_array_length)

lemma to_state_witness_wf: "to_state_witness f = Ok w \<Longrightarrow> wf_witness w"
  by (fastforce simp: to_state_witness_def result_simps wf_witness_def to_state_key_wf list_all2_conv_all_nth
      in_set_conv_nth intro: parse_array_length(2))

lemma to_entry_wf: "to_entry f = Ok e \<Longrightarrow> wf_state_key (fst e)"
  by (auto simp: to_entry_def result_simps to_state_key_wf)

lemma build_payload_wf: "build_payload i = Ok p \<Longrightarrow> wf_payload p"
  by (cases i) (auto simp: result_simps wf_basic_def wf_create_def wf_u256_def wf_fees_def parse_fees_def
      dest: parse_array_length)

section \<open>Lemmas on roots\<close>

lemma compute_transactions_root_eq:
  "compute_transactions_root sha txs = Ok (sha (transactions_preimage (map (tx_root sha) txs)))"
proof -
  have "collect_results (envelope_hash_tree_root sha) txs = Ok (map (tx_root sha) txs)"
    by (simp add: collect_results_Ok_iff list_all2_conv_all_nth)
  then show ?thesis by (simp add: compute_transactions_root_def)
qed

lemma length_concat_fixed: "\<forall>x \<in> set xs. length x = n \<Longrightarrow> length (concat xs) = n * length xs"
  by (induction xs) auto

lemma witness_frame_inj:
  assumes "witness_frame v @ xs = witness_frame w @ ys" "wf_witness v" "wf_witness w"
    and "length (witness_leaf_value v) < usize_bound" "length (witness_leaf_value w) < usize_bound"
    and "length (witness_proof v) < usize_bound" "length (witness_proof w) < usize_bound"
  shows "v = w \<and> xs = ys"
proof -
  have key: "length (as_slice (encode_state_key (witness_key u))) < 2 ^ 64" if "wf_witness u" for u
    using length_encode_state_key [of "witness_key u"] that by (simp add: wf_witness_def)
  have nodes: "length (concat (witness_proof u)) = 32 * length (witness_proof u)" if "wf_witness u" for u
    using that by (simp add: length_concat_fixed wf_witness_def)
  have "length (as_slice (encode_state_key (witness_key v))) = length (as_slice (encode_state_key (witness_key w)))"
    using assms(1) key [OF assms(2)] key [OF assms(3)]
    by (simp add: witness_frame_def Let_def append_eq_same_length usize_as_u64_inject)
  then have keys: "as_slice (encode_state_key (witness_key v)) = as_slice (encode_state_key (witness_key w))"
    and rest: "u64_to_be_bytes (usize_as_u64 (length (witness_leaf_value v))) @ witness_leaf_value v
      @ u64_to_be_bytes (usize_as_u64 (length (witness_proof v))) @ concat (witness_proof v) @ xs =
      u64_to_be_bytes (usize_as_u64 (length (witness_leaf_value w))) @ witness_leaf_value w
      @ u64_to_be_bytes (usize_as_u64 (length (witness_proof w))) @ concat (witness_proof w) @ ys"
    using assms(1) by (simp_all add: witness_frame_def Let_def append_eq_same_length)
  then have "length (witness_leaf_value v) = length (witness_leaf_value w)"
    using assms(4,5) by (simp add: append_eq_same_length usize_as_u64_inject usize_bound_def)
  with rest have leaf: "witness_leaf_value v = witness_leaf_value w"
    and rest: "u64_to_be_bytes (usize_as_u64 (length (witness_proof v))) @ concat (witness_proof v) @ xs =
      u64_to_be_bytes (usize_as_u64 (length (witness_proof w))) @ concat (witness_proof w) @ ys"
    by (simp_all add: append_eq_same_length)
  then have "length (witness_proof v) = length (witness_proof w)"
    using assms(6,7) by (simp add: append_eq_same_length usize_as_u64_inject usize_bound_def)
  with rest have proof_bytes: "concat (witness_proof v) = concat (witness_proof w)" "xs = ys"
    using nodes [OF assms(2)] nodes [OF assms(3)] by (simp_all add: append_eq_same_length)
  then have "witness_proof v = witness_proof w"
    using assms(2,3) by (intro concat_fixed_width_inj [where w = 32]) (auto simp: wf_witness_def)
  moreover have "witness_key v = witness_key w"
    using keys assms(2,3) by (intro encode_state_key_inj) (auto simp: wf_witness_def StateKeyBytes.expand)
  ultimately show ?thesis using leaf proof_bytes(2) by (cases v; cases w) simp
qed

text \<open>A witness whose parts have lengths a \<open>usize\<close> can hold, as every Rust value does.\<close>

definition sized_witness :: "StateWitness \<Rightarrow> bool" where
  "sized_witness w \<longleftrightarrow> wf_witness w \<and> length (witness_leaf_value w) < usize_bound \<and>
     length (witness_proof w) < usize_bound"

lemma witness_frames_inj:
  assumes "concat (map witness_frame vs) = concat (map witness_frame ws)"
    and "\<forall>v \<in> set vs. sized_witness v" "\<forall>w \<in> set ws. sized_witness w"
  shows "vs = ws"
  using assms
proof (induction vs arbitrary: ws)
  case Nil
  then show ?case by (cases ws) (auto simp: witness_frame_def Let_def dest: arg_cong [where f = length])
next
  case (Cons v vs)
  have "witness_frame v \<noteq> []" by (auto simp: witness_frame_def Let_def dest: arg_cong [where f = length])
  with Cons.prems obtain w ws' where ws: "ws = w # ws'" by (cases ws) auto
  with Cons.prems have "v = w \<and> concat (map witness_frame vs) = concat (map witness_frame ws')"
    by (intro witness_frame_inj) (auto simp: sized_witness_def)
  with Cons ws show ?case by auto
qed

section \<open>Resolved scenarios\<close>

lemma collect_results_elem: "collect_results f xs = Ok ys \<Longrightarrow> y \<in> set ys \<Longrightarrow> \<exists>x \<in> set xs. f x = Ok y"
  by (auto simp: collect_results_Ok_iff list_all2_conv_all_nth in_set_conv_nth) (metis nth_mem)

lemma collect_results_length: "collect_results f xs = Ok ys \<Longrightarrow> length ys = length xs"
  by (auto simp: collect_results_Ok_iff dest: list_all2_lengthD)

lemma resolve_transactions_Ok:
  assumes "resolve_transactions sha load_tx fixture = Ok (txs, r)"
  shows "length txs = length (rbi_transaction_vector_ids (rci_body (rv_input fixture))) \<and>
    compute_transactions_root sha txs = Ok r \<and>
    (\<forall>tx \<in> set txs. wf_envelope tx \<and> env_authorizations tx = [])"
proof -
  have envelope: "wf_envelope tx \<and> env_authorizations tx = []" if "resolve_transaction load_tx i = Ok tx" for i tx
    using that by (auto simp: resolve_transaction_def vector_envelope_def vector_payload_def result_simps
        wf_envelope_def build_payload_wf)
  from assms have "collect_results (resolve_transaction load_tx)
      (rbi_transaction_vector_ids (rci_body (rv_input fixture))) = Ok txs" "compute_transactions_root sha txs = Ok r"
    unfolding resolve_transactions_def
    by (auto simp: bind_result_Ok_iff assert_that_Ok_iff expect_ok_Ok_iff)
  then show ?thesis
    using envelope by (auto dest: collect_results_elem collect_results_length)
qed

lemma materialization_patch_simps [simp]:
  "accesses (materialization_patch es) = map fst es" "new_values (materialization_patch es) = map snd es"
  by (simp_all add: materialization_patch_def)

lemma patch_map_materialization: "patch_map (materialization_patch es) = map_of es"
  by (simp add: patch_map_def zip_map_fst_snd)

lemma materialize_Ok:
  assumes "materialize_root_check_accumulator sha es = Ok acc" "\<forall>e \<in> set es. wf_state_key (fst e)"
  shows "acc_invar acc \<and> contents acc = map_of es \<and> sorted_wrt (<) (map (encode_state_key \<circ> fst) es)"
proof -
  obtain r where "acc_apply_transition sha (materialization_patch es) new_accumulator = (Ok r, acc)"
    using assms(1) by (auto simp: materialize_root_check_accumulator_def result_simps split: prod.splits)
  from acc_apply_transition_Ok [OF this acc_invar_new] assms(2) show ?thesis
    by (auto simp: wf_patch_def canonical_patch_def patch_map_materialization)
qed

text \<open>What the loader guarantees of the pre-state and the witnesses of a scenario.\<close>

definition pre_state_consistent ::
  "hash_fun \<Rightarrow> (StateKey \<times> bytes) list \<Rightarrow> Root \<Rightarrow> StateWitness list \<Rightarrow> bool" where
  "pre_state_consistent sha entries root ws \<longleftrightarrow>
     entries \<noteq> [] \<and> (\<forall>e \<in> set entries. wf_state_key (fst e)) \<and>
     sorted_wrt (<) (map (encode_state_key \<circ> fst) entries) \<and>
     (\<exists>acc. materialize_root_check_accumulator sha entries = Ok acc \<and> acc_root acc = root) \<and>
     (\<forall>w \<in> set ws. wf_witness w \<and> witness_proof w = [] \<and>
        map_of entries (witness_key w) = Some (witness_leaf_value w)) \<and>
     sorted_wrt (<) (map (encode_state_key \<circ> witness_key) ws)"

lemma vector_state_wf:
  "vector_materialized_state v = Ok es \<Longrightarrow> e \<in> set es \<Longrightarrow> wf_state_key (fst e)"
  "vector_witness v = Ok (Some w) \<Longrightarrow> wf_witness w"
  by (auto simp: vector_materialized_state_def vector_witness_def map_ok_Ok_iff to_state_witness_wf
      dest!: collect_results_elem to_entry_wf split: option.splits)

lemma resolve_witnesses_Ok:
  assumes "resolve_witnesses sha load_wit fixture = Ok rw"
  shows "compute_execution_witnesses_root sha (rw_witnesses rw) = rw_root rw"
    "pre_state_consistent sha (rw_base_materialized rw) (rw_pre_state_root rw) (rw_witnesses rw)"
    "collect_results (\<lambda>vector. bind_result (vector_witness vector) expect_some) (rw_vectors rw) = Ok (rw_witnesses rw)"
proof -
  from assms obtain first materialized acc where
    ws: "collect_results (\<lambda>vector. bind_result (vector_witness vector) expect_some) (rw_vectors rw) = Ok (rw_witnesses rw)"
    and root: "compute_execution_witnesses_root sha (rw_witnesses rw) = rw_root rw"
    and first: "vector_materialized_state first = Ok materialized"
    and base: "canonical_root_check_materialized_state materialized = Ok (rw_base_materialized rw)"
    and acc: "materialize_root_check_accumulator sha (rw_base_materialized rw) = Ok acc"
      "acc_root acc = rw_pre_state_root rw"
    and verified: "verify_witnesses (acc_verify_witness acc) (rw_witnesses rw) (rw_pre_state_root rw) = Ok ()"
    unfolding resolve_witnesses_def
    by (auto simp: bind_result_Ok_iff assert_that_Ok_iff expect_ok_Ok_iff expect_some_Ok_iff)
  show "compute_execution_witnesses_root sha (rw_witnesses rw) = rw_root rw"
    "collect_results (\<lambda>vector. bind_result (vector_witness vector) expect_some) (rw_vectors rw) = Ok (rw_witnesses rw)"
    by (fact root, fact ws)
  from base have sorted: "rw_base_materialized rw = sort_key (\<lambda>e. encode_state_key (fst e)) materialized"
    and nonempty: "rw_base_materialized rw \<noteq> []"
    by (auto simp: canonical_root_check_materialized_state_def Let_def result_simps)
  then have wf: "\<forall>e \<in> set (rw_base_materialized rw). wf_state_key (fst e)"
    using vector_state_wf(1) [OF first] by simp
  have wfw: "\<forall>w \<in> set (rw_witnesses rw). wf_witness w"
    using ws by (auto dest!: collect_results_elem simp: bind_result_Ok_iff expect_some_Ok_iff vector_state_wf(2))
  note m = materialize_Ok [OF acc(1) wf]
  with verified wfw have "\<forall>w \<in> set (rw_witnesses rw). witness_proof w = [] \<and>
      map_of (rw_base_materialized rw) (witness_key w) = Some (witness_leaf_value w)"
    "sorted_wrt (<) (map (encode_state_key \<circ> witness_key) (rw_witnesses rw))"
    by (auto simp: verify_witnesses_def result_simps acc_verify_witness_Ok wf_witness_def)
  with nonempty wf m acc wfw
  show "pre_state_consistent sha (rw_base_materialized rw) (rw_pre_state_root rw) (rw_witnesses rw)"
    by (auto simp: pre_state_consistent_def)
qed

lemma resolve_step_Ok:
  assumes "resolve_step sha vs ((step, i), tx) = Ok s"
    and "collect_results (\<lambda>vector. bind_result (vector_witness vector) expect_some) vs = Ok ws"
  shows "step_transaction_root s = tx_root sha tx \<and> step_key s \<in> witness_key ` set ws"
proof -
  from assms(1) obtain v w where v: "find (\<lambda>v. wv_id v = res_witness_vector_id step) vs = Some v"
    "vector_witness v = Ok (Some w)" "step_key s = witness_key w" "step_transaction_root s = tx_root sha tx"
    by (auto simp: resolve_step_def result_simps split: option.splits)
  then have "v \<in> set vs" by (auto simp: find_Some_iff in_set_conv_nth)
  with v(2) assms(2) have "w \<in> set ws"
    by (auto simp: collect_results_Ok_iff list_all2_conv_all_nth in_set_conv_nth result_simps)
  with v show ?thesis by auto
qed

definition scenario_consistent :: "hash_fun \<Rightarrow> RootCheckScenario \<Rightarrow> bool" where
  "scenario_consistent sha s \<longleftrightarrow>
     compute_transactions_root sha (sc_transactions s) = Ok (sh_transactions_root (sc_header s)) \<and>
     compute_execution_witnesses_root sha (sc_witnesses s) = sh_execution_witnesses_root (sc_header s) \<and>
     ss_block_root (sc_sidecar s) = sh_block_root (sc_header s) \<and>
     (\<forall>tx \<in> set (sc_transactions s). wf_envelope tx \<and> env_authorizations tx = []) \<and>
     pre_state_consistent sha (sc_materialized_state s) (sc_pre_state_root s) (sc_witnesses s) \<and>
     map step_transaction_root (sc_steps s) = map (tx_root sha) (sc_transactions s) \<and>
     (\<forall>step \<in> set (sc_steps s). step_key step \<in> witness_key ` set (sc_witnesses s))"

lemma resolve_header_Ok:
  assumes "resolve_header fixture transactions_root witnesses_root = Ok h"
  shows "sh_transactions_root h = transactions_root" "sh_execution_witnesses_root h = witnesses_root"
    "parse_root (rv_state_root fixture) = Ok (sh_state_root h)"
    "parse_root (rv_receipts_root fixture) = Ok (sh_receipts_root h)"
  using assms by (auto simp: resolve_header_def Let_def bind_result_Ok_iff assert_that_Ok_iff)

lemma resolve_scenario_consistent:
  assumes "resolve_root_check_scenario sha load_tx load_wit fixture = Ok s"
  shows "scenario_consistent sha s"
proof -
  let ?ids = "rbi_transaction_vector_ids (rci_body (rv_input fixture))" and ?in = "rei_steps (rci_execution (rv_input fixture))"
  from assms obtain rw where txs: "resolve_transactions sha load_tx fixture = Ok (sc_transactions s, sh_transactions_root (sc_header s))"
    and rw: "resolve_witnesses sha load_wit fixture = Ok rw" "sc_witnesses s = rw_witnesses rw"
      "sh_execution_witnesses_root (sc_header s) = rw_root rw" "sc_materialized_state s = rw_base_materialized rw"
      "sc_pre_state_root s = rw_pre_state_root rw"
    and steps: "collect_results (resolve_step sha (rw_vectors rw)) (zip (zip ?in ?ids) (sc_transactions s)) = Ok (sc_steps s)"
      "length (sc_steps s) = length (sc_transactions s)"
    and sidecar: "ss_block_root (sc_sidecar s) = sh_block_root (sc_header s)"
    unfolding resolve_root_check_scenario_def
    by (auto simp: bind_result_Ok_iff assert_that_Ok_iff resolve_header_Ok)
  note w = resolve_witnesses_Ok [OF rw(1)] and t = resolve_transactions_Ok [OF txs]
  have len: "length (zip (zip ?in ?ids) (sc_transactions s)) = length (sc_steps s)"
    using steps(1) by (simp add: collect_results_length)
  have step: "step_transaction_root (sc_steps s ! i) = tx_root sha (sc_transactions s ! i) \<and>
      step_key (sc_steps s ! i) \<in> witness_key ` set (rw_witnesses rw)" if "i < length (sc_steps s)" for i
  proof -
    from that len have "i < length ?in" "i < length ?ids" "i < length (sc_transactions s)"
      by (auto simp: min_def split: if_splits)
    then have "zip (zip ?in ?ids) (sc_transactions s) ! i = ((?in ! i, ?ids ! i), sc_transactions s ! i)" by simp
    with that len steps(1) have "resolve_step sha (rw_vectors rw) ((?in ! i, ?ids ! i), sc_transactions s ! i) = Ok (sc_steps s ! i)"
      by (auto simp: collect_results_Ok_iff list_all2_conv_all_nth)
    from resolve_step_Ok [OF this w(3)] show ?thesis .
  qed
  have "map step_transaction_root (sc_steps s) = map (tx_root sha) (sc_transactions s)"
    using step steps(2) by (intro nth_equalityI) auto
  moreover have "\<forall>x \<in> set (sc_steps s). step_key x \<in> witness_key ` set (rw_witnesses rw)"
    using step by (auto simp: in_set_conv_nth)
  ultimately show ?thesis
    using t w rw sidecar by (simp add: scenario_consistent_def)
qed

text \<open>A loaded scenario carries the four roots its vector declares, and one step per transaction.\<close>

lemma loaded_scenario_roots:
  assumes "load_root_check_scenario sha load_tx load_wit load_fixture path = Ok loaded"
  shows "parse_root (rv_transactions_root (loaded_fixture loaded)) = Ok (sh_transactions_root (sc_header (loaded_scenario loaded)))"
    "parse_root (rv_execution_witnesses_root (loaded_fixture loaded)) = Ok (sh_execution_witnesses_root (sc_header (loaded_scenario loaded)))"
    "parse_root (rv_state_root (loaded_fixture loaded)) = Ok (sh_state_root (sc_header (loaded_scenario loaded)))"
    "parse_root (rv_receipts_root (loaded_fixture loaded)) = Ok (sh_receipts_root (sc_header (loaded_scenario loaded)))"
    "length (sc_steps (loaded_scenario loaded)) = length (sc_transactions (loaded_scenario loaded))"
  using assms unfolding load_root_check_scenario_def resolve_root_check_scenario_def resolve_transactions_def
    resolve_witnesses_def
  by (auto simp: bind_result_Ok_iff assert_that_Ok_iff resolve_header_Ok)

text \<open>The patch of an execution-semantics step passes the shape check; only its order can be wrong.\<close>

lemma step_state_patch_shape:
  assumes "step_state_patch step = Ok p"
  shows "wf_patch p" "validate_shape p = Ok ()" "canonical_patch p \<longleftrightarrow> sorted_wrt (<) (map encode_state_key (accesses p))"
proof -
  from assms obtain es where es: "collect_results to_entry (esp_writes (es_patch step)) = Ok es"
    and p: "p = \<lparr>accesses = map fst es, new_values = map snd es\<rparr>"
    by (auto simp: step_state_patch_def bind_result_Ok_iff)
  have "\<forall>e \<in> set es. wf_state_key (fst e)"
    using es by (auto dest!: collect_results_elem to_entry_wf)
  with p show "wf_patch p" "validate_shape p = Ok ()"
    "canonical_patch p \<longleftrightarrow> sorted_wrt (<) (map encode_state_key (accesses p))"
    by (auto simp: wf_patch_def validate_shape_def canonical_patch_def)
qed

section \<open>A sample scenario\<close>

definition zero_hash_fun :: hash_fun where
  "zero_hash_fun m = zero_bytes 32"

definition sample_fee_input :: FeeInput where
  "sample_fee_input = \<lparr>fee_regular = hex_string (zero_bytes 32), fee_max_priority_fee_per_gas = hex_string (zero_bytes 32),
     fee_max_witness_priority_fee = hex_string (zero_bytes 32)\<rparr>"

definition sample_transaction_vector :: TransactionVector where
  "sample_transaction_vector = \<lparr>tv_id = ''tx-1'', tv_category = ''transaction'', tv_description = ''basic'',
     tv_input = \<lparr>tvi_payload = Some (BasicInput \<lparr>bpi_chain_id = hex_string (zero_bytes 32), bpi_nonce = 0,
       bpi_gas_limit = 0, bpi_fees = sample_fee_input, bpi_to = hex_string (zero_bytes 20),
       bpi_value = hex_string (zero_bytes 32), bpi_input_hex = hex_string [],
       bpi_access_commitment = hex_string (zero_bytes 32)\<rparr>), tvi_wire_hex = None\<rparr>,
     tv_expected_outcome = ''accept'', tv_expected_error = None, tv_owned_by = ''shell-primitives'', tv_notes = None,
     tv_payload_tag = None, tv_payload_root = None, tv_authorization_count = None\<rparr>"

definition sample_key_input :: StateKeyInput where
  "sample_key_input = RawTreeKeyInput (hex_string (replicate 32 5)) None"

definition sample_witness_vector :: WitnessVector where
  "sample_witness_vector = \<lparr>wv_id = ''w-1'', wv_category = ''witness'', wv_rule = ''rule'', wv_description = ''one leaf'',
     wv_input = \<lparr>wi_ordering_is_canonical = None, wi_proof_shape_kind = None,
       wi_expected_state_root = Some (hex_string (zero_bytes 32)), wi_witnesses = None,
       wi_witness = Some \<lparr>wfx_key = sample_key_input, wfx_leaf_value_hex = hex_string [8], wfx_proof_hex = []\<rparr>,
       wi_materialized_state = Some [\<lparr>mlf_key = sample_key_input, mlf_leaf_value_hex = hex_string [8]\<rparr>]\<rparr>,
     wv_expected_outcome = ''accept'', wv_expected_error = None, wv_owned_by = ''shell-state'', wv_notes = None,
     wv_state_keys = None, wv_proof_shape_kind = None\<rparr>"

definition sample_fixture :: RootCheckVector where
  "sample_fixture = \<lparr>rv_id = ''root-check-1'', rv_category = ''root-check'', rv_rule = ''rule'', rv_description = ''match'',
     rv_input = \<lparr>rci_header = \<lparr>rh_block_root = hex_string (zero_bytes 32), rh_block_number = 7, rh_timestamp = 1,
         rh_proposer_index = 8, rh_parent_root = hex_string (zero_bytes 32),
         rh_transactions_root = hex_string (zero_bytes 32), rh_execution_witnesses_root = hex_string (zero_bytes 32),
         rh_state_root = hex_string (zero_bytes 32), rh_receipts_root = hex_string (zero_bytes 32),
         rh_witness_bytes = 192, rh_proposer_signature_hex = hex_string [0x12, 0x34]\<rparr>,
       rci_body = \<lparr>rbi_transaction_vector_ids = [''tx-1'']\<rparr>,
       rci_sidecar = \<lparr>rsi_block_root = hex_string (zero_bytes 32), rsi_witness_vector_ids = [''w-1'']\<rparr>,
       rci_execution = \<lparr>rei_steps = [\<lparr>res_transaction_vector_id = ''tx-1'', res_witness_vector_id = ''w-1'',
         res_new_leaf_value_hex = hex_string [1], res_receipt_status_code = 1,
         res_receipt_output_hex = hex_string []\<rparr>]\<rparr>\<rparr>,
     rv_expected_outcome = ''accept'', rv_expected_error = None, rv_owned_by = ''shell-consensus'', rv_notes = None,
     rv_transactions_root = hex_string (zero_bytes 32), rv_execution_witnesses_root = hex_string (zero_bytes 32),
     rv_state_root = hex_string (zero_bytes 32), rv_receipts_root = hex_string (zero_bytes 32)\<rparr>"

definition sample_scenario :: RootCheckScenario where
  "sample_scenario = \<lparr>sc_header = \<lparr>sh_block_root = zero_bytes 32, sh_block_number = 7, sh_timestamp = 1,
       sh_proposer_index = 8, sh_parent_root = zero_bytes 32, sh_transactions_root = zero_bytes 32,
       sh_execution_witnesses_root = zero_bytes 32, sh_state_root = zero_bytes 32, sh_receipts_root = zero_bytes 32,
       sh_witness_bytes = 192, sh_proposer_signature = [0x12, 0x34]\<rparr>,
     sc_sidecar = \<lparr>ss_block_root = zero_bytes 32\<rparr>, sc_transactions = [sample_transaction],
     sc_witnesses = [\<lparr>witness_key = sample_key 5, witness_leaf_value = [8], witness_proof = []\<rparr>],
     sc_materialized_state = [(sample_key 5, [8])], sc_pre_state_root = zero_bytes 32,
     sc_steps = [\<lparr>step_transaction_root = zero_bytes 32, step_key = sample_key 5, step_new_leaf_value = [1],
       step_receipt_status_code = 1, step_receipt_output = []\<rparr>]\<rparr>"

lemmas sample_vector_defs = sample_fee_input_def sample_transaction_vector_def sample_key_input_def
  sample_witness_vector_def sample_fixture_def sample_scenario_def

lemma tx_root_zero_hash [simp]: "tx_root zero_hash_fun e = zero_bytes 32"
  using envelope_root_constant_hash [of "zero_bytes 32" e] canonical_root_Ok [of zero_hash_fun e]
  by (simp add: zero_hash_fun_def [abs_def])

lemma sample_vector_parses:
  "vector_envelope sample_transaction_vector = Ok sample_transaction"
  "vector_witness sample_witness_vector = Ok (Some \<lparr>witness_key = sample_key 5, witness_leaf_value = [8], witness_proof = []\<rparr>)"
  "vector_materialized_state sample_witness_vector = Ok [(sample_key 5, [8])]"
  "vector_expected_state_root sample_witness_vector = Ok (Some (zero_bytes 32))"
  by (simp_all add: vector_envelope_def vector_payload_def vector_witness_def vector_materialized_state_def
      vector_expected_state_root_def to_state_witness_def to_entry_def to_state_key_def parse_fees_def
      expect_array_def sample_transaction_def default_payload_def default_basic_payload_def default_fees_def
      default_gas_price_def sample_key_def sample_vector_defs)

lemma sample_materializes:
  "materialize_root_check_accumulator zero_hash_fun [(sample_key 5, [8])] = Ok one_leaf_accumulator"
  "acc_root one_leaf_accumulator = zero_bytes 32"
  by (simp_all add: materialize_root_check_accumulator_def one_leaf_accumulator_def acc_apply_transition_def
      validate_shape_def ensure_canonical_access_order_def materialization_patch_def zero_hash_fun_def [abs_def]
      recompute_root_def compute_reference_root_def Let_def)

lemma sample_verifies:
  "verify_witnesses (acc_verify_witness one_leaf_accumulator)
     [\<lparr>witness_key = sample_key 5, witness_leaf_value = [8], witness_proof = []\<rparr>] (zero_bytes 32) = Ok ()"
proof -
  have "wf_state_key (sample_key 5)" by (simp add: sample_key_def)
  then have "acc_verify_witness one_leaf_accumulator
      \<lparr>witness_key = sample_key 5, witness_leaf_value = [8], witness_proof = []\<rparr> (zero_bytes 32) = Ok ()"
    by (simp add: acc_verify_witness_Ok one_leaf_accumulator sample_materializes)
  then show ?thesis by (simp add: verify_witnesses_def ensure_canonical_witness_order_def)
qed

lemma sample_resolves:
  "resolve_root_check_scenario zero_hash_fun (\<lambda>_. Ok sample_transaction_vector) (\<lambda>_. Ok sample_witness_vector)
     sample_fixture = Ok sample_scenario"
proof -
  have outcome: "tv_expected_outcome sample_transaction_vector = ''accept''"
    "wv_expected_outcome sample_witness_vector = ''accept''" "wv_id sample_witness_vector = ''w-1''"
    by (simp_all add: sample_vector_defs)
  have txs: "resolve_transactions zero_hash_fun (\<lambda>_. Ok sample_transaction_vector) sample_fixture =
      Ok ([sample_transaction], zero_bytes 32)"
    by (simp add: resolve_transactions_def resolve_transaction_def sample_fixture_def outcome assert_that_def
        sample_vector_parses expect_array_def compute_transactions_root_eq)
       (simp add: zero_hash_fun_def)
  have wits: "resolve_witnesses zero_hash_fun (\<lambda>_. Ok sample_witness_vector) sample_fixture =
      Ok \<lparr>rw_vectors = [sample_witness_vector],
        rw_witnesses = [\<lparr>witness_key = sample_key 5, witness_leaf_value = [8], witness_proof = []\<rparr>],
        rw_root = zero_bytes 32, rw_base_materialized = [(sample_key 5, [8])], rw_pre_state_root = zero_bytes 32\<rparr>"
    by (simp add: resolve_witnesses_def resolve_witness_vector_def sample_fixture_def outcome assert_that_def
        sample_vector_parses expect_array_def compute_execution_witnesses_root_def sample_materializes
        sample_verifies canonical_root_check_materialized_state_def)
       (simp add: zero_hash_fun_def)
  show ?thesis
    by (simp add: resolve_root_check_scenario_def txs wits)
       (simp add: resolve_header_def resolve_step_def sample_fixture_def sample_scenario_def outcome assert_that_def
         sample_vector_parses expect_array_def)
qed

section \<open>Properties\<close>

text \<open>
  C33: A root-check vector that resolves without a panic yields a consistent scenario: the header
  commits to exactly the transactions and witnesses of the scenario, the sidecar names the header's
  block, the pre-state is a strictly ordered non-empty list of well-formed leaves whose accumulator
  has the declared root, every witness states a leaf of it, there is one step per transaction under
  the transaction's root, and every step writes a witnessed key.
\<close>

theorem resolved_scenario_consistent:
  assumes "resolve_root_check_scenario sha load_tx load_wit fixture = Ok s"
  shows "scenario_consistent sha s"
  using assms by (rule resolve_scenario_consistent)

theorem resolved_scenario_consistent_witness: "scenario_consistent zero_hash_fun sample_scenario"
  using sample_resolves by (rule resolved_scenario_consistent)

text \<open>
  The hex parser accepts exactly the strings made of the prefix \<open>0x\<close> and two characters per
  byte, where the first of the two may also be a plus sign (so \<open>0x+f\<close> reads as the byte 15), and it
  panics on every other string.
\<close>

theorem parse_hex_exact:
  "(parse_hex s = Ok bs \<longleftrightarrow>
     (\<exists>ps. s = ''0x'' @ concat (map (\<lambda>(a, b). [a, b]) ps) \<and> list_all2 (\<lambda>(a, b) v. hex_byte a b v) ps bs)) \<and>
   parse_hex s \<noteq> Err e \<and>
   parse_hex ''0x+f'' = Ok [15]"
proof -
  have "parse_hex ''0x+f'' = Ok [15]"
    by (simp add: parse_hex_def strip_prefix_def assert_that_def u8_from_str_radix_16_def to_digit_16_def)
  moreover have "parse_hex s \<noteq> Err e"
    by (auto simp: parse_hex_def bind_result_Err_iff)
  ultimately show ?thesis by (simp add: parse_hex_Ok)
qed

text \<open>The messages hashed for a transactions root.\<close>

definition transactions_messages :: "hash_fun \<Rightarrow> TransactionEnvelope list \<Rightarrow> bytes set" where
  "transactions_messages sha txs =
     insert (transactions_preimage (map (tx_root sha) txs)) (\<Union>e \<in> set txs. tree_messages sha (envelope_tree e))"

text \<open>
  C10: The transactions root binds the body: two lists of well-formed transactions within the list
  limits with the same root are equal, in number, order and content, or two hashed messages collide.
\<close>

theorem transactions_root_binding:
  assumes "digest32 sha" "compute_transactions_root sha es = compute_transactions_root sha fs"
    and "\<forall>e \<in> set es \<union> set fs. wf_envelope e \<and> envelope_within_limits e"
  shows "es = fs \<or> collision sha (transactions_messages sha es \<union> transactions_messages sha fs)"
proof (cases "transactions_preimage (map (tx_root sha) es) = transactions_preimage (map (tx_root sha) fs)")
  case False
  with assms(2) show ?thesis
    by (auto simp: compute_transactions_root_eq collision_def transactions_messages_def)
next
  case True
  have "length (tx_root sha e) = 32" if "e \<in> set es \<union> set fs" for e
    using that assms(1,3) by (simp add: tx_root_def length_tree_root wf_envelope_tree)
  then have "map (tx_root sha) es = map (tx_root sha) fs"
    using True by (intro concat_fixed_width_inj [where w = 32])
      (auto simp: transactions_preimage_def append_eq_same_length)
  then have roots: "list_all2 (\<lambda>e f. tx_root sha e = tx_root sha f) es fs"
    by (auto simp: list_all2_conv_all_nth list_eq_iff_nth_eq)
  have "e = f \<or> collision sha (transactions_messages sha es \<union> transactions_messages sha fs)"
    if "e \<in> set es" "f \<in> set fs" "tx_root sha e = tx_root sha f" for e f
  proof -
    have "agree sha (envelope_tree e) (envelope_tree f) \<or>
        collision sha (tree_messages sha (envelope_tree e) \<union> tree_messages sha (envelope_tree f))"
      using that assms(1,3) by (intro tree_root_binding) (auto simp: tx_root_def wf_envelope_tree)
    moreover have "tree_messages sha (envelope_tree e) \<union> tree_messages sha (envelope_tree f) \<subseteq>
        transactions_messages sha es \<union> transactions_messages sha fs"
      using that by (auto simp: transactions_messages_def)
    ultimately show ?thesis
      using that assms(3) collision_mono [of sha] by (blast intro: envelope_tree_agree)
  qed
  then have "list_all2 (=) es fs" if "\<not> collision sha (transactions_messages sha es \<union> transactions_messages sha fs)"
    using roots that by (auto elim!: list.rel_mono_strong)
  then show ?thesis by (auto simp: list.rel_eq)
qed

theorem transactions_root_binding_witness:
  "[sample_transaction] = [] \<or>
   collision zero_hash_fun (transactions_messages zero_hash_fun [sample_transaction] \<union> transactions_messages zero_hash_fun [])"
  by (rule transactions_root_binding)
     (simp_all add: digest32_def compute_transactions_root_eq sample_transaction_def wf_envelope_def
       envelope_within_limits_def zero_hash_fun_def)

text \<open>
  C11: The execution-witnesses root binds the sidecar: two lists of witnesses with the same root are
  equal, in number, order, keys, leaf values and proof nodes, or the two hashed messages collide.
\<close>

theorem execution_witnesses_root_binding:
  assumes "compute_execution_witnesses_root sha vs = compute_execution_witnesses_root sha ws"
    and "\<forall>w \<in> set vs \<union> set ws. sized_witness w"
  shows "vs = ws \<or> collision sha {witnesses_preimage vs, witnesses_preimage ws}"
proof (cases "witnesses_preimage vs = witnesses_preimage ws")
  case True
  then have "concat (map witness_frame vs) = concat (map witness_frame ws)"
    by (simp add: witnesses_preimage_def append_eq_same_length)
  with assms(2) show ?thesis by (auto intro: witness_frames_inj)
next
  case False
  with assms(1) show ?thesis by (auto simp: compute_execution_witnesses_root_def collision_def)
qed

theorem execution_witnesses_root_binding_witness:
  "sc_witnesses sample_scenario = [] \<or>
   collision zero_hash_fun {witnesses_preimage (sc_witnesses sample_scenario), witnesses_preimage []}"
  by (rule execution_witnesses_root_binding)
     (simp_all add: compute_execution_witnesses_root_def zero_hash_fun_def sample_scenario_def sized_witness_def
       wf_witness_def usize_bound_def sample_key_def)

end
