(* ===== verification/Runtime.thy ===== *)
theory Runtime
  imports Network Fixtures
begin

text \<open>
  The local reference runtime (\<^verbatim>\<open>crates/shell-cli/src\<close>: \<^verbatim>\<open>fixtures.rs\<close>, \<^verbatim>\<open>runtime.rs\<close>,
  \<^verbatim>\<open>adapters.rs\<close>), which composes all other crates: it admits the transactions of a scenario,
  imports its block through reference services and offers both as network adapters.

  The signature dispatcher and the credential resolver are parameters of the runtime and actions on
  one world; the revalidator, the witness preparer and the execution engine are the runtime's own
  services. The planner and the applier of the engine live inside one call, so the engine is a
  function.
\<close>

section \<open>Scenarios\<close>

record OwnedAuthorizationMaterial =
  owned_public_key_material :: bytes

definition reference_default :: OwnedAuthorizationMaterial where
  "reference_default = \<lparr>owned_public_key_material = replicate 32 0\<rparr>"

definition as_borrowed :: "OwnedAuthorizationMaterial \<Rightarrow> AuthorizationMaterial" where
  "as_borrowed m = \<lparr>material_public_key = owned_public_key_material m\<rparr>"

record LocalReferenceScenario =
  ls_block :: CanonicalBlock
  ls_admission_transactions :: "TransactionEnvelope list"
  ls_pre_state_root :: Root
  ls_materialized_state :: "(StateKey \<times> bytes) list"
  ls_planned_transactions :: "PlannedTransaction list"
  ls_transaction_authorization_materials :: "OwnedAuthorizationMaterial list list"

definition synthesize_reference_admission_transaction ::
  "hash_fun \<Rightarrow> TransactionEnvelope \<Rightarrow> TransactionEnvelope panics" where
  "synthesize_reference_admission_transaction sha transaction =
     (if env_authorizations transaction \<noteq> [] then Ok transaction
      else
        bind_result (expect_ok (payload_root sha transaction)) (\<lambda>p_root.
        Ok (transaction\<lparr>env_authorizations :=
          [\<lparr>auth_scheme_id = 0, auth_payload_root = p_root, auth_signature = replicate 64 0xA5\<rparr>]\<rparr>)))"

definition planned_of_step :: "RootCheckScenarioStep \<Rightarrow> PlannedTransaction" where
  "planned_of_step step =
     \<lparr>planned_transaction_root = step_transaction_root step,
      planned_plan = \<lparr>plan_state_patch = \<lparr>accesses = [step_key step], new_values = [step_new_leaf_value step]\<rparr>,
        plan_receipt = \<lparr>status_code = step_receipt_status_code step, receipt_output = step_receipt_output step\<rparr>\<rparr>\<rparr>"

definition reference_materials :: "TransactionEnvelope \<Rightarrow> OwnedAuthorizationMaterial list" where
  "reference_materials transaction =
     (let authorization_count =
        if env_authorizations transaction = [] then 1 else length (env_authorizations transaction)
      in map (\<lambda>_. reference_default) [0..<authorization_count])"

definition scenario_block :: "RootCheckScenario \<Rightarrow> CanonicalBlock" where
  "scenario_block s =
     (let h = sc_header s in
      \<lparr>block_header = \<lparr>ch_block_root = sh_block_root h, ch_block_number = sh_block_number h,
         ch_timestamp = sh_timestamp h, ch_parent_root = sh_parent_root h, ch_witness_bytes = sh_witness_bytes h,
         ch_transactions_root = sh_transactions_root h,
         ch_execution_witnesses_root = sh_execution_witnesses_root h, ch_state_root = sh_state_root h,
         ch_receipts_root = sh_receipts_root h, ch_proposer_signature = sh_proposer_signature h,
         ch_proposer_index_hint = Some (sh_proposer_index h)\<rparr>,
       block_body = \<lparr>cb_transactions = sc_transactions s, cb_transactions_root = sh_transactions_root h\<rparr>,
       block_sidecar = \<lparr>cs_block_root = ss_block_root (sc_sidecar s),
         cs_execution_witnesses_root = sh_execution_witnesses_root h, cs_witnesses = sc_witnesses s\<rparr>\<rparr>)"

definition from_root_check_scenario :: "hash_fun \<Rightarrow> RootCheckScenario \<Rightarrow> LocalReferenceScenario panics" where
  "from_root_check_scenario sha s =
     bind_result (collect_results (synthesize_reference_admission_transaction sha) (sc_transactions s))
       (\<lambda>admission_transactions.
     Ok \<lparr>ls_block = scenario_block s, ls_admission_transactions = admission_transactions,
         ls_pre_state_root = sc_pre_state_root s, ls_materialized_state = sc_materialized_state s,
         ls_planned_transactions = map planned_of_step (sc_steps s),
         ls_transaction_authorization_materials = map reference_materials (sc_transactions s)\<rparr>)"

section \<open>The runtime\<close>

record ScenarioShapeError =
  shape_expected :: usize
  shape_actual :: usize
  shape_context :: string

datatype LocalReferenceError =
    ScenarioShape ScenarioShapeError
  | DuplicateAdmissionPayloadRoot Root
  | Primitive PrimitiveError
  | Admission ValidationError
  | Consensus ConsensusError

record LocalReferenceFlowOutcome =
  flow_admissions :: "AuthorizationValidated list"
  flow_import_outcome :: BlockImportOutcome

text \<open>The two verifying methods of \<open>dyn SignatureDispatcher\<close>.\<close>

record 'w signature_dispatcher =
  dispatch_transaction :: "'w dispatcher"
  dispatch_validator :: "'w dispatcher"

record 'w LocalReferenceRuntime =
  rt_dispatcher :: "'w signature_dispatcher"
  rt_resolver :: "'w credential_resolver"
  rt_admission_policy :: AdmissionPolicy
  rt_import_config :: BlockImportConfig
  rt_admission_state_view :: "admission_state_view option"

definition new_runtime ::
  "'w signature_dispatcher \<Rightarrow> 'w credential_resolver \<Rightarrow> AdmissionPolicy \<Rightarrow> BlockImportConfig \<Rightarrow>
   'w LocalReferenceRuntime" where
  "new_runtime dispatcher resolver policy config =
     \<lparr>rt_dispatcher = dispatcher, rt_resolver = resolver, rt_admission_policy = policy,
      rt_import_config = config, rt_admission_state_view = None\<rparr>"

definition with_admission_state_view ::
  "admission_state_view \<Rightarrow> 'w LocalReferenceRuntime \<Rightarrow> 'w LocalReferenceRuntime" where
  "with_admission_state_view state_view runtime = runtime\<lparr>rt_admission_state_view := Some state_view\<rparr>"

definition validate_scenario_shape :: "LocalReferenceScenario \<Rightarrow> (unit, LocalReferenceError) result" where
  "validate_scenario_shape scenario =
     (let transaction_count = length (cb_transactions (block_body (ls_block scenario)));
          admission_count = length (ls_admission_transactions scenario) in
      if admission_count \<noteq> transaction_count
      then Err (ScenarioShape \<lparr>shape_expected = transaction_count, shape_actual = admission_count,
             shape_context = ''admission transactions must align one-to-one with block body transactions''\<rparr>)
      else
        let planned_count = length (ls_planned_transactions scenario) in
        if planned_count \<noteq> transaction_count
        then Err (ScenarioShape \<lparr>shape_expected = transaction_count, shape_actual = planned_count,
               shape_context = ''planned transactions must align one-to-one with block body transactions''\<rparr>)
        else
          let materials_count = length (ls_transaction_authorization_materials scenario) in
          if materials_count \<noteq> transaction_count
          then Err (ScenarioShape \<lparr>shape_expected = transaction_count, shape_actual = materials_count,
                 shape_context =
                   ''authorization material entries must align one-to-one with block body transactions''\<rparr>)
          else Ok ())"

type_synonym admission_index = "(Root, TransactionEnvelope \<times> OwnedAuthorizationMaterial list) btree_map"

text \<open>The loop of \<open>build_admission_transactions_by_payload_root\<close>, over the value \<open>f\<close> it stores: the
  mempool adapter runs the same loop and stores the materials only.\<close>

fun index_loop ::
  "hash_fun \<Rightarrow> (TransactionEnvelope \<Rightarrow> OwnedAuthorizationMaterial list \<Rightarrow> 'v) \<Rightarrow>
   (TransactionEnvelope \<times> OwnedAuthorizationMaterial list) list \<Rightarrow> (Root, 'v) btree_map \<Rightarrow>
   ((Root, 'v) btree_map, LocalReferenceError) result" where
  "index_loop sha f [] by_root = Ok by_root"
| "index_loop sha f ((transaction, materials) # rest) by_root =
     bind_result (map_err LocalReferenceError.Primitive (payload_root sha transaction)) (\<lambda>p_root.
     case btree_insert p_root (f transaction materials) by_root of
       (Some _, _) \<Rightarrow> Err (DuplicateAdmissionPayloadRoot p_root)
     | (None, by_root') \<Rightarrow> index_loop sha f rest by_root')"

definition build_admission_transactions_by_payload_root ::
  "hash_fun \<Rightarrow> TransactionEnvelope list \<Rightarrow> OwnedAuthorizationMaterial list list \<Rightarrow>
   (admission_index, LocalReferenceError) result" where
  "build_admission_transactions_by_payload_root sha transactions authorization_materials =
     index_loop sha (\<lambda>transaction materials. (transaction, materials)) (zip transactions authorization_materials) []"

definition borrow_authorization_materials :: "OwnedAuthorizationMaterial list \<Rightarrow> AuthorizationMaterial list" where
  "borrow_authorization_materials materials = map as_borrowed materials"

definition validate_transaction ::
  "hash_fun \<Rightarrow> 'w LocalReferenceRuntime \<Rightarrow> TransactionEnvelope \<Rightarrow> OwnedAuthorizationMaterial list \<Rightarrow>
   ('w, AuthorizationValidated, ValidationError) action" where
  "validate_transaction sha runtime envelope authorization_materials =
     admit_and_verify sha (dispatch_transaction (rt_dispatcher runtime)) (rt_admission_policy runtime) envelope
       (rt_admission_state_view runtime) (borrow_authorization_materials authorization_materials)"

fun collect_action :: "('a \<Rightarrow> ('w, 'b, 'e) action) \<Rightarrow> 'a list \<Rightarrow> ('w, 'b list, 'e) action" where
  "collect_action f [] = lift_result (Ok [])"
| "collect_action f (x # xs) =
     bind_action (f x) (\<lambda>y. bind_action (collect_action f xs) (\<lambda>ys. lift_result (Ok (y # ys))))"

definition admit_transactions ::
  "hash_fun \<Rightarrow> 'w LocalReferenceRuntime \<Rightarrow> LocalReferenceScenario \<Rightarrow>
   ('w, AuthorizationValidated list, LocalReferenceError) action" where
  "admit_transactions sha runtime scenario =
     collect_action (\<lambda>(transaction, materials).
         map_err_action Admission (validate_transaction sha runtime transaction materials))
       (zip (ls_admission_transactions scenario) (ls_transaction_authorization_materials scenario))"

section \<open>Reference services\<close>

definition reference_revalidate ::
  "hash_fun \<Rightarrow> 'w LocalReferenceRuntime \<Rightarrow> admission_index \<Rightarrow> 'w revalidator" where
  "reference_revalidate sha runtime admission_transactions transaction _ =
     bind_action (lift_result (map_err ValidationError.Primitive (payload_root sha transaction))) (\<lambda>p_root.
     bind_action (lift_result (ok_or (btree_get admission_transactions p_root) (AuthorizationMaterialCount 1 0)))
       (\<lambda>(admission_transaction, materials).
     map_ok_action (\<lambda>_. ()) (validate_transaction sha runtime admission_transaction materials)))"

definition materialize_accumulator ::
  "hash_fun \<Rightarrow> (StateKey \<times> bytes) list \<Rightarrow> (InMemoryAccumulator, StateError) result" where
  "materialize_accumulator sha materialized_state =
     (if materialized_state = [] then Ok new_accumulator
      else
        case acc_apply_transition sha
            \<lparr>accesses = map fst materialized_state, new_values = map snd materialized_state\<rparr> new_accumulator of
          (r, accumulator) \<Rightarrow> bind_result r (\<lambda>_. Ok accumulator))"

definition reference_prepare_witness ::
  "hash_fun \<Rightarrow> Root \<Rightarrow> (StateKey \<times> bytes) list \<Rightarrow> StateWitness list \<Rightarrow> ConsensusHeader \<Rightarrow> ConsensusSidecar \<Rightarrow>
   (unit, StateError) result" where
  "reference_prepare_witness sha pre_state_root materialized_state witnesses header _ =
     (if compute_execution_witnesses_root sha witnesses \<noteq> header_execution_witnesses_root header
      then Err (WitnessVerificationFailed
             ''reference witness set does not match the committed execution_witnesses_root'')
      else
        bind_result (materialize_accumulator sha materialized_state) (\<lambda>accumulator.
        if acc_root accumulator \<noteq> pre_state_root
        then Err (RootContinuityMismatch pre_state_root (acc_root accumulator))
        else verify_witnesses (acc_verify_witness accumulator) witnesses pre_state_root))"

definition reference_execute_block ::
  "hash_fun \<Rightarrow> Root \<Rightarrow> (StateKey \<times> bytes) list \<Rightarrow> PlannedTransaction list \<Rightarrow> ConsensusHeader \<Rightarrow> ConsensusBody \<Rightarrow>
   ConsensusSidecar \<Rightarrow> (BlockExecutionOutcome, ExecutionError) result" where
  "reference_execute_block sha pre_state_root materialized_state planned _ body _ =
     bind_result (map_err StateTransition (materialize_accumulator sha materialized_state)) (\<lambda>accumulator.
     if acc_root accumulator \<noteq> pre_state_root
     then Err (StateTransition (RootContinuityMismatch pre_state_root (acc_root accumulator)))
     else
       case execute_block sha pre_state_root (body_transactions body)
           (\<lambda>pre tx. on_fst (planned_execute_transaction sha pre tx))
           (\<lambda>pre p. on_snd (applier_apply_transition sha pre p))
           (new_planned planned, new_applier accumulator) of
         (r, (planner, applier)) \<Rightarrow>
           bind_result r (\<lambda>outcome.
           bind_result (ensure_exhausted planner) (\<lambda>_.
           Ok outcome)))"

definition validate_block_against_reference ::
  "hash_fun \<Rightarrow> 'w LocalReferenceRuntime \<Rightarrow> LocalReferenceScenario \<Rightarrow> ConsensusHeader \<Rightarrow> ConsensusBody \<Rightarrow>
   ConsensusSidecar \<Rightarrow> admission_index \<Rightarrow> ('w, BlockImportOutcome, ConsensusError) action" where
  "validate_block_against_reference sha runtime scenario header body sidecar admission_transactions =
     import_block sha (rt_import_config runtime) header body sidecar
       \<lparr>svc_resolver = rt_resolver runtime,
        svc_dispatcher = dispatch_validator (rt_dispatcher runtime),
        svc_revalidator = reference_revalidate sha runtime admission_transactions,
        svc_preparer = (\<lambda>h s. lift_result (reference_prepare_witness sha (ls_pre_state_root scenario)
          (ls_materialized_state scenario) (cs_witnesses (block_sidecar (ls_block scenario))) h s)),
        svc_execution_engine = (\<lambda>h b s. lift_result (reference_execute_block sha (ls_pre_state_root scenario)
          (ls_materialized_state scenario) (ls_planned_transactions scenario) h b s))\<rparr>"

definition runtime_run ::
  "hash_fun \<Rightarrow> 'w LocalReferenceRuntime \<Rightarrow> LocalReferenceScenario \<Rightarrow>
   ('w, LocalReferenceFlowOutcome, LocalReferenceError) action" where
  "runtime_run sha runtime scenario =
     bind_action (lift_result (validate_scenario_shape scenario)) (\<lambda>_.
     bind_action (admit_transactions sha runtime scenario) (\<lambda>admissions.
     bind_action (lift_result (build_admission_transactions_by_payload_root sha
       (ls_admission_transactions scenario) (ls_transaction_authorization_materials scenario)))
       (\<lambda>admission_transactions.
     bind_action (map_err_action LocalReferenceError.Consensus (validate_block_against_reference sha runtime scenario
       (canonical_header (block_header (ls_block scenario))) (canonical_body (block_body (ls_block scenario)))
       (canonical_sidecar (block_sidecar (ls_block scenario))) admission_transactions)) (\<lambda>import_outcome.
     lift_result (Ok \<lparr>flow_admissions = admissions, flow_import_outcome = import_outcome\<rparr>)))))"

section \<open>Network adapters\<close>

text \<open>How both adapters report: success is \<open>Accept\<close>, an error with an outcome is that outcome, and
  only an error without one is returned as an error.\<close>

fun report_outcome :: "('e \<Rightarrow> ValidationOutcome option) \<Rightarrow> ('a, 'e) result \<Rightarrow> (ValidationOutcome, 'e) result" where
  "report_outcome outcome (Ok _) = Ok ValidationOutcome.Accept"
| "report_outcome outcome (Err error) = (case outcome error of Some v \<Rightarrow> Ok v | None \<Rightarrow> Err error)"
| "report_outcome outcome Panic = Panic"

definition report_outcome_action ::
  "('e \<Rightarrow> ValidationOutcome option) \<Rightarrow> ('w, 'a, 'e) action \<Rightarrow> ('w, ValidationOutcome, 'e) action" where
  "report_outcome_action outcome m = (\<lambda>w. case m w of (r, w') \<Rightarrow> (report_outcome outcome r, w'))"

record 'w LocalReferenceNetworkMempoolAdapter =
  ma_runtime :: "'w LocalReferenceRuntime"
  ma_authorization_materials :: "(Root, OwnedAuthorizationMaterial list) btree_map"

definition mempool_adapter_try_new ::
  "hash_fun \<Rightarrow> 'w LocalReferenceRuntime \<Rightarrow> LocalReferenceScenario \<Rightarrow>
   ('w LocalReferenceNetworkMempoolAdapter, LocalReferenceError) result" where
  "mempool_adapter_try_new sha runtime scenario =
     bind_result (validate_scenario_shape scenario) (\<lambda>_.
     bind_result (index_loop sha (\<lambda>_ materials. materials)
       (zip (ls_admission_transactions scenario) (ls_transaction_authorization_materials scenario)) [])
       (\<lambda>authorization_materials.
     Ok \<lparr>ma_runtime = runtime, ma_authorization_materials = authorization_materials\<rparr>))"

definition validate_gossip_transaction ::
  "hash_fun \<Rightarrow> 'w LocalReferenceNetworkMempoolAdapter \<Rightarrow> NetworkOrigin \<Rightarrow> TransactionEnvelope \<Rightarrow>
   ('w, ValidationOutcome, ValidationError) action" where
  "validate_gossip_transaction sha adapter _ envelope =
     bind_action (lift_result (map_err ValidationError.Primitive (payload_root sha envelope))) (\<lambda>p_root.
     bind_action (lift_result (ok_or (btree_get (ma_authorization_materials adapter) p_root)
       (AuthorizationMaterialCount (length (env_authorizations envelope)) 0))) (\<lambda>materials.
     report_outcome_action mempool_network_validation_outcome
       (validate_transaction sha (ma_runtime adapter) envelope materials)))"

record 'w LocalReferenceNetworkConsensusAdapter =
  ca_runtime :: "'w LocalReferenceRuntime"
  ca_scenario :: LocalReferenceScenario
  ca_admission_transactions :: admission_index

definition consensus_adapter_try_new ::
  "hash_fun \<Rightarrow> 'w LocalReferenceRuntime \<Rightarrow> LocalReferenceScenario \<Rightarrow>
   ('w LocalReferenceNetworkConsensusAdapter, LocalReferenceError) result" where
  "consensus_adapter_try_new sha runtime scenario =
     bind_result (validate_scenario_shape scenario) (\<lambda>_.
     bind_result (build_admission_transactions_by_payload_root sha (ls_admission_transactions scenario)
       (ls_transaction_authorization_materials scenario)) (\<lambda>admission_transactions.
     Ok \<lparr>ca_runtime = runtime, ca_scenario = scenario, ca_admission_transactions = admission_transactions\<rparr>))"

definition validate_gossip_block ::
  "hash_fun \<Rightarrow> 'w LocalReferenceNetworkConsensusAdapter \<Rightarrow> NetworkOrigin \<Rightarrow> ConsensusHeader \<Rightarrow> ConsensusBody \<Rightarrow>
   ConsensusSidecar \<Rightarrow> ('w, ValidationOutcome, ConsensusError) action" where
  "validate_gossip_block sha adapter _ header body sidecar =
     report_outcome_action consensus_network_validation_outcome
       (validate_block_against_reference sha (ca_runtime adapter) (ca_scenario adapter) header body sidecar
         (ca_admission_transactions adapter))"

section \<open>Stage lemmas\<close>

lemma validate_scenario_shape_Ok [result_simps]:
  "validate_scenario_shape sc = Ok u \<longleftrightarrow>
     length (ls_admission_transactions sc) = length (cb_transactions (block_body (ls_block sc))) \<and>
     length (ls_planned_transactions sc) = length (cb_transactions (block_body (ls_block sc))) \<and>
     length (ls_transaction_authorization_materials sc) = length (cb_transactions (block_body (ls_block sc)))"
  by (auto simp: validate_scenario_shape_def Let_def)

lemma verify_sidecar_binding_Ok:
  "verify_sidecar_binding header r sidecar preparer w = (Ok u, w') \<longleftrightarrow>
     sidecar_bound header sidecar r \<and> preparer header sidecar w = (Ok u, w')"
  by (auto simp: verify_sidecar_binding_def sidecar_bound_def map_err_action_Ok_iff)

text \<open>The entries the indexing loop inserts, and when it succeeds.\<close>

definition index_entries ::
  "hash_fun \<Rightarrow> (TransactionEnvelope \<Rightarrow> OwnedAuthorizationMaterial list \<Rightarrow> 'v) \<Rightarrow>
   (TransactionEnvelope \<times> OwnedAuthorizationMaterial list) list \<Rightarrow> (Root \<times> 'v) list" where
  "index_entries sha f es = map (\<lambda>(tx, ms). (e_root sha tx, f tx ms)) es"

lemma index_entries_simps [simp]:
  "index_entries sha f [] = []"
  "index_entries sha f ((tx, ms) # es) = (e_root sha tx, f tx ms) # index_entries sha f es"
  "map fst (index_entries sha f es) = map (e_root sha \<circ> fst) es"
  by (auto simp: index_entries_def)

lemma index_loop_Cons:
  "index_loop sha f ((tx, ms) # es) m =
     (if map_of m (e_root sha tx) = None then index_loop sha f es (snd (btree_insert (e_root sha tx) (f tx ms) m))
      else Err (DuplicateAdmissionPayloadRoot (e_root sha tx)))"
  by (simp add: btree_insert_def split: option.splits)

lemma map_of_snd_btree_insert [simp]: "map_of (snd (btree_insert k v m)) = (map_of m)(k \<mapsto> v)"
  by (simp add: btree_insert_def)

declare index_loop.simps(2) [simp del]

lemma index_loop_Ok_iff:
  "index_loop sha f es m = Ok m' \<longleftrightarrow>
     distinct (map (e_root sha \<circ> fst) es) \<and> (\<forall>e \<in> set es. map_of m (e_root sha (fst e)) = None) \<and>
     m' = btree.insert_all (index_entries sha f es) m"
proof (induction es arbitrary: m)
  case (Cons e es)
  then show ?case
    by (cases e) (auto simp: index_loop_Cons image_iff)
qed auto

lemma index_loop_not_Panic: "index_loop sha f es m \<noteq> Panic"
proof (induction es arbitrary: m)
  case (Cons e es)
  then show ?case by (cases e) (auto simp: index_loop_Cons)
qed simp

text \<open>A failure reports a root that is already in the map or occurs twice in the list.\<close>

lemma index_loop_Err:
  assumes "index_loop sha f es m = Err e"
  shows "\<exists>r. e = DuplicateAdmissionPayloadRoot r \<and>
    (let n = count_list (map (e_root sha \<circ> fst) es) r in n \<ge> 2 \<or> n \<ge> 1 \<and> map_of m r \<noteq> None)"
  using assms
proof (induction es arbitrary: m)
  case (Cons x es)
  obtain tx ms where x: "x = (tx, ms)" by (cases x)
  show ?case
  proof (cases "map_of m (e_root sha tx) = None")
    case True
    with Cons.prems x have "index_loop sha f es (snd (btree_insert (e_root sha tx) (f tx ms) m)) = Err e"
      by (simp add: index_loop_Cons)
    from Cons.IH [OF this] show ?thesis by (auto simp: x Let_def split: if_splits)
  next
    case False
    with Cons.prems x show ?thesis by (auto simp: index_loop_Cons Let_def)
  qed
qed simp

lemma index_get:
  assumes "distinct (map (e_root sha \<circ> fst) es)"
  shows "map_of (btree.insert_all (index_entries sha f es) []) = map_of (index_entries sha f es)"
proof -
  have "map_of (btree.insert_all (index_entries sha f es) []) = map_of (rev (index_entries sha f es))"
    using btree.insert_all_get [of "[]" "index_entries sha f es"] by (simp add: btree_invar_def)
  also have "\<dots> = map_of (index_entries sha f es)"
    using assms by (subst map_of_inject_set) (simp_all add: rev_map [symmetric])
  finally show ?thesis .
qed

lemma build_index_Ok [result_simps]:
  "build_admission_transactions_by_payload_root sha txs mss = Ok idx \<longleftrightarrow>
     distinct (map (e_root sha \<circ> fst) (zip txs mss)) \<and>
     idx = btree.insert_all (index_entries sha (\<lambda>tx ms. (tx, ms)) (zip txs mss)) []"
  by (auto simp: build_admission_transactions_by_payload_root_def index_loop_Ok_iff)

lemma index_lookup:
  assumes "distinct (map (e_root sha \<circ> fst) es)"
  shows "map_of (index_entries sha (\<lambda>tx ms. (tx, ms)) es) r = Some (tx, ms) \<longleftrightarrow> (tx, ms) \<in> set es \<and> r = e_root sha tx"
proof -
  have "distinct (map fst (index_entries sha (\<lambda>tx ms. (tx, ms)) es))" using assms by simp
  then have "map_of (index_entries sha (\<lambda>tx ms. (tx, ms)) es) r = Some (tx, ms) \<longleftrightarrow>
      (r, (tx, ms)) \<in> set (index_entries sha (\<lambda>tx ms. (tx, ms)) es)" by simp
  also have "\<dots> \<longleftrightarrow> (tx, ms) \<in> set es \<and> r = e_root sha tx" by (auto simp: index_entries_def)
  finally show ?thesis .
qed

lemma index_covers:
  assumes "distinct (map (e_root sha \<circ> fst) es)"
  shows "(\<exists>e. map_of (btree.insert_all (index_entries sha (\<lambda>tx ms. (tx, ms)) es) []) r = Some e \<and> P e) \<longleftrightarrow>
    (\<exists>e \<in> set es. e_root sha (fst e) = r \<and> P e)"
proof -
  have "map_of (btree.insert_all (index_entries sha (\<lambda>tx ms. (tx, ms)) es) []) r = Some e \<longleftrightarrow>
      e \<in> set es \<and> r = e_root sha (fst e)" for e
    using index_lookup [OF assms, of r "fst e" "snd e"] by (simp add: index_get [OF assms])
  then show ?thesis by (auto simp del: split_paired_Ex split_paired_All)
qed

lemma materialize_accumulator_Ok:
  assumes "materialize_accumulator sha es = Ok acc" "\<forall>e \<in> set es. wf_state_key (fst e)"
  shows "acc_invar acc \<and> contents acc = map_of es \<and> sorted_wrt (<) (map (encode_state_key \<circ> fst) es)"
proof (cases "es = []")
  case True
  with assms(1) show ?thesis by (auto simp: materialize_accumulator_def)
next
  case False
  with assms(1) have "materialize_root_check_accumulator sha es = Ok acc"
    by (auto simp: materialize_accumulator_def materialize_root_check_accumulator_def materialization_patch_def
        result_simps split: prod.splits)
  then show ?thesis using assms(2) by (rule materialize_Ok)
qed

text \<open>Both ways of building the pre-state agree, except that an empty state is not an error here.\<close>

lemma materialize_agree:
  assumes "es \<noteq> []"
  shows "materialize_accumulator sha es = Ok acc \<longleftrightarrow> materialize_root_check_accumulator sha es = Ok acc"
  using assms by (auto simp: materialize_accumulator_def materialize_root_check_accumulator_def
      materialization_patch_def result_simps split: prod.splits)

text \<open>The receipts and the final accumulator of a script.\<close>

definition planned_receipts :: "PlannedTransaction list \<Rightarrow> ExecutionReceipt list" where
  "planned_receipts ps = map (plan_receipt \<circ> planned_plan) ps"

definition planned_patches :: "PlannedTransaction list \<Rightarrow> StatePatch list" where
  "planned_patches ps = map (plan_state_patch \<circ> planned_plan) ps"

lemma reference_execute_Ok:
  "reference_execute_block sha pre es ps h b s = Ok out \<longleftrightarrow>
     (\<exists>acc ex' ap'. materialize_accumulator sha es = Ok acc \<and> acc_root acc = pre \<and>
        execute_block sha pre (body_transactions b) (\<lambda>pre tx. on_fst (planned_execute_transaction sha pre tx))
          (\<lambda>pre p. on_snd (applier_apply_transition sha pre p)) (new_planned ps, new_applier acc) = (Ok out, (ex', ap')) \<and>
        ensure_exhausted ex' = Ok ())"
proof (cases "materialize_accumulator sha es")
  case (Ok acc)
  obtain r ex ap where "execute_block sha pre (body_transactions b) (\<lambda>pre tx. on_fst (planned_execute_transaction sha pre tx))
      (\<lambda>pre p. on_snd (applier_apply_transition sha pre p)) (new_planned ps, new_applier acc) = (r, (ex, ap))"
    by (metis prod_cases3)
  with Ok show ?thesis by (auto simp: reference_execute_block_def bind_result_Ok_iff)
qed (simp_all add: reference_execute_block_def)

lemma reference_execute_iff:
  assumes "\<forall>e \<in> set es. wf_state_key (fst e)" "\<forall>p \<in> set (planned_patches ps). wf_patch p"
  shows "(\<exists>out. reference_execute_block sha pre es ps h b s = Ok out \<and>
      block_post_state_root out = post \<and> block_receipts_root out = receipts) \<longleftrightarrow>
    (\<exists>acc. materialize_accumulator sha es = Ok acc \<and> acc_root acc = pre \<and>
      list_all2 (\<lambda>p tx. planned_transaction_root p = tx_root sha tx) ps (body_transactions b) \<and>
      (\<forall>p \<in> set (planned_patches ps). canonical_patch p) \<and>
      post = acc_root (acc.run sha (planned_patches ps) acc) \<and>
      receipts = compute_receipts_root sha (planned_receipts ps))"
  (is "?executes \<longleftrightarrow> ?scripted")
proof -
  let ?run = "\<lambda>acc. execute_block sha pre (body_transactions b) (\<lambda>pre tx. on_fst (planned_execute_transaction sha pre tx))
    (\<lambda>pre p. on_snd (applier_apply_transition sha pre p)) (new_planned ps, new_applier acc)"
  have unfold: "?executes \<longleftrightarrow> (\<exists>acc out ex' ap'. materialize_accumulator sha es = Ok acc \<and> acc_root acc = pre \<and>
      ?run acc = (Ok out, (ex', ap')) \<and> ensure_exhausted ex' = Ok () \<and>
      block_post_state_root out = post \<and> block_receipts_root out = receipts)"
    unfolding reference_execute_Ok by blast
  have script: "?run acc = (Ok out, (ex', ap')) \<and> ensure_exhausted ex' = Ok () \<Longrightarrow>
      block_post_state_root out = acc_root (acc.run sha (planned_patches ps) acc) \<and>
      block_receipts_root out = compute_receipts_root sha (planned_receipts ps) \<and>
      list_all2 (\<lambda>p tx. planned_transaction_root p = tx_root sha tx) ps (body_transactions b) \<and>
      (\<forall>p \<in> set (planned_patches ps). canonical_patch p)"
    if acc: "materialize_accumulator sha es = Ok acc" "acc_root acc = pre" for acc out ex' ap'
  proof -
    assume run: "?run acc = (Ok out, (ex', ap')) \<and> ensure_exhausted ex' = Ok ()"
    note ok = planned_block_Ok [OF run [THEN conjunct1] run [THEN conjunct2]]
    then have "\<forall>p \<in> set ps. applicable_plan p"
      using assms(2) by (auto simp: applicable_plan_def planned_patches_def)
    from planned_block_run [OF ok [THEN conjunct1] this, of acc] materialize_accumulator_Ok [OF acc(1) assms(1)] run acc(2)
    have "block_post_state_root out = applier_state_root ap'"
      "block_receipts_root out = compute_receipts_root sha (planned_receipts ps)"
      by (auto simp: planned_receipts_def)
    with ok show ?thesis
      by (simp add: applier_state_root_def new_applier_def planned_patches_def)
  qed
  show ?thesis
  proof
    assume ?executes
    with unfold script show ?scripted by metis
  next
    assume ?scripted
    then obtain acc where acc: "materialize_accumulator sha es = Ok acc" "acc_root acc = pre"
      "list_all2 (\<lambda>p tx. planned_transaction_root p = tx_root sha tx) ps (body_transactions b)"
      "\<forall>p \<in> set (planned_patches ps). canonical_patch p"
      "post = acc_root (acc.run sha (planned_patches ps) acc)" "receipts = compute_receipts_root sha (planned_receipts ps)"
      by blast
    then have "\<forall>p \<in> set ps. applicable_plan p"
      using assms(2) by (auto simp: applicable_plan_def planned_patches_def)
    from planned_block_run [OF acc(3) this, of acc] materialize_accumulator_Ok [OF acc(1) assms(1)] acc(2)
    obtain out ex' ap' where "?run acc = (Ok out, (ex', ap'))" "ensure_exhausted ex' = Ok ()" by auto
    with script [OF acc(1,2)] acc show ?executes unfolding unfold by blast
  qed
qed

lemma reference_prepare_iff:
  assumes "\<forall>e \<in> set es. wf_state_key (fst e)" "\<forall>w \<in> set ws. wf_witness w"
  shows "reference_prepare_witness sha pre es ws h s = Ok () \<longleftrightarrow>
    compute_execution_witnesses_root sha ws = header_execution_witnesses_root h \<and>
    (\<exists>acc. materialize_accumulator sha es = Ok acc \<and> acc_root acc = pre) \<and>
    sorted_wrt (<) (map (encode_state_key \<circ> witness_key) ws) \<and>
    (\<forall>w \<in> set ws. witness_proof w = [] \<and> map_of es (witness_key w) = Some (witness_leaf_value w))"
proof (cases "materialize_accumulator sha es")
  case (Ok acc)
  from materialize_accumulator_Ok [OF Ok assms(1)] assms(2) have
    "verify_witnesses (acc_verify_witness acc) ws (acc_root acc) = Ok () \<longleftrightarrow>
      sorted_wrt (<) (map (encode_state_key \<circ> witness_key) ws) \<and>
      (\<forall>w \<in> set ws. witness_proof w = [] \<and> map_of es (witness_key w) = Some (witness_leaf_value w))"
    by (auto simp: verify_witnesses_def result_simps acc_verify_witness_Ok wf_witness_def)
  with Ok show ?thesis by (auto simp: reference_prepare_witness_def)
qed (auto simp: reference_prepare_witness_def)

section \<open>Specification of a run\<close>

text \<open>Byte widths of the Rust types in a scenario.\<close>

definition wf_scenario :: "LocalReferenceScenario \<Rightarrow> bool" where
  "wf_scenario sc \<longleftrightarrow> (\<forall>e \<in> set (ls_materialized_state sc). wf_state_key (fst e)) \<and>
     (\<forall>p \<in> set (planned_patches (ls_planned_transactions sc)). wf_patch p) \<and>
     (\<forall>w \<in> set (cs_witnesses (block_sidecar (ls_block sc))). wf_witness w)"

definition scenario_shaped :: "LocalReferenceScenario \<Rightarrow> bool" where
  "scenario_shaped sc \<longleftrightarrow> (let n = length (cb_transactions (block_body (ls_block sc))) in
     length (ls_admission_transactions sc) = n \<and> length (ls_planned_transactions sc) = n \<and>
     length (ls_transaction_authorization_materials sc) = n)"

definition admissible ::
  "hash_fun \<Rightarrow> 'w LocalReferenceRuntime \<Rightarrow> (u8 \<Rightarrow> SignatureVerificationRequest \<Rightarrow> bool) \<Rightarrow>
   TransactionEnvelope \<times> OwnedAuthorizationMaterial list \<Rightarrow> bool" where
  "admissible sha rt accepts entry \<longleftrightarrow>
     (let ms = borrow_authorization_materials (snd entry) in
      screened sha (rt_admission_policy rt) (fst entry) (rt_admission_state_view rt) ms \<and>
      (\<forall>(s, r) \<in> set (verification_calls sha (rt_admission_policy rt) (fst entry) ms). accepts s r))"

definition validated :: "hash_fun \<Rightarrow> 'w LocalReferenceRuntime \<Rightarrow> TransactionEnvelope \<Rightarrow> AuthorizationValidated" where
  "validated sha rt tx = \<lparr>validated_payload_root = e_root sha tx,
     validated_signing_root = authorization_root sha (rt_admission_policy rt) tx,
     verified_authorization_count = length (env_authorizations tx)\<rparr>"

text \<open>The block of a scenario is what its header commits to.\<close>

definition block_consistent :: "hash_fun \<Rightarrow> LocalReferenceScenario \<Rightarrow> bool" where
  "block_consistent sha sc \<longleftrightarrow>
     (let h = block_header (ls_block sc); b = block_body (ls_block sc); s = block_sidecar (ls_block sc);
          ps = ls_planned_transactions sc; es = ls_materialized_state sc in
      cb_transactions_root b = ch_transactions_root h \<and>
      cs_block_root s = ch_block_root h \<and>
      cs_execution_witnesses_root s = ch_execution_witnesses_root h \<and>
      compute_execution_witnesses_root sha (cs_witnesses s) = ch_execution_witnesses_root h \<and>
      sorted_wrt (<) (map (encode_state_key \<circ> witness_key) (cs_witnesses s)) \<and>
      (\<forall>w \<in> set (cs_witnesses s). witness_proof w = [] \<and> map_of es (witness_key w) = Some (witness_leaf_value w)) \<and>
      list_all2 (\<lambda>p tx. planned_transaction_root p = tx_root sha tx) ps (cb_transactions b) \<and>
      (\<forall>p \<in> set (planned_patches ps). canonical_patch p) \<and>
      ch_receipts_root h = compute_receipts_root sha (planned_receipts ps) \<and>
      (\<exists>acc. materialize_accumulator sha es = Ok acc \<and> acc_root acc = ls_pre_state_root sc \<and>
         ch_state_root h = acc_root (acc.run sha (planned_patches ps) acc)))"

definition proposer_accepted ::
  "hash_fun \<Rightarrow> (ProposerCredentialQuery \<Rightarrow> (ProposerCredential, ProposerCredentialResolutionError) result) \<Rightarrow>
   (u8 \<Rightarrow> SignatureVerificationRequest \<Rightarrow> bool) \<Rightarrow> CanonicalBlockHeader \<Rightarrow> bool" where
  "proposer_accepted sha resolve accepts h \<longleftrightarrow>
     (\<exists>credential. resolve \<lparr>query_block_root = ch_block_root h, query_proposer_index_hint = ch_proposer_index_hint h\<rparr> =
         Ok credential \<and>
       accepts (cred_scheme_id credential) (proposer_request sha (canonical_header h) (ch_block_root h) credential))"

definition admission_entries ::
  "LocalReferenceScenario \<Rightarrow> (TransactionEnvelope \<times> OwnedAuthorizationMaterial list) list" where
  "admission_entries sc = zip (ls_admission_transactions sc) (ls_transaction_authorization_materials sc)"

definition run_outcome :: "hash_fun \<Rightarrow> 'w LocalReferenceRuntime \<Rightarrow> LocalReferenceScenario \<Rightarrow> LocalReferenceFlowOutcome" where
  "run_outcome sha rt sc =
     (let h = block_header (ls_block sc) in
      \<lparr>flow_admissions = map (validated sha rt \<circ> fst) (admission_entries sc),
       flow_import_outcome = \<lparr>import_block_root = ch_block_root h, import_post_state_root = ch_state_root h,
         import_receipts_root = ch_receipts_root h\<rparr>\<rparr>)"

lemma canonical_simps [simp]:
  "header_canonical_root (canonical_header h) = Ok (ch_block_root h)"
  "header_witness_bytes (canonical_header h) = ch_witness_bytes h"
  "header_transactions_root (canonical_header h) = ch_transactions_root h"
  "header_execution_witnesses_root (canonical_header h) = ch_execution_witnesses_root h"
  "header_state_root (canonical_header h) = ch_state_root h"
  "header_receipts_root (canonical_header h) = ch_receipts_root h"
  "header_proposer_index_hint (canonical_header h) = ch_proposer_index_hint h"
  "body_transactions_root (canonical_body b) = Ok (cb_transactions_root b)"
  "body_transactions (canonical_body b) = cb_transactions b"
  "sidecar_block_root (canonical_sidecar s) = cs_block_root s"
  "sidecar_committed_root (canonical_sidecar s) = cs_execution_witnesses_root s"
  by (simp_all add: canonical_header_def canonical_body_def canonical_sidecar_def)

locale stateless_runtime =
  transactions: stateless_dispatcher "dispatch_transaction (rt_dispatcher rt)" tx_accepts +
  validators: stateless_dispatcher "dispatch_validator (rt_dispatcher rt)" validator_accepts
  for rt :: "'w LocalReferenceRuntime" and tx_accepts and validator_accepts +
  fixes resolve :: "ProposerCredentialQuery \<Rightarrow> (ProposerCredential, ProposerCredentialResolutionError) result"
  assumes resolver: "rt_resolver rt q w = (resolve q, w)"
begin

lemma validate_transaction_iff:
  "validate_transaction sha rt tx ms w = (Ok v, w') \<longleftrightarrow>
     admissible sha rt tx_accepts (tx, ms) \<and> v = validated sha rt tx \<and> w' = w"
  by (auto simp: validate_transaction_def transactions.admit_iff admissible_def validated_def Let_def)

lemma admit_transactions_iff:
  "admit_transactions sha rt sc w = (Ok vs, w') \<longleftrightarrow>
     (\<forall>e \<in> set (admission_entries sc). admissible sha rt tx_accepts e) \<and>
     vs = map (validated sha rt \<circ> fst) (admission_entries sc) \<and> w' = w"
proof -
  have "collect_action (\<lambda>(tx, ms). map_err_action Admission (validate_transaction sha rt tx ms)) es w = (Ok vs, w') \<longleftrightarrow>
      (\<forall>e \<in> set es. admissible sha rt tx_accepts e) \<and> vs = map (validated sha rt \<circ> fst) es \<and> w' = w" for es
    by (induction es arbitrary: vs) (auto simp: result_simps validate_transaction_iff)
  then show ?thesis by (simp add: admit_transactions_def admission_entries_def)
qed

lemma revalidate_iff:
  "reference_revalidate sha rt idx tx p w = (Ok u, w') \<longleftrightarrow>
     (\<exists>e. map_of idx (e_root sha tx) = Some e \<and> admissible sha rt tx_accepts e) \<and> w' = w"
  by (auto simp: reference_revalidate_def result_simps validate_transaction_iff)

lemma revalidate_all_iff:
  "for_each_action (\<lambda>tx. map_err_action TransactionValidation (reference_revalidate sha rt idx tx p)) txs w = (Ok u, w') \<longleftrightarrow>
     (\<forall>tx \<in> set txs. \<exists>e. map_of idx (e_root sha tx) = Some e \<and> admissible sha rt tx_accepts e) \<and> w' = w"
  by (induction txs) (auto simp: result_simps revalidate_iff)

lemma verify_validator_iff:
  "dispatch_validator (rt_dispatcher rt) s r w = (Ok u, w') \<longleftrightarrow> validator_accepts s r \<and> w' = w"
  using validators.verify_world [of s r w] validators.verify_Ok [of s r w]
  by (cases "dispatch_validator (rt_dispatcher rt) s r w") auto

lemma import_iff:
  fixes sc :: LocalReferenceScenario
  defines "h \<equiv> block_header (ls_block sc)" and "b \<equiv> block_body (ls_block sc)" and "s \<equiv> block_sidecar (ls_block sc)"
  assumes wf: "wf_scenario sc"
  shows "validate_block_against_reference sha rt sc (canonical_header h) (canonical_body b) (canonical_sidecar s) idx w =
      (Ok out, w') \<longleftrightarrow>
    within_witness_limit (canonical_header h) (header_prefilter (rt_import_config rt)) \<and>
    proposer_accepted sha resolve validator_accepts h \<and>
    (\<forall>tx \<in> set (cb_transactions b). \<exists>e. map_of idx (e_root sha tx) = Some e \<and> admissible sha rt tx_accepts e) \<and>
    block_consistent sha sc \<and> out = flow_import_outcome (run_outcome sha rt sc) \<and> w' = w"
proof (cases "header_accepted (rt_import_config rt) (canonical_header h) (canonical_body b) (ch_block_root h)")
  case accepted: True
  then have head: "within_witness_limit (canonical_header h) (header_prefilter (rt_import_config rt))"
    "cb_transactions_root b = ch_transactions_root h"
    by (simp_all add: header_accepted_def)
  let ?es = "ls_materialized_state sc" and ?ps = "ls_planned_transactions sc"
  have exec: "(\<exists>outcome. reference_execute_block sha (ls_pre_state_root sc) ?es ?ps (canonical_header h) (canonical_body b)
        (canonical_sidecar s) = Ok outcome \<and> block_post_state_root outcome = ch_state_root h \<and>
        block_receipts_root outcome = ch_receipts_root h) \<longleftrightarrow>
    (\<exists>acc. materialize_accumulator sha ?es = Ok acc \<and> acc_root acc = ls_pre_state_root sc \<and>
      list_all2 (\<lambda>p tx. planned_transaction_root p = tx_root sha tx) ?ps (cb_transactions b) \<and>
      (\<forall>p \<in> set (planned_patches ?ps). canonical_patch p) \<and>
      ch_state_root h = acc_root (acc.run sha (planned_patches ?ps) acc) \<and>
      ch_receipts_root h = compute_receipts_root sha (planned_receipts ?ps))"
    using wf reference_execute_iff [of ?es ?ps sha "ls_pre_state_root sc" "canonical_header h" "canonical_body b"
        "canonical_sidecar s" "ch_state_root h" "ch_receipts_root h"]
    by (simp add: wf_scenario_def)
  have prep: "reference_prepare_witness sha (ls_pre_state_root sc) ?es (cs_witnesses s) (canonical_header h)
      (canonical_sidecar s) = Ok () \<longleftrightarrow>
    compute_execution_witnesses_root sha (cs_witnesses s) = ch_execution_witnesses_root h \<and>
    (\<exists>acc. materialize_accumulator sha ?es = Ok acc \<and> acc_root acc = ls_pre_state_root sc) \<and>
    sorted_wrt (<) (map (encode_state_key \<circ> witness_key) (cs_witnesses s)) \<and>
    (\<forall>w \<in> set (cs_witnesses s). witness_proof w = [] \<and> map_of ?es (witness_key w) = Some (witness_leaf_value w))"
    using wf by (subst reference_prepare_iff) (simp_all add: wf_scenario_def s_def)
  have consistent: "block_consistent sha sc \<longleftrightarrow> sidecar_bound (canonical_header h) (canonical_sidecar s) (ch_block_root h) \<and>
      reference_prepare_witness sha (ls_pre_state_root sc) ?es (cs_witnesses s) (canonical_header h) (canonical_sidecar s) = Ok () \<and>
      (\<exists>outcome. reference_execute_block sha (ls_pre_state_root sc) ?es ?ps (canonical_header h) (canonical_body b)
        (canonical_sidecar s) = Ok outcome \<and> block_post_state_root outcome = ch_state_root h \<and>
        block_receipts_root outcome = ch_receipts_root h)"
    unfolding exec prep block_consistent_def Let_def sidecar_bound_def h_def [symmetric] b_def [symmetric] s_def [symmetric]
    using head(2) by auto
  show ?thesis
    unfolding validate_block_against_reference_def import_block_accepted [OF accepted] import_stages_def consistent
    by (simp add: verify_sidecar_binding_Ok s_def [symmetric] head run_outcome_def Let_def h_def [symmetric]
        bind_action_Ok_iff map_err_action_Ok_iff resolver verify_validator_iff revalidate_all_iff
        ensure_matches_Ok bind_result_Ok_iff map_err_Ok_iff proposer_accepted_def) blast
next
  case False
  then have "\<forall>r. \<not> header_accepted (rt_import_config rt) (canonical_header h) (canonical_body b) r"
    by (auto simp: header_accepted_def)
  then have "import_block sha (rt_import_config rt) (canonical_header h) (canonical_body b) (canonical_sidecar s) services w \<noteq>
      (Ok out, w')" for services :: "'w BlockImportServices"
    using import_block_not_accepted [of "rt_import_config rt" "canonical_header h" "canonical_body b" sha
        "canonical_sidecar s" services] by (auto simp: is_ok_iff)
  moreover from False have "\<not> (within_witness_limit (canonical_header h) (header_prefilter (rt_import_config rt)) \<and>
      block_consistent sha sc)"
    by (auto simp: header_accepted_def block_consistent_def Let_def h_def b_def)
  ultimately show ?thesis
    unfolding validate_block_against_reference_def by auto
qed

text \<open>A run succeeds exactly on the scenarios that satisfy the specification, and then its outcome is fixed.\<close>

lemma run_iff:
  assumes wf: "wf_scenario sc"
  shows "runtime_run sha rt sc w = (Ok out, w') \<longleftrightarrow>
    scenario_shaped sc \<and>
    (\<forall>e \<in> set (admission_entries sc). admissible sha rt tx_accepts e) \<and>
    distinct (map (e_root sha \<circ> fst) (admission_entries sc)) \<and>
    e_root sha ` set (cb_transactions (block_body (ls_block sc))) \<subseteq> (e_root sha \<circ> fst) ` set (admission_entries sc) \<and>
    within_witness_limit (canonical_header (block_header (ls_block sc))) (header_prefilter (rt_import_config rt)) \<and>
    proposer_accepted sha resolve validator_accepts (block_header (ls_block sc)) \<and>
    block_consistent sha sc \<and> out = run_outcome sha rt sc \<and> w' = w"
proof -
  let ?es = "admission_entries sc"
  let ?idx = "btree.insert_all (index_entries sha (\<lambda>tx ms. (tx, ms)) ?es) []"
  have covered: "(\<forall>tx \<in> set txs. \<exists>e. map_of ?idx (e_root sha tx) = Some e \<and> admissible sha rt tx_accepts e) \<longleftrightarrow>
      e_root sha ` set txs \<subseteq> (e_root sha \<circ> fst) ` set ?es"
    if "distinct (map (e_root sha \<circ> fst) ?es)" "\<forall>e \<in> set ?es. admissible sha rt tx_accepts e" for txs
  proof -
    have "(\<exists>e. map_of ?idx r = Some e \<and> admissible sha rt tx_accepts e) \<longleftrightarrow> r \<in> (e_root sha \<circ> fst) ` set ?es" for r
      unfolding index_covers [OF that(1)] image_iff o_apply using that(2) by metis
    then show ?thesis by (simp only: image_subset_iff)
  qed
  define cov where "cov \<longleftrightarrow> (\<forall>tx \<in> set (cb_transactions (block_body (ls_block sc))).
      \<exists>e. map_of ?idx (e_root sha tx) = Some e \<and> admissible sha rt tx_accepts e)"
  have "runtime_run sha rt sc w = (Ok out, w') \<longleftrightarrow>
    scenario_shaped sc \<and> (\<forall>e \<in> set ?es. admissible sha rt tx_accepts e) \<and> distinct (map (e_root sha \<circ> fst) ?es) \<and> cov \<and>
    within_witness_limit (canonical_header (block_header (ls_block sc))) (header_prefilter (rt_import_config rt)) \<and>
    proposer_accepted sha resolve validator_accepts (block_header (ls_block sc)) \<and>
    block_consistent sha sc \<and> out = run_outcome sha rt sc \<and> w' = w"
    unfolding runtime_run_def bind_action_Ok_iff lift_result_apply prod.inject admit_transactions_iff
      map_err_action_Ok_iff import_iff [OF wf] build_index_Ok admission_entries_def [symmetric]
      validate_scenario_shape_Ok
    by (auto simp: scenario_shaped_def run_outcome_def Let_def cov_def simp del: split_paired_Ex split_paired_All)
  then show ?thesis
    using covered [of "cb_transactions (block_body (ls_block sc))"] unfolding cov_def by blast
qed

end

lemma mempool_outcome_not_Accept: "mempool_network_validation_outcome e \<noteq> Some ValidationOutcome.Accept"
proof (cases e)
  case (Primitive p)
  then show ?thesis by (cases p) simp_all
qed simp_all

lemma consensus_outcome_not_Accept: "consensus_network_validation_outcome e \<noteq> Some ValidationOutcome.Accept"
proof (cases e)
  case (Primitive p)
  then show ?thesis by (cases p) simp_all
next
  case (Crypto c)
  then show ?thesis by (cases c) simp_all
next
  case (TransactionValidation v)
  then show ?thesis by (simp add: mempool_outcome_not_Accept)
qed simp_all

text \<open>
  The scenario a gossiped block is checked against: the adapter keeps its own pre-state, plan and
  witnesses, and takes everything else from the block. The witnesses of the gossiped sidecar are not read.
\<close>

definition with_block :: "LocalReferenceScenario \<Rightarrow> CanonicalBlock \<Rightarrow> LocalReferenceScenario" where
  "with_block sc blk = sc\<lparr>ls_block := blk\<lparr>block_sidecar :=
     (block_sidecar blk)\<lparr>cs_witnesses := cs_witnesses (block_sidecar (ls_block sc))\<rparr>\<rparr>\<rparr>"

lemma with_block_simps [simp]:
  "block_header (ls_block (with_block sc blk)) = block_header blk"
  "block_body (ls_block (with_block sc blk)) = block_body blk"
  "canonical_sidecar (block_sidecar (ls_block (with_block sc blk))) = canonical_sidecar (block_sidecar blk)"
  "wf_scenario (with_block sc blk) \<longleftrightarrow> wf_scenario sc"
  "validate_block_against_reference sha rt (with_block sc blk) = validate_block_against_reference sha rt sc"
  by (simp_all add: with_block_def canonical_sidecar_def wf_scenario_def validate_block_against_reference_def [abs_def])

lemma with_block_self [simp]: "with_block sc (ls_block sc) = sc"
  by (simp add: with_block_def)

section \<open>The Ed25519 runtime\<close>

definition ed25519_validator_accepts ::
  "('k, 's) ed25519_dalek \<Rightarrow> u8 \<Rightarrow> SignatureVerificationRequest \<Rightarrow> bool" where
  "ed25519_validator_accepts dalek s r \<longleftrightarrow> s = SCHEME_ID_ED25519 \<and>
     length (req_signature r) \<le> signature_byte_size dalek \<and> ed25519_verify dalek r = Ok ()"

definition ed25519_runtime ::
  "('k, 's) ed25519_dalek \<Rightarrow>
   (ProposerCredentialQuery \<Rightarrow> (ProposerCredential, ProposerCredentialResolutionError) result) \<Rightarrow>
   AdmissionPolicy \<Rightarrow> BlockImportConfig \<Rightarrow> admission_state_view option \<Rightarrow> 'w LocalReferenceRuntime" where
  "ed25519_runtime dalek resolve policy config view =
     (let rt = new_runtime
        \<lparr>dispatch_transaction = verify_transaction_authorization (ed25519_registry dalek),
         dispatch_validator = verify_validator_message (ed25519_registry dalek)\<rparr>
        (\<lambda>q w. (resolve q, w)) policy config
      in case view of None \<Rightarrow> rt | Some v \<Rightarrow> with_admission_state_view v rt)"

lemma ed25519_runtime_simps [simp]:
  "dispatch_transaction (rt_dispatcher (ed25519_runtime dalek resolve policy config view)) =
     verify_transaction_authorization (ed25519_registry dalek)"
  "dispatch_validator (rt_dispatcher (ed25519_runtime dalek resolve policy config view)) =
     verify_validator_message (ed25519_registry dalek)"
  "rt_resolver (ed25519_runtime dalek resolve policy config view) = (\<lambda>q w. (resolve q, w))"
  "rt_admission_policy (ed25519_runtime dalek resolve policy config view) = policy"
  "rt_import_config (ed25519_runtime dalek resolve policy config view) = config"
  "rt_admission_state_view (ed25519_runtime dalek resolve policy config view) = view"
  by (simp_all add: ed25519_runtime_def new_runtime_def with_admission_state_view_def Let_def split: option.splits)

lemma ed25519_validator_stateless:
  "stateless_dispatcher (verify_validator_message (ed25519_registry dalek)) (ed25519_validator_accepts dalek)"
proof
  show "snd (verify_validator_message (ed25519_registry dalek) s r w) = w" for s r and w :: 'a
    by (simp add: verify_validator_message_def verify_for_path_eq ed25519_registry_lookup Ed25519Verifier_def)
  show "fst (verify_validator_message (ed25519_registry dalek) s r w) = Ok () \<longleftrightarrow> ed25519_validator_accepts dalek s r"
    for s r and w :: 'a
    by (auto simp: verify_validator_message_def verify_for_path_eq ed25519_registry_lookup
        ed25519_registry_config ed25519_validator_accepts_def applicable_limits_def config_limits_def
        default_dispatcher_config_def Ed25519Verifier_def map_err_Ok_iff split: if_splits)
qed

interpretation ed25519_rt: stateless_runtime "ed25519_runtime dalek resolve policy config view"
  "ed25519_accepts dalek" "ed25519_validator_accepts dalek" resolve for dalek resolve policy config view
  using ed25519.stateless_dispatcher_axioms [of dalek] ed25519_validator_stateless [of dalek]
  by (simp add: stateless_runtime_def stateless_runtime_axioms_def)

section \<open>Root-check scenarios\<close>

definition reference_admission :: "hash_fun \<Rightarrow> TransactionEnvelope \<Rightarrow> TransactionEnvelope" where
  "reference_admission sha tx = (if env_authorizations tx \<noteq> [] then tx else tx\<lparr>env_authorizations :=
     [\<lparr>auth_scheme_id = 0, auth_payload_root = e_root sha tx, auth_signature = replicate 64 0xA5\<rparr>]\<rparr>)"

lemma from_root_check_scenario_eq:
  "from_root_check_scenario sha s =
     Ok \<lparr>ls_block = scenario_block s, ls_admission_transactions = map (reference_admission sha) (sc_transactions s),
         ls_pre_state_root = sc_pre_state_root s, ls_materialized_state = sc_materialized_state s,
         ls_planned_transactions = map planned_of_step (sc_steps s),
         ls_transaction_authorization_materials = map reference_materials (sc_transactions s)\<rparr>"
proof -
  have "synthesize_reference_admission_transaction sha tx = Ok (reference_admission sha tx)" for tx
    by (simp add: synthesize_reference_admission_transaction_def reference_admission_def)
  then have "collect_results (synthesize_reference_admission_transaction sha) txs = Ok (map (reference_admission sha) txs)" for txs
    by (simp add: collect_results_Ok_iff list_all2_conv_all_nth)
  then show ?thesis by (simp add: from_root_check_scenario_def)
qed

lemma e_root_reference_admission [simp]: "e_root sha (reference_admission sha tx) = e_root sha tx"
  by (simp add: reference_admission_def e_root_def)

text \<open>What is left to check on a scenario the loader resolved: its declared state and receipts roots.\<close>

lemma resolved_block_consistent:
  assumes "scenario_consistent sha s" "from_root_check_scenario sha s = Ok sc"
  shows "wf_scenario sc \<and> scenario_shaped sc \<and>
    (block_consistent sha sc \<longleftrightarrow>
       sh_receipts_root (sc_header s) = compute_receipts_root sha (planned_receipts (map planned_of_step (sc_steps s))) \<and>
       (\<exists>acc. materialize_root_check_accumulator sha (sc_materialized_state s) = Ok acc \<and>
          sh_state_root (sc_header s) = acc_root (acc.run sha (planned_patches (map planned_of_step (sc_steps s))) acc)))"
proof -
  let ?ps = "map planned_of_step (sc_steps s)"
  have len: "length (sc_steps s) = length (sc_transactions s)"
    using assms(1) by (auto simp: scenario_consistent_def dest: map_eq_imp_length_eq)
  have step_wf: "wf_state_key (step_key x)" if "x \<in> set (sc_steps s)" for x
    using assms(1) that by (fastforce simp: scenario_consistent_def pre_state_consistent_def wf_witness_def)
  have patches: "wf_patch p \<and> canonical_patch p" if "p \<in> set (planned_patches ?ps)" for p
    using that step_wf by (auto simp: planned_patches_def planned_of_step_def wf_patch_def canonical_patch_def)
  have roots: "list_all2 (\<lambda>p tx. planned_transaction_root p = tx_root sha tx) ?ps (sc_transactions s)"
  proof -
    have "list_all2 (=) (map step_transaction_root (sc_steps s)) (map (tx_root sha) (sc_transactions s))"
      using assms(1) by (simp add: scenario_consistent_def list.rel_eq)
    then show ?thesis by (simp add: list_all2_map1 list_all2_map2 planned_of_step_def)
  qed
  have sc: "sc = \<lparr>ls_block = scenario_block s, ls_admission_transactions = map (reference_admission sha) (sc_transactions s),
      ls_pre_state_root = sc_pre_state_root s, ls_materialized_state = sc_materialized_state s,
      ls_planned_transactions = ?ps, ls_transaction_authorization_materials = map reference_materials (sc_transactions s)\<rparr>"
    using assms(2) by (simp add: from_root_check_scenario_eq)
  have pre: "pre_state_consistent sha (sc_materialized_state s) (sc_pre_state_root s) (sc_witnesses s)"
    using assms(1) by (simp add: scenario_consistent_def)
  have "wf_scenario sc"
    using pre patches unfolding sc wf_scenario_def pre_state_consistent_def by (simp add: scenario_block_def Let_def)
  moreover have "scenario_shaped sc"
    using len unfolding sc scenario_shaped_def by (simp add: scenario_block_def Let_def)
  moreover have "materialize_accumulator sha (sc_materialized_state s) = Ok acc \<longleftrightarrow>
      materialize_root_check_accumulator sha (sc_materialized_state s) = Ok acc" for acc
    using pre by (intro materialize_agree) (simp add: pre_state_consistent_def)
  moreover from pre obtain acc where "materialize_root_check_accumulator sha (sc_materialized_state s) = Ok acc"
    "acc_root acc = sc_pre_state_root s"
    by (auto simp: pre_state_consistent_def)
  ultimately show ?thesis
    using assms(1) pre patches roots unfolding block_consistent_def sc
    by (auto simp: scenario_block_def Let_def scenario_consistent_def pre_state_consistent_def)
qed

section \<open>A sample run\<close>

definition accepting_dalek :: "(bytes, bytes) ed25519_dalek" where
  "accepting_dalek = \<lparr>signature_byte_size = 64, verifying_key_from_bytes = Some, signature_from_slice = Some,
     key_verify = (\<lambda>_ _ _. True)\<rparr>"

definition sample_resolve :: "ProposerCredentialQuery \<Rightarrow> (ProposerCredential, ProposerCredentialResolutionError) result" where
  "sample_resolve q = Ok \<lparr>cred_scheme_id = SCHEME_ID_ED25519, cred_public_key_material = replicate 32 0\<rparr>"

definition open_config :: BlockImportConfig where
  "open_config = \<lparr>header_prefilter = \<lparr>max_witness_bytes = None\<rparr>, import_multi_authorization_policy = RequireAll\<rparr>"

definition sample_runtime :: "nat \<Rightarrow> unit LocalReferenceRuntime" where
  "sample_runtime fee = ed25519_runtime accepting_dalek sample_resolve (sample_policy fee) open_config None"

definition sample_local :: LocalReferenceScenario where
  "sample_local = \<lparr>ls_block = scenario_block sample_scenario,
     ls_admission_transactions = map (reference_admission zero_hash_fun) (sc_transactions sample_scenario),
     ls_pre_state_root = sc_pre_state_root sample_scenario,
     ls_materialized_state = sc_materialized_state sample_scenario,
     ls_planned_transactions = map planned_of_step (sc_steps sample_scenario),
     ls_transaction_authorization_materials = map reference_materials (sc_transactions sample_scenario)\<rparr>"

lemma sample_local: "from_root_check_scenario zero_hash_fun sample_scenario = Ok sample_local"
  by (simp add: from_root_check_scenario_eq sample_local_def)

text \<open>The one verification a synthesized admission transaction needs.\<close>

definition reference_request :: "hash_fun \<Rightarrow> AdmissionPolicy \<Rightarrow> TransactionEnvelope \<Rightarrow> SignatureVerificationRequest" where
  "reference_request sha policy tx = \<lparr>public_key_material = replicate 32 0,
     req_signing_root = authorization_root sha policy tx, req_signature = replicate 64 0xA5\<rparr>"

lemma admissible_reference:
  assumes "env_authorizations tx = []"
  shows "admissible sha rt accepts (reference_admission sha tx, reference_materials tx) \<longleftrightarrow>
    policy_valid (rt_admission_policy rt) (reference_admission sha tx) (rt_admission_state_view rt) \<and>
    accepts 0 (reference_request sha (rt_admission_policy rt) tx)"
proof -
  have "structurally_valid sha (reference_admission sha tx)"
    using assms by (simp add: structurally_valid_def reference_admission_def e_root_def)
  moreover have "borrow_authorization_materials (reference_materials tx) = [\<lparr>material_public_key = replicate 32 0\<rparr>]"
    using assms by (simp add: borrow_authorization_materials_def reference_materials_def reference_default_def as_borrowed_def)
  moreover have "authorization_root sha p (reference_admission sha tx) = authorization_root sha p tx" for p
    by (simp add: authorization_root_def)
  moreover have "env_authorizations (reference_admission sha tx) =
      [\<lparr>auth_scheme_id = 0, auth_payload_root = e_root sha tx, auth_signature = replicate 64 0xA5\<rparr>]"
    using assms by (simp add: reference_admission_def)
  ultimately show ?thesis
    by (simp add: admissible_def Let_def screened_def verification_calls_def verification_request_def
        reference_request_def)
qed

lemma le_nat_zero_bytes: "le_nat (zero_bytes n) = 0"
  unfolding zero_bytes_def by (induction n) simp_all

lemma sample_policy_valid: "policy_valid (sample_policy 0) (reference_admission zero_hash_fun sample_transaction) None"
  by (simp add: policy_valid_def nonce_in_window_def gas_price_covers_numeric sample_policy_def fee_of_def wf_u256_def
      payload_lane_fee_def witness_lane_fee_def transaction_fees_def reference_admission_def sample_transaction_def
      default_payload_def default_basic_payload_def default_fees_def default_gas_price_def u256_nat_def le_nat_le_bytes)

lemma sample_signature_accepted:
  "ed25519_accepts accepting_dalek 0 (reference_request sha policy tx)"
  by (simp add: ed25519_accepts_def SCHEME_ID_ED25519_def reference_request_def accepting_dalek_def ed25519_verify_def)

lemma sample_proposer_accepted:
  "proposer_accepted zero_hash_fun sample_resolve (ed25519_validator_accepts accepting_dalek)
     (block_header (scenario_block sample_scenario))"
  by (simp add: proposer_accepted_def sample_resolve_def ed25519_validator_accepts_def proposer_request_def
      accepting_dalek_def ed25519_verify_def scenario_block_def canonical_header_def sample_scenario_def Let_def)

lemma sample_roots_declared:
  "sh_receipts_root (sc_header sample_scenario) =
     compute_receipts_root zero_hash_fun (planned_receipts (map planned_of_step (sc_steps sample_scenario)))"
  "\<exists>acc. materialize_root_check_accumulator zero_hash_fun (sc_materialized_state sample_scenario) = Ok acc \<and>
     sh_state_root (sc_header sample_scenario) =
       acc_root (acc.run zero_hash_fun (planned_patches (map planned_of_step (sc_steps sample_scenario))) acc)"
proof -
  show "sh_receipts_root (sc_header sample_scenario) =
      compute_receipts_root zero_hash_fun (planned_receipts (map planned_of_step (sc_steps sample_scenario)))"
    by (simp add: compute_receipts_root_def zero_hash_fun_def sample_scenario_def)
  have "acc_root (acc.run zero_hash_fun [\<lparr>accesses = [sample_key 5], new_values = [[1]]\<rparr>] one_leaf_accumulator) = zero_bytes 32"
    by (simp add: acc.run_def acc_apply_transition_def validate_shape_def ensure_canonical_access_order_def
        recompute_root_def compute_reference_root_def zero_hash_fun_def Let_def)
  then show "\<exists>acc. materialize_root_check_accumulator zero_hash_fun (sc_materialized_state sample_scenario) = Ok acc \<and>
      sh_state_root (sc_header sample_scenario) =
        acc_root (acc.run zero_hash_fun (planned_patches (map planned_of_step (sc_steps sample_scenario))) acc)"
    using sample_materializes(1) by (simp add: sample_scenario_def planned_patches_def planned_of_step_def)
qed

section \<open>Properties\<close>

text \<open>
  C1: A run of the reference runtime with the Ed25519 registry succeeds exactly when the scenario is
  well shaped, every admission transaction is admissible (structure, fees, nonce, signatures), their
  payload roots are distinct and cover the body, the witness size is within the limit, the proposer
  signature verifies, and the block is what its header commits to: body and sidecar bound, witnesses
  committed and true of the pre-state, and the planned patches and receipts giving the state and
  receipts roots of the header. The outcome then lists one validated admission per transaction and
  the roots of the header.
\<close>

theorem reference_run_exact:
  assumes "wf_scenario sc"
  shows "fst (runtime_run sha (ed25519_runtime dalek resolve policy config view) sc (w :: 'w)) = Ok out \<longleftrightarrow>
    (let rt = ed25519_runtime dalek resolve policy config view :: 'w LocalReferenceRuntime; h = block_header (ls_block sc) in
     scenario_shaped sc \<and>
     list_all (admissible sha rt (ed25519_accepts dalek)) (admission_entries sc) \<and>
     distinct (map (e_root sha \<circ> fst) (admission_entries sc)) \<and>
     e_root sha ` set (cb_transactions (block_body (ls_block sc))) \<subseteq> (e_root sha \<circ> fst) ` set (admission_entries sc) \<and>
     within_witness_limit (canonical_header h) (header_prefilter config) \<and>
     proposer_accepted sha resolve (ed25519_validator_accepts dalek) h \<and>
     block_consistent sha sc \<and> out = run_outcome sha rt sc)"
  unfolding Let_def fst_Ok_iff by (simp add: ed25519_rt.run_iff [OF assms] list_all_iff)

lemma sample_local_wf: "wf_scenario sample_local \<and> scenario_shaped sample_local \<and> block_consistent zero_hash_fun sample_local"
  using resolved_block_consistent [OF resolve_scenario_consistent [OF sample_resolves] sample_local] sample_roots_declared
  by simp

lemma sample_entries:
  "admission_entries sample_local =
     [(reference_admission zero_hash_fun sample_transaction, reference_materials sample_transaction)]"
  by (simp add: admission_entries_def sample_local_def sample_scenario_def)

lemma sample_block_simps [simp]:
  "ls_block sample_local = scenario_block sample_scenario"
  "cb_transactions (block_body (scenario_block sample_scenario)) = [sample_transaction]"
  by (simp_all add: sample_local_def scenario_block_def sample_scenario_def Let_def)

theorem reference_run_exact_witness:
  "fst (runtime_run zero_hash_fun (sample_runtime 0) sample_local ()) =
     Ok (run_outcome zero_hash_fun (sample_runtime 0) sample_local)"
proof -
  have "env_authorizations sample_transaction = []" by (simp add: sample_transaction_def)
  then show ?thesis
    using sample_local_wf sample_policy_valid sample_signature_accepted [of zero_hash_fun "sample_policy 0" sample_transaction]
      sample_proposer_accepted
    unfolding sample_runtime_def
    by (subst reference_run_exact) (simp_all add: Let_def sample_entries admissible_reference
        within_witness_limit_def open_config_def)
qed

text \<open>
  C19: A root-check vector that resolves can only fail the run for reasons it does not check itself:
  for a resolved scenario the run succeeds exactly when every transaction passes the admission policy
  and its reference signature verifies, the payload roots are distinct, the witness size and the
  proposer are accepted, and the declared receipts and state roots are those of executing the steps
  in order on the materialized pre-state.
\<close>

theorem resolved_vector_runs:
  assumes "resolve_root_check_scenario sha load_tx load_wit fixture = Ok s"
    and "from_root_check_scenario sha s = Ok sc"
  shows "fst (runtime_run sha (ed25519_runtime dalek resolve policy config view) sc (w :: 'w)) = Ok out \<longleftrightarrow>
    (let rt = ed25519_runtime dalek resolve policy config view :: 'w LocalReferenceRuntime; h = block_header (ls_block sc);
         steps = map planned_of_step (sc_steps s) in
     list_all (\<lambda>tx. policy_valid policy (reference_admission sha tx) view \<and>
       ed25519_accepts dalek 0 (reference_request sha policy tx)) (sc_transactions s) \<and>
     distinct (map (e_root sha) (sc_transactions s)) \<and>
     within_witness_limit (canonical_header h) (header_prefilter config) \<and>
     proposer_accepted sha resolve (ed25519_validator_accepts dalek) h \<and>
     sh_receipts_root (sc_header s) = compute_receipts_root sha (planned_receipts steps) \<and>
     (\<exists>acc. materialize_root_check_accumulator sha (sc_materialized_state s) = Ok acc \<and>
        sh_state_root (sc_header s) = acc_root (acc.run sha (planned_patches steps) acc)) \<and>
     out = run_outcome sha rt sc)"
proof -
  have consistent: "scenario_consistent sha s" using assms(1) by (rule resolve_scenario_consistent)
  note block = resolved_block_consistent [OF consistent assms(2)]
  have entries: "admission_entries sc = map (\<lambda>tx. (reference_admission sha tx, reference_materials tx)) (sc_transactions s)"
    and body: "cb_transactions (block_body (ls_block sc)) = sc_transactions s"
    using assms(2) by (auto simp: from_root_check_scenario_eq admission_entries_def scenario_block_def Let_def zip_map_map
        zip_same_conv_map)
  have "\<forall>tx \<in> set (sc_transactions s). env_authorizations tx = []"
    using consistent by (simp add: scenario_consistent_def)
  then have "(\<forall>e \<in> set (admission_entries sc). admissible sha (ed25519_runtime dalek resolve policy config view :: 'w LocalReferenceRuntime)
      (ed25519_accepts dalek) e) \<longleftrightarrow> (\<forall>tx \<in> set (sc_transactions s). policy_valid policy (reference_admission sha tx) view \<and>
      ed25519_accepts dalek 0 (reference_request sha policy tx))"
    by (auto simp: entries admissible_reference)
  moreover have "map (e_root sha \<circ> fst) (admission_entries sc) = map (e_root sha) (sc_transactions s)"
    "e_root sha ` set (cb_transactions (block_body (ls_block sc))) \<subseteq> (e_root sha \<circ> fst) ` set (admission_entries sc)"
    by (auto simp: entries body image_image)
  ultimately show ?thesis
    unfolding Let_def fst_Ok_iff list_all_iff using block
    by (simp add: ed25519_rt.run_iff)
qed

theorem resolved_vector_runs_witness:
  "fst (runtime_run zero_hash_fun (sample_runtime 0) sample_local ()) =
     Ok (run_outcome zero_hash_fun (sample_runtime 0) sample_local)"
  unfolding sample_runtime_def
  using sample_policy_valid sample_signature_accepted [of zero_hash_fun "sample_policy 0" sample_transaction]
    sample_proposer_accepted sample_roots_declared
  by (subst resolved_vector_runs [OF sample_resolves sample_local])
     (simp_all add: Let_def within_witness_limit_def open_config_def, simp_all add: sample_scenario_def)

text \<open>
  C39: Revalidation of a body transaction looks only at its payload: replacing its authorizations by
  any others, or by none, and passing any multi-authorization policy gives the same verdict and the
  same calls, because the authorizations that are verified are those of the admission transaction
  with the same payload root.
\<close>

theorem revalidation_ignores_body_authorizations:
  "reference_revalidate sha runtime idx (tx\<lparr>env_authorizations := as\<rparr>) p =
     reference_revalidate sha runtime idx tx q"
  by (simp add: reference_revalidate_def e_root_def)

text \<open>
  C40: Block revalidation applies the mempool fee floors and nonce window: for a body transaction
  whose admission transaction is structurally valid but outside the local policy the block import
  reports a policy rejection without verifying any signature.
\<close>

theorem revalidation_applies_mempool_policy:
  assumes "btree_get idx (e_root sha tx) = Some (admission, materials)"
    and "structurally_valid sha admission"
    and "\<not> policy_valid (rt_admission_policy runtime) admission (rt_admission_state_view runtime)"
  shows "\<exists>err. reference_revalidate sha runtime idx tx p = lift_result (Err err) \<and>
    consensus_network_validation_outcome (TransactionValidation err) = Some PolicyReject"
proof -
  obtain err where err: "screen_transaction sha (rt_admission_policy runtime) admission (rt_admission_state_view runtime) = Err err"
    "mempool_network_validation_outcome err = Some PolicyReject"
    using screen_policy_error [OF assms(2,3)] by blast
  have "reference_revalidate sha runtime idx tx p = lift_result (Err err)"
    using assms(1) err(1)
    by (auto simp: reference_revalidate_def validate_transaction_def admit_and_verify_def map_ok_action_def fun_eq_iff)
  with err(2) show ?thesis by auto
qed

theorem revalidation_applies_mempool_policy_witness:
  "\<exists>err. reference_revalidate zero_hash_fun (sample_runtime 1)
      [(e_root zero_hash_fun sample_transaction, (reference_admission zero_hash_fun sample_transaction, []))]
      sample_transaction RequireAll = lift_result (Err err) \<and>
    consensus_network_validation_outcome (TransactionValidation err) = Some PolicyReject"
proof (rule revalidation_applies_mempool_policy)
  show "structurally_valid zero_hash_fun (reference_admission zero_hash_fun sample_transaction)"
    by (simp add: structurally_valid_def reference_admission_def sample_transaction_def e_root_def)
  show "\<not> policy_valid (rt_admission_policy (sample_runtime 1)) (reference_admission zero_hash_fun sample_transaction)
      (rt_admission_state_view (sample_runtime 1))"
    by (simp add: sample_runtime_def policy_valid_def gas_price_covers_numeric sample_policy_def fee_of_def wf_u256_def
      payload_lane_fee_def witness_lane_fee_def transaction_fees_def reference_admission_def sample_transaction_def
      default_payload_def default_basic_payload_def default_fees_def default_gas_price_def u256_nat_def le_nat_le_bytes
      le_nat_zero_bytes)
qed simp

text \<open>
  Indexing the admission transactions by payload root either fails on a root that two of them
  share, or yields an ordered map in which every root finds exactly its own transaction and its
  authorization materials.
\<close>

theorem admission_index_exact:
  "case build_admission_transactions_by_payload_root sha txs mss of
     Ok idx \<Rightarrow> btree_invar idx \<and>
       (\<forall>r e. btree_get idx r = Some e \<longleftrightarrow> e \<in> set (zip txs mss) \<and> r = e_root sha (fst e))
   | Err err \<Rightarrow> (\<exists>r. err = DuplicateAdmissionPayloadRoot r \<and>
       count_list (map (e_root sha \<circ> fst) (zip txs mss)) r \<ge> 2)
   | Panic \<Rightarrow> False"
proof (cases "build_admission_transactions_by_payload_root sha txs mss")
  case (Ok idx)
  then have distinct: "distinct (map (e_root sha \<circ> fst) (zip txs mss))"
    and idx: "idx = btree.insert_all (index_entries sha (\<lambda>tx ms. (tx, ms)) (zip txs mss)) []"
    by (simp_all add: build_index_Ok)
  have "btree_get idx r = Some e \<longleftrightarrow> e \<in> set (zip txs mss) \<and> r = e_root sha (fst e)" for r e
    using index_lookup [OF distinct, of r "fst e" "snd e"] by (simp add: idx index_get [OF distinct])
  moreover have "btree_invar idx"
    unfolding idx by (rule btree.insert_all_invar) (simp add: btree_invar_def)
  ultimately show ?thesis using Ok by simp
next
  case (Err err)
  then have "\<exists>r. err = DuplicateAdmissionPayloadRoot r \<and> count_list (map (e_root sha \<circ> fst) (zip txs mss)) r \<ge> 2"
    using index_loop_Err [of sha "\<lambda>tx ms. (tx, ms)" "zip txs mss" "[]"]
    by (auto simp: build_admission_transactions_by_payload_root_def Let_def)
  with Err show ?thesis by simp
next
  case Panic
  then show ?thesis
    using index_loop_not_Panic [of sha] by (auto simp: build_admission_transactions_by_payload_root_def)
qed

theorem admission_index_exact_witness:
  "build_admission_transactions_by_payload_root zero_hash_fun [sample_transaction, sample_transaction] [[], []] =
     Err (DuplicateAdmissionPayloadRoot (e_root zero_hash_fun sample_transaction))"
proof (cases "build_admission_transactions_by_payload_root zero_hash_fun [sample_transaction, sample_transaction] [[], []]")
  case (Ok idx)
  then show ?thesis by (simp add: build_index_Ok)
next
  case (Err err)
  with admission_index_exact [where sha = zero_hash_fun and txs = "[sample_transaction, sample_transaction]" and mss = "[[], []]"] show ?thesis
    by (auto split: if_splits)
next
  case Panic
  with admission_index_exact [where sha = zero_hash_fun and txs = "[sample_transaction, sample_transaction]" and mss = "[[], []]"] show ?thesis by simp
qed

text \<open>
  C35: The network mempool adapter accepts a gossiped transaction exactly when the reference scenario
  has an admission transaction with its payload root and the gossiped envelope itself, with the
  materials kept for that root, is admissible.
\<close>

theorem gossip_transaction_exact:
  assumes "mempool_adapter_try_new sha (ed25519_runtime dalek resolve policy config view) sc = Ok adapter"
  shows "fst (validate_gossip_transaction sha adapter origin e (w :: 'w)) = Ok ValidationOutcome.Accept \<longleftrightarrow>
    (\<exists>tx ms. (tx, ms) \<in> set (admission_entries sc) \<and> e_root sha tx = e_root sha e \<and>
       admissible sha (ed25519_runtime dalek resolve policy config view :: 'w LocalReferenceRuntime)
         (ed25519_accepts dalek) (e, ms))"
proof -
  let ?rt = "ed25519_runtime dalek resolve policy config view :: 'w LocalReferenceRuntime"
  let ?es = "admission_entries sc"
  have distinct: "distinct (map (e_root sha \<circ> fst) ?es)"
    and adapter: "adapter = \<lparr>ma_runtime = ?rt, ma_authorization_materials = btree.insert_all (index_entries sha (\<lambda>_ ms. ms) ?es) []\<rparr>"
    using assms by (auto simp: mempool_adapter_try_new_def bind_result_Ok_iff index_loop_Ok_iff admission_entries_def)
  have "map_of (index_entries sha (\<lambda>_ ms. ms) ?es) r = Some ms \<longleftrightarrow> (r, ms) \<in> set (index_entries sha (\<lambda>_ ms. ms) ?es)" for r ms
    using distinct by (intro map_of_eq_Some_iff) simp
  moreover have "map_of (ma_authorization_materials adapter) = map_of (index_entries sha (\<lambda>_ ms. ms) ?es)"
    by (simp add: adapter index_get [OF distinct])
  ultimately have lookup: "map_of (ma_authorization_materials adapter) r = Some ms \<longleftrightarrow>
      (\<exists>tx. (tx, ms) \<in> set ?es \<and> r = e_root sha tx)" for r ms
    by (force simp: index_entries_def)
  have accept: "report_outcome mempool_network_validation_outcome r = Ok ValidationOutcome.Accept \<longleftrightarrow> is_ok r"
    for r :: "(AuthorizationValidated, ValidationError) result"
    by (cases r) (auto simp: mempool_outcome_not_Accept split: option.splits)
  have valid: "is_ok (fst (validate_transaction sha ?rt e ms w)) \<longleftrightarrow> admissible sha ?rt (ed25519_accepts dalek) (e, ms)" for ms
    using ed25519_rt.validate_transaction_iff [of sha dalek resolve policy config view e ms w]
    by (auto simp: is_ok_iff fst_Ok_iff)
  have runtime: "ma_runtime adapter = ?rt" by (simp add: adapter)
  show ?thesis
  proof (cases "map_of (ma_authorization_materials adapter) (e_root sha e)")
    case None
    then have "\<nexists>tx ms. (tx, ms) \<in> set ?es \<and> e_root sha tx = e_root sha e"
      using lookup [of "e_root sha e"] by (metis option.distinct(1))
    with None show ?thesis by (auto simp: validate_gossip_transaction_def)
  next
    case (Some ms)
    have unique: "ns = ms" if "(tx, ns) \<in> set ?es" "e_root sha tx = e_root sha e" for tx ns
      using that Some lookup [of "e_root sha e" ns] by force
    have "fst (validate_gossip_transaction sha adapter origin e w) =
        report_outcome mempool_network_validation_outcome (fst (validate_transaction sha ?rt e ms w))"
      by (simp add: validate_gossip_transaction_def Some runtime report_outcome_action_def split: prod.split)
    then have "fst (validate_gossip_transaction sha adapter origin e w) = Ok ValidationOutcome.Accept \<longleftrightarrow>
        admissible sha ?rt (ed25519_accepts dalek) (e, ms)"
      by (simp add: accept valid)
    moreover obtain tx where "(tx, ms) \<in> set ?es" "e_root sha tx = e_root sha e"
      using Some lookup [of "e_root sha e" ms] by auto
    ultimately show ?thesis using unique by blast
  qed
qed

theorem gossip_transaction_exact_witness:
  "\<exists>adapter. mempool_adapter_try_new zero_hash_fun (sample_runtime 0) sample_local = Ok adapter \<and>
     fst (validate_gossip_transaction zero_hash_fun adapter LocalRpc
       (reference_admission zero_hash_fun sample_transaction) ()) = Ok ValidationOutcome.Accept"
proof -
  obtain adapter where adapter: "mempool_adapter_try_new zero_hash_fun (sample_runtime 0) sample_local = Ok adapter"
    using sample_local_wf sample_entries
    by (auto simp: mempool_adapter_try_new_def bind_result_Ok_iff index_loop_Ok_iff validate_scenario_shape_Ok
        scenario_shaped_def Let_def admission_entries_def)
  have "env_authorizations sample_transaction = []" by (simp add: sample_transaction_def)
  then have "admissible zero_hash_fun (sample_runtime 0) (ed25519_accepts accepting_dalek)
      (reference_admission zero_hash_fun sample_transaction, reference_materials sample_transaction)"
    using sample_policy_valid sample_signature_accepted by (simp add: admissible_reference sample_runtime_def)
  then have "fst (validate_gossip_transaction zero_hash_fun adapter LocalRpc
      (reference_admission zero_hash_fun sample_transaction) ()) = Ok ValidationOutcome.Accept"
    using adapter unfolding sample_runtime_def
    by (subst gossip_transaction_exact) (auto simp: sample_entries)
  with adapter show ?thesis by blast
qed

text \<open>
  C34: The network consensus adapter accepts a gossiped block, any block and not only that of its
  scenario, exactly when the witness size and the proposer are accepted, every body transaction has the
  payload root of an admissible admission transaction, and the block is consistent with the pre-state,
  plan and witnesses of the scenario. The witnesses inside the gossiped sidecar play no part: only its
  block root and committed root are compared.
\<close>

theorem gossip_block_exact:
  assumes "consensus_adapter_try_new sha (ed25519_runtime dalek resolve policy config view) sc = Ok adapter"
    and "wf_scenario sc"
  shows "fst (validate_gossip_block sha adapter origin (canonical_header (block_header blk))
      (canonical_body (block_body blk)) (canonical_sidecar (block_sidecar blk)) (w :: 'w)) = Ok ValidationOutcome.Accept \<longleftrightarrow>
    within_witness_limit (canonical_header (block_header blk)) (header_prefilter config) \<and>
    proposer_accepted sha resolve (ed25519_validator_accepts dalek) (block_header blk) \<and>
    (\<forall>tx \<in> set (cb_transactions (block_body blk)). \<exists>e \<in> set (admission_entries sc). e_root sha (fst e) = e_root sha tx \<and>
       admissible sha (ed25519_runtime dalek resolve policy config view :: 'w LocalReferenceRuntime)
         (ed25519_accepts dalek) e) \<and>
    block_consistent sha (with_block sc blk)"
proof -
  let ?rt = "ed25519_runtime dalek resolve policy config view :: 'w LocalReferenceRuntime"
  let ?idx = "btree.insert_all (index_entries sha (\<lambda>tx ms. (tx, ms)) (admission_entries sc)) []"
  have distinct: "distinct (map (e_root sha \<circ> fst) (admission_entries sc))"
    and adapter: "adapter = \<lparr>ca_runtime = ?rt, ca_scenario = sc, ca_admission_transactions = ?idx\<rparr>"
    using assms(1) by (auto simp: consensus_adapter_try_new_def bind_result_Ok_iff build_index_Ok admission_entries_def)
  have accept: "report_outcome consensus_network_validation_outcome r = Ok ValidationOutcome.Accept \<longleftrightarrow> is_ok r"
    for r :: "(BlockImportOutcome, ConsensusError) result"
    by (cases r) (auto simp: consensus_outcome_not_Accept split: option.splits)
  have wf: "wf_scenario (with_block sc blk)" using assms(2) by simp
  have gossip: "fst (validate_gossip_block sha adapter origin (canonical_header (block_header blk))
      (canonical_body (block_body blk)) (canonical_sidecar (block_sidecar blk)) w) = Ok ValidationOutcome.Accept \<longleftrightarrow>
    (\<exists>out w'. validate_block_against_reference sha ?rt sc (canonical_header (block_header blk))
      (canonical_body (block_body blk)) (canonical_sidecar (block_sidecar blk)) ?idx w = (Ok out, w'))"
    by (auto simp: validate_gossip_block_def report_outcome_action_def adapter accept is_ok_iff split: prod.splits)
  from ed25519_rt.import_iff [OF wf, of sha dalek resolve policy config view ?idx w] show ?thesis
    unfolding gossip index_covers [OF distinct] by simp
qed

theorem gossip_block_exact_witness:
  "\<exists>adapter. consensus_adapter_try_new zero_hash_fun (sample_runtime 0) sample_local = Ok adapter \<and>
     fst (validate_gossip_block zero_hash_fun adapter LocalRpc (canonical_header (block_header (ls_block sample_local)))
       (canonical_body (block_body (ls_block sample_local))) (canonical_sidecar (block_sidecar (ls_block sample_local))) ()) =
     Ok ValidationOutcome.Accept"
proof -
  obtain adapter where adapter: "consensus_adapter_try_new zero_hash_fun (sample_runtime 0) sample_local = Ok adapter"
    using sample_local_wf sample_entries
    by (auto simp: consensus_adapter_try_new_def bind_result_Ok_iff build_index_Ok validate_scenario_shape_Ok
        scenario_shaped_def Let_def admission_entries_def)
  have "env_authorizations sample_transaction = []" by (simp add: sample_transaction_def)
  then have "admissible zero_hash_fun (sample_runtime 0) (ed25519_accepts accepting_dalek)
      (reference_admission zero_hash_fun sample_transaction, reference_materials sample_transaction)"
    using sample_policy_valid sample_signature_accepted by (simp add: admissible_reference sample_runtime_def)
  then have "fst (validate_gossip_block zero_hash_fun adapter LocalRpc (canonical_header (block_header (ls_block sample_local)))
       (canonical_body (block_body (ls_block sample_local))) (canonical_sidecar (block_sidecar (ls_block sample_local))) ()) =
     Ok ValidationOutcome.Accept"
    using adapter sample_local_wf sample_proposer_accepted unfolding sample_runtime_def
    by (subst gossip_block_exact) (auto simp: sample_entries within_witness_limit_def open_config_def simp del: sample_block_simps(1),
        simp_all)
  with adapter show ?thesis by blast
qed

end
