(* ===== verification/Execution_Steps.thy ===== *)
theory Execution_Steps
  imports Execution
begin

text \<open>
  Block execution as a state machine. \<open>block_step\<close> is one iteration of the loop of
  \<open>StatelessBlockExecutor::execute_block\<close> (\<^verbatim>\<open>crates/shell-execution/src/engine.rs\<close>), with one rule for
  each way an iteration can end. The relation shows the states between two transactions and the
  states in which a failing block stops, which the result of \<open>execute_block\<close> alone does not: the
  applier and the scripted executor keep what the transactions before the failure did. An executor or applier
  that panics has no rule: the scripted executor and the reference applier never do.
\<close>

section \<open>Configurations and steps\<close>

datatype 'w block_config =
  Running "TransactionEnvelope list" Root "TransactionExecutionOutcome list" 'w
| Finished Root "TransactionExecutionOutcome list" 'w
| Failed ExecutionError 'w

inductive block_step ::
  "hash_fun \<Rightarrow> 'w transaction_executor \<Rightarrow> 'w state_applier \<Rightarrow> 'w block_config \<Rightarrow> 'w block_config \<Rightarrow> bool"
  for sha executor state_applier where
  root_fails: "envelope_hash_tree_root sha tx = Err e \<Longrightarrow>
    block_step sha executor state_applier (Running (tx # txs) cur os w) (Failed (TransactionRoot e) w)"
| executor_fails: "envelope_hash_tree_root sha tx = Ok root \<Longrightarrow> executor cur tx w = (Err e, u) \<Longrightarrow>
    block_step sha executor state_applier (Running (tx # txs) cur os w) (Failed e u)"
| transition_fails: "envelope_hash_tree_root sha tx = Ok root \<Longrightarrow> executor cur tx w = (Ok plan, u) \<Longrightarrow>
    state_applier cur (plan_state_patch plan) u = (Err e, v) \<Longrightarrow>
    block_step sha executor state_applier (Running (tx # txs) cur os w) (Failed (StateTransition e) v)"
| transact: "envelope_hash_tree_root sha tx = Ok root \<Longrightarrow> executor cur tx w = (Ok plan, u) \<Longrightarrow>
    state_applier cur (plan_state_patch plan) u = (Ok out, v) \<Longrightarrow>
    block_step sha executor state_applier (Running (tx # txs) cur os w)
      (Running txs (post_state_root out) (os @ [\<lparr>tx_transaction_root = root,
         tx_post_state_root = post_state_root out, tx_receipt = plan_receipt plan\<rparr>]) v)"
| finish: "block_step sha executor state_applier (Running [] cur os w) (Finished cur os w)"

inductive_cases running_stepE: "block_step sha executor state_applier (Running txs cur os w) c"
inductive_simps finished_step [simp]: "block_step sha executor state_applier (Finished cur os w) c"
inductive_simps failed_step [simp]: "block_step sha executor state_applier (Failed e w) c"

abbreviation block_steps ::
  "hash_fun \<Rightarrow> 'w transaction_executor \<Rightarrow> 'w state_applier \<Rightarrow> 'w block_config \<Rightarrow> 'w block_config \<Rightarrow> bool" where
  "block_steps sha executor state_applier \<equiv> (block_step sha executor state_applier)\<^sup>*\<^sup>*"

section \<open>Determinism\<close>

lemma block_step_deterministic:
  "block_step sha executor state_applier c d \<Longrightarrow> block_step sha executor state_applier c d' \<Longrightarrow> d = d'"
  by (auto elim!: block_step.cases)

text \<open>Stopped configurations have no successor, so a run is its own result.\<close>

lemma finished_steps [simp]: "block_steps sha executor state_applier (Finished cur os w) c \<longleftrightarrow> c = Finished cur os w"
  by (auto elim: converse_rtranclpE)

lemma failed_steps [simp]: "block_steps sha executor state_applier (Failed e w) c \<longleftrightarrow> c = Failed e w"
  by (auto elim: converse_rtranclpE)

section \<open>The loop and the machine\<close>

text \<open>
  Running the machine is running the loop, for every executor and applier: the machine finishes
  exactly when the loop returns its accumulators and fails exactly when the loop returns an error,
  in the same world.
\<close>

lemma step_then_steps:
  assumes "block_step sha executor state_applier c d" "stopped \<noteq> c"
  shows "block_steps sha executor state_applier c stopped \<longleftrightarrow> block_steps sha executor state_applier d stopped"
  using assms block_step_deterministic [OF assms(1)]
  by (metis converse_rtranclp_into_rtranclp converse_rtranclpE)

lemma stuck_steps:
  assumes "\<nexists>d. block_step sha executor state_applier c d"
  shows "block_steps sha executor state_applier c stopped \<longleftrightarrow> stopped = c"
  using assms by (metis converse_rtranclpE rtranclp.rtrancl_refl)

lemma steps_iff_loop:
  "(block_steps sha executor state_applier (Running txs cur os w) (Finished cur' os' w') \<longleftrightarrow>
      execute_loop sha executor state_applier txs cur (map tx_receipt os) os w = (Ok (cur', map tx_receipt os', os'), w')) \<and>
   (block_steps sha executor state_applier (Running txs cur os w) (Failed e w') \<longleftrightarrow>
      execute_loop sha executor state_applier txs cur (map tx_receipt os) os w = (Err e, w'))"
proof (induction txs arbitrary: cur os w)
  case Nil
  then show ?case by (auto simp: step_then_steps [OF block_step.finish])
next
  case (Cons tx txs)
  obtain r u where exec: "executor cur tx w = (r, u)" by fastforce
  show ?case
  proof (cases r)
    case (Err f)
    with exec show ?thesis
      by (auto simp: step_then_steps [OF block_step.executor_fails [OF canonical_root_Ok]] bind_action.simps)
  next
    case Panic
    with exec have "\<nexists>d. block_step sha executor state_applier (Running (tx # txs) cur os w) d"
      by (auto elim: running_stepE)
    with exec Panic show ?thesis by (simp add: stuck_steps bind_action.simps)
  next
    case (Ok plan)
    obtain s v where trans: "state_applier cur (plan_state_patch plan) u = (s, v)" by fastforce
    show ?thesis
    proof (cases s)
      case (Ok out)
      with exec trans \<open>r = Ok plan\<close> show ?thesis
        using Cons.IH by (simp add: step_then_steps [OF block_step.transact [OF canonical_root_Ok]] bind_action.simps map_err_action_def Let_def)
    next
      case (Err f)
      with exec trans \<open>r = Ok plan\<close> show ?thesis
        by (auto simp: step_then_steps [OF block_step.transition_fails [OF canonical_root_Ok]] bind_action.simps map_err_action_def)
    next
      case Panic
      with exec trans \<open>r = Ok plan\<close> have "\<nexists>d. block_step sha executor state_applier (Running (tx # txs) cur os w) d"
        by (auto elim: running_stepE)
      with exec trans Panic \<open>r = Ok plan\<close> show ?thesis by (simp add: stuck_steps bind_action.simps map_err_action_def)
    qed
  qed
qed

lemma execute_loop_receipts:
  "execute_loop sha executor state_applier txs cur rs os w = (Ok (cur', rs', os'), w') \<Longrightarrow>
   rs = map tx_receipt os \<Longrightarrow> rs' = map tx_receipt os'"
proof (induction txs arbitrary: cur rs os w)
  case (Cons tx txs)
  from Cons.prems show ?case by (auto simp: result_simps Let_def dest: Cons.IH)
qed simp

lemma steps_iff_block:
  "block_steps sha executor state_applier (Running txs pre [] w) (Finished cur os w') \<longleftrightarrow>
     execute_block sha pre txs executor state_applier w =
       (Ok \<lparr>block_post_state_root = cur, block_receipts_root = compute_receipts_root sha (map tx_receipt os),
            transaction_outcomes = os\<rparr>, w')"
  "block_steps sha executor state_applier (Running txs pre [] w) (Failed e w') \<longleftrightarrow>
     execute_block sha pre txs executor state_applier w = (Err e, w')"
  using steps_iff_loop [of sha executor state_applier txs pre "[]" w]
    execute_loop_receipts [of sha executor state_applier txs pre "[]" "[]" w]
  by (auto simp: execute_block_def result_simps)

section \<open>The scripted machine\<close>

abbreviation planned_executor where
  "planned_executor sha \<equiv> (\<lambda>pre tx. on_fst (planned_execute_transaction sha pre tx))"

abbreviation reference_applier where
  "reference_applier sha \<equiv> (\<lambda>pre p. on_snd (applier_apply_transition sha pre p))"

text \<open>
  What the executor and the applier hold after \<open>n\<close> transactions of the block: the first \<open>n\<close> steps of
  the script were those of the transactions, and their patches are what was applied.
\<close>

definition script_prefix ::
  "hash_fun \<Rightarrow> PlannedTransaction list \<Rightarrow> TransactionEnvelope list \<Rightarrow> InMemoryAccumulator \<Rightarrow> nat \<Rightarrow>
   PlannedTransactionExecutor \<Rightarrow> ReferenceStateApplier \<Rightarrow> bool" where
  "script_prefix sha ps txs acc n ex ap \<longleftrightarrow> n \<le> length txs \<and> n \<le> length ps \<and> planned_transactions ex = ps \<and>
     list_all2 (\<lambda>p tx. planned_transaction_root p = tx_root sha tx) (take n ps) (take n txs) \<and>
     applier_accumulator ap = acc.run sha (map (plan_state_patch \<circ> planned_plan) (take n ps)) acc"

fun script_invar ::
  "hash_fun \<Rightarrow> PlannedTransaction list \<Rightarrow> TransactionEnvelope list \<Rightarrow> Root \<Rightarrow> InMemoryAccumulator \<Rightarrow>
   (PlannedTransactionExecutor \<times> ReferenceStateApplier) block_config \<Rightarrow> bool" where
  "script_invar sha ps txs pre acc (Running rest cur os (ex, ap)) \<longleftrightarrow>
     (\<exists>n. script_prefix sha ps txs acc n ex ap \<and> next_index ex = n \<and> rest = drop n txs \<and>
        map tx_transaction_root os = map (tx_root sha) (take n txs) \<and>
        map tx_receipt os = map (plan_receipt \<circ> planned_plan) (take n ps) \<and>
        cur = (if n = 0 then pre else applier_state_root ap))"
| "script_invar sha ps txs pre acc (Finished cur os (ex, ap)) \<longleftrightarrow>
     script_prefix sha ps txs acc (length txs) ex ap \<and> next_index ex = length txs \<and>
     map tx_transaction_root os = map (tx_root sha) txs \<and>
     map tx_receipt os = map (plan_receipt \<circ> planned_plan) (take (length txs) ps) \<and>
     cur = (if txs = [] then pre else applier_state_root ap)"
| "script_invar sha ps txs pre acc (Failed e (ex, ap)) \<longleftrightarrow>
     (\<exists>n < length txs. script_prefix sha ps txs acc n ex ap \<and>
        next_index ex = (case e of StateTransition _ \<Rightarrow> n + 1 | _ \<Rightarrow> n))"

lemma run_snoc: "acc.run sha (ps @ [p]) acc = acc.run sha [p] (acc.run sha ps acc)"
  by (simp add: acc.run_def)

lemma drop_eq_Cons: "drop n xs = y # ys \<Longrightarrow> n < length xs \<and> xs ! n = y \<and> ys = drop (n + 1) xs"
  by (metis Suc_eq_plus1 drop_Suc drop_all leI list.discI list.sel(3) nth_via_drop tl_drop)

lemma script_prefix_step:
  assumes "script_prefix sha ps txs acc n ex ap" "next_index ex = n" "drop n txs = tx # rest"
    and "planned_execute_transaction sha cur tx ex = (Ok plan, ex')"
  shows "n < length ps" "ex' = ex\<lparr>next_index := n + 1\<rparr>" "plan = planned_plan (ps ! n)"
    "applier_apply_transition sha cur (plan_state_patch plan) ap = (Ok out, ap') \<Longrightarrow>
       script_prefix sha ps txs acc (n + 1) ex' ap'"
proof -
  note exec = planned_execute_Ok [OF assms(4)]
  have n: "n < length txs" "txs ! n = tx" using drop_eq_Cons [OF assms(3)] by simp_all
  show ex: "n < length ps" "ex' = ex\<lparr>next_index := n + 1\<rparr>" "plan = planned_plan (ps ! n)"
    using exec assms(1,2) by (auto simp: script_prefix_def)
  assume "applier_apply_transition sha cur (plan_state_patch plan) ap = (Ok out, ap')"
  from applier_Ok_accumulator [OF this] have "applier_accumulator ap' =
      acc.run sha (map (plan_state_patch \<circ> planned_plan) (take (n + 1) ps)) acc"
    using assms(1) ex by (simp add: script_prefix_def take_Suc_conv_app_nth run_snoc)
  moreover have "list_all2 (\<lambda>p tx. planned_transaction_root p = tx_root sha tx) (take (n + 1) ps) (take (n + 1) txs)"
    using assms(1,2) exec n ex(1) by (auto simp: script_prefix_def take_Suc_conv_app_nth intro: list_all2_appendI)
  ultimately show "script_prefix sha ps txs acc (n + 1) ex' ap'"
    using assms(1) n(1) ex(1,2) by (simp add: script_prefix_def)
qed

text \<open>The executor reports no state error, so a \<open>StateTransition\<close> error tells that the step was consumed.\<close>

lemma planned_execute_Err:
  "planned_execute_transaction sha pre tx ex = (Err e, ex') \<Longrightarrow> ex' = ex \<and> (\<exists>s. e = Executor s)"
  by (auto simp: planned_execute_transaction_def Let_def split: if_splits)

lemma script_invar_RunningE:
  assumes "script_invar sha ps txs pre acc (Running (tx # rest) cur os (ex, ap))"
  obtains n where "script_prefix sha ps txs acc n ex ap" "next_index ex = n" "drop n txs = tx # rest"
    "n < length txs" "txs ! n = tx" "rest = drop (n + 1) txs"
    "map tx_transaction_root os = map (tx_root sha) (take n txs)"
    "map tx_receipt os = map (plan_receipt \<circ> planned_plan) (take n ps)"
  using assms drop_eq_Cons [of "next_index ex" txs tx rest] by auto

lemma script_invar_step:
  assumes "block_step sha (planned_executor sha) (reference_applier sha) c d" "script_invar sha ps txs pre acc c"
  shows "script_invar sha ps txs pre acc d"
  using assms
proof (induction rule: block_step.induct)
  case (transact tx root cur w plan u out v rest os)
  then obtain ex ap ex' ap' where v: "w = (ex, ap)" "v = (ex', ap')"
    and exec: "planned_execute_transaction sha cur tx ex = (Ok plan, ex')"
    and trans: "applier_apply_transition sha cur (plan_state_patch plan) ap = (Ok out, ap')"
    by (cases w) auto
  obtain n where n: "script_prefix sha ps txs acc n ex ap" "next_index ex = n" "drop n txs = tx # rest"
    and txs: "n < length txs" "txs ! n = tx" "rest = drop (n + 1) txs"
    and os: "map tx_transaction_root os = map (tx_root sha) (take n txs)"
    "map tx_receipt os = map (plan_receipt \<circ> planned_plan) (take n ps)"
    by (rule script_invar_RunningE [OF transact.prems [unfolded v(1)]])
  note step = script_prefix_step [OF n exec]
  have "applier_state_root ap' = post_state_root out"
    using applier.apply_Ok [OF trans] by simp
  then show ?case
    using step(4) [OF trans] step(1-3) os txs transact.hyps(1)
    by (auto simp: v take_Suc_conv_app_nth intro!: exI [of _ "n + 1"])
next
  case (executor_fails tx root cur w e u rest os)
  then obtain ex ap s where w: "w = (ex, ap)" "u = (ex, ap)" "e = Executor s"
    by (cases w) (auto dest: planned_execute_Err)
  show ?case by (rule script_invar_RunningE [OF executor_fails.prems [unfolded w(1)]]) (auto simp: w)
next
  case (transition_fails tx root cur w plan u e v rest os)
  from transition_fails.hyps(2) obtain ex ap ex' where exec: "planned_execute_transaction sha cur tx ex = (Ok plan, ex')"
    and w: "w = (ex, ap)" "u = (ex', ap)"
    by (cases w) auto
  have v: "w = (ex, ap)" "v = (ex', ap)"
    using transition_fails.hyps(3) w by (auto dest: applier.apply_Err)
  obtain n where n: "script_prefix sha ps txs acc n ex ap" "next_index ex = n"
    "drop n txs = tx # rest" "n < length txs"
    by (rule script_invar_RunningE [OF transition_fails.prems [unfolded v(1)]])
  with script_prefix_step [OF n(1-3) exec] show ?case by (auto simp: v script_prefix_def)
qed (auto simp: script_prefix_def split: prod.splits elim: script_invar.elims)

lemma script_invar_steps:
  assumes "block_steps sha (planned_executor sha) (reference_applier sha) (Running txs pre [] (new_planned ps, ap)) c"
  shows "script_invar sha ps txs pre (applier_accumulator ap) c"
  using assms
proof (induction rule: rtranclp_induct)
  case base
  then show ?case by (simp add: script_prefix_def new_planned_def acc.run_def)
next
  case (step c d)
  then show ?case by (blast intro: script_invar_step)
qed

section \<open>Properties\<close>

text \<open>
  C16: between two transactions of a block the executor, the applier and the loop agree: after \<open>n\<close>
  transactions exactly the first \<open>n\<close> steps of the script are consumed, they are the steps of these
  transactions, the state is the start state with exactly their patches, the outcomes are theirs in
  block order, and the root handed to the next transaction is the root of that state.
\<close>

theorem scripted_execution_invariant:
  assumes "block_steps sha (planned_executor sha) (reference_applier sha) (Running txs pre [] (new_planned ps, ap))
      (Running rest cur os (ex', ap'))"
  shows "\<exists>n. rest = drop n txs \<and> next_index ex' = n \<and> n \<le> length ps \<and>
    list_all2 (\<lambda>p tx. planned_transaction_root p = tx_root sha tx) (take n ps) (take n txs) \<and>
    applier_accumulator ap' = acc.run sha (map (plan_state_patch \<circ> planned_plan) (take n ps)) (applier_accumulator ap) \<and>
    map tx_transaction_root os = map (tx_root sha) (take n txs) \<and>
    map tx_receipt os = map (plan_receipt \<circ> planned_plan) (take n ps) \<and>
    (0 < n \<longrightarrow> cur = applier_state_root ap')"
  using script_invar_steps [OF assms] by (auto simp: script_prefix_def)

lemma sample_block_step:
  "\<exists>os ap. block_step sha (planned_executor sha) (reference_applier sha)
     (Running (sample_transaction # txs) (acc_root new_accumulator) [] (new_planned [sample_plan sha], new_applier new_accumulator))
     (Running txs (applier_state_root ap) os ((new_planned [sample_plan sha])\<lparr>next_index := 1\<rparr>, ap))"
proof -
  let ?plan = "planned_plan (sample_plan sha)" and ?ap = "new_applier new_accumulator"
  have "planned_execute_transaction sha (acc_root new_accumulator) sample_transaction (new_planned [sample_plan sha]) =
      (Ok ?plan, (new_planned [sample_plan sha])\<lparr>next_index := 1\<rparr>)"
    by (subst planned_execute_hit) (simp_all add: new_planned_def)
  then have exec: "planned_executor sha (acc_root new_accumulator) sample_transaction (new_planned [sample_plan sha], ?ap) =
      (Ok ?plan, ((new_planned [sample_plan sha])\<lparr>next_index := 1\<rparr>, ?ap))" by simp
  have "applicable_plan (sample_plan sha)" by simp
  then obtain ap' where "applier_apply_transition sha (applier_state_root ?ap) (plan_state_patch ?plan) ?ap =
      (Ok \<lparr>post_state_root = applier_state_root ap'\<rparr>, ap')"
    using applier_canonical [of ?ap "plan_state_patch ?plan" sha]
    by (auto simp: applicable_plan_def new_applier_def)
  then have "reference_applier sha (acc_root new_accumulator) (plan_state_patch ?plan) ((new_planned [sample_plan sha])\<lparr>next_index := 1\<rparr>, ?ap) =
      (Ok \<lparr>post_state_root = applier_state_root ap'\<rparr>, ((new_planned [sample_plan sha])\<lparr>next_index := 1\<rparr>, ap'))"
    by (simp add: applier_state_root_def new_applier_def)
  from block_step.transact [OF canonical_root_Ok [of sha], of "planned_executor sha" _ _ _ _ _ "reference_applier sha", OF exec this, of txs "[]"]
  show ?thesis by auto
qed

theorem scripted_execution_invariant_witness:
  "\<exists>cur os ap. block_steps (\<lambda>m. m) (planned_executor (\<lambda>m. m)) (reference_applier (\<lambda>m. m))
     (Running [sample_transaction] (acc_root new_accumulator) [] (new_planned [sample_plan (\<lambda>m. m)], new_applier new_accumulator))
     (Running [] cur os ((new_planned [sample_plan (\<lambda>m. m)])\<lparr>next_index := 1\<rparr>, ap)) \<and>
   map tx_transaction_root os = [tx_root (\<lambda>m. m) sample_transaction] \<and> cur = applier_state_root ap"
proof -
  let ?sha = "\<lambda>m. m :: bytes"
  obtain os ap where steps: "block_steps ?sha (planned_executor ?sha) (reference_applier ?sha)
     (Running [sample_transaction] (acc_root new_accumulator) [] (new_planned [sample_plan ?sha], new_applier new_accumulator))
     (Running [] (applier_state_root ap) os ((new_planned [sample_plan ?sha])\<lparr>next_index := 1\<rparr>, ap))"
    using sample_block_step [of ?sha "[]"] by blast
  with scripted_execution_invariant [OF steps] show ?thesis by fastforce
qed

text \<open>
  C17: a block that fails is not rolled back by the engine. Exactly the transactions before the
  failing one stay applied; the script stands at the failing transaction when the executor refused
  it, and behind it when the state transition failed, because the step was consumed before.
\<close>

theorem failed_block_keeps_prefix:
  assumes "execute_block sha pre txs (planned_executor sha) (reference_applier sha) (new_planned ps, ap) = (Err e, (ex', ap'))"
  shows "\<exists>n < length txs.
    list_all2 (\<lambda>p tx. planned_transaction_root p = tx_root sha tx) (take n ps) (take n txs) \<and>
    applier_accumulator ap' = acc.run sha (map (plan_state_patch \<circ> planned_plan) (take n ps)) (applier_accumulator ap) \<and>
    next_index ex' = (case e of StateTransition _ \<Rightarrow> n + 1 | _ \<Rightarrow> n)"
proof -
  have "block_steps sha (planned_executor sha) (reference_applier sha) (Running txs pre [] (new_planned ps, ap)) (Failed e (ex', ap'))"
    using assms by (simp add: steps_iff_block)
  from script_invar_steps [OF this] show ?thesis by (auto simp: script_prefix_def)
qed

theorem failed_block_keeps_prefix_witness:
  "\<exists>ex ap. execute_block (\<lambda>m. m) (acc_root new_accumulator) [sample_transaction, sample_transaction]
      (planned_executor (\<lambda>m. m)) (reference_applier (\<lambda>m. m)) (new_planned [sample_plan (\<lambda>m. m)], new_applier new_accumulator) =
      (Err (Executor ''missing planned transaction step''), (ex, ap)) \<and>
    applier_accumulator ap =
      acc.run (\<lambda>m. m) [plan_state_patch (planned_plan (sample_plan (\<lambda>m. m)))] new_accumulator"
proof -
  let ?sha = "\<lambda>m. m :: bytes"
  let ?ex = "(new_planned [sample_plan ?sha])\<lparr>next_index := 1\<rparr>"
  obtain os ap where step: "block_step ?sha (planned_executor ?sha) (reference_applier ?sha)
     (Running [sample_transaction, sample_transaction] (acc_root new_accumulator) []
        (new_planned [sample_plan ?sha], new_applier new_accumulator))
     (Running [sample_transaction] (applier_state_root ap) os (?ex, ap))"
    using sample_block_step [of ?sha "[sample_transaction]"] by blast
  have "planned_executor ?sha (applier_state_root ap) sample_transaction (?ex, ap) =
      (Err (Executor ''missing planned transaction step''), (?ex, ap))"
    by (simp add: planned_execute_transaction_def new_planned_def)
  note step block_step.executor_fails [OF canonical_root_Ok, of "planned_executor ?sha", OF this]
  then have block: "execute_block ?sha (acc_root new_accumulator) [sample_transaction, sample_transaction]
      (planned_executor ?sha) (reference_applier ?sha) (new_planned [sample_plan ?sha], new_applier new_accumulator) =
      (Err (Executor ''missing planned transaction step''), (?ex, ap))"
    unfolding steps_iff_block(2) [symmetric] by (meson rtranclp.rtrancl_refl converse_rtranclp_into_rtranclp)
  from failed_block_keeps_prefix [OF block] have "applier_accumulator ap =
      acc.run ?sha [plan_state_patch (planned_plan (sample_plan ?sha))] new_accumulator"
    by (auto simp: new_applier_def)
  with block show ?thesis by blast
qed

end
