(* ===== verification/Tests_Core.thy ===== *)
theory Tests_Core
  imports Fixtures Codec Crypto
begin

text \<open>
  The unit tests of the four lower crates, translated from the \<open>#[cfg(test)]\<close> modules of
  \<^verbatim>\<open>shell-crypto\<close>, \<^verbatim>\<open>shell-state\<close>, \<^verbatim>\<open>shell-execution\<close> and \<^verbatim>\<open>shell-primitives\<close>. A test is a computation that
  panics when an assertion fails; its value \<open>Ok ()\<close> is a passing test. Tests that assert that two
  roots differ depend on the hash function: they are proved up to a collision among the messages
  that are hashed. Tests of object safety only ask whether a trait object can be built and are left out.
\<close>

section \<open>Assertions\<close>

definition asserts :: "bool list \<Rightarrow> unit panics" where
  "asserts bs = for_each assert_that bs"

fun expect_err :: "('a, 'e) result \<Rightarrow> 'e panics" where
  "expect_err (Ok x) = Panic"
| "expect_err (Err e) = Ok e"
| "expect_err Panic = Panic"

lemma asserts_Ok [simp]: "asserts bs = Ok () \<longleftrightarrow> list_all id bs"
  by (induction bs) (simp_all add: asserts_def assert_that_def)

lemma asserts_True [simp]: "asserts [] = Ok ()" "asserts (True # bs) = asserts bs"
  by (simp_all add: asserts_def assert_that_def)

text \<open>\<open>trim().is_empty()\<close>, for the ASCII strings of the vectors.\<close>

definition is_whitespace :: "char \<Rightarrow> bool" where
  "is_whitespace c \<longleftrightarrow> of_char c = (32 :: nat) \<or> 9 \<le> (of_char c :: nat) \<and> (of_char c :: nat) \<le> 13"

definition is_blank :: "string \<Rightarrow> bool" where
  "is_blank s \<longleftrightarrow> list_all is_whitespace s"

section \<open>shell-crypto\<close>

record MockVerifier =
  mock_scheme_id :: u8
  mock_max_user_size :: "usize option"
  mock_max_validator_size :: "usize option"
  mock_should_fail :: bool

definition mock_verifier :: "MockVerifier \<Rightarrow> unit SignatureVerifier" where
  "mock_verifier m =
     \<lparr>verifier_scheme_id = mock_scheme_id m,
      verifier_max_signature_size = (\<lambda>path. case path of
          TransactionAuthorization \<Rightarrow> mock_max_user_size m
        | ValidatorMessage \<Rightarrow> mock_max_validator_size m),
      verifier_verify = (\<lambda>_. lift_result (
        if mock_should_fail m
        then Err \<lparr>failure_scheme_id = mock_scheme_id m, failure_context = ''mock verifier rejected the artifact''\<rparr>
        else Ok ()))\<rparr>"

definition sample_request :: "usize \<Rightarrow> SignatureVerificationRequest" where
  "sample_request signature_len =
     \<lparr>public_key_material = replicate 32 7, req_signing_root = zero_bytes 32,
      req_signature = replicate signature_len 1\<rparr>"

definition registry_rejects_unknown_schemes :: "unit panics" where
  "registry_rejects_unknown_schemes =
     (let registry = new_registry in
      bind_result (expect_err (fst (verify_transaction_authorization registry 11 (sample_request 64) ()))) (\<lambda>err.
      asserts [err = UnsupportedScheme 11]))"

definition user_path_limit_is_enforced_before_verification :: "unit panics" where
  "user_path_limit_is_enforced_before_verification =
     (let registry = snd (register_verifier (mock_verifier
            \<lparr>mock_scheme_id = 1, mock_max_user_size = Some (DEFAULT_USER_PATH_MAX_SIGNATURE_SIZE * 2),
             mock_max_validator_size = None, mock_should_fail = False\<rparr>) new_registry) in
      bind_result (expect_err (fst (verify_transaction_authorization registry 1
        (sample_request (DEFAULT_USER_PATH_MAX_SIGNATURE_SIZE + 1)) ()))) (\<lambda>err.
      asserts [err = CryptoError.SignatureSizeExceeded
        \<lparr>exceeded_max_size = DEFAULT_USER_PATH_MAX_SIGNATURE_SIZE,
         exceeded_actual_size = DEFAULT_USER_PATH_MAX_SIGNATURE_SIZE + 1,
         exceeded_path = TransactionAuthorization, exceeded_kind = RepositoryRule\<rparr>]))"

definition guarded_registry :: "usize \<Rightarrow> unit VerifierRegistry" where
  "guarded_registry guard =
     snd (register_verifier (mock_verifier
       \<lparr>mock_scheme_id = 9, mock_max_user_size = None, mock_max_validator_size = Some 256, mock_should_fail = False\<rparr>)
       (with_config \<lparr>user_path_max_signature_size = DEFAULT_USER_PATH_MAX_SIGNATURE_SIZE,
          validator_path_max_signature_size = Some guard\<rparr>))"

definition validator_path_uses_configurable_guards :: "unit panics" where
  "validator_path_uses_configurable_guards =
     bind_result (expect_err (fst (verify_validator_message (guarded_registry 128) 9 (sample_request 129) ()))) (\<lambda>err.
     asserts [err = CryptoError.SignatureSizeExceeded
       \<lparr>exceeded_max_size = 128, exceeded_actual_size = 129, exceeded_path = ValidatorMessage,
        exceeded_kind = LocalTransportGuard\<rparr>])"

definition validator_path_scheme_limit_stays_consensus_relevant :: "unit panics" where
  "validator_path_scheme_limit_stays_consensus_relevant =
     bind_result (expect_err (fst (verify_validator_message (guarded_registry 512) 9 (sample_request 257) ()))) (\<lambda>err.
     asserts [err = CryptoError.SignatureSizeExceeded
       \<lparr>exceeded_max_size = 256, exceeded_actual_size = 257, exceeded_path = ValidatorMessage,
        exceeded_kind = Scheme\<rparr>])"

definition verifier_failures_are_normalized :: "unit panics" where
  "verifier_failures_are_normalized =
     (let registry = snd (register_verifier (mock_verifier
            \<lparr>mock_scheme_id = 3, mock_max_user_size = None, mock_max_validator_size = None, mock_should_fail = True\<rparr>)
            new_registry) in
      bind_result (expect_err (fst (verify_transaction_authorization registry 3 (sample_request 64) ()))) (\<lambda>err.
      asserts [err = VerificationFailed
        \<lparr>failure_scheme_id = 3, failure_context = ''mock verifier rejected the artifact''\<rparr>]))"

definition crypto_tests :: "(string \<times> unit panics) list" where
  "crypto_tests =
     [(''registry_rejects_unknown_schemes'', registry_rejects_unknown_schemes),
      (''user_path_limit_is_enforced_before_verification'', user_path_limit_is_enforced_before_verification),
      (''validator_path_uses_configurable_guards'', validator_path_uses_configurable_guards),
      (''validator_path_scheme_limit_stays_consensus_relevant'', validator_path_scheme_limit_stays_consensus_relevant),
      (''verifier_failures_are_normalized'', verifier_failures_are_normalized)]"

definition all_pass :: "(string \<times> unit panics) list \<Rightarrow> bool" where
  "all_pass tests \<longleftrightarrow> list_all (\<lambda>(name, r). r = Ok ()) tests"

lemma all_pass_simps [simp]:
  "all_pass []" "all_pass ((name, r) # tests) \<longleftrightarrow> r = Ok () \<and> all_pass tests"
  "all_pass (tests @ tests') \<longleftrightarrow> all_pass tests \<and> all_pass tests'"
  by (simp_all add: all_pass_def)

lemmas dispatch_defs = verify_transaction_authorization_def verify_validator_message_def verify_for_path_def
  max_signature_size_def registry_verifier_def register_verifier_def new_registry_def with_config_def
  default_dispatcher_config_def DEFAULT_USER_PATH_MAX_SIGNATURE_SIZE_def

lemma crypto_tests_pass: "all_pass crypto_tests"
  unfolding crypto_tests_def registry_rejects_unknown_schemes_def user_path_limit_is_enforced_before_verification_def
    validator_path_uses_configurable_guards_def validator_path_scheme_limit_stays_consensus_relevant_def
    verifier_failures_are_normalized_def guarded_registry_def
  by (simp add: dispatch_defs mock_verifier_def sample_request_def Let_def)

section \<open>shell-state\<close>

definition canonicalize_execution_address_left_pads_to_bytes32 :: "unit panics" where
  "canonicalize_execution_address_left_pads_to_bytes32 =
     (let address = replicate 20 0x11; key = canonicalize_execution_address address in
      asserts [take 12 key = replicate 12 0, drop 12 key = address])"

definition encoded_state_key_uses_stable_variant_tags :: "unit panics" where
  "encoded_state_key_uses_stable_variant_tags =
     (let first = encode_state_key (AccountHeader (zero_bytes 20)); second = encode_state_key (RawTreeKey (zero_bytes 32)) in
      bind_result (index_at (as_slice first) 0) (\<lambda>first_tag.
      bind_result (index_at (as_slice second) 0) (\<lambda>second_tag.
      asserts [first_tag = 0, second_tag = 3,
        compare_state_keys (AccountHeader (zero_bytes 20)) (RawTreeKey (zero_bytes 32)) = Less])))"

definition witness_ordering_rejects_non_canonical_sequences :: "unit panics" where
  "witness_ordering_rejects_non_canonical_sequences =
     (let witnesses =
        [\<lparr>witness_key = RawTreeKey (replicate 32 0xFF), witness_leaf_value = [], witness_proof = []\<rparr>,
         \<lparr>witness_key = RawTreeKey (replicate 32 0), witness_leaf_value = [], witness_proof = []\<rparr>] in
      bind_result (expect_err (ensure_canonical_witness_order witnesses)) (\<lambda>err.
      asserts [err = NonCanonicalWitnessOrdering 1
        ''witness keys must be strictly increasing in canonical StateKey order'']))"

definition state_patch_requires_matching_access_and_value_counts :: "unit panics" where
  "state_patch_requires_matching_access_and_value_counts =
     bind_result (expect_err (validate_shape \<lparr>accesses = [RawTreeKey (zero_bytes 32)], new_values = []\<rparr>)) (\<lambda>err.
     asserts [err = TransitionShapeMismatch 1 0])"

definition StubView :: ReadOnlyStateView where
  "StubView = \<lparr>view_account_nonce = (\<lambda>_. Some 7), view_account_balance = (\<lambda>_. Some (U256 (replicate 32 3)))\<rparr>"

definition metadata_adapter_implements_shared_primitives_trait :: "unit panics" where
  "metadata_adapter_implements_shared_primitives_trait =
     (let lookup = MetadataAdapter StubView; address = replicate 20 0xAA in
      asserts [account_nonce lookup address = Some 7,
        account_balance lookup address = Some (U256 (replicate 32 3))])"

definition in_memory_accumulator_rejects_non_canonical_access_sequences :: "hash_fun \<Rightarrow> unit panics" where
  "in_memory_accumulator_rejects_non_canonical_access_sequences sha =
     (let address = replicate 20 0xAB; low_key = AccountHeader address;
          high_key = StorageSlot address (replicate 32 0xFF) in
      case acc_apply_transition sha \<lparr>accesses = [low_key, high_key], new_values = [[1], [2]]\<rparr> new_accumulator of
        (r, accumulator) \<Rightarrow>
          bind_result (expect_ok r) (\<lambda>_.
          bind_result (expect_err (get_witness_for_accesses accumulator [high_key, low_key])) (\<lambda>err.
          asserts [err = NonCanonicalWitnessOrdering 1
            ''access keys must be strictly increasing in canonical StateKey order''])))"

definition in_memory_accumulator_keeps_committed_witnesses_separate_from_derived_proof_paths ::
  "hash_fun \<Rightarrow> unit panics" where
  "in_memory_accumulator_keeps_committed_witnesses_separate_from_derived_proof_paths sha =
     (let address = replicate 20 0x22; first_key = AccountHeader address;
          second_key = StorageSlot address (replicate 32 0x10) in
      case acc_apply_transition sha \<lparr>accesses = [first_key, second_key], new_values = [[1, 2, 3], [4, 5, 6]]\<rparr>
             new_accumulator of
        (r, accumulator) \<Rightarrow>
          bind_result (expect_ok r) (\<lambda>first_root.
          bind_result (expect_ok (get_witness_for_accesses accumulator [first_key, second_key])) (\<lambda>witnesses.
          bind_result (index_at witnesses 1) (\<lambda>second_witness.
          bind_result (asserts [length witnesses = 2, list_all (\<lambda>w. witness_proof w = []) witnesses,
            witness_leaf_value second_witness = [4, 5, 6]]) (\<lambda>_.
          bind_result (expect_ok (derive_proof_path accumulator second_witness)) (\<lambda>derived.
          bind_result (expect_some (path_left_neighbor derived)) (\<lambda>left.
          bind_result (asserts [path_expected_root derived = first_root, proof_key (path_leaf derived) = second_key,
            proof_key left = first_key, path_right_neighbor derived = None]) (\<lambda>_.
          expect_ok (acc_verify_witness accumulator second_witness (acc_root accumulator))))))))))"

definition reference_state_applier_rejects_root_continuity_mismatches :: "hash_fun \<Rightarrow> unit panics" where
  "reference_state_applier_rejects_root_continuity_mismatches sha =
     (case applier_apply_transition sha (replicate 32 0xFF)
             \<lparr>accesses = [RawTreeKey (replicate 32 0x11)], new_values = [[0xAA]]\<rparr> (new_applier new_accumulator) of
        (r, applier) \<Rightarrow>
          bind_result (expect_err r) (\<lambda>err.
          asserts [err = RootContinuityMismatch (replicate 32 0xFF) (zero_bytes 32),
            applier_state_root applier = zero_bytes 32]))"

definition reference_state_applier_preserves_state_when_patch_application_fails :: "hash_fun \<Rightarrow> unit panics" where
  "reference_state_applier_preserves_state_when_patch_application_fails sha =
     (let address = replicate 20 0x24; key = AccountHeader address in
      case applier_apply_transition sha (zero_bytes 32) \<lparr>accesses = [key], new_values = [[9]]\<rparr>
             (new_applier new_accumulator) of
        (r, applier) \<Rightarrow>
          bind_result (expect_ok r) (\<lambda>outcome.
          let established_root = post_state_root outcome in
          case applier_apply_transition sha established_root
                 \<lparr>accesses = [StorageSlot address (replicate 32 0xFF), key], new_values = [[1], [2]]\<rparr> applier of
            (r', applier') \<Rightarrow>
              bind_result (expect_err r') (\<lambda>err.
              asserts [err = NonCanonicalWitnessOrdering 1
                  ''access keys must be strictly increasing in canonical StateKey order'',
                applier_state_root applier' = established_root])))"

definition state_tests :: "hash_fun \<Rightarrow> (string \<times> unit panics) list" where
  "state_tests sha =
     [(''canonicalize_execution_address_left_pads_to_bytes32'', canonicalize_execution_address_left_pads_to_bytes32),
      (''encoded_state_key_uses_stable_variant_tags'', encoded_state_key_uses_stable_variant_tags),
      (''witness_ordering_rejects_non_canonical_sequences'', witness_ordering_rejects_non_canonical_sequences),
      (''state_patch_requires_matching_access_and_value_counts'', state_patch_requires_matching_access_and_value_counts),
      (''metadata_adapter_implements_shared_primitives_trait'', metadata_adapter_implements_shared_primitives_trait),
      (''in_memory_accumulator_rejects_non_canonical_access_sequences'',
        in_memory_accumulator_rejects_non_canonical_access_sequences sha),
      (''in_memory_accumulator_keeps_committed_witnesses_separate_from_derived_proof_paths'',
        in_memory_accumulator_keeps_committed_witnesses_separate_from_derived_proof_paths sha),
      (''reference_state_applier_rejects_root_continuity_mismatches'',
        reference_state_applier_rejects_root_continuity_mismatches sha),
      (''reference_state_applier_preserves_state_when_patch_application_fails'',
        reference_state_applier_preserves_state_when_patch_application_fails sha)]"

lemma state_tests_pass: "all_pass (state_tests sha)"
  by code_simp

text \<open>
  Two tests assert that roots differ. A hash function makes them fail only by an accident: two of the
  messages the test hashes collide, or one of them has a digest the test writes down as a literal.
\<close>

definition hash_accident :: "hash_fun \<Rightarrow> Root list \<Rightarrow> bytes set \<Rightarrow> bool" where
  "hash_accident sha literals M \<longleftrightarrow> collision sha M \<or> (\<exists>m \<in> M. sha m \<in> set literals)"

definition in_memory_accumulator_reference_root_changes_with_transition_contents :: "hash_fun \<Rightarrow> unit panics" where
  "in_memory_accumulator_reference_root_changes_with_transition_contents sha =
     (let address = replicate 20 0x44; key = CodeChunk address 7; root_before = acc_root new_accumulator in
      case acc_apply_transition sha \<lparr>accesses = [key], new_values = [[9, 9]]\<rparr> new_accumulator of
        (r1, accumulator) \<Rightarrow>
          bind_result (expect_ok r1) (\<lambda>root_after_first.
          case acc_apply_transition sha \<lparr>accesses = [key], new_values = [[9, 9, 9]]\<rparr> accumulator of
            (r2, accumulator') \<Rightarrow>
              bind_result (expect_ok r2) (\<lambda>root_after_second.
              asserts [root_before \<noteq> root_after_first, root_after_first \<noteq> root_after_second])))"

definition reference_state_applier_applies_canonical_transitions_sequentially :: "hash_fun \<Rightarrow> unit panics" where
  "reference_state_applier_applies_canonical_transitions_sequentially sha =
     (let address = replicate 20 0x42; first_key = AccountHeader address;
          second_key = StorageSlot address (replicate 32 0x07) in
      case applier_apply_transition sha (zero_bytes 32) \<lparr>accesses = [first_key], new_values = [[1, 2, 3]]\<rparr>
             (new_applier new_accumulator) of
        (r1, applier) \<Rightarrow>
          bind_result (expect_ok r1) (\<lambda>first.
          case applier_apply_transition sha (post_state_root first)
                 \<lparr>accesses = [second_key], new_values = [[4, 5, 6]]\<rparr> applier of
            (r2, applier') \<Rightarrow>
              bind_result (expect_ok r2) (\<lambda>second.
              asserts [applier_state_root applier' = post_state_root second,
                post_state_root first \<noteq> post_state_root second])))"

text \<open>The accumulator after the two single-entry patches of such a test.\<close>

lemma two_transitions:
  assumes "wf_state_key k" "wf_state_key l"
  obtains a b where
    "acc_apply_transition sha \<lparr>accesses = [k], new_values = [v]\<rparr> new_accumulator = (Ok (acc_root a), a)"
    "acc_apply_transition sha \<lparr>accesses = [l], new_values = [w]\<rparr> a = (Ok (acc_root b), b)"
    "acc_invar a" "contents a = [k \<mapsto> v]" "acc_root a = compute_reference_root sha (leaves a)"
    "acc_invar b" "contents b = [k \<mapsto> v, l \<mapsto> w]" "acc_root b = compute_reference_root sha (leaves b)"
proof -
  obtain a where a: "acc_apply_transition sha \<lparr>accesses = [k], new_values = [v]\<rparr> new_accumulator = (Ok (acc_root a), a)"
    "acc_invar a" "contents a = contents new_accumulator ++ patch_map \<lparr>accesses = [k], new_values = [v]\<rparr>"
    "acc_root a = compute_reference_root sha (leaves a)"
    by (rule acc_apply_transition_ok [of new_accumulator "\<lparr>accesses = [k], new_values = [v]\<rparr>" sha])
       (use assms in \<open>simp_all add: wf_patch_def canonical_patch_def\<close>)
  obtain b where b: "acc_apply_transition sha \<lparr>accesses = [l], new_values = [w]\<rparr> a = (Ok (acc_root b), b)"
    "acc_invar b" "contents b = contents a ++ patch_map \<lparr>accesses = [l], new_values = [w]\<rparr>"
    "acc_root b = compute_reference_root sha (leaves b)"
    by (rule acc_apply_transition_ok [of a "\<lparr>accesses = [l], new_values = [w]\<rparr>" sha])
       (use assms a in \<open>simp_all add: wf_patch_def canonical_patch_def\<close>)
  from a b that show ?thesis by (simp add: patch_map_def)
qed

text \<open>The messages hashed for the two roots of such a test.\<close>

definition transition_messages :: "hash_fun \<Rightarrow> StateKey \<Rightarrow> bytes \<Rightarrow> StateKey \<Rightarrow> bytes \<Rightarrow> bytes set" where
  "transition_messages sha k v l w =
     (let a = snd (acc_apply_transition sha \<lparr>accesses = [k], new_values = [v]\<rparr> new_accumulator);
          b = snd (acc_apply_transition sha \<lparr>accesses = [l], new_values = [w]\<rparr> a)
      in state_messages sha a \<union> state_messages sha b)"

lemma two_transitions_differ:
  assumes "digest32 sha" "wf_state_key k" "wf_state_key l" "[k \<mapsto> v, l \<mapsto> w] \<noteq> [k \<mapsto> v]"
  obtains a b where
    "acc_apply_transition sha \<lparr>accesses = [k], new_values = [v]\<rparr> new_accumulator = (Ok (acc_root a), a)"
    "acc_apply_transition sha \<lparr>accesses = [l], new_values = [w]\<rparr> a = (Ok (acc_root b), b)"
    "zero_bytes 32 \<noteq> acc_root a \<and> acc_root a \<noteq> acc_root b \<or>
     hash_accident sha [zero_bytes 32] (transition_messages sha k v l w)"
proof -
  obtain a b where step:
    "acc_apply_transition sha \<lparr>accesses = [k], new_values = [v]\<rparr> new_accumulator = (Ok (acc_root a), a)"
    "acc_apply_transition sha \<lparr>accesses = [l], new_values = [w]\<rparr> a = (Ok (acc_root b), b)"
    and ab: "acc_invar a" "contents a = [k \<mapsto> v]" "acc_root a = compute_reference_root sha (leaves a)"
    "acc_invar b" "contents b = [k \<mapsto> v, l \<mapsto> w]" "acc_root b = compute_reference_root sha (leaves b)"
    by (rule two_transitions [OF assms(2,3), of sha v w])
  have msgs: "transition_messages sha k v l w = state_messages sha a \<union> state_messages sha b"
    by (simp add: transition_messages_def step)
  have "acc_root a \<noteq> acc_root b \<or> collision sha (state_messages sha a \<union> state_messages sha b)"
    using equal_roots_bind [OF assms(1) ab(1,4)] ab assms(4) by (auto simp: compute_reference_root_def)
  moreover have "zero_bytes 32 = acc_root a \<Longrightarrow> \<exists>m \<in> state_messages sha a. sha m = zero_bytes 32"
    using ab(3) by (auto simp: compute_reference_root_def state_messages_def)
  ultimately have "zero_bytes 32 \<noteq> acc_root a \<and> acc_root a \<noteq> acc_root b \<or>
      hash_accident sha [zero_bytes 32] (transition_messages sha k v l w)"
    by (cases "zero_bytes 32 = acc_root a") (auto simp: hash_accident_def msgs)
  then show ?thesis by (rule that [OF step])
qed

lemma acc_root_new [simp]: "acc_root new_accumulator = zero_bytes 32"
  by (simp add: new_accumulator_def)

lemma root_change_test:
  assumes "digest32 sha"
  shows "in_memory_accumulator_reference_root_changes_with_transition_contents sha = Ok () \<or>
    hash_accident sha [zero_bytes 32]
      (transition_messages sha (CodeChunk (replicate 20 0x44) 7) [9, 9] (CodeChunk (replicate 20 0x44) 7) [9, 9, 9])"
  by (rule two_transitions_differ [of sha "CodeChunk (replicate 20 0x44) 7" "CodeChunk (replicate 20 0x44) 7"
        "[9, 9]" "[9, 9, 9]"])
     (use assms in \<open>auto simp: in_memory_accumulator_reference_root_changes_with_transition_contents_def Let_def fun_eq_iff\<close>)

lemma sequential_applier_test:
  assumes "digest32 sha"
  shows "reference_state_applier_applies_canonical_transitions_sequentially sha = Ok () \<or>
    hash_accident sha [zero_bytes 32]
      (transition_messages sha (AccountHeader (replicate 20 0x42)) [1, 2, 3]
        (StorageSlot (replicate 20 0x42) (replicate 32 0x07)) [4, 5, 6])"
  by (rule two_transitions_differ [of sha "AccountHeader (replicate 20 0x42)"
        "StorageSlot (replicate 20 0x42) (replicate 32 0x07)" "[1, 2, 3]" "[4, 5, 6]"])
     (use assms in \<open>auto simp: reference_state_applier_applies_canonical_transitions_sequentially_def Let_def
        applier_apply_transition_def new_applier_def applier_state_root_def fun_eq_iff\<close>)

section \<open>shell-execution\<close>

record StubExecutionStateView =
  stub_root :: Root

definition stub_metadata :: "StubExecutionStateView \<Rightarrow> StateMetadata" where
  "stub_metadata view = \<lparr>account_nonce = (\<lambda>_. Some 9), account_balance = (\<lambda>_. Some (U256 (replicate 32 7)))\<rparr>"

definition execution_state_view_trait_is_object_safe :: "unit panics" where
  "execution_state_view_trait_is_object_safe =
     (let view = \<lparr>stub_root = replicate 32 3\<rparr>; address = replicate 20 0xAA in
      asserts [stub_root view = replicate 32 3, account_nonce (stub_metadata view) address = Some 9,
        account_balance (stub_metadata view) address = Some (U256 (replicate 32 7))])"

definition StubTransactionExecutor :: "hash_fun \<Rightarrow> unit transaction_executor" where
  "StubTransactionExecutor sha pre_state_root transaction =
     lift_result (
       bind_result (map_err TransactionRoot (envelope_hash_tree_root sha transaction)) (\<lambda>transaction_root.
       bind_result (index_at pre_state_root 0) (\<lambda>p0.
       bind_result (index_at transaction_root 0) (\<lambda>t0.
       let marker = xor p0 t0 in
       bind_result (index_at transaction_root 1) (\<lambda>t1.
       bind_result (index_at transaction_root 2) (\<lambda>t2.
       Ok \<lparr>plan_state_patch = \<lparr>accesses = [RawTreeKey transaction_root], new_values = [[marker, t1]]\<rparr>,
           plan_receipt = \<lparr>status_code = 1, receipt_output = [marker, t2]\<rparr>\<rparr>))))))"

definition stub_entry :: "bytes list \<Rightarrow> nat \<times> StateKey \<Rightarrow> (bytes, StateError) result" where
  "stub_entry values = (\<lambda>(index, key).
     let encoded_key = encode_state_key key in
     bind_result (index_at values index) (\<lambda>new_value.
     Ok (u64_to_be_bytes (usize_as_u64 index)
       @ u64_to_be_bytes (usize_as_u64 (length (as_slice encoded_key))) @ as_slice encoded_key
       @ u64_to_be_bytes (usize_as_u64 (length new_value)) @ new_value)))"

definition StubStateTransitionApplier :: "hash_fun \<Rightarrow> unit state_applier" where
  "StubStateTransitionApplier sha pre_state_root patch =
     lift_result (
       bind_result (collect_results (stub_entry (new_values patch)) (enumerate 0 (accesses patch))) (\<lambda>entries.
       Ok \<lparr>post_state_root =
         sha (ascii ''shell-execution/test-transition-v1'' @ pre_state_root @ concat entries)\<rparr>))"

definition numbered_transaction :: "u64 \<Rightarrow> TransactionEnvelope" where
  "numbered_transaction nonce =
     \<lparr>env_payload = TransactionPayloadSsz (Basic (default_basic_payload
        \<lparr>basic_nonce := nonce, basic_gas_limit := 21000 + nonce\<rparr>)),
      env_authorizations = []\<rparr>"

definition stub_block :: "hash_fun \<Rightarrow> TransactionEnvelope list \<Rightarrow> (BlockExecutionOutcome, ExecutionError) result" where
  "stub_block sha transactions =
     fst (execute_block sha (zero_bytes 32) transactions (StubTransactionExecutor sha) (StubStateTransitionApplier sha) ())"

definition block_execution_is_deterministic_for_identical_inputs :: "hash_fun \<Rightarrow> unit panics" where
  "block_execution_is_deterministic_for_identical_inputs sha =
     (let transactions = [numbered_transaction 1, numbered_transaction 2] in
      bind_result (expect_ok (stub_block sha transactions)) (\<lambda>first.
      bind_result (expect_ok (stub_block sha transactions)) (\<lambda>second.
      asserts [first = second])))"

definition block_execution_preserves_block_order :: "hash_fun \<Rightarrow> unit panics" where
  "block_execution_preserves_block_order sha =
     (let first = numbered_transaction 1; second = numbered_transaction 2 in
      bind_result (expect_ok (stub_block sha [first, second])) (\<lambda>ordered.
      bind_result (expect_ok (stub_block sha [second, first])) (\<lambda>reversed.
      asserts [block_receipts_root ordered \<noteq> block_receipts_root reversed,
        block_post_state_root ordered \<noteq> block_post_state_root reversed])))"

definition execution_outcome_compares_against_committed_roots :: "hash_fun \<Rightarrow> unit panics" where
  "execution_outcome_compares_against_committed_roots sha =
     bind_result (expect_ok (stub_block sha [numbered_transaction 7])) (\<lambda>outcome.
     bind_result (expect_ok (ensure_matches outcome
       \<lparr>committed_state_root = block_post_state_root outcome,
        committed_receipts_root = block_receipts_root outcome\<rparr>)) (\<lambda>_.
     bind_result (expect_err (ensure_matches outcome
       \<lparr>committed_state_root = replicate 32 0xFF, committed_receipts_root = block_receipts_root outcome\<rparr>)) (\<lambda>err.
     asserts [err = PostStateRootMismatch (replicate 32 0xFF) (block_post_state_root outcome)])))"

definition stub_applier_beside :: "hash_fun \<Rightarrow> 'w state_applier" where
  "stub_applier_beside sha pre patch w = (fst (StubStateTransitionApplier sha pre patch ()), w)"

definition documented_step :: "hash_fun \<Rightarrow> TransactionEnvelope \<Rightarrow> PlannedTransaction panics" where
  "documented_step sha transaction =
     bind_result (expect_ok (envelope_hash_tree_root sha transaction)) (\<lambda>transaction_root.
     bind_result (index_at transaction_root 0) (\<lambda>t0.
     bind_result (index_at transaction_root 1) (\<lambda>t1.
     bind_result (index_at transaction_root 2) (\<lambda>t2.
     bind_result (index_at transaction_root 3) (\<lambda>t3.
     Ok \<lparr>planned_transaction_root = transaction_root,
         planned_plan =
           \<lparr>plan_state_patch = \<lparr>accesses = [RawTreeKey transaction_root], new_values = [[t0, t1]]\<rparr>,
            plan_receipt = \<lparr>status_code = 7, receipt_output = [t2, t3]\<rparr>\<rparr>\<rparr>)))))"

definition planned_executor_replays_documented_scenarios_deterministically :: "hash_fun \<Rightarrow> unit panics" where
  "planned_executor_replays_documented_scenarios_deterministically sha =
     (let transactions = [numbered_transaction 3, numbered_transaction 4] in
      bind_result (collect_results (documented_step sha) transactions) (\<lambda>planned.
      case execute_block sha (replicate 32 9) transactions (planned_execute_transaction sha)
             (stub_applier_beside sha) (new_planned planned) of
        (r1, first_planner) \<Rightarrow>
          bind_result (expect_ok r1) (\<lambda>first.
          case execute_block sha (replicate 32 9) transactions (planned_execute_transaction sha)
                 (stub_applier_beside sha) (new_planned planned) of
            (r2, second_planner) \<Rightarrow>
              bind_result (expect_ok r2) (\<lambda>second.
              asserts [first = second, is_exhausted first_planner, is_exhausted second_planner]))))"

definition raw_step :: "hash_fun \<Rightarrow> TransactionEnvelope \<Rightarrow> u8 \<Rightarrow> PlannedTransaction panics" where
  "raw_step sha transaction n =
     expect_ok (from_transaction sha transaction
       \<lparr>plan_state_patch = \<lparr>accesses = [RawTreeKey (replicate 32 n)], new_values = [[n]]\<rparr>,
        plan_receipt = \<lparr>status_code = 1, receipt_output = [n]\<rparr>\<rparr>)"

definition planned_executor_rejects_out_of_order_transactions :: "hash_fun \<Rightarrow> unit panics" where
  "planned_executor_rejects_out_of_order_transactions sha =
     (let first = numbered_transaction 11; second = numbered_transaction 12 in
      bind_result (raw_step sha first 1) (\<lambda>step1.
      bind_result (raw_step sha second 2) (\<lambda>step2.
      bind_result (expect_err (fst (execute_block sha (zero_bytes 32) [second, first]
        (planned_execute_transaction sha) (stub_applier_beside sha) (new_planned [step1, step2])))) (\<lambda>err.
      asserts [err = Executor ''planned transaction root mismatch'']))))"

definition planned_executor_reports_unconsumed_steps :: "hash_fun \<Rightarrow> unit panics" where
  "planned_executor_reports_unconsumed_steps sha =
     bind_result (raw_step sha (numbered_transaction 21) 3) (\<lambda>step.
     asserts [ensure_exhausted (new_planned [step]) = Err (Executor ''unconsumed planned transaction steps'')])"

definition execution_tests :: "hash_fun \<Rightarrow> (string \<times> unit panics) list" where
  "execution_tests sha =
     [(''execution_state_view_trait_is_object_safe'', execution_state_view_trait_is_object_safe),
      (''block_execution_is_deterministic_for_identical_inputs'',
        block_execution_is_deterministic_for_identical_inputs sha),
      (''planned_executor_replays_documented_scenarios_deterministically'',
        planned_executor_replays_documented_scenarios_deterministically sha),
      (''planned_executor_reports_unconsumed_steps'', planned_executor_reports_unconsumed_steps sha)]"

lemma wf_numbered_transaction [simp]: "wf_envelope (numbered_transaction n)"
  using wf_default(3) by (simp add: wf_envelope_def numbered_transaction_def wf_basic_def)

lemma numbered_within_limits [simp]: "envelope_within_limits (numbered_transaction n)"
  by (simp add: envelope_within_limits_def within_limits_def numbered_transaction_def default_basic_payload_def)

lemma numbered_transaction_inject [simp]: "numbered_transaction m = numbered_transaction n \<longleftrightarrow> m = n"
  by (auto simp: numbered_transaction_def default_basic_payload_def)

lemma length_tx_root: "digest32 sha \<Longrightarrow> wf_envelope e \<Longrightarrow> length (tx_root sha e) = 32"
  by (simp add: tx_root_def length_tree_root wf_envelope_tree)

lemma tx_root_nonempty: "digest32 sha \<Longrightarrow> wf_envelope e \<Longrightarrow> tx_root sha e \<noteq> []"
  using length_tx_root by fastforce

text \<open>What the stubs compute when transaction roots are 32 bytes long.\<close>

definition stub_plan :: "hash_fun \<Rightarrow> Root \<Rightarrow> TransactionEnvelope \<Rightarrow> TransactionExecutionPlan" where
  "stub_plan sha pre e =
     (let root = tx_root sha e; marker = xor (pre ! 0) (root ! 0) in
      \<lparr>plan_state_patch = \<lparr>accesses = [RawTreeKey root], new_values = [[marker, root ! 1]]\<rparr>,
       plan_receipt = \<lparr>status_code = 1, receipt_output = [marker, root ! 2]\<rparr>\<rparr>)"

definition stub_message :: "Root \<Rightarrow> StateKey \<Rightarrow> bytes \<Rightarrow> bytes" where
  "stub_message pre k v =
     ascii ''shell-execution/test-transition-v1'' @ pre @ u64_to_be_bytes 0
       @ u64_to_be_bytes (usize_as_u64 (length (as_slice (encode_state_key k)))) @ as_slice (encode_state_key k)
       @ u64_to_be_bytes (usize_as_u64 (length v)) @ v"

definition stub_plan_message :: "hash_fun \<Rightarrow> Root \<Rightarrow> TransactionEnvelope \<Rightarrow> bytes" where
  "stub_plan_message sha pre e =
     stub_message pre (RawTreeKey (tx_root sha e)) [xor (pre ! 0) (tx_root sha e ! 0), tx_root sha e ! 1]"

lemma stub_applier_Ok [simp]:
  "StubStateTransitionApplier sha pre \<lparr>accesses = [k], new_values = [v]\<rparr> w =
     (Ok \<lparr>post_state_root = sha (stub_message pre k v)\<rparr>, w)"
  by (simp add: StubStateTransitionApplier_def stub_entry_def stub_message_def enumerate_eq_zip index_at_def Let_def
      usize_as_u64_def)

lemma stub_executor_Ok:
  "digest32 sha \<Longrightarrow> wf_envelope e \<Longrightarrow> length pre = 32 \<Longrightarrow>
   StubTransactionExecutor sha pre e w = (Ok (stub_plan sha pre e), w)"
  by (simp add: StubTransactionExecutor_def stub_plan_def index_at_def length_tx_root tx_root_nonempty Let_def)

text \<open>A block of one transaction and a block of two, run by the stubs.\<close>

lemma stub_blocks:
  assumes "digest32 sha" "wf_envelope e" "wf_envelope f"
  defines "p \<equiv> sha (stub_plan_message sha (zero_bytes 32) e)"
  shows "\<exists>os. stub_block sha [e] = Ok \<lparr>block_post_state_root = p,
      block_receipts_root = compute_receipts_root sha [plan_receipt (stub_plan sha (zero_bytes 32) e)],
      transaction_outcomes = os\<rparr>"
    and "\<exists>os. stub_block sha [e, f] = Ok \<lparr>block_post_state_root = sha (stub_plan_message sha p f),
      block_receipts_root = compute_receipts_root sha
        [plan_receipt (stub_plan sha (zero_bytes 32) e), plan_receipt (stub_plan sha p f)],
      transaction_outcomes = os\<rparr>"
proof -
  have patch: "plan_state_patch (stub_plan sha pre x) =
      \<lparr>accesses = [RawTreeKey (tx_root sha x)], new_values = [[xor (pre ! 0) (tx_root sha x ! 0), tx_root sha x ! 1]]\<rparr>"
    for pre x by (simp add: stub_plan_def Let_def)
  have len: "length (sha m) = 32" for m using assms(1) by (simp add: digest32_def)
  note facts = stub_block_def execute_block_def bind_action.simps map_err_action_def patch Let_def
    stub_executor_Ok [OF assms(1)] stub_plan_message_def len
  show "\<exists>os. stub_block sha [e] = Ok \<lparr>block_post_state_root = p,
      block_receipts_root = compute_receipts_root sha [plan_receipt (stub_plan sha (zero_bytes 32) e)],
      transaction_outcomes = os\<rparr>"
    using assms(2) by (simp add: p_def facts)
  show "\<exists>os. stub_block sha [e, f] = Ok \<lparr>block_post_state_root = sha (stub_plan_message sha p f),
      block_receipts_root = compute_receipts_root sha
        [plan_receipt (stub_plan sha (zero_bytes 32) e), plan_receipt (stub_plan sha p f)],
      transaction_outcomes = os\<rparr>"
    using assms(2,3) by (simp add: p_def facts)
qed

lemma deterministic_test:
  "digest32 sha \<Longrightarrow> block_execution_is_deterministic_for_identical_inputs sha = Ok ()"
  using stub_blocks(2) [of sha "numbered_transaction 1" "numbered_transaction 2"]
  by (auto simp: block_execution_is_deterministic_for_identical_inputs_def)

lemma replay_test:
  assumes "digest32 sha"
  shows "planned_executor_replays_documented_scenarios_deterministically sha = Ok ()"
  using length_tx_root [OF assms] tx_root_nonempty [OF assms]
  by (simp add: planned_executor_replays_documented_scenarios_deterministically_def documented_step_def
      execute_block_def bind_action.simps map_err_action_def planned_execute_transaction_def new_planned_def
      stub_applier_beside_def is_exhausted_def index_at_def Let_def)

lemma execution_tests_pass: "digest32 sha \<Longrightarrow> all_pass (execution_tests sha)"
  by (simp add: execution_tests_def deterministic_test replay_test planned_executor_reports_unconsumed_steps_def
      raw_step_def from_transaction_def ensure_exhausted_def is_exhausted_def new_planned_def
      execution_state_view_trait_is_object_safe_def stub_metadata_def Let_def)

text \<open>The tests that depend on the hash function.\<close>

definition tree_collision :: "hash_fun \<Rightarrow> hash_tree \<Rightarrow> hash_tree \<Rightarrow> bool" where
  "tree_collision sha s t \<longleftrightarrow> collision sha (tree_messages sha s \<union> tree_messages sha t)"

lemma numbered_roots_differ:
  assumes "digest32 sha" "m \<noteq> n"
  shows "tx_root sha (numbered_transaction m) \<noteq> tx_root sha (numbered_transaction n) \<or>
    collision sha (tree_messages sha (envelope_tree (numbered_transaction m)) \<union>
      tree_messages sha (envelope_tree (numbered_transaction n)))"
  using assms tree_root_binding [of sha "envelope_tree (numbered_transaction m)" "envelope_tree (numbered_transaction n)"]
    envelope_tree_agree [of sha "numbered_transaction m" "numbered_transaction n"]
  by (auto simp: tx_root_def wf_envelope_tree)

lemma committed_roots_test:
  assumes "digest32 sha"
  shows "execution_outcome_compares_against_committed_roots sha = Ok () \<or>
    hash_accident sha [replicate 32 0xFF] {stub_plan_message sha (zero_bytes 32) (numbered_transaction 7)}"
  using stub_blocks(1) [of sha "numbered_transaction 7" "numbered_transaction 7"] assms
  by (auto simp: execution_outcome_compares_against_committed_roots_def ensure_matches_def hash_accident_def)

lemma out_of_order_test:
  assumes "digest32 sha"
  shows "planned_executor_rejects_out_of_order_transactions sha = Ok () \<or>
    tree_collision sha (envelope_tree (numbered_transaction 12)) (envelope_tree (numbered_transaction 11))"
  using numbered_roots_differ [OF assms, of 12 11]
  by (auto simp: tree_collision_def planned_executor_rejects_out_of_order_transactions_def raw_step_def from_transaction_def
      execute_block_def bind_action.simps planned_execute_transaction_def new_planned_def)

definition order_receipts :: "hash_fun \<Rightarrow> TransactionEnvelope \<Rightarrow> TransactionEnvelope \<Rightarrow> ExecutionReceipt list" where
  "order_receipts sha e f =
     [plan_receipt (stub_plan sha (zero_bytes 32) e),
      plan_receipt (stub_plan sha (sha (stub_plan_message sha (zero_bytes 32) e)) f)]"

definition order_post_message :: "hash_fun \<Rightarrow> TransactionEnvelope \<Rightarrow> TransactionEnvelope \<Rightarrow> bytes" where
  "order_post_message sha e f = stub_plan_message sha (sha (stub_plan_message sha (zero_bytes 32) e)) f"

definition order_messages :: "hash_fun \<Rightarrow> TransactionEnvelope \<Rightarrow> TransactionEnvelope \<Rightarrow> bytes set" where
  "order_messages sha e f =
     insert (order_post_message sha e f)
       (tree_messages sha (envelope_tree e) \<union> receipts_messages sha (order_receipts sha e f))"

lemma stub_plan_message_inj:
  assumes "digest32 sha" "length p = 32" "length q = 32" "wf_envelope e" "wf_envelope f"
    "stub_plan_message sha p e = stub_plan_message sha q f"
  shows "tx_root sha e = tx_root sha f"
  using assms length_tx_root [OF assms(1)]
  by (simp add: stub_plan_message_def stub_message_def append_eq_same_length)

lemma order_test:
  assumes "digest32 sha"
  defines "e \<equiv> numbered_transaction 1" and "f \<equiv> numbered_transaction 2"
  shows "block_execution_preserves_block_order sha = Ok () \<or>
    collision sha (order_messages sha e f \<union> order_messages sha f e) \<or>
    (tx_root sha e ! 0 = tx_root sha f ! 0 \<and> tx_root sha e ! 2 = tx_root sha f ! 2)"
proof (cases "collision sha (order_messages sha e f \<union> order_messages sha f e)")
  case False
  have none: "\<not> collision sha M" if "M \<subseteq> order_messages sha e f \<union> order_messages sha f e" for M
    using False that collision_mono by blast
  have len: "length (sha m) = 32" for m using assms(1) by (simp add: digest32_def)
  have "tx_root sha e \<noteq> tx_root sha f"
    using numbered_roots_differ [OF assms(1), of 1 2]
      none [of "tree_messages sha (envelope_tree e) \<union> tree_messages sha (envelope_tree f)"]
    by (auto simp: e_def f_def order_messages_def)
  then have "order_post_message sha e f \<noteq> order_post_message sha f e"
    using stub_plan_message_inj [OF assms(1) len len, of f e] by (auto simp: order_post_message_def e_def f_def)
  then have post: "sha (order_post_message sha e f) \<noteq> sha (order_post_message sha f e)"
    using False by (auto simp: collision_def order_messages_def)
  have receipts: "compute_receipts_root sha (order_receipts sha e f) \<noteq> compute_receipts_root sha (order_receipts sha f e)"
    if "order_receipts sha e f \<noteq> order_receipts sha f e"
    using that receipts_root_binding [OF assms(1)]
      none [of "receipts_messages sha (order_receipts sha e f) \<union> receipts_messages sha (order_receipts sha f e)"]
    by (auto simp: order_messages_def)
  have "tx_root sha e ! 0 = tx_root sha f ! 0 \<and> tx_root sha e ! 2 = tx_root sha f ! 2"
    if "order_receipts sha e f = order_receipts sha f e"
  proof -
    from that have "receipt_output (hd (order_receipts sha e f)) = receipt_output (hd (order_receipts sha f e))"
      by (rule arg_cong)
    then show ?thesis by (simp add: order_receipts_def stub_plan_def Let_def zero_bytes_def)
  qed
  moreover obtain os os' where
    "stub_block sha [e, f] = Ok \<lparr>block_post_state_root = sha (order_post_message sha e f),
      block_receipts_root = compute_receipts_root sha (order_receipts sha e f), transaction_outcomes = os\<rparr>"
    "stub_block sha [f, e] = Ok \<lparr>block_post_state_root = sha (order_post_message sha f e),
      block_receipts_root = compute_receipts_root sha (order_receipts sha f e), transaction_outcomes = os'\<rparr>"
    using stub_blocks(2) [OF assms(1), of e f] stub_blocks(2) [OF assms(1), of f e]
    unfolding order_post_message_def order_receipts_def e_def f_def by (meson wf_numbered_transaction)
  ultimately show ?thesis
    using post receipts unfolding block_execution_preserves_block_order_def Let_def e_def [symmetric] f_def [symmetric]
    by (cases "order_receipts sha e f = order_receipts sha f e") simp_all
qed simp

section \<open>shell-fixtures\<close>

text \<open>
  The two loader tests read every vector of a directory: the paths and the deserializing
  \<open>load_fixture\<close> are parameters, a path being given by its file stem.
\<close>

definition check_loaded_scenario :: "LoadedRootCheckScenario \<Rightarrow> unit panics" where
  "check_loaded_scenario loaded =
     (let fixture = loaded_fixture loaded; scenario = loaded_scenario loaded; header = sc_header scenario in
      bind_result (parse_root (rv_transactions_root fixture)) (\<lambda>transactions_root.
      bind_result (asserts [sh_transactions_root header = transactions_root]) (\<lambda>_.
      bind_result (parse_root (rv_execution_witnesses_root fixture)) (\<lambda>execution_witnesses_root.
      bind_result (asserts [sh_execution_witnesses_root header = execution_witnesses_root]) (\<lambda>_.
      bind_result (parse_root (rv_state_root fixture)) (\<lambda>state_root.
      bind_result (asserts [sh_state_root header = state_root]) (\<lambda>_.
      bind_result (parse_root (rv_receipts_root fixture)) (\<lambda>receipts_root.
      asserts [sh_receipts_root header = receipts_root,
        length (sc_steps scenario) = length (sc_transactions scenario)]))))))))"

definition shared_root_check_loader_materializes_canonical_scenarios ::
  "hash_fun \<Rightarrow> (string \<Rightarrow> TransactionVector panics) \<Rightarrow> (string \<Rightarrow> WitnessVector panics) \<Rightarrow>
   ('path \<Rightarrow> RootCheckVector panics) \<Rightarrow> 'path list \<Rightarrow> unit panics" where
  "shared_root_check_loader_materializes_canonical_scenarios sha load_tx load_wit load_fixture paths =
     bind_result (asserts [paths \<noteq> []]) (\<lambda>_.
     for_each (\<lambda>path.
       bind_result (load_root_check_scenario sha load_tx load_wit load_fixture path) check_loaded_scenario) paths)"

text \<open>The assertions of the loader test are consequences of loading: the test passes when the loader does.\<close>

lemma check_loaded_scenario_passes:
  "load_root_check_scenario sha load_tx load_wit load_fixture path = Ok loaded \<Longrightarrow> check_loaded_scenario loaded = Ok ()"
  by (simp add: check_loaded_scenario_def loaded_scenario_roots Let_def)

lemma loader_test_exact:
  "shared_root_check_loader_materializes_canonical_scenarios sha load_tx load_wit load_fixture paths = Ok () \<longleftrightarrow>
     paths \<noteq> [] \<and> (\<forall>path \<in> set paths. \<exists>loaded. load_root_check_scenario sha load_tx load_wit load_fixture path = Ok loaded)"
  by (auto simp: shared_root_check_loader_materializes_canonical_scenarios_def result_simps
      dest: check_loaded_scenario_passes intro: check_loaded_scenario_passes)

definition check_semantics_vector :: "hash_fun \<Rightarrow> string \<Rightarrow> ExecutionSemanticsVector \<Rightarrow> unit panics" where
  "check_semantics_vector sha file_stem fixture =
     bind_result (semantics_materialized_state fixture) (\<lambda>entries.
     bind_result (materialize_root_check_accumulator sha entries) (\<lambda>accumulator.
     bind_result (asserts [file_stem = esv_id fixture, esv_category fixture = ''execution-semantics'',
       esv_owned_by fixture = ''shell-execution'', \<not> is_blank (esv_description fixture)]) (\<lambda>_.
     bind_result (parse_root (esv_pre_state_root fixture)) (\<lambda>pre_state_root.
     asserts [acc_root accumulator = pre_state_root,
       esi_transaction_vector_ids (esv_input fixture) =
         map es_transaction_vector_id (esi_steps (esv_input fixture))]))))"

definition execution_semantics_vectors_bind_materialized_pre_state_roots ::
  "hash_fun \<Rightarrow> (string \<Rightarrow> ExecutionSemanticsVector panics) \<Rightarrow> string list \<Rightarrow> unit panics" where
  "execution_semantics_vectors_bind_materialized_pre_state_roots sha load_fixture paths =
     bind_result (asserts [paths \<noteq> []]) (\<lambda>_.
     for_each (\<lambda>path. bind_result (load_fixture path) (check_semantics_vector sha path)) paths)"

text \<open>A vector that passes declares the root of an accumulator that holds exactly its listed entries.\<close>

lemma semantics_test_binds:
  assumes "check_semantics_vector sha file_stem fixture = Ok ()"
  shows "\<exists>entries acc. semantics_materialized_state fixture = Ok entries \<and> acc_invar acc \<and>
    contents acc = map_of entries \<and> sorted_wrt (<) (map (encode_state_key \<circ> fst) entries) \<and>
    parse_root (esv_pre_state_root fixture) = Ok (acc_root acc)"
proof -
  from assms obtain entries acc where entries: "semantics_materialized_state fixture = Ok entries"
    and acc: "materialize_root_check_accumulator sha entries = Ok acc"
    and root: "parse_root (esv_pre_state_root fixture) = Ok (acc_root acc)"
    by (auto simp: check_semantics_vector_def result_simps(1-2))
  have "\<forall>e \<in> set entries. wf_state_key (fst e)"
  proof
    fix e assume "e \<in> set entries"
    then obtain f where "to_entry f = Ok e"
      using entries by (auto simp: semantics_materialized_state_def collect_results_Ok_iff list_all2_conv_all_nth
          in_set_conv_nth)
    then show "wf_state_key (fst e)" by (rule to_entry_wf)
  qed
  from materialize_Ok [OF acc this] entries root show ?thesis by blast
qed

end
