(* ===== verification/Tests_Primitives.thy ===== *)
theory Tests_Primitives
  imports Tests_Core
begin

text \<open>
  The unit tests of \<^verbatim>\<open>crates/shell-primitives/src/lib.rs\<close>: tags, padding, signing domains, state keys,
  wire round trips and malformed wire bytes, roots, and the closed-rule checks. The ones that assert
  that two roots differ are proved up to a collision among the hashed messages.
\<close>

section \<open>Structure\<close>

definition DOMAIN_TYPE_WIDTH :: usize where
  "DOMAIN_TYPE_WIDTH = 4"

definition default_authorization :: Authorization where
  "default_authorization = \<lparr>auth_scheme_id = 0, auth_payload_root = zero_bytes 32, auth_signature = []\<rparr>"

definition default_basic :: TransactionPayloadSsz where
  "default_basic = TransactionPayloadSsz (Basic default_basic_payload)"

definition default_create :: TransactionPayloadSsz where
  "default_create = TransactionPayloadSsz (Create default_create_payload)"

definition transaction_payload_tags_match_the_current_spec :: "unit panics" where
  "transaction_payload_tags_match_the_current_spec =
     asserts [protocol_tag default_basic = TAG_BASIC, protocol_tag default_create = TAG_CREATE]"

definition address_canonicalization_left_pads_to_bytes32 :: "unit panics" where
  "address_canonicalization_left_pads_to_bytes32 =
     (let address = replicate 20 0x11; key = canonicalize_execution_address address in
      asserts [take 12 key = replicate 12 0, drop 12 key = address])"

definition transaction_domain_tag_is_frozen_to_four_bytes :: "unit panics" where
  "transaction_domain_tag_is_frozen_to_four_bytes =
     bind_result (expect_ok (build_signing_data (zero_bytes 32) TransactionAuthorizationDomainSelector)) (\<lambda>signing_data.
     asserts [domain_type signing_data = DOMAIN_TX_SHELL, DOMAIN_TYPE_WIDTH = 4])"

definition state_key_sorting_uses_shared_canonical_bytes :: "unit panics" where
  "state_key_sorting_uses_shared_canonical_bytes =
     (let account = AccountHeader (replicate 20 0x11); raw = RawTreeKey (replicate 32 0x22) in
      bind_result (index_at (as_slice (encode_state_key account)) 0) (\<lambda>account_tag.
      bind_result (index_at (as_slice (encode_state_key raw)) 0) (\<lambda>raw_tag.
      asserts [account_tag = 0, raw_tag = 3, compare_state_keys account raw = Less,
        canonical_sort_key account = as_slice (encode_state_key account)])))"

definition StubProposerCredentialResolver ::
  "ProposerCredentialQuery \<Rightarrow> (ProposerCredential, ProposerCredentialResolutionError) result" where
  "StubProposerCredentialResolver query =
     Ok \<lparr>cred_scheme_id = 7, cred_public_key_material = replicate 32 0xAB\<rparr>"

definition proposer_credential_resolver_trait_is_object_safe :: "unit panics" where
  "proposer_credential_resolver_trait_is_object_safe =
     bind_result (expect_ok (StubProposerCredentialResolver
       \<lparr>query_block_root = replicate 32 0xCD, query_proposer_index_hint = Some 3\<rparr>)) (\<lambda>credential.
     asserts [cred_scheme_id credential = 7, length (cred_public_key_material credential) = 32])"

section \<open>Wire encoding\<close>

definition basic_payload_round_trips_through_wire_encoding :: "unit panics" where
  "basic_payload_round_trips_through_wire_encoding =
     (let original = TransactionPayloadSsz (Basic (default_basic_payload\<lparr>basic_nonce := 42, basic_gas_limit := 21000\<rparr>)) in
      bind_result (expect_ok (encode_payload original)) (\<lambda>wire.
      bind_result (expect_ok (decode_payload wire)) (\<lambda>decoded.
      asserts [original = decoded])))"

definition create_payload_round_trips_through_wire_encoding :: "unit panics" where
  "create_payload_round_trips_through_wire_encoding =
     (let original = TransactionPayloadSsz (Create (default_create_payload
            \<lparr>create_nonce := 1, create_gas_limit := 500000, create_initcode := [0x60, 0x00, 0x60, 0x00, 0x52]\<rparr>)) in
      bind_result (expect_ok (encode_payload original)) (\<lambda>wire.
      bind_result (expect_ok (decode_payload wire)) (\<lambda>decoded.
      asserts [original = decoded])))"

definition wire_encoding_first_byte_is_the_protocol_tag :: "unit panics" where
  "wire_encoding_first_byte_is_the_protocol_tag =
     bind_result (expect_ok (encode_payload default_basic)) (\<lambda>basic.
     bind_result (expect_ok (encode_payload default_create)) (\<lambda>create.
     bind_result (index_at basic 0) (\<lambda>basic_tag.
     bind_result (index_at create 0) (\<lambda>create_tag.
     asserts [basic_tag = TAG_BASIC, create_tag = TAG_CREATE]))))"

definition unknown_tag_in_wire_bytes_is_rejected :: "unit panics" where
  "unknown_tag_in_wire_bytes_is_rejected =
     bind_result (expect_ok (encode_payload default_basic)) (\<lambda>wire.
     bind_result (index_at wire 0) (\<lambda>_.
     let wire = wire[0 := 0xFF] in
     bind_result (expect_err (decode_payload wire)) (\<lambda>err.
     asserts [case err of UnsupportedPayloadVariant tag \<Rightarrow> tag = 0xFF | _ \<Rightarrow> False])))"

definition is_malformed :: "PrimitiveError \<Rightarrow> bool" where
  "is_malformed err = (case err of MalformedSsz _ \<Rightarrow> True | _ \<Rightarrow> False)"

definition empty_wire_bytes_are_rejected_as_malformed :: "unit panics" where
  "empty_wire_bytes_are_rejected_as_malformed =
     bind_result (expect_err (decode_payload [])) (\<lambda>err. asserts [is_malformed err])"

definition truncated_wire_bytes_are_rejected_as_malformed :: "unit panics" where
  "truncated_wire_bytes_are_rejected_as_malformed =
     bind_result (expect_err (decode_payload [TAG_BASIC, 0x00, 0x01])) (\<lambda>err. asserts [is_malformed err])"

definition authorization_round_trips_through_wire_encoding :: "unit panics" where
  "authorization_round_trips_through_wire_encoding =
     (let authorization = \<lparr>auth_scheme_id = 7, auth_payload_root = replicate 32 0xAB,
            auth_signature = [0xDE, 0xAD, 0xBE, 0xEF]\<rparr> in
      bind_result (expect_ok (encode_authorization authorization)) (\<lambda>wire.
      bind_result (expect_ok (decode_authorization wire)) (\<lambda>decoded.
      asserts [authorization = decoded])))"

definition envelope_round_trips_through_wire_encoding :: "hash_fun \<Rightarrow> unit panics" where
  "envelope_round_trips_through_wire_encoding sha =
     (let payload = TransactionPayloadSsz (Basic (default_basic_payload\<lparr>basic_nonce := 42, basic_gas_limit := 50000\<rparr>)) in
      bind_result (expect_ok (payload_hash_tree_root sha payload)) (\<lambda>payload_root.
      let envelope = \<lparr>env_payload = payload, env_authorizations =
            [\<lparr>auth_scheme_id = 1, auth_payload_root = payload_root, auth_signature = [0x11, 0x22]\<rparr>,
             \<lparr>auth_scheme_id = 2, auth_payload_root = payload_root, auth_signature = [0x33, 0x44, 0x55]\<rparr>]\<rparr> in
      bind_result (expect_ok (encode_envelope envelope)) (\<lambda>wire.
      bind_result (expect_ok (decode_envelope wire)) (\<lambda>decoded.
      asserts [envelope = decoded]))))"

section \<open>Roots\<close>

definition nonce_payload :: "u64 \<Rightarrow> TransactionPayloadSsz" where
  "nonce_payload nonce = TransactionPayloadSsz (Basic (default_basic_payload\<lparr>basic_nonce := nonce\<rparr>))"

definition hash_tree_root_is_deterministic :: "hash_fun \<Rightarrow> unit panics" where
  "hash_tree_root_is_deterministic sha =
     (let payload = TransactionPayloadSsz (Basic (default_basic_payload\<lparr>basic_nonce := 7, basic_gas_limit := 42000\<rparr>)) in
      bind_result (expect_ok (payload_hash_tree_root sha payload)) (\<lambda>root1.
      bind_result (expect_ok (payload_hash_tree_root sha payload)) (\<lambda>root2.
      asserts [root1 = root2])))"

definition payload_root_on_envelope_matches_payload_hash_tree_root :: "hash_fun \<Rightarrow> unit panics" where
  "payload_root_on_envelope_matches_payload_hash_tree_root sha =
     (let payload = nonce_payload 99; envelope = \<lparr>env_payload = payload, env_authorizations = []\<rparr> in
      bind_result (expect_ok (payload_hash_tree_root sha payload)) (\<lambda>root1.
      bind_result (expect_ok (payload_root sha envelope)) (\<lambda>root2.
      asserts [root1 = root2])))"

definition envelope_root_is_deterministic :: "hash_fun \<Rightarrow> unit panics" where
  "envelope_root_is_deterministic sha =
     (let payload = TransactionPayloadSsz (Create (default_create_payload\<lparr>create_nonce := 3, create_initcode := [0x60, 0x00]\<rparr>)) in
      bind_result (expect_ok (payload_hash_tree_root sha payload)) (\<lambda>payload_root.
      let envelope = \<lparr>env_payload = payload, env_authorizations =
            [\<lparr>auth_scheme_id = 9, auth_payload_root = payload_root, auth_signature = replicate 64 0x99\<rparr>]\<rparr> in
      bind_result (expect_ok (envelope_hash_tree_root sha envelope)) (\<lambda>root1.
      bind_result (expect_ok (envelope_hash_tree_root sha envelope)) (\<lambda>root2.
      asserts [root1 = root2]))))"

definition signing_data_hash_tree_root_is_deterministic :: "hash_fun \<Rightarrow> unit panics" where
  "signing_data_hash_tree_root_is_deterministic sha =
     (let sd = \<lparr>object_root = replicate 32 0xAB, domain_type = DOMAIN_TX_SHELL\<rparr> in
      bind_result (expect_ok (signing_root sha sd)) (\<lambda>root1.
      bind_result (expect_ok (signing_root sha sd)) (\<lambda>root2.
      asserts [root1 = root2])))"

section \<open>Closed-rule checks\<close>

definition empty_authorization_list_fails_count_check :: "unit panics" where
  "empty_authorization_list_fails_count_check =
     bind_result (expect_err (check_authorization_count [])) (\<lambda>err.
     asserts [case err of AuthorizationCount _ actual \<Rightarrow> actual = 0 | _ \<Rightarrow> False])"

definition non_empty_authorization_list_passes_count_check :: "unit panics" where
  "non_empty_authorization_list_passes_count_check =
     expect_ok (check_authorization_count [default_authorization])"

definition oversized_signature_is_rejected_on_user_path :: "unit panics" where
  "oversized_signature_is_rejected_on_user_path =
     (let sig = replicate (MAX_USER_SIGNATURE_BYTES + 1) 0 in
      bind_result (expect_err (check_user_signature_size sig)) (\<lambda>err.
      asserts [case err of PrimitiveError.SignatureSizeExceeded _ actual \<Rightarrow> actual = MAX_USER_SIGNATURE_BYTES + 1
        | _ \<Rightarrow> False]))"

definition signature_at_exact_max_size_is_accepted_on_user_path :: "unit panics" where
  "signature_at_exact_max_size_is_accepted_on_user_path =
     expect_ok (check_user_signature_size (replicate MAX_USER_SIGNATURE_BYTES 0))"

definition mismatched_payload_root_in_authorization_is_rejected :: "hash_fun \<Rightarrow> unit panics" where
  "mismatched_payload_root_in_authorization_is_rejected sha =
     bind_result (expect_ok (payload_hash_tree_root sha default_basic)) (\<lambda>correct_root.
     bind_result (flip_first 0xFF correct_root) (\<lambda>wrong_root.
     let auth = default_authorization\<lparr>auth_payload_root := wrong_root\<rparr> in
     bind_result (expect_err (check_authorization_payload_roots sha default_basic [auth])) (\<lambda>err.
     asserts [case err of PayloadRootMismatch expected _ \<Rightarrow> expected = correct_root | _ \<Rightarrow> False])))"

definition matching_payload_root_in_authorization_passes_check :: "hash_fun \<Rightarrow> unit panics" where
  "matching_payload_root_in_authorization_passes_check sha =
     bind_result (expect_ok (payload_hash_tree_root sha default_basic)) (\<lambda>root.
     let auth = default_authorization\<lparr>auth_payload_root := root\<rparr> in
     expect_ok (check_authorization_payload_roots sha default_basic [auth]))"

section \<open>The suite\<close>

definition wire_tests :: "(string \<times> unit panics) list" where
  "wire_tests =
     [(''transaction_payload_tags_match_the_current_spec'', transaction_payload_tags_match_the_current_spec),
      (''address_canonicalization_left_pads_to_bytes32'', address_canonicalization_left_pads_to_bytes32),
      (''transaction_domain_tag_is_frozen_to_four_bytes'', transaction_domain_tag_is_frozen_to_four_bytes),
      (''state_key_sorting_uses_shared_canonical_bytes'', state_key_sorting_uses_shared_canonical_bytes),
      (''proposer_credential_resolver_trait_is_object_safe'', proposer_credential_resolver_trait_is_object_safe),
      (''wire_encoding_first_byte_is_the_protocol_tag'', wire_encoding_first_byte_is_the_protocol_tag),
      (''unknown_tag_in_wire_bytes_is_rejected'', unknown_tag_in_wire_bytes_is_rejected),
      (''empty_wire_bytes_are_rejected_as_malformed'', empty_wire_bytes_are_rejected_as_malformed),
      (''truncated_wire_bytes_are_rejected_as_malformed'', truncated_wire_bytes_are_rejected_as_malformed)]"

definition round_trip_tests :: "hash_fun \<Rightarrow> (string \<times> unit panics) list" where
  "round_trip_tests sha =
     [(''basic_payload_round_trips_through_wire_encoding'', basic_payload_round_trips_through_wire_encoding),
      (''create_payload_round_trips_through_wire_encoding'', create_payload_round_trips_through_wire_encoding),
      (''authorization_round_trips_through_wire_encoding'', authorization_round_trips_through_wire_encoding),
      (''envelope_round_trips_through_wire_encoding'', envelope_round_trips_through_wire_encoding sha)]"

definition root_tests :: "hash_fun \<Rightarrow> (string \<times> unit panics) list" where
  "root_tests sha =
     [(''hash_tree_root_is_deterministic'', hash_tree_root_is_deterministic sha),
      (''payload_root_on_envelope_matches_payload_hash_tree_root'',
        payload_root_on_envelope_matches_payload_hash_tree_root sha),
      (''envelope_root_is_deterministic'', envelope_root_is_deterministic sha),
      (''signing_data_hash_tree_root_is_deterministic'', signing_data_hash_tree_root_is_deterministic sha)]"

definition check_tests :: "hash_fun \<Rightarrow> (string \<times> unit panics) list" where
  "check_tests sha =
     [(''empty_authorization_list_fails_count_check'', empty_authorization_list_fails_count_check),
      (''non_empty_authorization_list_passes_count_check'', non_empty_authorization_list_passes_count_check),
      (''oversized_signature_is_rejected_on_user_path'', oversized_signature_is_rejected_on_user_path),
      (''signature_at_exact_max_size_is_accepted_on_user_path'', signature_at_exact_max_size_is_accepted_on_user_path),
      (''mismatched_payload_root_in_authorization_is_rejected'', mismatched_payload_root_in_authorization_is_rejected sha),
      (''matching_payload_root_in_authorization_passes_check'', matching_payload_root_in_authorization_passes_check sha)]"

lemma wire_tests_pass: "all_pass wire_tests"
  by code_simp

lemma payload_round_trip:
  assumes "wf_payload p"
  shows "bind_result (expect_ok (encode_payload p)) (\<lambda>wire.
    bind_result (expect_ok (decode_payload wire)) (\<lambda>decoded. asserts [p = decoded])) = Ok ()"
proof -
  obtain bs where "encode_payload p = Ok bs" by (simp add: encode_payload_def Let_def)
  with assms show ?thesis using decode_payload_Ok [of bs p] by simp
qed

lemma authorization_round_trip:
  assumes "wf_authorization a"
  shows "bind_result (expect_ok (encode_authorization a)) (\<lambda>wire.
    bind_result (expect_ok (decode_authorization wire)) (\<lambda>decoded. asserts [a = decoded])) = Ok ()"
  using assms decode_authorization_Ok [of "auth_bytes a" a] by (simp add: encode_authorization_bytes)

lemma envelope_encodes:
  assumes "length r = 32"
  shows "\<exists>bs. length bs < usize_bound \<and> encode_envelope \<lparr>env_payload = TransactionPayloadSsz (Basic
      (default_basic_payload\<lparr>basic_nonce := n, basic_gas_limit := g\<rparr>)), env_authorizations =
    [\<lparr>auth_scheme_id = 1, auth_payload_root = r, auth_signature = [0x11, 0x22]\<rparr>,
     \<lparr>auth_scheme_id = 2, auth_payload_root = r, auth_signature = [0x33, 0x44, 0x55]\<rparr>]\<rparr> = Ok bs"
  using assms
  by (simp add: encode_envelope_def encode_payload_def default_basic_payload_def default_fees_def
      default_gas_price_def encode_basic_def push_defs encode_authorization_list_def checked_mul_usize_def
      checked_add_usize_def usize_bound_def u32_try_from_def encode_authorization_eq fixed_size_defs Let_def)

lemma length_payload_root:
  "digest32 sha \<Longrightarrow> wf_payload p \<Longrightarrow> length (tree_root sha (payload_tree p)) = 32"
  by (simp add: length_tree_root wf_payload_tree)

lemma envelope_round_trip_test:
  assumes "digest32 sha"
  shows "envelope_round_trips_through_wire_encoding sha = Ok ()"
proof -
  let ?p = "TransactionPayloadSsz (Basic (default_basic_payload\<lparr>basic_nonce := 42, basic_gas_limit := 50000\<rparr>))"
  let ?r = "tree_root sha (payload_tree ?p)"
  let ?e = "\<lparr>env_payload = ?p, env_authorizations =
    [\<lparr>auth_scheme_id = 1, auth_payload_root = ?r, auth_signature = [0x11, 0x22]\<rparr>,
     \<lparr>auth_scheme_id = 2, auth_payload_root = ?r, auth_signature = [0x33, 0x44, 0x55]\<rparr>]\<rparr>"
  have wf: "wf_payload ?p" using wf_default(3) by (simp add: wf_basic_def)
  note r = length_payload_root [OF assms this]
  obtain bs where bs: "length bs < usize_bound" "encode_envelope ?e = Ok bs"
    using envelope_encodes [OF r] by blast
  have "decode_envelope bs = Ok ?e"
    using envelope_codec.decode_encode [OF _ bs(2,1)] wf r
    by (simp add: wf_envelope_def wf_authorization_def del: wf_payload.simps)
  with bs(2) show ?thesis
    by (simp add: envelope_round_trips_through_wire_encoding_def tree_root_payload Let_def
        del: payload_hash_tree_root.simps payload_tree.simps)
qed

lemma round_trip_tests_pass: "digest32 sha \<Longrightarrow> all_pass (round_trip_tests sha)"
  unfolding round_trip_tests_def basic_payload_round_trips_through_wire_encoding_def
    create_payload_round_trips_through_wire_encoding_def authorization_round_trips_through_wire_encoding_def Let_def
  using wf_default(3,4)
  by (simp add: payload_round_trip envelope_round_trip_test wf_basic_def wf_create_def
      authorization_round_trip wf_authorization_def)

lemma root_tests_pass: "all_pass (root_tests sha)"
  by (simp add: root_tests_def hash_tree_root_is_deterministic_def envelope_root_is_deterministic_def
      payload_root_on_envelope_matches_payload_hash_tree_root_def signing_data_hash_tree_root_is_deterministic_def
      payload_root_def tree_root_payload signing_root_def tree_root_signing_data Let_def
      del: payload_hash_tree_root.simps)

lemma flip_first_Ok: "r \<noteq> [] \<Longrightarrow> m \<noteq> 0 \<Longrightarrow> \<exists>r'. flip_first m r = Ok r' \<and> r' \<noteq> r"
proof (cases r)
  case (Cons b bs)
  have "xor b m = b \<Longrightarrow> m = 0" by (metis bit.xor_left_self bit.xor_self)
  with Cons show "m \<noteq> 0 \<Longrightarrow> \<exists>r'. flip_first m r = Ok r' \<and> r' \<noteq> r" by (auto simp: flip_first_def index_at_def)
qed simp

lemma mismatched_root_test:
  assumes "digest32 sha"
  shows "mismatched_payload_root_in_authorization_is_rejected sha = Ok ()"
proof -
  let ?r = "tree_root sha (payload_tree default_basic)"
  have "?r \<noteq> []"
    using length_payload_root [OF assms, of default_basic] by (fastforce simp: default_basic_def)
  then obtain r' where "flip_first 0xFF ?r = Ok r'" "r' \<noteq> ?r"
    using flip_first_Ok [of ?r "0xFF"] by auto
  then show ?thesis
    by (simp add: mismatched_payload_root_in_authorization_is_rejected_def tree_root_payload
        check_authorization_payload_roots_def Let_def)
qed

lemma check_tests_pass: "digest32 sha \<Longrightarrow> all_pass (check_tests sha)"
  by (simp add: check_tests_def empty_authorization_list_fails_count_check_def mismatched_root_test
      non_empty_authorization_list_passes_count_check_def oversized_signature_is_rejected_on_user_path_def
      signature_at_exact_max_size_is_accepted_on_user_path_def
      matching_payload_root_in_authorization_passes_check_def check_authorization_count_def
      check_user_signature_size_def check_authorization_payload_roots_def tree_root_payload Let_def)

section \<open>Tests that roots change\<close>

definition roots_differ :: "(Root, PrimitiveError) result \<Rightarrow> (Root, PrimitiveError) result \<Rightarrow> unit panics" where
  "roots_differ r s =
     bind_result (expect_ok r) (\<lambda>root1. bind_result (expect_ok s) (\<lambda>root2. asserts [root1 \<noteq> root2]))"

definition different_payload_variants_have_different_roots :: "hash_fun \<Rightarrow> unit panics" where
  "different_payload_variants_have_different_roots sha =
     roots_differ (payload_hash_tree_root sha default_basic) (payload_hash_tree_root sha default_create)"

definition hash_tree_root_changes_when_nonce_changes :: "hash_fun \<Rightarrow> unit panics" where
  "hash_tree_root_changes_when_nonce_changes sha =
     roots_differ (payload_hash_tree_root sha (nonce_payload 0)) (payload_hash_tree_root sha (nonce_payload 1))"

definition hash_tree_root_changes_when_input_bytes_change :: "hash_fun \<Rightarrow> unit panics" where
  "hash_tree_root_changes_when_input_bytes_change sha =
     roots_differ (payload_hash_tree_root sha (basic_with_input []))
       (payload_hash_tree_root sha (basic_with_input [0xDE, 0xAD]))"

definition signed_envelope :: "Root \<Rightarrow> bytes \<Rightarrow> TransactionEnvelope" where
  "signed_envelope root signature =
     \<lparr>env_payload = default_basic,
      env_authorizations = [\<lparr>auth_scheme_id = 3, auth_payload_root = root, auth_signature = signature\<rparr>]\<rparr>"

definition envelope_root_changes_when_authorization_signature_changes :: "hash_fun \<Rightarrow> unit panics" where
  "envelope_root_changes_when_authorization_signature_changes sha =
     bind_result (expect_ok (payload_hash_tree_root sha default_basic)) (\<lambda>payload_root.
     roots_differ (envelope_hash_tree_root sha (signed_envelope payload_root [0xAA]))
       (envelope_hash_tree_root sha (signed_envelope payload_root [0xAA, 0xBB])))"

definition signing_data_root_changes_when_object_root_changes :: "hash_fun \<Rightarrow> unit panics" where
  "signing_data_root_changes_when_object_root_changes sha =
     roots_differ (signing_root sha \<lparr>object_root = replicate 32 0x00, domain_type = DOMAIN_TX_SHELL\<rparr>)
       (signing_root sha \<lparr>object_root = replicate 32 0x01, domain_type = DOMAIN_TX_SHELL\<rparr>)"

definition signing_data_root_changes_when_domain_type_changes :: "hash_fun \<Rightarrow> unit panics" where
  "signing_data_root_changes_when_domain_type_changes sha =
     roots_differ (signing_root sha \<lparr>object_root = replicate 32 0xAB, domain_type = DOMAIN_TX_SHELL\<rparr>)
       (signing_root sha \<lparr>object_root = replicate 32 0xAB, domain_type = DOMAIN_VALIDATOR_MESSAGE\<rparr>)"

text \<open>Each test compares the roots of two different trees, and fails only by a collision in them.\<close>

lemma roots_differ_trees:
  assumes "digest32 sha" "wf_tree s" "wf_tree t" "\<not> agree sha s t"
  shows "roots_differ (Ok (tree_root sha s)) (Ok (tree_root sha t)) = Ok () \<or> tree_collision sha s t"
  using assms tree_root_binding [of sha s t] by (auto simp: roots_differ_def tree_collision_def)

lemma payload_roots_differ:
  assumes "digest32 sha" "wf_payload p" "wf_payload q" "within_limits p" "within_limits q" "p \<noteq> q"
  shows "roots_differ (payload_hash_tree_root sha p) (payload_hash_tree_root sha q) = Ok () \<or>
    tree_collision sha (payload_tree p) (payload_tree q)"
  unfolding tree_root_payload
  using assms by (intro roots_differ_trees) (auto simp: wf_payload_tree dest: payload_tree_agree)

lemma envelope_roots_differ:
  assumes "digest32 sha" "length r = 32" "s \<noteq> t" "length s \<le> MOCK_PROGRESSIVE_BYTE_LIST_LIMIT"
    "length t \<le> MOCK_PROGRESSIVE_BYTE_LIST_LIMIT"
  shows "roots_differ (envelope_hash_tree_root sha (signed_envelope r s))
      (envelope_hash_tree_root sha (signed_envelope r t)) = Ok () \<or>
    tree_collision sha (envelope_tree (signed_envelope r s)) (envelope_tree (signed_envelope r t))"
proof -
  have wf: "wf_envelope (signed_envelope r x)" for x
    using assms(2) by (simp add: signed_envelope_def wf_envelope_def default_basic_def wf_authorization_def)
  have limits: "envelope_within_limits (signed_envelope r x)" if "length x \<le> MOCK_PROGRESSIVE_BYTE_LIST_LIMIT" for x
    using that within_limits_default
    by (simp add: signed_envelope_def envelope_within_limits_def default_basic_def default_payload_def
        MOCK_PROGRESSIVE_LIST_LIMIT_def)
  have "signed_envelope r s \<noteq> signed_envelope r t" using assms(3) by (simp add: signed_envelope_def)
  with assms wf limits show ?thesis
    unfolding tree_root_envelope
    by (intro roots_differ_trees) (auto simp: wf_envelope_tree dest: envelope_tree_agree)
qed

lemma signing_roots_differ:
  assumes "digest32 sha" "length (object_root c) = 32" "length (object_root d) = 32"
    "length (domain_type c) = 4" "length (domain_type d) = 4" "c \<noteq> d"
  shows "roots_differ (signing_root sha c) (signing_root sha d) = Ok () \<or>
    tree_collision sha (signing_data_tree c) (signing_data_tree d)"
  unfolding signing_root_def tree_root_signing_data
  using assms
  by (intro roots_differ_trees)
     (auto simp: signing_data_tree_def copy_into_zero_front zero_bytes_def)

lemma distinct_payloads:
  "default_basic \<noteq> default_create" "nonce_payload 0 \<noteq> nonce_payload 1"
  "basic_with_input [] \<noteq> basic_with_input [0xDE, 0xAD]"
  by (simp_all add: default_basic_def default_create_def nonce_payload_def default_basic_payload_def basic_with_input_def)

lemma root_change_payloads [simp]:
  "wf_payload default_basic" "wf_payload default_create" "wf_payload (nonce_payload n)" "wf_payload (basic_with_input bs)"
  "within_limits default_basic" "within_limits default_create" "within_limits (nonce_payload n)"
  "within_limits (basic_with_input [])" "within_limits (basic_with_input [0xDE, 0xAD])"
  using wf_default within_limits_default within_limits_default_create
  by (simp_all add: default_basic_def default_create_def nonce_payload_def basic_with_input_def default_payload_def
      wf_basic_def within_limits_def MOCK_PROGRESSIVE_BYTE_LIST_LIMIT_def)

lemma primitives_root_change:
  assumes "digest32 sha"
  shows "different_payload_variants_have_different_roots sha = Ok () \<or>
      tree_collision sha (payload_tree default_basic) (payload_tree default_create)"
    and "hash_tree_root_changes_when_nonce_changes sha = Ok () \<or>
      tree_collision sha (payload_tree (nonce_payload 0)) (payload_tree (nonce_payload 1))"
    and "hash_tree_root_changes_when_input_bytes_change sha = Ok () \<or>
      tree_collision sha (payload_tree (basic_with_input [])) (payload_tree (basic_with_input [0xDE, 0xAD]))"
  unfolding different_payload_variants_have_different_roots_def hash_tree_root_changes_when_nonce_changes_def
    hash_tree_root_changes_when_input_bytes_change_def
  using assms by (intro payload_roots_differ; simp add: distinct_payloads)+

lemma envelope_root_change:
  assumes "digest32 sha"
  defines "p_root \<equiv> tree_root sha (payload_tree default_basic)"
  shows "envelope_root_changes_when_authorization_signature_changes sha = Ok () \<or>
    tree_collision sha (envelope_tree (signed_envelope p_root [0xAA]))
      (envelope_tree (signed_envelope p_root [0xAA, 0xBB]))"
proof -
  have "length p_root = 32" unfolding p_root_def using assms(1) by (rule length_payload_root) simp
  from envelope_roots_differ [OF assms(1) this, of "[0xAA]" "[0xAA, 0xBB]"] show ?thesis
    by (simp add: envelope_root_changes_when_authorization_signature_changes_def tree_root_payload p_root_def
        MOCK_PROGRESSIVE_BYTE_LIST_LIMIT_def)
qed

lemma signing_root_change:
  assumes "digest32 sha"
  shows "signing_data_root_changes_when_object_root_changes sha = Ok () \<or>
      tree_collision sha (signing_data_tree \<lparr>object_root = replicate 32 0x00, domain_type = DOMAIN_TX_SHELL\<rparr>)
        (signing_data_tree \<lparr>object_root = replicate 32 0x01, domain_type = DOMAIN_TX_SHELL\<rparr>)"
    and "signing_data_root_changes_when_domain_type_changes sha = Ok () \<or>
      tree_collision sha (signing_data_tree \<lparr>object_root = replicate 32 0xAB, domain_type = DOMAIN_TX_SHELL\<rparr>)
        (signing_data_tree \<lparr>object_root = replicate 32 0xAB, domain_type = DOMAIN_VALIDATOR_MESSAGE\<rparr>)"
  unfolding signing_data_root_changes_when_object_root_changes_def signing_data_root_changes_when_domain_type_changes_def
  using assms by (intro signing_roots_differ; simp add: DOMAIN_TX_SHELL_def DOMAIN_VALIDATOR_MESSAGE_def)+

end
