(* ===== verification/Tests_Pipeline.thy ===== *)
theory Tests_Pipeline
  imports Tests_Primitives Mempool Consensus
begin

text \<open>
  The unit tests of the mempool and consensus crates. The test doubles that count their calls
  (\<open>CountingDispatcher\<close>, \<open>CountingResolver\<close>, \<open>CountingRevalidator\<close> and others) are actions on a world of
  counters, so that the assertions on the number of calls are assertions on the final world.
\<close>

section \<open>shell-mempool\<close>

text \<open>The world of \<open>CountingDispatcher\<close> is its cell \<open>verify_calls\<close>; \<open>fail_on_call\<close> is a parameter.\<close>

definition counting_dispatcher :: "usize option \<Rightarrow> usize dispatcher" where
  "counting_dispatcher fail_on_call scheme_id request verify_calls =
     (let call = verify_calls + 1 in
      if fail_on_call = Some call
      then (Err (VerificationFailed \<lparr>failure_scheme_id = scheme_id,
              failure_context = ''mock dispatcher rejected the authorization''\<rparr>), call)
      else (Ok (), call))"

definition FixedNonceView :: "u64 \<Rightarrow> admission_state_view" where
  "FixedNonceView nonce = (\<lambda>_. Some nonce)"

definition le_u256 :: "u64 \<Rightarrow> bytes" where
  "le_u256 value = copy_into (zero_bytes 32) 0 (u64_to_le_bytes value)"

definition lane_price :: "u64 \<Rightarrow> GasPrice" where
  "lane_price value = GasPrice (U256 (le_u256 value))"

definition test_policy :: AdmissionPolicy where
  "test_policy = \<lparr>fee_schedule = \<lparr>payload_lane_base_fee = lane_price 2, witness_lane_base_fee = lane_price 3\<rparr>,
     nonce_policy = \<lparr>max_future_nonce_gap = 1\<rparr>, authorization_domain = Canonical,
     multi_authorization_policy = RequireAll\<rparr>"

definition test_address :: "u8 \<Rightarrow> ExecutionAddress" where
  "test_address byte = replicate 20 byte"

definition test_payload :: TransactionPayloadSsz where
  "test_payload = TransactionPayloadSsz (Basic (default_basic_payload
     \<lparr>basic_nonce := 5, basic_gas_limit := 21000,
      basic_fees := \<lparr>regular = lane_price 5, max_priority_fee_per_gas = lane_price 1,
        max_witness_priority_fee = lane_price 7\<rparr>,
      basic_to := test_address 0x11\<rparr>))"

definition envelope_with_authorization_count :: "hash_fun \<Rightarrow> usize \<Rightarrow> TransactionEnvelope panics" where
  "envelope_with_authorization_count sha count =
     bind_result (expect_ok (payload_hash_tree_root sha test_payload)) (\<lambda>root.
     Ok \<lparr>env_payload = test_payload,
         env_authorizations = map (\<lambda>index. \<lparr>auth_scheme_id = 0, auth_payload_root = root,
           auth_signature = replicate 64 (0xAB + word_of_nat index)\<rparr>) [0..<count]\<rparr>)"

definition materials_for_count :: "usize \<Rightarrow> AuthorizationMaterial list" where
  "materials_for_count count = map (\<lambda>_. \<lparr>material_public_key = replicate 32 0x77\<rparr>) [0..<count]"

definition default_admission_policy :: AdmissionPolicy where
  "default_admission_policy = \<lparr>fee_schedule = \<lparr>payload_lane_base_fee = default_gas_price,
       witness_lane_base_fee = default_gas_price\<rparr>,
     nonce_policy = \<lparr>max_future_nonce_gap = 0\<rparr>, authorization_domain = Canonical,
     multi_authorization_policy = RequireAll\<rparr>"

definition payload_root_mismatch_rejects_before_dispatch :: "hash_fun \<Rightarrow> unit panics" where
  "payload_root_mismatch_rejects_before_dispatch sha =
     bind_result (envelope_with_authorization_count sha 1) (\<lambda>envelope.
     bind_result (index_at (env_authorizations envelope) 0) (\<lambda>a.
     bind_result (flip_first 0xFF (auth_payload_root a)) (\<lambda>flipped.
     let envelope = envelope\<lparr>env_authorizations := (env_authorizations envelope)[0 := a\<lparr>auth_payload_root := flipped\<rparr>]\<rparr> in
     case admit_and_verify sha (counting_dispatcher None) test_policy envelope None (materials_for_count 1) 0 of
       (r, verify_calls) \<Rightarrow>
         bind_result (expect_err r) (\<lambda>error.
         asserts [case error of ValidationError.Primitive _ \<Rightarrow> True | _ \<Rightarrow> False, verify_calls = 0]))))"

definition fee_floor_failure_rejects_before_dispatch :: "hash_fun \<Rightarrow> unit panics" where
  "fee_floor_failure_rejects_before_dispatch sha =
     (let policy = test_policy\<lparr>fee_schedule :=
            \<lparr>payload_lane_base_fee = lane_price 9, witness_lane_base_fee = lane_price 3\<rparr>\<rparr> in
      bind_result (envelope_with_authorization_count sha 1) (\<lambda>envelope.
      case admit_and_verify sha (counting_dispatcher None) policy envelope None (materials_for_count 1) 0 of
        (r, verify_calls) \<Rightarrow>
          bind_result (expect_err r) (\<lambda>error.
          asserts [case error of FeeFloor floor \<Rightarrow> floor_lane floor = Payload | _ \<Rightarrow> False, verify_calls = 0])))"

definition nonce_gap_policy_rejects_future_transactions :: "hash_fun \<Rightarrow> unit panics" where
  "nonce_gap_policy_rejects_future_transactions sha =
     bind_result (envelope_with_authorization_count sha 1) (\<lambda>envelope.
     bind_result (expect_err (screen_transaction sha test_policy envelope (Some (FixedNonceView 2)))) (\<lambda>error.
     asserts [case error of NoncePolicyViolation _ \<Rightarrow> True | _ \<Rightarrow> False]))"

text \<open>The tests of signature dispatch screen first, then verify with fresh counters.\<close>

definition screen_then_verify ::
  "hash_fun \<Rightarrow> usize option \<Rightarrow> AdmissionPolicy \<Rightarrow> usize \<Rightarrow>
   (TentativeAccepted \<Rightarrow> (AuthorizationValidated, ValidationError) result \<Rightarrow> usize \<Rightarrow> unit panics) \<Rightarrow> unit panics" where
  "screen_then_verify sha fail_on_call policy count check =
     bind_result (envelope_with_authorization_count sha count) (\<lambda>envelope.
     bind_result (expect_ok (screen_transaction sha policy envelope None)) (\<lambda>accepted.
     case verify_authorizations sha (counting_dispatcher fail_on_call) policy envelope accepted
            (materials_for_count count) 0 of
       (r, verify_calls) \<Rightarrow> check accepted r verify_calls))"

definition canonical_domain_enables_signature_dispatch_after_t1_t2 :: "hash_fun \<Rightarrow> unit panics" where
  "canonical_domain_enables_signature_dispatch_after_t1_t2 sha =
     screen_then_verify sha None test_policy 1 (\<lambda>accepted r verify_calls.
     bind_result (expect_ok r) (\<lambda>authorized.
     asserts [validated_payload_root authorized = tentative_payload_root accepted,
       verified_authorization_count authorized = 1, verify_calls = 1]))"

definition explicit_domain_override_is_still_supported :: "hash_fun \<Rightarrow> unit panics" where
  "explicit_domain_override_is_still_supported sha =
     screen_then_verify sha None (test_policy\<lparr>authorization_domain := Explicit DOMAIN_TX_SHELL\<rparr>) 1
       (\<lambda>accepted r verify_calls.
     bind_result (expect_ok r) (\<lambda>authorized.
     asserts [validated_payload_root authorized = tentative_payload_root accepted, verify_calls = 1]))"

definition is_verification_error :: "ValidationError \<Rightarrow> bool" where
  "is_verification_error error = (case error of SignatureVerification _ \<Rightarrow> True | _ \<Rightarrow> False)"

definition cryptographic_failures_are_normalized_at_t3 :: "hash_fun \<Rightarrow> unit panics" where
  "cryptographic_failures_are_normalized_at_t3 sha =
     screen_then_verify sha (Some 1) test_policy 1 (\<lambda>accepted r verify_calls.
     bind_result (expect_err r) (\<lambda>error. asserts [is_verification_error error, verify_calls = 1]))"

definition require_all_policy_verifies_every_authorization :: "hash_fun \<Rightarrow> unit panics" where
  "require_all_policy_verifies_every_authorization sha =
     screen_then_verify sha None test_policy 3 (\<lambda>accepted r verify_calls.
     bind_result (expect_ok r) (\<lambda>authorized.
     asserts [verified_authorization_count authorized = 3, verify_calls = 3]))"

definition require_all_policy_rejects_when_any_authorization_fails :: "hash_fun \<Rightarrow> unit panics" where
  "require_all_policy_rejects_when_any_authorization_fails sha =
     screen_then_verify sha (Some 2) test_policy 3 (\<lambda>accepted r verify_calls.
     bind_result (expect_err r) (\<lambda>error. asserts [is_verification_error error, verify_calls = 2]))"

definition admission_policy_defaults_multi_authorization_to_require_all :: "unit panics" where
  "admission_policy_defaults_multi_authorization_to_require_all =
     asserts [multi_authorization_policy default_admission_policy = RequireAll]"

definition mempool_tests :: "hash_fun \<Rightarrow> (string \<times> unit panics) list" where
  "mempool_tests sha =
     [(''payload_root_mismatch_rejects_before_dispatch'', payload_root_mismatch_rejects_before_dispatch sha),
      (''fee_floor_failure_rejects_before_dispatch'', fee_floor_failure_rejects_before_dispatch sha),
      (''nonce_gap_policy_rejects_future_transactions'', nonce_gap_policy_rejects_future_transactions sha),
      (''canonical_domain_enables_signature_dispatch_after_t1_t2'',
        canonical_domain_enables_signature_dispatch_after_t1_t2 sha),
      (''explicit_domain_override_is_still_supported'', explicit_domain_override_is_still_supported sha),
      (''cryptographic_failures_are_normalized_at_t3'', cryptographic_failures_are_normalized_at_t3 sha),
      (''require_all_policy_verifies_every_authorization'', require_all_policy_verifies_every_authorization sha),
      (''require_all_policy_rejects_when_any_authorization_fails'',
        require_all_policy_rejects_when_any_authorization_fails sha),
      (''admission_policy_defaults_multi_authorization_to_require_all'',
        admission_policy_defaults_multi_authorization_to_require_all)]"

lemma lane_fees:
  "transaction_fees \<lparr>env_payload = test_payload, env_authorizations = as\<rparr> =
     \<lparr>regular = lane_price 5, max_priority_fee_per_gas = lane_price 1, max_witness_priority_fee = lane_price 7\<rparr>"
  "transaction_nonce \<lparr>env_payload = test_payload, env_authorizations = as\<rparr> = 5"
  by (simp_all add: transaction_fees_def transaction_nonce_def test_payload_def)

lemma lane_prices:
  "gas_price_covers (lane_price 5) (lane_price 2)" "gas_price_covers (lane_price 7) (lane_price 3)"
  "\<not> gas_price_covers (lane_price 5) (lane_price 9)"
  by code_simp+

definition test_root :: "hash_fun \<Rightarrow> Root" where
  "test_root sha = tree_root sha (payload_tree test_payload)"

lemma test_root_Ok:
  "payload_hash_tree_root sha test_payload = Ok (test_root sha)"
  "e_root sha \<lparr>env_payload = test_payload, env_authorizations = as\<rparr> = test_root sha"
  by (simp_all add: tree_root_payload test_root_def e_root_def)

lemma length_test_root: "digest32 sha \<Longrightarrow> length (test_root sha) = 32"
  unfolding test_root_def
  by (rule length_payload_root)
     (simp_all add: test_payload_def wf_basic_def default_basic_payload_def wf_fees_def wf_u256_def lane_price_def
        le_u256_def copy_into_def test_address_def)

lemma test_envelope_screened:
  assumes "payload_lane_base_fee (fee_schedule policy) = lane_price 2"
    "witness_lane_base_fee (fee_schedule policy) = lane_price 3" "as \<noteq> []"
    "\<forall>a \<in> set as. auth_payload_root a = test_root sha \<and> length (auth_signature a) = 64"
  shows "screen_transaction sha policy \<lparr>env_payload = test_payload, env_authorizations = as\<rparr> None =
    Ok \<lparr>tentative_payload_root = test_root sha, authorization_count = length as\<rparr>"
  using assms
  by (auto simp: screen_transaction_Ok structurally_valid_def policy_valid_def payload_lane_fee_def witness_lane_fee_def
      lane_fees lane_prices nonce_in_window_def test_root_Ok)

lemmas admission_test_defs = envelope_with_authorization_count_def test_root_Ok materials_for_count_def
  verify_authorizations_def admit_and_verify_def domain_signing_root_Ok counting_dispatcher_def bind_action.simps
  map_err_action_def is_verification_error_def Let_def

lemma test_policy_simps [simp]:
  "payload_lane_base_fee (fee_schedule test_policy) = lane_price 2"
  "witness_lane_base_fee (fee_schedule test_policy) = lane_price 3"
  "multi_authorization_policy test_policy = RequireAll"
  by (simp_all add: test_policy_def)

lemma dispatch_tests_pass:
  "canonical_domain_enables_signature_dispatch_after_t1_t2 sha = Ok ()"
  "explicit_domain_override_is_still_supported sha = Ok ()"
  "cryptographic_failures_are_normalized_at_t3 sha = Ok ()"
  "require_all_policy_verifies_every_authorization sha = Ok ()"
  "require_all_policy_rejects_when_any_authorization_fails sha = Ok ()"
  unfolding canonical_domain_enables_signature_dispatch_after_t1_t2_def explicit_domain_override_is_still_supported_def
    cryptographic_failures_are_normalized_at_t3_def require_all_policy_verifies_every_authorization_def
    require_all_policy_rejects_when_any_authorization_fails_def screen_then_verify_def
  by (simp_all add: admission_test_defs test_envelope_screened upt_rec)

lemmas screening_test_defs = screen_transaction_def check_authorization_count_def check_authorization_payload_roots_def
  check_user_signature_size_def MAX_USER_SIGNATURE_BYTES_def check_fee_policy_def check_nonce_policy_def
  payload_lane_fee_def witness_lane_fee_def lane_fees lane_prices FixedNonceView_def saturating_add_u64_def

lemma screening_tests_pass:
  "fee_floor_failure_rejects_before_dispatch sha = Ok ()"
  "nonce_gap_policy_rejects_future_transactions sha = Ok ()"
  by (simp_all add: fee_floor_failure_rejects_before_dispatch_def nonce_gap_policy_rejects_future_transactions_def
      test_policy_def admission_test_defs screening_test_defs)

lemma mismatch_test_passes:
  assumes "digest32 sha"
  shows "payload_root_mismatch_rejects_before_dispatch sha = Ok ()"
proof -
  have "test_root sha \<noteq> []" using length_test_root [OF assms] by fastforce
  then obtain r' where "flip_first 0xFF (test_root sha) = Ok r'" "r' \<noteq> test_root sha"
    using flip_first_Ok [of "test_root sha" "0xFF"] by auto
  then show ?thesis
    by (simp add: payload_root_mismatch_rejects_before_dispatch_def admission_test_defs screening_test_defs index_at_def)
qed

lemma mempool_tests_pass: "digest32 sha \<Longrightarrow> all_pass (mempool_tests sha)"
  by (simp add: mempool_tests_def dispatch_tests_pass screening_tests_pass mismatch_test_passes
      admission_policy_defaults_multi_authorization_to_require_all_def default_admission_policy_def)

section \<open>shell-consensus\<close>

record StubHeader =
  stub_block_root :: Root
  stub_witness_bytes :: u64
  stub_transactions_root :: Root
  stub_execution_witnesses_root :: Root
  stub_state_root :: Root
  stub_receipts_root :: Root
  stub_proposer_signature :: bytes
  stub_proposer_index_hint :: "u64 option"

definition stub_header :: "StubHeader \<Rightarrow> ConsensusHeader" where
  "stub_header h =
     \<lparr>header_canonical_root = Ok (stub_block_root h), header_witness_bytes = stub_witness_bytes h,
      header_transactions_root = stub_transactions_root h,
      header_execution_witnesses_root = stub_execution_witnesses_root h,
      header_state_root = stub_state_root h, header_receipts_root = stub_receipts_root h,
      header_proposer_signature = stub_proposer_signature h,
      header_proposer_index_hint = stub_proposer_index_hint h\<rparr>"

record StubBody =
  stub_body_root :: Root
  stub_transactions :: "TransactionEnvelope list"

definition stub_body :: "StubBody \<Rightarrow> ConsensusBody" where
  "stub_body b = \<lparr>body_transactions_root = Ok (stub_body_root b), body_transactions = stub_transactions b\<rparr>"

record StubSidecar =
  stub_sidecar_block_root :: Root
  stub_committed_root :: Root

definition stub_sidecar :: "StubSidecar \<Rightarrow> ConsensusSidecar" where
  "stub_sidecar s = \<lparr>sidecar_block_root = stub_sidecar_block_root s, sidecar_committed_root = stub_committed_root s\<rparr>"

text \<open>The cells of the five counting services, in one world.\<close>

record import_calls =
  resolver_calls :: usize
  validator_calls :: usize
  revalidator_calls :: usize
  revalidator_last_policy :: MultiAuthorizationPolicy
  preparer_calls :: usize
  engine_calls :: usize

definition no_import_calls :: import_calls where
  "no_import_calls = \<lparr>resolver_calls = 0, validator_calls = 0, revalidator_calls = 0,
     revalidator_last_policy = RequireAll, preparer_calls = 0, engine_calls = 0\<rparr>"

definition CountingResolver ::
  "ProposerCredentialResolutionError option \<Rightarrow> import_calls credential_resolver" where
  "CountingResolver failure query w =
     (if query_block_root query \<noteq> replicate 32 0x01 \<or> query_proposer_index_hint query \<noteq> Some 7 then Panic
      else case failure of
          Some error \<Rightarrow> Err error
        | None \<Rightarrow> Ok \<lparr>cred_scheme_id = 9, cred_public_key_material = replicate 32 0x55\<rparr>,
      w\<lparr>resolver_calls := resolver_calls w + 1\<rparr>)"

definition CountingValidatorDispatcher :: "import_calls dispatcher" where
  "CountingValidatorDispatcher scheme_id request w = (Ok (), w\<lparr>validator_calls := validator_calls w + 1\<rparr>)"

definition CountingRevalidator :: "import_calls revalidator" where
  "CountingRevalidator transaction policy w =
     (Ok (), w\<lparr>revalidator_calls := revalidator_calls w + 1, revalidator_last_policy := policy\<rparr>)"

definition CountingWitnessPreparer :: "import_calls witness_preparer" where
  "CountingWitnessPreparer header sidecar w = (Ok (), w\<lparr>preparer_calls := preparer_calls w + 1\<rparr>)"

definition FixedExecutionEngine :: "BlockExecutionOutcome \<Rightarrow> import_calls execution_engine" where
  "FixedExecutionEngine outcome header body sidecar w = (Ok outcome, w\<lparr>engine_calls := engine_calls w + 1\<rparr>)"

definition counting_services ::
  "ProposerCredentialResolutionError option \<Rightarrow> BlockExecutionOutcome \<Rightarrow> import_calls BlockImportServices" where
  "counting_services failure outcome =
     \<lparr>svc_resolver = CountingResolver failure, svc_dispatcher = CountingValidatorDispatcher,
      svc_revalidator = CountingRevalidator, svc_preparer = CountingWitnessPreparer,
      svc_execution_engine = FixedExecutionEngine outcome\<rparr>"

definition signed_transaction :: "hash_fun \<Rightarrow> u64 \<Rightarrow> TransactionEnvelope panics" where
  "signed_transaction sha nonce =
     (let payload = TransactionPayloadSsz (Basic (default_basic_payload
            \<lparr>basic_nonce := nonce, basic_gas_limit := 21000 + nonce\<rparr>)) in
      bind_result (expect_ok (payload_hash_tree_root sha payload)) (\<lambda>root.
      Ok \<lparr>env_payload = payload, env_authorizations =
          [\<lparr>auth_scheme_id = 1, auth_payload_root = root, auth_signature = replicate 64 0xAB\<rparr>]\<rparr>))"

definition fixture_header :: StubHeader where
  "fixture_header =
     \<lparr>stub_block_root = replicate 32 0x01, stub_witness_bytes = 128, stub_transactions_root = replicate 32 0x02,
      stub_execution_witnesses_root = replicate 32 0x03, stub_state_root = replicate 32 0x04,
      stub_receipts_root = replicate 32 0x05, stub_proposer_signature = replicate 96 0x06,
      stub_proposer_index_hint = Some 7\<rparr>"

definition import_fixture ::
  "hash_fun \<Rightarrow> (StubHeader \<times> StubBody \<times> StubSidecar \<times> BlockExecutionOutcome) panics" where
  "import_fixture sha =
     bind_result (signed_transaction sha 1) (\<lambda>tx1.
     bind_result (signed_transaction sha 2) (\<lambda>tx2.
     let header = fixture_header in
     Ok (header,
       \<lparr>stub_body_root = stub_transactions_root header, stub_transactions = [tx1, tx2]\<rparr>,
       \<lparr>stub_sidecar_block_root = stub_block_root header, stub_committed_root = stub_execution_witnesses_root header\<rparr>,
       \<lparr>block_post_state_root = stub_state_root header, block_receipts_root = stub_receipts_root header,
        transaction_outcomes = [\<lparr>tx_transaction_root = replicate 32 0xAA, tx_post_state_root = stub_state_root header,
          tx_receipt = \<lparr>status_code = 1, receipt_output = [0xBB]\<rparr>\<rparr>]\<rparr>)))"

definition import_config :: "u64 option \<Rightarrow> BlockImportConfig" where
  "import_config limit = \<lparr>header_prefilter = \<lparr>max_witness_bytes = limit\<rparr>, import_multi_authorization_policy = RequireAll\<rparr>"

definition import_stub ::
  "hash_fun \<Rightarrow> u64 option \<Rightarrow> ProposerCredentialResolutionError option \<Rightarrow> StubHeader \<Rightarrow> StubBody \<Rightarrow> StubSidecar \<Rightarrow>
   BlockExecutionOutcome \<Rightarrow> (BlockImportOutcome, ConsensusError) result \<times> import_calls" where
  "import_stub sha limit failure header body sidecar execution =
     import_block sha (import_config limit) (stub_header header) (stub_body body) (stub_sidecar sidecar)
       (counting_services failure execution) no_import_calls"

definition pipeline_runs_block_stages_in_order :: "hash_fun \<Rightarrow> unit panics" where
  "pipeline_runs_block_stages_in_order sha =
     bind_result (import_fixture sha) (\<lambda>(header, body, sidecar, execution).
     case import_stub sha (Some 256) None header body sidecar execution of
       (r, calls) \<Rightarrow>
         bind_result (expect_ok r) (\<lambda>outcome.
         asserts [import_block_root outcome = stub_block_root header, resolver_calls calls = 1, validator_calls calls = 1,
           revalidator_calls calls = length (stub_transactions body), revalidator_last_policy calls = RequireAll,
           preparer_calls calls = 1, engine_calls calls = 1]))"

definition prefilter_rejects_oversized_witness_bytes_before_signature_work :: "hash_fun \<Rightarrow> unit panics" where
  "prefilter_rejects_oversized_witness_bytes_before_signature_work sha =
     bind_result (import_fixture sha) (\<lambda>(header, body, sidecar, execution).
     let header = header\<lparr>stub_witness_bytes := 1024\<rparr> in
     case import_stub sha (Some 512) None header body sidecar execution of
       (r, calls) \<Rightarrow>
         bind_result (expect_err r) (\<lambda>error.
         asserts [error = WitnessByteLimitExceeded 512 1024, resolver_calls calls = 0, validator_calls calls = 0,
           preparer_calls calls = 0, engine_calls calls = 0]))"

definition body_binding_failure_stops_before_signature_verification :: "hash_fun \<Rightarrow> unit panics" where
  "body_binding_failure_stops_before_signature_verification sha =
     bind_result (import_fixture sha) (\<lambda>(header, body, sidecar, execution).
     bind_result (flip_first 0xFF (stub_body_root body)) (\<lambda>flipped.
     let body = body\<lparr>stub_body_root := flipped\<rparr> in
     case import_stub sha None None header body sidecar execution of
       (r, calls) \<Rightarrow>
         bind_result (expect_err r) (\<lambda>error.
         asserts [error = HeaderBodyRootMismatch (stub_transactions_root header) (stub_body_root body),
           resolver_calls calls = 0, validator_calls calls = 0])))"

definition sidecar_binding_failure_stops_before_execution :: "hash_fun \<Rightarrow> unit panics" where
  "sidecar_binding_failure_stops_before_execution sha =
     bind_result (import_fixture sha) (\<lambda>(header, body, sidecar, execution).
     bind_result (flip_first 0x01 (stub_committed_root sidecar)) (\<lambda>flipped.
     let sidecar = sidecar\<lparr>stub_committed_root := flipped\<rparr> in
     case import_stub sha None None header body sidecar execution of
       (r, calls) \<Rightarrow>
         bind_result (expect_err r) (\<lambda>error.
         asserts [error = SidecarCommitmentMismatch (stub_execution_witnesses_root header) (stub_committed_root sidecar),
           preparer_calls calls = 0, engine_calls calls = 0])))"

definition resolver_failures_propagate_before_dispatch :: "hash_fun \<Rightarrow> unit panics" where
  "resolver_failures_propagate_before_dispatch sha =
     (let failure = InvalidCredentialEncoding 9 ''validator public key bytes failed scheme decode'' in
      bind_result (import_fixture sha) (\<lambda>(header, body, sidecar, execution).
      case import_stub sha None (Some failure) header body sidecar execution of
        (r, calls) \<Rightarrow>
          bind_result (expect_err r) (\<lambda>error.
          asserts [error = ProposerCredentialResolution failure, resolver_calls calls = 1, validator_calls calls = 0,
            revalidator_calls calls = 0, preparer_calls calls = 0, engine_calls calls = 0])))"

definition consensus_tests :: "hash_fun \<Rightarrow> (string \<times> unit panics) list" where
  "consensus_tests sha =
     [(''pipeline_runs_block_stages_in_order'', pipeline_runs_block_stages_in_order sha),
      (''prefilter_rejects_oversized_witness_bytes_before_signature_work'',
        prefilter_rejects_oversized_witness_bytes_before_signature_work sha),
      (''body_binding_failure_stops_before_signature_verification'',
        body_binding_failure_stops_before_signature_verification sha),
      (''sidecar_binding_failure_stops_before_execution'', sidecar_binding_failure_stops_before_execution sha),
      (''resolver_failures_propagate_before_dispatch'', resolver_failures_propagate_before_dispatch sha)]"

lemma import_fixture_Ok:
  obtains tx1 tx2 where "import_fixture sha = Ok (fixture_header,
    \<lparr>stub_body_root = stub_transactions_root fixture_header, stub_transactions = [tx1, tx2]\<rparr>,
    \<lparr>stub_sidecar_block_root = stub_block_root fixture_header,
     stub_committed_root = stub_execution_witnesses_root fixture_header\<rparr>,
    \<lparr>block_post_state_root = stub_state_root fixture_header, block_receipts_root = stub_receipts_root fixture_header,
     transaction_outcomes = [\<lparr>tx_transaction_root = replicate 32 0xAA, tx_post_state_root = stub_state_root fixture_header,
       tx_receipt = \<lparr>status_code = 1, receipt_output = [0xBB]\<rparr>\<rparr>]\<rparr>)"
  by (simp add: import_fixture_def signed_transaction_def tree_root_payload Let_def
      del: payload_hash_tree_root.simps)

lemmas import_test_defs = import_stub_def import_block_def import_config_def prefilter_header_def verify_body_binding_def
  verify_header_signature_eq revalidate_body_transactions_def verify_sidecar_binding_def execute_and_compare_def
  ensure_matches_def stub_header_def stub_body_def stub_sidecar_def fixture_header_def counting_services_def
  CountingResolver_def CountingValidatorDispatcher_def CountingRevalidator_def CountingWitnessPreparer_def
  FixedExecutionEngine_def no_import_calls_def bind_action.simps map_err_action_def flip_first_def index_at_def
  Let_def

lemma consensus_tests_pass: "all_pass (consensus_tests sha)"
  unfolding consensus_tests_def pipeline_runs_block_stages_in_order_def
    prefilter_rejects_oversized_witness_bytes_before_signature_work_def
    body_binding_failure_stops_before_signature_verification_def sidecar_binding_failure_stops_before_execution_def
    resolver_failures_propagate_before_dispatch_def
  by (rule import_fixture_Ok [of sha]) (simp add: import_test_defs list_update_same_conv)

end
