(* ===== verification/Tests_Network.thy ===== *)
theory Tests_Network
  imports Tests_Pipeline Network
begin

text \<open>
  The unit tests of the network crate (\<^verbatim>\<open>reputation/scoring.rs\<close>, \<^verbatim>\<open>fetch/policy.rs\<close>,
  \<^verbatim>\<open>gossip/filtering.rs\<close>).
\<close>

section \<open>Peer actions\<close>

definition peer_origin :: NetworkOrigin where
  "peer_origin = Gossip (PeerId (replicate 32 3))"

definition zero_gas_price :: GasPrice where
  "zero_gas_price = GasPrice (U256 (zero_bytes 32))"

definition reject_outcomes_disconnect_remote_peers :: "unit panics" where
  "reject_outcomes_disconnect_remote_peers =
     asserts [peer_action_for_validation_outcome peer_origin Reject = Disconnect RejectedObject]"

definition local_policy_rejects_do_not_penalize_local_origins :: "unit panics" where
  "local_policy_rejects_do_not_penalize_local_origins =
     asserts [peer_action_for_validation_outcome LocalRpc PolicyReject = Ignore PolicyRejected]"

definition malformed_t0_transactions_disconnect_remote_peers :: "unit panics" where
  "malformed_t0_transactions_disconnect_remote_peers =
     (let error = ValidationError.Primitive (MalformedSsz ''truncated tx announcement'') in
      asserts [peer_action_for_mempool_error peer_origin T0 error = Disconnect MalformedAnnouncement])"

definition fee_floor_failures_lower_remote_peer_reputation :: "unit panics" where
  "fee_floor_failures_lower_remote_peer_reputation =
     (let error = FeeFloor \<lparr>floor_lane = Payload, floor_required = zero_gas_price, floor_actual = zero_gas_price\<rparr> in
      asserts [peer_action_for_mempool_error peer_origin T2 error =
        AdjustReputation \<lparr>delta_value = POLICY_REPUTATION_DELTA, delta_hint = PolicyRejected\<rparr>])"

definition header_body_mismatch_disconnects_remote_peers :: "unit panics" where
  "header_body_mismatch_disconnects_remote_peers =
     (let error = HeaderBodyRootMismatch (zero_bytes 32) (replicate 32 9) in
      asserts [peer_action_for_consensus_error peer_origin error = Disconnect InvalidBlock])"

definition oversized_headers_are_scored_without_disconnect :: "unit panics" where
  "oversized_headers_are_scored_without_disconnect =
     (let error = WitnessByteLimitExceeded 512 1024 in
      asserts [peer_action_for_consensus_error peer_origin error =
        AdjustReputation \<lparr>delta_value = OVERSIZED_REPUTATION_DELTA, delta_hint = OversizedObject\<rparr>])"

definition validator_transport_guards_stay_oversize_policy_events :: "unit panics" where
  "validator_transport_guards_stay_oversize_policy_events =
     (let error = Crypto (CryptoError.SignatureSizeExceeded \<lparr>exceeded_max_size = 128, exceeded_actual_size = 129,
            exceeded_path = ValidatorMessage, exceeded_kind = LocalTransportGuard\<rparr>) in
      asserts [peer_action_for_consensus_error peer_origin error =
        AdjustReputation \<lparr>delta_value = OVERSIZED_REPUTATION_DELTA, delta_hint = OversizedObject\<rparr>])"

definition missing_proposer_credentials_disconnect_remote_peers_as_invalid_blocks :: "unit panics" where
  "missing_proposer_credentials_disconnect_remote_peers_as_invalid_blocks =
     asserts [peer_action_for_consensus_error peer_origin (ProposerCredentialResolution NotFound) =
       Disconnect InvalidBlock]"

definition unavailable_resolver_stays_internal :: "unit panics" where
  "unavailable_resolver_stays_internal =
     asserts [peer_action_for_consensus_error peer_origin (ProposerCredentialResolution ResolverUnavailable) =
       Ignore InternalError]"

definition invalid_credential_encoding_disconnects_remote_peers_as_invalid_blocks :: "unit panics" where
  "invalid_credential_encoding_disconnects_remote_peers_as_invalid_blocks =
     (let error = ProposerCredentialResolution
            (InvalidCredentialEncoding 7 ''validator public key bytes failed scheme decode'') in
      asserts [peer_action_for_consensus_error peer_origin error = Disconnect InvalidBlock])"

section \<open>Fetching and filtering\<close>

definition fetch_test_header :: "u64 \<Rightarrow> u8 \<Rightarrow> CanonicalBlockHeader" where
  "fetch_test_header witness_bytes byte =
     \<lparr>ch_block_root = replicate 32 byte, ch_block_number = 1, ch_timestamp = 1, ch_parent_root = zero_bytes 32,
      ch_witness_bytes = witness_bytes, ch_transactions_root = zero_bytes 32,
      ch_execution_witnesses_root = zero_bytes 32, ch_state_root = zero_bytes 32, ch_receipts_root = zero_bytes 32,
      ch_proposer_signature = [], ch_proposer_index_hint = None\<rparr>"

definition oversized_witness_headers_skip_sidecar_fetch :: "unit panics" where
  "oversized_witness_headers_skip_sidecar_fetch =
     (let policy = \<lparr>fetch_max_witness_bytes = Some 512, require_explicit_request = False\<rparr>;
          header = canonical_header (fetch_test_header 1024 7) in
      asserts [decide_for_header policy header True = Skip])"

definition explicit_request_can_be_required_before_fetching_sidecars :: "unit panics" where
  "explicit_request_can_be_required_before_fetching_sidecars =
     (let policy = \<lparr>fetch_max_witness_bytes = Some 2048, require_explicit_request = True\<rparr>;
          header = canonical_header (fetch_test_header 256 9) in
      asserts [decide_for_header policy header False = Defer,
        decide_for_header policy header True = FetchDecision.Fetch])"

definition unsolicited_sidecars_are_deferred_until_requested :: "unit panics" where
  "unsolicited_sidecars_are_deferred_until_requested =
     (let flt = \<lparr>max_transaction_bytes = None, max_sidecar_bytes = Some 1024, allow_unsolicited_sidecars = False\<rparr> in
      asserts [sidecar_fetch_decision flt 512 False = Defer])"

definition network_tests :: "(string \<times> unit panics) list" where
  "network_tests =
     [(''reject_outcomes_disconnect_remote_peers'', reject_outcomes_disconnect_remote_peers),
      (''local_policy_rejects_do_not_penalize_local_origins'', local_policy_rejects_do_not_penalize_local_origins),
      (''malformed_t0_transactions_disconnect_remote_peers'', malformed_t0_transactions_disconnect_remote_peers),
      (''fee_floor_failures_lower_remote_peer_reputation'', fee_floor_failures_lower_remote_peer_reputation),
      (''header_body_mismatch_disconnects_remote_peers'', header_body_mismatch_disconnects_remote_peers),
      (''oversized_headers_are_scored_without_disconnect'', oversized_headers_are_scored_without_disconnect),
      (''validator_transport_guards_stay_oversize_policy_events'', validator_transport_guards_stay_oversize_policy_events),
      (''missing_proposer_credentials_disconnect_remote_peers_as_invalid_blocks'',
        missing_proposer_credentials_disconnect_remote_peers_as_invalid_blocks),
      (''unavailable_resolver_stays_internal'', unavailable_resolver_stays_internal),
      (''invalid_credential_encoding_disconnects_remote_peers_as_invalid_blocks'',
        invalid_credential_encoding_disconnects_remote_peers_as_invalid_blocks),
      (''oversized_witness_headers_skip_sidecar_fetch'', oversized_witness_headers_skip_sidecar_fetch),
      (''explicit_request_can_be_required_before_fetching_sidecars'',
        explicit_request_can_be_required_before_fetching_sidecars),
      (''unsolicited_sidecars_are_deferred_until_requested'', unsolicited_sidecars_are_deferred_until_requested)]"

lemma network_tests_pass: "all_pass network_tests"
  by code_simp

end
