(* ===== verification/Vectors.thy ===== *)
theory Vectors
  imports Tests_Network
begin

text \<open>
  The shared test vectors for peer actions: the record types of \<^verbatim>\<open>crates/shell-fixtures/src/lib.rs\<close>
  that describe them, the harness of \<^verbatim>\<open>crates/shell-network/tests/peer_action_vectors.rs\<close> and the
  vectors of \<^verbatim>\<open>src/vectors/peer-actions\<close>. A vector is paired with the stem of its file name. Field
  and constructor names are prefixed where the source reuses a name of the crates under test.
\<close>

section \<open>The vector format\<close>

datatype OutcomeClass = AcceptClass | RejectClass | PolicyRejectClass

datatype NetworkOriginInput =
    GossipInput | FetchInput | SyncInput | LocalRpcInput | LocalBuilderInput | TestHarnessInput

datatype ValidationStageInput =
    T0Input | T1Input | T2Input | T3Input | T4Input | B0Input | B1Input | B2Input | B3Input | B4Input | B5Input

datatype FeeLaneInput = PayloadLane | WitnessLane

datatype MempoolPeerErrorInput =
    MalformedSszInput (malformed_context: string)
  | FeeFloorInput (fee_lane: FeeLaneInput) (fee_required: u64) (fee_actual: u64)

datatype ConsensusPeerErrorInput =
    CryptoVerificationFailedInput (failed_scheme_id: u8) (failed_context: string)
  | WitnessByteLimitExceededInput (witness_max_bytes: u64) (witness_actual_bytes: u64)

datatype PeerActionHintInput =
    RejectedObjectInput | MalformedAnnouncementInput | InvalidTransactionInput | InvalidBlockInput
  | InvalidSignatureInput | OversizedObjectInput | PolicyRejectedInput | InternalErrorInput

datatype ExpectedPeerAction =
    ExpectAccept
  | ExpectIgnore PeerActionHintInput
  | ExpectAdjustReputation i32 PeerActionHintInput
  | ExpectDisconnect PeerActionHintInput

datatype PeerActionInput =
    ValidationOutcomeInput NetworkOriginInput OutcomeClass
  | MempoolErrorInput NetworkOriginInput ValidationStageInput MempoolPeerErrorInput
  | ConsensusErrorInput NetworkOriginInput ConsensusPeerErrorInput

record PeerActionVector =
  pa_id :: string
  pa_category :: string
  pa_rule :: string
  pa_description :: string
  pa_input :: PeerActionInput
  pa_expected_outcome :: OutcomeClass
  pa_expected_action :: ExpectedPeerAction
  pa_owned_by :: string
  pa_notes :: "string option"

section \<open>The harness\<close>

fun network_origin :: "NetworkOriginInput \<Rightarrow> NetworkOrigin" where
  "network_origin GossipInput = Gossip (PeerId (replicate 32 0x33))"
| "network_origin FetchInput = NetworkOrigin.Fetch (PeerId (replicate 32 0x33))"
| "network_origin SyncInput = Sync (PeerId (replicate 32 0x33))"
| "network_origin LocalRpcInput = LocalRpc"
| "network_origin LocalBuilderInput = LocalBuilder"
| "network_origin TestHarnessInput = TestHarness"

fun validation_outcome :: "OutcomeClass \<Rightarrow> ValidationOutcome" where
  "validation_outcome AcceptClass = ValidationOutcome.Accept"
| "validation_outcome RejectClass = Reject"
| "validation_outcome PolicyRejectClass = PolicyReject"

fun validation_stage :: "ValidationStageInput \<Rightarrow> ValidationStage" where
  "validation_stage T0Input = T0"
| "validation_stage T1Input = T1"
| "validation_stage T2Input = T2"
| "validation_stage T3Input = T3"
| "validation_stage T4Input = T4"
| "validation_stage B0Input = B0"
| "validation_stage B1Input = B1"
| "validation_stage B2Input = B2"
| "validation_stage B3Input = B3"
| "validation_stage B4Input = B4"
| "validation_stage B5Input = B5"

fun fee_lane_of :: "FeeLaneInput \<Rightarrow> FeeLane" where
  "fee_lane_of PayloadLane = Payload"
| "fee_lane_of WitnessLane = Witness"

fun mempool_error :: "MempoolPeerErrorInput \<Rightarrow> ValidationError" where
  "mempool_error (MalformedSszInput context) = ValidationError.Primitive (MalformedSsz context)"
| "mempool_error (FeeFloorInput lane required actual) =
     FeeFloor \<lparr>floor_lane = fee_lane_of lane, floor_required = lane_price required, floor_actual = lane_price actual\<rparr>"

fun consensus_error :: "ConsensusPeerErrorInput \<Rightarrow> ConsensusError" where
  "consensus_error (CryptoVerificationFailedInput scheme_id context) =
     Crypto (VerificationFailed \<lparr>failure_scheme_id = scheme_id, failure_context = context\<rparr>)"
| "consensus_error (WitnessByteLimitExceededInput limit actual) =
     WitnessByteLimitExceeded limit actual"

fun peer_action_hint :: "PeerActionHintInput \<Rightarrow> PeerActionHint" where
  "peer_action_hint RejectedObjectInput = RejectedObject"
| "peer_action_hint MalformedAnnouncementInput = MalformedAnnouncement"
| "peer_action_hint InvalidTransactionInput = InvalidTransaction"
| "peer_action_hint InvalidBlockInput = InvalidBlock"
| "peer_action_hint InvalidSignatureInput = InvalidSignature"
| "peer_action_hint OversizedObjectInput = OversizedObject"
| "peer_action_hint PolicyRejectedInput = PolicyRejected"
| "peer_action_hint InternalErrorInput = InternalError"

fun expected_action_from_fixture :: "ExpectedPeerAction \<Rightarrow> PeerAction" where
  "expected_action_from_fixture ExpectAccept = PeerAction.Accept"
| "expected_action_from_fixture (ExpectIgnore hint) = Ignore (peer_action_hint hint)"
| "expected_action_from_fixture (ExpectAdjustReputation delta hint) =
     AdjustReputation \<lparr>delta_value = delta, delta_hint = peer_action_hint hint\<rparr>"
| "expected_action_from_fixture (ExpectDisconnect hint) = Disconnect (peer_action_hint hint)"

fun peer_action_of_input :: "PeerActionInput \<Rightarrow> PeerAction" where
  "peer_action_of_input (ValidationOutcomeInput origin outcome) =
     peer_action_for_validation_outcome (network_origin origin) (validation_outcome outcome)"
| "peer_action_of_input (MempoolErrorInput origin stage error) =
     peer_action_for_mempool_error (network_origin origin) (validation_stage stage) (mempool_error error)"
| "peer_action_of_input (ConsensusErrorInput origin error) =
     peer_action_for_consensus_error (network_origin origin) (consensus_error error)"

fun outcome_class_for_action :: "PeerAction \<Rightarrow> OutcomeClass" where
  "outcome_class_for_action PeerAction.Accept = AcceptClass"
| "outcome_class_for_action (AdjustReputation _) = PolicyRejectClass"
| "outcome_class_for_action (Ignore hint) =
     (if hint = PolicyRejected \<or> hint = OversizedObject then PolicyRejectClass else RejectClass)"
| "outcome_class_for_action (Disconnect _) = RejectClass"

definition check_peer_action_vector :: "string \<times> PeerActionVector \<Rightarrow> unit panics" where
  "check_peer_action_vector = (\<lambda>(file_stem, fixture).
     let actual_action = peer_action_of_input (pa_input fixture) in
     asserts [file_stem = pa_id fixture, pa_category fixture = ''peer-action'', pa_owned_by fixture = ''shell-network'',
       \<not> is_blank (pa_rule fixture), \<not> is_blank (pa_description fixture),
       actual_action = expected_action_from_fixture (pa_expected_action fixture),
       outcome_class_for_action actual_action = pa_expected_outcome fixture])"

definition shared_peer_action_vectors_cover_network_mapping_contract ::
  "(string \<times> PeerActionVector) list \<Rightarrow> unit panics" where
  "shared_peer_action_vectors_cover_network_mapping_contract paths =
     bind_result (for_each check_peer_action_vector paths) (\<lambda>_. asserts [0 < length paths])"

section \<open>The vectors\<close>

definition peer_fee_spam_001 :: PeerActionVector where
  "peer_fee_spam_001 =
     \<lparr>pa_id = ''peer-fee-spam-001'',
      pa_category = ''peer-action'',
      pa_rule = ''soft_score_fee_spam'',
      pa_description = ''A fee-floor failure remains a policy rejection and lowers remote peer reputation without disconnecting.'',
      pa_input = MempoolErrorInput GossipInput T2Input (FeeFloorInput PayloadLane 9 5),
      pa_expected_outcome = PolicyRejectClass,
      pa_expected_action = ExpectAdjustReputation (-10) PolicyRejectedInput,
      pa_owned_by = ''shell-network'',
      pa_notes = Some ''This vector proves shell-network translates the typed mempool policy error into a reputation delta instead of treating it as malformed protocol data.''\<rparr>"

definition peer_invalid_signature_001 :: PeerActionVector where
  "peer_invalid_signature_001 =
     \<lparr>pa_id = ''peer-invalid-signature-001'',
      pa_category = ''peer-action'',
      pa_rule = ''disconnect_on_invalid_signature'',
      pa_description = ''A consensus-stage invalid signature from a remote peer maps to disconnect.'',
      pa_input = ConsensusErrorInput FetchInput (CryptoVerificationFailedInput 7 ''shared peer-action vector invalidated proposer signature''),
      pa_expected_outcome = RejectClass,
      pa_expected_action = ExpectDisconnect InvalidSignatureInput,
      pa_owned_by = ''shell-network'',
      pa_notes = Some ''The network layer consumes the structured ConsensusError::Crypto surface rather than re-running signature logic.''\<rparr>"

definition peer_local_policy_reject_001 :: PeerActionVector where
  "peer_local_policy_reject_001 =
     \<lparr>pa_id = ''peer-local-policy-reject-001'',
      pa_category = ''peer-action'',
      pa_rule = ''avoid_local_penalties'',
      pa_description = ''A local policy rejection stays non-penalizing even though it preserves the policy_reject classification.'',
      pa_input = ValidationOutcomeInput LocalRpcInput PolicyRejectClass,
      pa_expected_outcome = PolicyRejectClass,
      pa_expected_action = ExpectIgnore PolicyRejectedInput,
      pa_owned_by = ''shell-network'',
      pa_notes = Some ''Local origins should not accrue reputation changes for lower-layer policy failures.''\<rparr>"

definition peer_malformed_ssz_001 :: PeerActionVector where
  "peer_malformed_ssz_001 =
     \<lparr>pa_id = ''peer-malformed-ssz-001'',
      pa_category = ''peer-action'',
      pa_rule = ''disconnect_on_malformed_announcement'',
      pa_description = ''A malformed transaction announcement at the T0 decode stage maps to disconnect for a remote peer.'',
      pa_input = MempoolErrorInput GossipInput T0Input (MalformedSszInput ''truncated tx announcement''),
      pa_expected_outcome = RejectClass,
      pa_expected_action = ExpectDisconnect MalformedAnnouncementInput,
      pa_owned_by = ''shell-network'',
      pa_notes = Some ''The vector consumes the existing PrimitiveError::MalformedSsz surface emitted by lower layers.''\<rparr>"

definition peer_oversize_sidecar_001 :: PeerActionVector where
  "peer_oversize_sidecar_001 =
     \<lparr>pa_id = ''peer-oversize-sidecar-001'',
      pa_category = ''peer-action'',
      pa_rule = ''score_oversize_sidecar_pressure'',
      pa_description = ''A witness-byte ceiling breach is treated as oversize policy pressure and scores the peer without disconnecting.'',
      pa_input = ConsensusErrorInput SyncInput (WitnessByteLimitExceededInput 512 1024),
      pa_expected_outcome = PolicyRejectClass,
      pa_expected_action = ExpectAdjustReputation (-5) OversizedObjectInput,
      pa_owned_by = ''shell-network'',
      pa_notes = Some ''The vector uses the shared witness-byte guard outcome from shell-consensus instead of inventing a network-only oversize validator.''\<rparr>"

definition peer_reject_outcome_001 :: PeerActionVector where
  "peer_reject_outcome_001 =
     \<lparr>pa_id = ''peer-reject-outcome-001'',
      pa_category = ''peer-action'',
      pa_rule = ''disconnect_remote_rejects'',
      pa_description = ''A remote validation rejection maps directly to a disconnect-grade peer action.'',
      pa_input = ValidationOutcomeInput GossipInput RejectClass,
      pa_expected_outcome = RejectClass,
      pa_expected_action = ExpectDisconnect RejectedObjectInput,
      pa_owned_by = ''shell-network'',
      pa_notes = Some ''This vector uses the shared lower-layer ValidationOutcome contract instead of introducing a network-only rejection classification.''\<rparr>"

definition peer_action_vectors :: "(string \<times> PeerActionVector) list" where
  "peer_action_vectors =
     [(''peer-fee-spam-001'', peer_fee_spam_001),
      (''peer-invalid-signature-001'', peer_invalid_signature_001),
      (''peer-local-policy-reject-001'', peer_local_policy_reject_001),
      (''peer-malformed-ssz-001'', peer_malformed_ssz_001),
      (''peer-oversize-sidecar-001'', peer_oversize_sidecar_001),
      (''peer-reject-outcome-001'', peer_reject_outcome_001)]"

lemma peer_action_vectors_pass:
  "shared_peer_action_vectors_cover_network_mapping_contract peer_action_vectors = Ok ()"
  by code_simp

text \<open>
  The class the harness reads off an action does not depend on who sent the object: exempting local
  origins from penalties never turns a rejection into another class.
\<close>

lemma outcome_class_actions:
  "outcome_class_for_action (policy_action origin v PolicyRejected) = PolicyRejectClass"
  "outcome_class_for_action (policy_action origin v OversizedObject) = PolicyRejectClass"
  "hint \<noteq> PolicyRejected \<Longrightarrow> hint \<noteq> OversizedObject \<Longrightarrow>
     outcome_class_for_action (disconnect_action origin hint) = RejectClass"
  by (simp_all add: policy_action_def disconnect_action_def)

lemma outcome_class_origin_independent:
  "outcome_class_for_action (peer_action_of_input (ValidationOutcomeInput o1 c)) = c"
  "outcome_class_for_action (peer_action_of_input (MempoolErrorInput o1 s1 me)) =
     outcome_class_for_action (peer_action_of_input (MempoolErrorInput o2 s2 me))"
  "outcome_class_for_action (peer_action_of_input (ConsensusErrorInput o1 ce)) =
     outcome_class_for_action (peer_action_of_input (ConsensusErrorInput o2 ce))"
  by (cases c; cases me; cases ce; simp add: outcome_class_actions)+

end
