(* ===== verification/Conformance.thy ===== *)
theory Conformance
  imports Vectors
begin

text \<open>
  The shared vectors for mempool policy and for the order of validation: the record types of
  \<^verbatim>\<open>crates/shell-fixtures/src/lib.rs\<close>, the harnesses \<^verbatim>\<open>crates/shell-mempool/tests/policy_vectors.rs\<close>,
  \<^verbatim>\<open>crates/shell-mempool/tests/cheap_first_vectors.rs\<close> and
  \<^verbatim>\<open>crates/shell-consensus/tests/cheap_first_vectors.rs\<close>, and the vectors of \<^verbatim>\<open>src/vectors/mempool-policy\<close>
  and \<^verbatim>\<open>src/vectors/validation-order\<close>. The vectors pass for every hash function with 32-byte digests.
\<close>

section \<open>The vector format\<close>

record ExpectedError =
  ee_kind :: string
  ee_lane :: "string option"
  ee_context :: "string option"

record ExpectedEffects =
  fx_transaction_signature_verifications :: "usize option"
  fx_proposer_credential_resolutions :: "usize option"
  fx_validator_signature_verifications :: "usize option"
  fx_transaction_revalidations :: "usize option"
  fx_witness_preparations :: "usize option"
  fx_execution_calls :: "usize option"

definition default_effects :: ExpectedEffects where
  "default_effects = \<lparr>fx_transaction_signature_verifications = None, fx_proposer_credential_resolutions = None,
     fx_validator_signature_verifications = None, fx_transaction_revalidations = None,
     fx_witness_preparations = None, fx_execution_calls = None\<rparr>"

record MempoolPayloadInput =
  mpi_nonce :: u64
  mpi_gas_limit :: u64
  mpi_regular_fee :: u64
  mpi_max_priority_fee_per_gas :: u64
  mpi_max_witness_priority_fee :: u64
  mpi_to :: string

record MempoolAuthorizationInput =
  mai_scheme_id :: u8
  mai_signature_hex :: string
  mai_payload_root_mode :: PayloadRootMode

record AuthorizationMaterialInput =
  ami_public_key_hex :: string

record MempoolPolicyInput =
  mpo_payload_lane_base_fee :: u64
  mpo_witness_lane_base_fee :: u64
  mpo_max_future_nonce_gap :: u64

record MempoolInput =
  mi_payload :: MempoolPayloadInput
  mi_authorizations :: "MempoolAuthorizationInput list"
  mi_authorization_materials :: "AuthorizationMaterialInput list"
  mi_policy :: MempoolPolicyInput
  mi_observed_nonce :: "u64 option"

record MempoolPolicyVector =
  mv_id :: string
  mv_category :: string
  mv_rule :: string
  mv_description :: string
  mv_input :: MempoolInput
  mv_expected_outcome :: string
  mv_expected_error :: ExpectedError
  mv_expected_effects :: ExpectedEffects
  mv_owned_by :: string
  mv_notes :: "string option"

datatype SignatureOutcome = AcceptSignature | RejectSignature

record ConsensusHeaderInput =
  chi_block_root :: string
  chi_transactions_root :: string
  chi_execution_witnesses_root :: string
  chi_state_root :: string
  chi_receipts_root :: string
  chi_witness_bytes :: u64
  chi_proposer_index :: u64
  chi_proposer_signature_hex :: string

record ConsensusBodyInput =
  cbi_transactions_root_mode :: RootMode
  cbi_transaction_count :: usize

record ConsensusSidecarInput =
  csi_block_root_mode :: RootMode
  csi_committed_root_mode :: RootMode

record ConsensusExecutionInput =
  cei_post_state_root_mode :: RootMode
  cei_receipts_root_mode :: RootMode

record ConsensusPrefilterInput =
  cpi_max_witness_bytes :: "u64 option"

record ConsensusResolverInput =
  cri_scheme_id :: u8
  cri_public_key_hex :: string

record ConsensusDispatcherInput =
  cdi_validator_signature :: SignatureOutcome

record ConsensusInput =
  con_header :: ConsensusHeaderInput
  con_body :: ConsensusBodyInput
  con_sidecar :: ConsensusSidecarInput
  con_execution :: ConsensusExecutionInput
  con_prefilter :: "ConsensusPrefilterInput option"
  con_resolver :: ConsensusResolverInput
  con_dispatcher :: ConsensusDispatcherInput

datatype CheapFirstInput = MempoolLayer MempoolInput | ConsensusLayer ConsensusInput

record CheapFirstVector =
  cf_id :: string
  cf_category :: string
  cf_rule :: string
  cf_description :: string
  cf_input :: CheapFirstInput
  cf_expected_outcome :: string
  cf_expected_error :: ExpectedError
  cf_expected_effects :: ExpectedEffects
  cf_owned_by :: string
  cf_notes :: "string option"

section \<open>The mempool harnesses\<close>

definition build_policy :: "MempoolInput \<Rightarrow> AdmissionPolicy" where
  "build_policy input =
     \<lparr>fee_schedule = \<lparr>payload_lane_base_fee = lane_price (mpo_payload_lane_base_fee (mi_policy input)),
        witness_lane_base_fee = lane_price (mpo_witness_lane_base_fee (mi_policy input))\<rparr>,
      nonce_policy = \<lparr>max_future_nonce_gap = mpo_max_future_nonce_gap (mi_policy input)\<rparr>,
      authorization_domain = Canonical, multi_authorization_policy = RequireAll\<rparr>"

definition build_authorization :: "Root \<Rightarrow> MempoolAuthorizationInput \<Rightarrow> Authorization panics" where
  "build_authorization canonical_payload_root authorization =
     bind_result (payload_root_mode_apply (mai_payload_root_mode authorization) canonical_payload_root) (\<lambda>root.
     bind_result (parse_hex (mai_signature_hex authorization)) (\<lambda>signature.
     Ok \<lparr>auth_scheme_id = mai_scheme_id authorization, auth_payload_root = root, auth_signature = signature\<rparr>))"

definition build_envelope :: "hash_fun \<Rightarrow> MempoolInput \<Rightarrow> TransactionEnvelope panics" where
  "build_envelope sha input =
     bind_result (parse_address (mpi_to (mi_payload input))) (\<lambda>to.
     let payload = TransactionPayloadSsz (Basic (default_basic_payload
           \<lparr>basic_nonce := mpi_nonce (mi_payload input), basic_gas_limit := mpi_gas_limit (mi_payload input),
            basic_fees := \<lparr>regular = lane_price (mpi_regular_fee (mi_payload input)),
              max_priority_fee_per_gas = lane_price (mpi_max_priority_fee_per_gas (mi_payload input)),
              max_witness_priority_fee = lane_price (mpi_max_witness_priority_fee (mi_payload input))\<rparr>,
            basic_to := to\<rparr>)) in
     bind_result (expect_ok (payload_hash_tree_root sha payload)) (\<lambda>canonical_payload_root.
     bind_result (collect_results (build_authorization canonical_payload_root) (mi_authorizations input)) (\<lambda>authorizations.
     Ok \<lparr>env_payload = payload, env_authorizations = authorizations\<rparr>)))"

definition build_authorization_materials :: "MempoolInput \<Rightarrow> AuthorizationMaterial list panics" where
  "build_authorization_materials input =
     collect_results (\<lambda>material.
       bind_result (parse_hex (ami_public_key_hex material)) (\<lambda>key. Ok \<lparr>material_public_key = key\<rparr>))
     (mi_authorization_materials input)"

definition unsupported_counting_dispatcher :: "usize dispatcher" where
  "unsupported_counting_dispatcher scheme_id request verify_calls =
     (Err (CryptoError.UnsupportedScheme scheme_id), verify_calls + 1)"

definition failing_counting_dispatcher :: "usize dispatcher" where
  "failing_counting_dispatcher scheme_id request verify_calls =
     (Err (VerificationFailed \<lparr>failure_scheme_id = scheme_id,
        failure_context = ''shared cheap-first fixture should never reach transaction verification''\<rparr>), verify_calls + 1)"

fun lane_name :: "FeeLane \<Rightarrow> string" where
  "lane_name Payload = ''payload''"
| "lane_name Witness = ''witness''"

definition assert_optional :: "'a option \<Rightarrow> 'a \<Rightarrow> unit panics" where
  "assert_optional expected actual = (case expected of None \<Rightarrow> Ok () | Some e \<Rightarrow> asserts [actual = e])"

definition assert_expected_error :: "ValidationError \<Rightarrow> ExpectedError \<Rightarrow> unit panics" where
  "assert_expected_error error expected =
     (if ee_kind expected = ''FeeFloor''
      then (case error of
              FeeFloor actual \<Rightarrow> assert_optional (ee_lane expected) (lane_name (floor_lane actual))
            | _ \<Rightarrow> Panic)
      else if ee_kind expected = ''NoncePolicy''
      then (case error of
              NoncePolicyViolation context \<Rightarrow> assert_optional (ee_context expected) context
            | _ \<Rightarrow> Panic)
      else Panic)"

text \<open>The common part of the two harnesses: build the inputs, admit, and look at error and counter.\<close>

definition admit_fixture ::
  "hash_fun \<Rightarrow> usize dispatcher \<Rightarrow> MempoolInput \<Rightarrow> (ValidationError \<times> usize) panics" where
  "admit_fixture sha dispatcher input =
     bind_result (build_envelope sha input) (\<lambda>envelope.
     bind_result (build_authorization_materials input) (\<lambda>materials.
     case admit_and_verify sha dispatcher (build_policy input) envelope
            (map_option FixedNonceView (mi_observed_nonce input)) materials 0 of
       (r, verify_calls) \<Rightarrow> bind_result (expect_err r) (\<lambda>error. Ok (error, verify_calls))))"

definition assert_policy_rejects_before_dispatch :: "hash_fun \<Rightarrow> MempoolPolicyVector \<Rightarrow> unit panics" where
  "assert_policy_rejects_before_dispatch sha fixture =
     bind_result (admit_fixture sha unsupported_counting_dispatcher (mv_input fixture)) (\<lambda>(error, verify_calls).
     bind_result (asserts [mv_expected_outcome fixture = ''policy_reject'']) (\<lambda>_.
     bind_result (assert_expected_error error (mv_expected_error fixture)) (\<lambda>_.
     assert_optional (fx_transaction_signature_verifications (mv_expected_effects fixture)) verify_calls)))"

definition check_policy_vector :: "hash_fun \<Rightarrow> string \<times> MempoolPolicyVector \<Rightarrow> unit panics" where
  "check_policy_vector sha = (\<lambda>(file_stem, fixture).
     bind_result (asserts [file_stem = mv_id fixture, mv_category fixture = ''mempool-policy'',
       mv_owned_by fixture = ''shell-mempool'', \<not> is_blank (mv_rule fixture), \<not> is_blank (mv_description fixture)]) (\<lambda>_.
     assert_policy_rejects_before_dispatch sha fixture))"

definition fixture_driven_vectors_cover_mempool_fee_and_nonce_policy ::
  "hash_fun \<Rightarrow> (string \<times> MempoolPolicyVector) list \<Rightarrow> unit panics" where
  "fixture_driven_vectors_cover_mempool_fee_and_nonce_policy sha paths =
     bind_result (for_each (check_policy_vector sha) paths) (\<lambda>_. asserts [0 < length paths])"

definition assert_rejects_before_dispatch :: "hash_fun \<Rightarrow> CheapFirstVector \<Rightarrow> MempoolInput \<Rightarrow> unit panics" where
  "assert_rejects_before_dispatch sha fixture input =
     (let kind = ee_kind (cf_expected_error fixture) in
      bind_result (admit_fixture sha failing_counting_dispatcher input) (\<lambda>(error, verify_calls).
      bind_result
        (if kind = ''PayloadRootMismatch''
         then bind_result (asserts [case error of ValidationError.Primitive _ \<Rightarrow> True | _ \<Rightarrow> False]) (\<lambda>_.
              bind_result (index_at (mi_authorizations input) 0) (\<lambda>a.
              asserts [mai_payload_root_mode a = FlipFirstPayloadByte]))
         else if kind = ''FeeFloor''
         then (case error of
                 FeeFloor actual \<Rightarrow> assert_optional (ee_lane (cf_expected_error fixture)) (lane_name (floor_lane actual))
               | _ \<Rightarrow> Panic)
         else Panic) (\<lambda>_.
      bind_result (asserts [cf_expected_outcome fixture = (if kind = ''FeeFloor'' then ''policy_reject'' else ''reject'')]) (\<lambda>_.
      assert_optional (fx_transaction_signature_verifications (cf_expected_effects fixture)) verify_calls))))"

definition check_mempool_order_vector :: "hash_fun \<Rightarrow> string \<times> CheapFirstVector \<Rightarrow> unit panics" where
  "check_mempool_order_vector sha = (\<lambda>(file_stem, fixture).
     case cf_input fixture of
       ConsensusLayer _ \<Rightarrow> Ok ()
     | MempoolLayer input \<Rightarrow>
         bind_result (asserts [file_stem = cf_id fixture, cf_category fixture = ''validation-order'',
           cf_owned_by fixture = ''shell-mempool'', \<not> is_blank (cf_rule fixture), \<not> is_blank (cf_description fixture)]) (\<lambda>_.
         assert_rejects_before_dispatch sha fixture input))"

fun is_mempool_input :: "CheapFirstInput \<Rightarrow> bool" where
  "is_mempool_input (MempoolLayer _) = True"
| "is_mempool_input (ConsensusLayer _) = False"

definition shared_cheap_first_vectors_cover_mempool_ordering_contract ::
  "hash_fun \<Rightarrow> (string \<times> CheapFirstVector) list \<Rightarrow> unit panics" where
  "shared_cheap_first_vectors_cover_mempool_ordering_contract sha paths =
     bind_result (for_each (check_mempool_order_vector sha) paths) (\<lambda>_.
     asserts [0 < length (filter (is_mempool_input \<circ> cf_input \<circ> snd) paths)])"

section \<open>The consensus harness\<close>

definition vector_services ::
  "ProposerCredential \<Rightarrow> SignatureOutcome \<Rightarrow> BlockExecutionOutcome \<Rightarrow> import_calls BlockImportServices" where
  "vector_services credential signature outcome =
     \<lparr>svc_resolver = (\<lambda>_ w. (Ok credential, w\<lparr>resolver_calls := resolver_calls w + 1\<rparr>)),
      svc_dispatcher = (\<lambda>scheme_id _ w.
        (case signature of
           AcceptSignature \<Rightarrow> Ok ()
         | RejectSignature \<Rightarrow> Err (VerificationFailed \<lparr>failure_scheme_id = scheme_id,
             failure_context = ''shared cheap-first consensus fixture rejected the proposer signature''\<rparr>),
         w\<lparr>validator_calls := validator_calls w + 1\<rparr>)),
      svc_revalidator = (\<lambda>_ _ w. (Ok (), w\<lparr>revalidator_calls := revalidator_calls w + 1\<rparr>)),
      svc_preparer = CountingWitnessPreparer, svc_execution_engine = FixedExecutionEngine outcome\<rparr>"

definition build_header :: "ConsensusInput \<Rightarrow> StubHeader panics" where
  "build_header input =
     (let h = con_header input in
      bind_result (parse_root (chi_block_root h)) (\<lambda>block_root.
      bind_result (parse_root (chi_transactions_root h)) (\<lambda>transactions_root.
      bind_result (parse_root (chi_execution_witnesses_root h)) (\<lambda>execution_witnesses_root.
      bind_result (parse_root (chi_state_root h)) (\<lambda>state_root.
      bind_result (parse_root (chi_receipts_root h)) (\<lambda>receipts_root.
      bind_result (parse_hex (chi_proposer_signature_hex h)) (\<lambda>proposer_signature.
      Ok \<lparr>stub_block_root = block_root, stub_witness_bytes = chi_witness_bytes h,
          stub_transactions_root = transactions_root, stub_execution_witnesses_root = execution_witnesses_root,
          stub_state_root = state_root, stub_receipts_root = receipts_root,
          stub_proposer_signature = proposer_signature, stub_proposer_index_hint = Some (chi_proposer_index h)\<rparr>)))))))"

definition unsigned_transaction :: "u64 \<Rightarrow> TransactionEnvelope" where
  "unsigned_transaction nonce =
     \<lparr>env_payload = TransactionPayloadSsz (Basic (default_basic_payload\<lparr>basic_nonce := nonce, basic_gas_limit := 21000\<rparr>)),
      env_authorizations = []\<rparr>"

definition build_body :: "ConsensusInput \<Rightarrow> StubHeader \<Rightarrow> StubBody panics" where
  "build_body input header =
     bind_result (root_mode_apply (cbi_transactions_root_mode (con_body input)) (stub_transactions_root header)) (\<lambda>root.
     Ok \<lparr>stub_body_root = root, stub_transactions =
       map (\<lambda>index. unsigned_transaction (word_of_nat index + 1)) [0..<cbi_transaction_count (con_body input)]\<rparr>)"

definition build_sidecar :: "ConsensusInput \<Rightarrow> StubHeader \<Rightarrow> StubSidecar panics" where
  "build_sidecar input header =
     bind_result (root_mode_apply (csi_block_root_mode (con_sidecar input)) (stub_block_root header)) (\<lambda>block_root.
     bind_result (root_mode_apply (csi_committed_root_mode (con_sidecar input))
       (stub_execution_witnesses_root header)) (\<lambda>committed_root.
     Ok \<lparr>stub_sidecar_block_root = block_root, stub_committed_root = committed_root\<rparr>))"

definition build_execution_outcome :: "ConsensusInput \<Rightarrow> StubHeader \<Rightarrow> BlockExecutionOutcome panics" where
  "build_execution_outcome input header =
     bind_result (root_mode_apply (cei_post_state_root_mode (con_execution input)) (stub_state_root header)) (\<lambda>post.
     bind_result (root_mode_apply (cei_receipts_root_mode (con_execution input)) (stub_receipts_root header)) (\<lambda>receipts.
     Ok \<lparr>block_post_state_root = post, block_receipts_root = receipts,
         transaction_outcomes = [\<lparr>tx_transaction_root = replicate 32 0x11, tx_post_state_root = post,
           tx_receipt = \<lparr>status_code = 1, receipt_output = [0x22]\<rparr>\<rparr>]\<rparr>))"

definition prefilter_limit :: "ConsensusInput \<Rightarrow> u64 option" where
  "prefilter_limit input = Option.bind (con_prefilter input) cpi_max_witness_bytes"

definition assert_stage_error ::
  "CheapFirstVector \<Rightarrow> ConsensusInput \<Rightarrow> StubHeader \<Rightarrow> StubBody \<Rightarrow> StubSidecar \<Rightarrow> ConsensusError \<Rightarrow> unit panics" where
  "assert_stage_error fixture input header body sidecar error =
     (let kind = ee_kind (cf_expected_error fixture) in
      if kind = ''WitnessByteLimitExceeded''
      then (case error of
              WitnessByteLimitExceeded m a \<Rightarrow>
                bind_result (expect_some (prefilter_limit input)) (\<lambda>limit.
                asserts [m = limit, a = stub_witness_bytes header, cf_expected_outcome fixture = ''policy_reject''])
            | _ \<Rightarrow> Panic)
      else if kind = ''TransactionsRootMismatch''
      then (case error of
              HeaderBodyRootMismatch e a \<Rightarrow>
                asserts [e = stub_transactions_root header, a = stub_body_root body, cf_expected_outcome fixture = ''reject'']
            | _ \<Rightarrow> Panic)
      else if kind = ''SignatureVerification''
      then asserts [case error of Crypto (VerificationFailed _) \<Rightarrow> True | _ \<Rightarrow> False,
             cf_expected_outcome fixture = ''reject'']
      else if kind = ''SidecarMismatch''
      then (case error of
              SidecarCommitmentMismatch e a \<Rightarrow>
                asserts [e = stub_execution_witnesses_root header, a = stub_committed_root sidecar,
                  cf_expected_outcome fixture = ''reject'']
            | _ \<Rightarrow> Panic)
      else Panic)"

definition assert_rejects_in_stage_order :: "hash_fun \<Rightarrow> CheapFirstVector \<Rightarrow> ConsensusInput \<Rightarrow> unit panics" where
  "assert_rejects_in_stage_order sha fixture input =
     bind_result (build_header input) (\<lambda>header.
     bind_result (build_body input header) (\<lambda>body.
     bind_result (build_sidecar input header) (\<lambda>sidecar.
     bind_result (parse_hex (cri_public_key_hex (con_resolver input))) (\<lambda>key.
     bind_result (build_execution_outcome input header) (\<lambda>execution.
     let services = vector_services \<lparr>cred_scheme_id = cri_scheme_id (con_resolver input), cred_public_key_material = key\<rparr>
           (cdi_validator_signature (con_dispatcher input)) execution;
         fx = cf_expected_effects fixture in
     case import_block sha (import_config (prefilter_limit input)) (stub_header header) (stub_body body)
            (stub_sidecar sidecar) services no_import_calls of
       (r, calls) \<Rightarrow>
         bind_result (expect_err r) (\<lambda>error.
         bind_result (assert_stage_error fixture input header body sidecar error) (\<lambda>_.
         bind_result (assert_optional (fx_proposer_credential_resolutions fx) (resolver_calls calls)) (\<lambda>_.
         bind_result (assert_optional (fx_validator_signature_verifications fx) (validator_calls calls)) (\<lambda>_.
         bind_result (assert_optional (fx_transaction_revalidations fx) (revalidator_calls calls)) (\<lambda>_.
         bind_result (assert_optional (fx_witness_preparations fx) (preparer_calls calls)) (\<lambda>_.
         assert_optional (fx_execution_calls fx) (engine_calls calls))))))))))))"

definition check_consensus_order_vector :: "hash_fun \<Rightarrow> string \<times> CheapFirstVector \<Rightarrow> unit panics" where
  "check_consensus_order_vector sha = (\<lambda>(file_stem, fixture).
     case cf_input fixture of
       MempoolLayer _ \<Rightarrow> Ok ()
     | ConsensusLayer input \<Rightarrow>
         bind_result (asserts [file_stem = cf_id fixture, cf_category fixture = ''validation-order'',
           cf_owned_by fixture = ''shell-consensus'']) (\<lambda>_.
         assert_rejects_in_stage_order sha fixture input))"

definition shared_cheap_first_vectors_cover_consensus_ordering_contract ::
  "hash_fun \<Rightarrow> (string \<times> CheapFirstVector) list \<Rightarrow> unit panics" where
  "shared_cheap_first_vectors_cover_consensus_ordering_contract sha paths =
     bind_result (for_each (check_consensus_order_vector sha) paths) (\<lambda>_.
     asserts [0 < length (filter (Not \<circ> is_mempool_input \<circ> cf_input \<circ> snd) paths)])"

section \<open>The vectors\<close>

definition fee_payload_insufficient_001 :: MempoolPolicyVector where
  "fee_payload_insufficient_001 =
     \<lparr>mv_id = ''fee-payload-insufficient-001'',
      mv_category = ''mempool-policy'',
      mv_rule = ''payload_fee_floor'',
      mv_description = ''A transaction whose payload-lane fee stays below the local base fee is soft-rejected before transaction-path signature verification runs.'',
      mv_input = \<lparr>mi_payload = \<lparr>mpi_nonce = 5, mpi_gas_limit = 21000, mpi_regular_fee = 5, mpi_max_priority_fee_per_gas = 1, mpi_max_witness_priority_fee = 7, mpi_to = ''0x1111111111111111111111111111111111111111''\<rparr>,
         mi_authorizations = [\<lparr>mai_scheme_id = 0, mai_signature_hex = ''0xabababababababababababababababababababababababababababababababababababababababababababababababababababababababababababababababab'', mai_payload_root_mode = CanonicalPayloadRoot\<rparr>],
         mi_authorization_materials = [\<lparr>ami_public_key_hex = ''0x7777777777777777777777777777777777777777777777777777777777777777''\<rparr>],
         mi_policy = \<lparr>mpo_payload_lane_base_fee = 9, mpo_witness_lane_base_fee = 3, mpo_max_future_nonce_gap = 1\<rparr>,
         mi_observed_nonce = None\<rparr>,
      mv_expected_outcome = ''policy_reject'',
      mv_expected_error = \<lparr>ee_kind = ''FeeFloor'', ee_lane = Some ''payload'', ee_context = None\<rparr>,
      mv_expected_effects = default_effects\<lparr>fx_transaction_signature_verifications := Some 0\<rparr>,
      mv_owned_by = ''shell-mempool'',
      mv_notes = Some ''This vector freezes the local distinction between a soft fee-floor rejection and a malformed transaction.''\<rparr>"

definition fee_witness_insufficient_001 :: MempoolPolicyVector where
  "fee_witness_insufficient_001 =
     \<lparr>mv_id = ''fee-witness-insufficient-001'',
      mv_category = ''mempool-policy'',
      mv_rule = ''witness_fee_floor'',
      mv_description = ''A transaction whose witness-lane fee stays below the local witness base fee is soft-rejected before transaction-path signature verification runs.'',
      mv_input = \<lparr>mi_payload = \<lparr>mpi_nonce = 5, mpi_gas_limit = 21000, mpi_regular_fee = 5, mpi_max_priority_fee_per_gas = 1, mpi_max_witness_priority_fee = 7, mpi_to = ''0x1111111111111111111111111111111111111111''\<rparr>,
         mi_authorizations = [\<lparr>mai_scheme_id = 0, mai_signature_hex = ''0xabababababababababababababababababababababababababababababababababababababababababababababababababababababababababababababababab'', mai_payload_root_mode = CanonicalPayloadRoot\<rparr>],
         mi_authorization_materials = [\<lparr>ami_public_key_hex = ''0x7777777777777777777777777777777777777777777777777777777777777777''\<rparr>],
         mi_policy = \<lparr>mpo_payload_lane_base_fee = 2, mpo_witness_lane_base_fee = 9, mpo_max_future_nonce_gap = 1\<rparr>,
         mi_observed_nonce = None\<rparr>,
      mv_expected_outcome = ''policy_reject'',
      mv_expected_error = \<lparr>ee_kind = ''FeeFloor'', ee_lane = Some ''witness'', ee_context = None\<rparr>,
      mv_expected_effects = default_effects\<lparr>fx_transaction_signature_verifications := Some 0\<rparr>,
      mv_owned_by = ''shell-mempool'',
      mv_notes = Some ''The witness lane has its own local floor and must fail before any expensive cryptographic work.''\<rparr>"

definition nonce_replay_conflict_001 :: MempoolPolicyVector where
  "nonce_replay_conflict_001 =
     \<lparr>mv_id = ''nonce-replay-conflict-001'',
      mv_category = ''mempool-policy'',
      mv_rule = ''nonce_replay_conflict'',
      mv_description = ''A transaction whose nonce is lower than the observed replay-lane nonce is soft-rejected before transaction-path signature verification runs.'',
      mv_input = \<lparr>mi_payload = \<lparr>mpi_nonce = 5, mpi_gas_limit = 21000, mpi_regular_fee = 5, mpi_max_priority_fee_per_gas = 1, mpi_max_witness_priority_fee = 7, mpi_to = ''0x1111111111111111111111111111111111111111''\<rparr>,
         mi_authorizations = [\<lparr>mai_scheme_id = 0, mai_signature_hex = ''0xabababababababababababababababababababababababababababababababababababababababababababababababababababababababababababababababab'', mai_payload_root_mode = CanonicalPayloadRoot\<rparr>],
         mi_authorization_materials = [\<lparr>ami_public_key_hex = ''0x7777777777777777777777777777777777777777777777777777777777777777''\<rparr>],
         mi_policy = \<lparr>mpo_payload_lane_base_fee = 2, mpo_witness_lane_base_fee = 3, mpo_max_future_nonce_gap = 1\<rparr>,
         mi_observed_nonce = Some 6\<rparr>,
      mv_expected_outcome = ''policy_reject'',
      mv_expected_error = \<lparr>ee_kind = ''NoncePolicy'', ee_lane = None, ee_context = Some ''transaction nonce is lower than the observed replay lane nonce''\<rparr>,
      mv_expected_effects = default_effects\<lparr>fx_transaction_signature_verifications := Some 0\<rparr>,
      mv_owned_by = ''shell-mempool'',
      mv_notes = Some ''Replay-lane conflicts stay local-policy failures rather than malformed-object rejections.''\<rparr>"

definition nonce_too_high_001 :: MempoolPolicyVector where
  "nonce_too_high_001 =
     \<lparr>mv_id = ''nonce-too-high-001'',
      mv_category = ''mempool-policy'',
      mv_rule = ''nonce_future_gap'',
      mv_description = ''A transaction whose nonce exceeds the configured future gap is soft-rejected before transaction-path signature verification runs.'',
      mv_input = \<lparr>mi_payload = \<lparr>mpi_nonce = 5, mpi_gas_limit = 21000, mpi_regular_fee = 5, mpi_max_priority_fee_per_gas = 1, mpi_max_witness_priority_fee = 7, mpi_to = ''0x1111111111111111111111111111111111111111''\<rparr>,
         mi_authorizations = [\<lparr>mai_scheme_id = 0, mai_signature_hex = ''0xabababababababababababababababababababababababababababababababababababababababababababababababababababababababababababababababab'', mai_payload_root_mode = CanonicalPayloadRoot\<rparr>],
         mi_authorization_materials = [\<lparr>ami_public_key_hex = ''0x7777777777777777777777777777777777777777777777777777777777777777''\<rparr>],
         mi_policy = \<lparr>mpo_payload_lane_base_fee = 2, mpo_witness_lane_base_fee = 3, mpo_max_future_nonce_gap = 1\<rparr>,
         mi_observed_nonce = Some 2\<rparr>,
      mv_expected_outcome = ''policy_reject'',
      mv_expected_error = \<lparr>ee_kind = ''NoncePolicy'', ee_lane = None, ee_context = Some ''transaction nonce exceeds the configured future replay lane gap''\<rparr>,
      mv_expected_effects = default_effects\<lparr>fx_transaction_signature_verifications := Some 0\<rparr>,
      mv_owned_by = ''shell-mempool'',
      mv_notes = Some ''Future-gap policy should short-circuit before the node spends work on cryptographic verification.''\<rparr>"

definition order_body_root_before_signature_001 :: CheapFirstVector where
  "order_body_root_before_signature_001 =
     \<lparr>cf_id = ''order-body-root-before-signature-001'',
      cf_category = ''validation-order'',
      cf_rule = ''body_root_before_signature'',
      cf_description = ''A body/header transactions_root mismatch is rejected before proposer credential resolution and validator signature verification run.'',
      cf_input = ConsensusLayer
        \<lparr>con_header = \<lparr>chi_block_root = ''0x0101010101010101010101010101010101010101010101010101010101010101'', chi_transactions_root = ''0x0202020202020202020202020202020202020202020202020202020202020202'', chi_execution_witnesses_root = ''0x0303030303030303030303030303030303030303030303030303030303030303'', chi_state_root = ''0x0404040404040404040404040404040404040404040404040404040404040404'', chi_receipts_root = ''0x0505050505050505050505050505050505050505050505050505050505050505'', chi_witness_bytes = 128, chi_proposer_index = 7, chi_proposer_signature_hex = ''0x9999''\<rparr>,
         con_body = \<lparr>cbi_transactions_root_mode = FlipFirstRootByte, cbi_transaction_count = 2\<rparr>,
         con_sidecar = \<lparr>csi_block_root_mode = CanonicalRoot, csi_committed_root_mode = CanonicalRoot\<rparr>,
         con_execution = \<lparr>cei_post_state_root_mode = CanonicalRoot, cei_receipts_root_mode = CanonicalRoot\<rparr>,
         con_prefilter = None,
         con_resolver = \<lparr>cri_scheme_id = 9, cri_public_key_hex = ''0x5555555555555555555555555555555555555555555555555555555555555555''\<rparr>,
         con_dispatcher = \<lparr>cdi_validator_signature = AcceptSignature\<rparr>\<rparr>,
      cf_expected_outcome = ''reject'',
      cf_expected_error = \<lparr>ee_kind = ''TransactionsRootMismatch'', ee_lane = None, ee_context = None\<rparr>,
      cf_expected_effects = default_effects\<lparr>fx_proposer_credential_resolutions := Some 0, fx_validator_signature_verifications := Some 0, fx_transaction_revalidations := Some 0, fx_witness_preparations := Some 0, fx_execution_calls := Some 0\<rparr>,
      cf_owned_by = ''shell-consensus'',
      cf_notes = Some ''The body-binding failure is still a cheap commitment check and must stay ahead of validator-path cryptography and all downstream witness work.''\<rparr>"

definition order_fee_before_signature_001 :: CheapFirstVector where
  "order_fee_before_signature_001 =
     \<lparr>cf_id = ''order-fee-before-signature-001'',
      cf_category = ''validation-order'',
      cf_rule = ''fee_before_signature'',
      cf_description = ''A payload-lane fee-floor failure is classified as a policy rejection before the transaction signature dispatcher runs.'',
      cf_input = MempoolLayer
        \<lparr>mi_payload = \<lparr>mpi_nonce = 5, mpi_gas_limit = 21000, mpi_regular_fee = 5, mpi_max_priority_fee_per_gas = 1, mpi_max_witness_priority_fee = 7, mpi_to = ''0x1111111111111111111111111111111111111111''\<rparr>,
         mi_authorizations = [\<lparr>mai_scheme_id = 0, mai_signature_hex = ''0xabababababababababababababababababababababababababababababababababababababababababababababababababababababababababababababababab'', mai_payload_root_mode = CanonicalPayloadRoot\<rparr>],
         mi_authorization_materials = [\<lparr>ami_public_key_hex = ''0x7777777777777777777777777777777777777777777777777777777777777777''\<rparr>],
         mi_policy = \<lparr>mpo_payload_lane_base_fee = 9, mpo_witness_lane_base_fee = 3, mpo_max_future_nonce_gap = 1\<rparr>,
         mi_observed_nonce = None\<rparr>,
      cf_expected_outcome = ''policy_reject'',
      cf_expected_error = \<lparr>ee_kind = ''FeeFloor'', ee_lane = Some ''payload'', ee_context = None\<rparr>,
      cf_expected_effects = default_effects\<lparr>fx_transaction_signature_verifications := Some 0\<rparr>,
      cf_owned_by = ''shell-mempool'',
      cf_notes = Some ''The vector uses the same shared contract as consensus ordering fixtures, but records the mempool-specific distinction between malformed-object rejection and soft local policy rejection.''\<rparr>"

definition order_header_before_signature_001 :: CheapFirstVector where
  "order_header_before_signature_001 =
     \<lparr>cf_id = ''order-header-before-signature-001'',
      cf_category = ''validation-order'',
      cf_rule = ''header_prefilter_before_signature'',
      cf_description = ''An oversized witness_bytes value is rejected by the header prefilter before proposer credential resolution, signature verification, witness preparation, or execution.'',
      cf_input = ConsensusLayer
        \<lparr>con_header = \<lparr>chi_block_root = ''0x0101010101010101010101010101010101010101010101010101010101010101'', chi_transactions_root = ''0x0202020202020202020202020202020202020202020202020202020202020202'', chi_execution_witnesses_root = ''0x0303030303030303030303030303030303030303030303030303030303030303'', chi_state_root = ''0x0404040404040404040404040404040404040404040404040404040404040404'', chi_receipts_root = ''0x0505050505050505050505050505050505050505050505050505050505050505'', chi_witness_bytes = 1024, chi_proposer_index = 7, chi_proposer_signature_hex = ''0x9999''\<rparr>,
         con_body = \<lparr>cbi_transactions_root_mode = CanonicalRoot, cbi_transaction_count = 2\<rparr>,
         con_sidecar = \<lparr>csi_block_root_mode = CanonicalRoot, csi_committed_root_mode = CanonicalRoot\<rparr>,
         con_execution = \<lparr>cei_post_state_root_mode = CanonicalRoot, cei_receipts_root_mode = CanonicalRoot\<rparr>,
         con_prefilter = Some \<lparr>cpi_max_witness_bytes = Some 512\<rparr>,
         con_resolver = \<lparr>cri_scheme_id = 9, cri_public_key_hex = ''0x5555555555555555555555555555555555555555555555555555555555555555''\<rparr>,
         con_dispatcher = \<lparr>cdi_validator_signature = AcceptSignature\<rparr>\<rparr>,
      cf_expected_outcome = ''policy_reject'',
      cf_expected_error = \<lparr>ee_kind = ''WitnessByteLimitExceeded'', ee_lane = None, ee_context = None\<rparr>,
      cf_expected_effects = default_effects\<lparr>fx_proposer_credential_resolutions := Some 0, fx_validator_signature_verifications := Some 0, fx_transaction_revalidations := Some 0, fx_witness_preparations := Some 0, fx_execution_calls := Some 0\<rparr>,
      cf_owned_by = ''shell-consensus'',
      cf_notes = Some ''This consensus-side ordering vector shows that the configurable ingress guard remains cheap-first and does not accidentally trigger later block-import stages.''\<rparr>"

definition order_payload_before_signature_001 :: CheapFirstVector where
  "order_payload_before_signature_001 =
     \<lparr>cf_id = ''order-payload-before-signature-001'',
      cf_category = ''validation-order'',
      cf_rule = ''payload_before_signature'',
      cf_description = ''A payload_root mismatch is rejected in T1 without calling the transaction signature dispatcher.'',
      cf_input = MempoolLayer
        \<lparr>mi_payload = \<lparr>mpi_nonce = 5, mpi_gas_limit = 21000, mpi_regular_fee = 5, mpi_max_priority_fee_per_gas = 1, mpi_max_witness_priority_fee = 7, mpi_to = ''0x1111111111111111111111111111111111111111''\<rparr>,
         mi_authorizations = [\<lparr>mai_scheme_id = 0, mai_signature_hex = ''0xabababababababababababababababababababababababababababababababababababababababababababababababababababababababababababababababab'', mai_payload_root_mode = FlipFirstPayloadByte\<rparr>],
         mi_authorization_materials = [\<lparr>ami_public_key_hex = ''0x7777777777777777777777777777777777777777777777777777777777777777''\<rparr>],
         mi_policy = \<lparr>mpo_payload_lane_base_fee = 2, mpo_witness_lane_base_fee = 3, mpo_max_future_nonce_gap = 1\<rparr>,
         mi_observed_nonce = None\<rparr>,
      cf_expected_outcome = ''reject'',
      cf_expected_error = \<lparr>ee_kind = ''PayloadRootMismatch'', ee_lane = None, ee_context = None\<rparr>,
      cf_expected_effects = default_effects\<lparr>fx_transaction_signature_verifications := Some 0\<rparr>,
      cf_owned_by = ''shell-mempool'',
      cf_notes = Some ''This shared ordering vector freezes the local rule that payload binding must fail closed before any expensive transaction-path cryptography runs.''\<rparr>"

definition order_sidecar_before_execution_001 :: CheapFirstVector where
  "order_sidecar_before_execution_001 =
     \<lparr>cf_id = ''order-sidecar-before-execution-001'',
      cf_category = ''validation-order'',
      cf_rule = ''sidecar_before_execution'',
      cf_description = ''A sidecar commitment mismatch stops block import after signature verification and transaction revalidation but before witness preparation and execution.'',
      cf_input = ConsensusLayer
        \<lparr>con_header = \<lparr>chi_block_root = ''0x0101010101010101010101010101010101010101010101010101010101010101'', chi_transactions_root = ''0x0202020202020202020202020202020202020202020202020202020202020202'', chi_execution_witnesses_root = ''0x0303030303030303030303030303030303030303030303030303030303030303'', chi_state_root = ''0x0404040404040404040404040404040404040404040404040404040404040404'', chi_receipts_root = ''0x0505050505050505050505050505050505050505050505050505050505050505'', chi_witness_bytes = 128, chi_proposer_index = 7, chi_proposer_signature_hex = ''0x9999''\<rparr>,
         con_body = \<lparr>cbi_transactions_root_mode = CanonicalRoot, cbi_transaction_count = 2\<rparr>,
         con_sidecar = \<lparr>csi_block_root_mode = CanonicalRoot, csi_committed_root_mode = FlipFirstRootByte\<rparr>,
         con_execution = \<lparr>cei_post_state_root_mode = CanonicalRoot, cei_receipts_root_mode = CanonicalRoot\<rparr>,
         con_prefilter = None,
         con_resolver = \<lparr>cri_scheme_id = 9, cri_public_key_hex = ''0x5555555555555555555555555555555555555555555555555555555555555555''\<rparr>,
         con_dispatcher = \<lparr>cdi_validator_signature = AcceptSignature\<rparr>\<rparr>,
      cf_expected_outcome = ''reject'',
      cf_expected_error = \<lparr>ee_kind = ''SidecarMismatch'', ee_lane = None, ee_context = None\<rparr>,
      cf_expected_effects = default_effects\<lparr>fx_proposer_credential_resolutions := Some 1, fx_validator_signature_verifications := Some 1, fx_transaction_revalidations := Some 2, fx_witness_preparations := Some 0, fx_execution_calls := Some 0\<rparr>,
      cf_owned_by = ''shell-consensus'',
      cf_notes = Some ''This vector keeps the sidecar binding gate explicit: execution is only reachable after signature checks, transaction revalidation, and exact witness commitment validation all succeed.''\<rparr>"

definition order_signature_before_witness_001 :: CheapFirstVector where
  "order_signature_before_witness_001 =
     \<lparr>cf_id = ''order-signature-before-witness-001'',
      cf_category = ''validation-order'',
      cf_rule = ''signature_before_witness'',
      cf_description = ''A failed proposer signature stops block import before transaction revalidation, witness preparation, or execution begin.'',
      cf_input = ConsensusLayer
        \<lparr>con_header = \<lparr>chi_block_root = ''0x0101010101010101010101010101010101010101010101010101010101010101'', chi_transactions_root = ''0x0202020202020202020202020202020202020202020202020202020202020202'', chi_execution_witnesses_root = ''0x0303030303030303030303030303030303030303030303030303030303030303'', chi_state_root = ''0x0404040404040404040404040404040404040404040404040404040404040404'', chi_receipts_root = ''0x0505050505050505050505050505050505050505050505050505050505050505'', chi_witness_bytes = 128, chi_proposer_index = 7, chi_proposer_signature_hex = ''0x9999''\<rparr>,
         con_body = \<lparr>cbi_transactions_root_mode = CanonicalRoot, cbi_transaction_count = 2\<rparr>,
         con_sidecar = \<lparr>csi_block_root_mode = CanonicalRoot, csi_committed_root_mode = CanonicalRoot\<rparr>,
         con_execution = \<lparr>cei_post_state_root_mode = CanonicalRoot, cei_receipts_root_mode = CanonicalRoot\<rparr>,
         con_prefilter = None,
         con_resolver = \<lparr>cri_scheme_id = 9, cri_public_key_hex = ''0x5555555555555555555555555555555555555555555555555555555555555555''\<rparr>,
         con_dispatcher = \<lparr>cdi_validator_signature = RejectSignature\<rparr>\<rparr>,
      cf_expected_outcome = ''reject'',
      cf_expected_error = \<lparr>ee_kind = ''SignatureVerification'', ee_lane = None, ee_context = None\<rparr>,
      cf_expected_effects = default_effects\<lparr>fx_proposer_credential_resolutions := Some 1, fx_validator_signature_verifications := Some 1, fx_transaction_revalidations := Some 0, fx_witness_preparations := Some 0, fx_execution_calls := Some 0\<rparr>,
      cf_owned_by = ''shell-consensus'',
      cf_notes = Some ''The shared ordering contract explicitly proves that validator-path signature checks remain ahead of witness reconstruction and execution.''\<rparr>"

definition mempool_policy_vectors :: "(string \<times> MempoolPolicyVector) list" where
  "mempool_policy_vectors =
     [(''fee-payload-insufficient-001'', fee_payload_insufficient_001),
      (''fee-witness-insufficient-001'', fee_witness_insufficient_001),
      (''nonce-replay-conflict-001'', nonce_replay_conflict_001),
      (''nonce-too-high-001'', nonce_too_high_001)]"

definition validation_order_vectors :: "(string \<times> CheapFirstVector) list" where
  "validation_order_vectors =
     [(''order-body-root-before-signature-001'', order_body_root_before_signature_001),
      (''order-fee-before-signature-001'', order_fee_before_signature_001),
      (''order-header-before-signature-001'', order_header_before_signature_001),
      (''order-payload-before-signature-001'', order_payload_before_signature_001),
      (''order-sidecar-before-execution-001'', order_sidecar_before_execution_001),
      (''order-signature-before-witness-001'', order_signature_before_witness_001)]"

section \<open>The vectors pass\<close>

lemmas policy_vector_defs = fee_payload_insufficient_001_def fee_witness_insufficient_001_def nonce_replay_conflict_001_def nonce_too_high_001_def

lemmas order_vector_defs = order_body_root_before_signature_001_def order_fee_before_signature_001_def order_header_before_signature_001_def order_payload_before_signature_001_def order_sidecar_before_execution_001_def order_signature_before_witness_001_def

text \<open>The mempool vectors share their payload, signature and key; only the payload root depends on the hash.\<close>

lemma hex_digit_values:
  "to_digit_16 CHR ''0'' = Some 0" "to_digit_16 CHR ''1'' = Some 1" "to_digit_16 CHR ''2'' = Some 2"
  "to_digit_16 CHR ''3'' = Some 3" "to_digit_16 CHR ''4'' = Some 4" "to_digit_16 CHR ''5'' = Some 5"
  "to_digit_16 CHR ''6'' = Some 6" "to_digit_16 CHR ''7'' = Some 7" "to_digit_16 CHR ''8'' = Some 8"
  "to_digit_16 CHR ''9'' = Some 9" "to_digit_16 CHR ''a'' = Some 10" "to_digit_16 CHR ''b'' = Some 11"
  "to_digit_16 CHR ''c'' = Some 12" "to_digit_16 CHR ''d'' = Some 13" "to_digit_16 CHR ''e'' = Some 14"
  "to_digit_16 CHR ''f'' = Some 15"
  by (simp_all add: to_digit_16_def)

lemma replicate_numeral: "replicate (numeral k) x = x # replicate (pred_numeral k) x"
  by (simp add: numeral_eq_Suc)

lemmas hex_eval = parse_address_def parse_root_def parse_hex_def expect_array_def strip_prefix_def
  u8_from_str_radix_16_def assert_that_def hex_digit_values replicate_numeral

lemma vector_hex:
  "parse_address ''0x1111111111111111111111111111111111111111'' = Ok (replicate 20 0x11)"
  "parse_hex ''0x7777777777777777777777777777777777777777777777777777777777777777'' = Ok (replicate 32 0x77)"
  "parse_hex ''0xabababababababababababababababababababababababababababababababababababababababababababababababababababababababababababababababab'' =
     Ok (replicate 64 0xAB)"
  by (simp_all add: hex_eval)

lemma vector_payload_eq:
  "TransactionPayloadSsz (Basic (default_basic_payload
     \<lparr>basic_nonce := 5, basic_gas_limit := 21000,
      basic_fees := \<lparr>regular = lane_price 5, max_priority_fee_per_gas = lane_price 1,
        max_witness_priority_fee = lane_price 7\<rparr>,
      basic_to := replicate 20 0x11\<rparr>)) = test_payload"
  by (simp add: test_payload_def test_address_def)

lemma lane_prices_9: "\<not> gas_price_covers (lane_price 7) (lane_price 9)"
  by code_simp

lemma vector_headers:
  "list_all (\<lambda>(stem, v). stem = mv_id v \<and> mv_category v = ''mempool-policy'' \<and> mv_owned_by v = ''shell-mempool'' \<and>
     \<not> is_blank (mv_rule v) \<and> \<not> is_blank (mv_description v)) mempool_policy_vectors"
  "list_all (\<lambda>(stem, v). is_mempool_input (cf_input v) \<longrightarrow> stem = cf_id v \<and> cf_category v = ''validation-order'' \<and>
     cf_owned_by v = ''shell-mempool'' \<and> \<not> is_blank (cf_rule v) \<and> \<not> is_blank (cf_description v))
     validation_order_vectors"
  by code_simp+

lemmas mempool_vector_eval = admit_fixture_def build_envelope_def build_authorization_def build_policy_def
  build_authorization_materials_def vector_hex vector_payload_eq test_root_Ok admit_and_verify_def bind_action.simps
  screening_test_defs lane_prices_9 assert_expected_error_def assert_optional_def default_effects_def Let_def

lemma policy_vectors_reject:
  "list_all (\<lambda>(stem, v). assert_policy_rejects_before_dispatch sha v = Ok ()) mempool_policy_vectors"
  by (simp add: mempool_policy_vectors_def policy_vector_defs assert_policy_rejects_before_dispatch_def mempool_vector_eval
      del: payload_hash_tree_root.simps)

lemma policy_vectors_pass:
  "fixture_driven_vectors_cover_mempool_fee_and_nonce_policy sha mempool_policy_vectors = Ok ()"
proof -
  have "for_each (check_policy_vector sha) mempool_policy_vectors = Ok ()"
    using vector_headers(1) policy_vectors_reject [of sha]
    by (auto simp: result_simps check_policy_vector_def list_all_iff)
  then show ?thesis
    by (simp add: fixture_driven_vectors_cover_mempool_fee_and_nonce_policy_def mempool_policy_vectors_def)
qed

lemma fee_order_vector_rejects:
  "list_all (\<lambda>(stem, v). \<forall>i. cf_input v = MempoolLayer i \<longrightarrow> ee_kind (cf_expected_error v) = ''FeeFloor'' \<longrightarrow>
     assert_rejects_before_dispatch sha v i = Ok ()) validation_order_vectors"
  by (simp add: validation_order_vectors_def order_vector_defs assert_rejects_before_dispatch_def mempool_vector_eval
      del: payload_hash_tree_root.simps)

lemma payload_order_vector_rejects:
  assumes "digest32 sha"
  shows "list_all (\<lambda>(stem, v). \<forall>i. cf_input v = MempoolLayer i \<longrightarrow> ee_kind (cf_expected_error v) = ''PayloadRootMismatch'' \<longrightarrow>
     assert_rejects_before_dispatch sha v i = Ok ()) validation_order_vectors"
proof -
  have "test_root sha \<noteq> []" using length_test_root [OF assms] by fastforce
  then obtain r' where "flip_first 0xFF (test_root sha) = Ok r'" "r' \<noteq> test_root sha"
    using flip_first_Ok [of "test_root sha" "0xFF"] by auto
  then show ?thesis
    by (simp add: validation_order_vectors_def order_vector_defs assert_rejects_before_dispatch_def mempool_vector_eval
        index_at_def del: payload_hash_tree_root.simps)
qed

lemma mempool_order_kinds:
  "list_all (\<lambda>(stem, v). is_mempool_input (cf_input v) \<longrightarrow>
     ee_kind (cf_expected_error v) = ''FeeFloor'' \<or> ee_kind (cf_expected_error v) = ''PayloadRootMismatch'')
     validation_order_vectors"
  "0 < length (filter (is_mempool_input \<circ> cf_input \<circ> snd) validation_order_vectors)"
  by code_simp+

lemma mempool_order_vectors_pass:
  assumes "digest32 sha"
  shows "shared_cheap_first_vectors_cover_mempool_ordering_contract sha validation_order_vectors = Ok ()"
proof -
  have "check_mempool_order_vector sha (stem, v) = Ok ()" if "(stem, v) \<in> set validation_order_vectors" for stem v
    using that vector_headers(2) fee_order_vector_rejects [of sha] payload_order_vector_rejects [OF assms]
      mempool_order_kinds(1)
    by (cases "cf_input v") (force simp: check_mempool_order_vector_def list_all_iff)+
  then have "for_each (check_mempool_order_vector sha) validation_order_vectors = Ok ()"
    by (auto simp: for_each_Ok_iff)
  with mempool_order_kinds(2) show ?thesis
    by (simp add: shared_cheap_first_vectors_cover_mempool_ordering_contract_def)
qed

text \<open>The consensus vectors share their header roots, proposer key and signature.\<close>

lemma consensus_vector_hex:
  "parse_root ''0x0101010101010101010101010101010101010101010101010101010101010101'' = Ok (replicate 32 1)"
  "parse_root ''0x0202020202020202020202020202020202020202020202020202020202020202'' = Ok (replicate 32 2)"
  "parse_root ''0x0303030303030303030303030303030303030303030303030303030303030303'' = Ok (replicate 32 3)"
  "parse_root ''0x0404040404040404040404040404040404040404040404040404040404040404'' = Ok (replicate 32 4)"
  "parse_root ''0x0505050505050505050505050505050505050505050505050505050505050505'' = Ok (replicate 32 5)"
  "parse_hex ''0x5555555555555555555555555555555555555555555555555555555555555555'' = Ok (replicate 32 0x55)"
  "parse_hex ''0x9999'' = Ok [0x99, 0x99]"
  by (simp_all add: hex_eval)

lemma consensus_vector_headers:
  "list_all (\<lambda>(stem, v). \<not> is_mempool_input (cf_input v) \<longrightarrow> stem = cf_id v \<and> cf_category v = ''validation-order'' \<and>
     cf_owned_by v = ''shell-consensus'') validation_order_vectors"
  "0 < length (filter (Not \<circ> is_mempool_input \<circ> cf_input \<circ> snd) validation_order_vectors)"
  by code_simp+

lemma consensus_order_vectors_reject:
  "list_all (\<lambda>(stem, v). \<forall>i. cf_input v = ConsensusLayer i \<longrightarrow> assert_rejects_in_stage_order sha v i = Ok ())
     validation_order_vectors"
  by (simp add: validation_order_vectors_def order_vector_defs assert_rejects_in_stage_order_def build_header_def
      build_body_def build_sidecar_def build_execution_outcome_def consensus_vector_hex prefilter_limit_def
      vector_services_def assert_stage_error_def assert_optional_def default_effects_def import_test_defs
      list_update_same_conv upt_rec)

lemma consensus_order_vectors_pass:
  "shared_cheap_first_vectors_cover_consensus_ordering_contract sha validation_order_vectors = Ok ()"
proof -
  have "check_consensus_order_vector sha (stem, v) = Ok ()" if "(stem, v) \<in> set validation_order_vectors" for stem v
    using that consensus_vector_headers(1) consensus_order_vectors_reject [of sha]
    by (cases "cf_input v") (force simp: check_consensus_order_vector_def list_all_iff)+
  then have "for_each (check_consensus_order_vector sha) validation_order_vectors = Ok ()"
    by (auto simp: for_each_Ok_iff)
  with consensus_vector_headers(2) show ?thesis
    by (simp add: shared_cheap_first_vectors_cover_consensus_ordering_contract_def)
qed

end
