(* ===== verification/Crypto_Vectors.thy ===== *)
theory Crypto_Vectors
  imports Conformance
begin

text \<open>
  The shared vectors of signature dispatch: the record types of \<^verbatim>\<open>crates/shell-fixtures/src/lib.rs\<close>, the
  harness \<^verbatim>\<open>crates/shell-crypto/tests/crypto_vectors.rs\<close> and the vectors of \<^verbatim>\<open>src/vectors/crypto\<close>. The
  harness registers the Ed25519 scheme, whose curve arithmetic is a parameter: the theorem at the end gives
  the four answers of the library that decide whether the suite passes.
\<close>

section \<open>The vector format\<close>

datatype VerificationPathInput = TransactionAuthorizationInput | ValidatorMessageInput

record DispatcherConfigInput =
  dci_user_path_max_signature_size :: "usize option"
  dci_validator_path_max_signature_size :: "usize option"

record CryptoInput =
  cin_scheme_id :: u8
  cin_public_key_hex :: string
  cin_signing_root_hex :: string
  cin_signature_hex :: string
  cin_verification_path :: VerificationPathInput
  cin_dispatcher_config :: "DispatcherConfigInput option"

record CryptoExpectedError =
  cee_kind :: string
  cee_scheme_id :: "u8 option"
  cee_max_size :: "usize option"
  cee_actual_size :: "usize option"
  cee_path :: "string option"
  cee_limit_kind :: "string option"
  cee_context :: "string option"

record CryptoVector =
  cv_id :: string
  cv_category :: string
  cv_rule :: string
  cv_description :: string
  cv_input :: CryptoInput
  cv_expected_outcome :: string
  cv_expected_error :: "CryptoExpectedError option"
  cv_owned_by :: string
  cv_notes :: "string option"

section \<open>The harness\<close>

text \<open>A panic while a fixture is parsed is a panic of the function that parses it.\<close>

fun or_panic :: "'a panics \<Rightarrow> ('a, 'e) result" where
  "or_panic (Ok x) = Ok x"
| "or_panic (Err _) = Panic"
| "or_panic Panic = Panic"

definition registry_from_fixture :: "CryptoVector \<Rightarrow> unit VerifierRegistry" where
  "registry_from_fixture fixture =
     (case cin_dispatcher_config (cv_input fixture) of
        None \<Rightarrow> new_registry
      | Some config \<Rightarrow> with_config
          \<lparr>user_path_max_signature_size = (case dci_user_path_max_signature_size config of
             Some n \<Rightarrow> n | None \<Rightarrow> DEFAULT_USER_PATH_MAX_SIGNATURE_SIZE),
           validator_path_max_signature_size = dci_validator_path_max_signature_size config\<rparr>)"

definition fixture_request :: "CryptoVector \<Rightarrow> SignatureVerificationRequest panics" where
  "fixture_request fixture =
     bind_result (parse_hex (cin_public_key_hex (cv_input fixture))) (\<lambda>public_key.
     bind_result (parse_root (cin_signing_root_hex (cv_input fixture))) (\<lambda>root.
     bind_result (parse_hex (cin_signature_hex (cv_input fixture))) (\<lambda>signature.
     Ok \<lparr>public_key_material = public_key, req_signing_root = root, req_signature = signature\<rparr>)))"

definition dispatch_fixture :: "('k, 's) ed25519_dalek \<Rightarrow> CryptoVector \<Rightarrow> (unit, CryptoError) result" where
  "dispatch_fixture dalek fixture =
     (let registry = snd (register_verifier (Ed25519Verifier dalek) (registry_from_fixture fixture)) in
      bind_result (or_panic (fixture_request fixture)) (\<lambda>request.
      fst (case cin_verification_path (cv_input fixture) of
             TransactionAuthorizationInput \<Rightarrow>
               verify_transaction_authorization registry (cin_scheme_id (cv_input fixture)) request ()
           | ValidatorMessageInput \<Rightarrow>
               verify_validator_message registry (cin_scheme_id (cv_input fixture)) request ())))"

definition parse_verification_path :: "string \<Rightarrow> VerificationPath panics" where
  "parse_verification_path s =
     (if s = ''transaction_authorization'' then Ok TransactionAuthorization
      else if s = ''validator_message'' then Ok ValidatorMessage else Panic)"

definition parse_signature_limit_kind :: "string \<Rightarrow> SignatureLimitKind panics" where
  "parse_signature_limit_kind s =
     (if s = ''repository_rule'' then Ok RepositoryRule
      else if s = ''local_transport_guard'' then Ok LocalTransportGuard
      else if s = ''scheme'' then Ok Scheme else Panic)"

definition assert_parsed :: "(string \<Rightarrow> 'a panics) \<Rightarrow> string option \<Rightarrow> 'a \<Rightarrow> unit panics" where
  "assert_parsed parse expected actual =
     (case expected of None \<Rightarrow> Ok () | Some s \<Rightarrow> bind_result (parse s) (\<lambda>e. asserts [actual = e]))"

definition assert_signature_size_exceeded :: "CryptoExpectedError \<Rightarrow> SignatureSizeExceededError \<Rightarrow> unit panics" where
  "assert_signature_size_exceeded expected actual =
     bind_result (assert_optional (cee_max_size expected) (exceeded_max_size actual)) (\<lambda>_.
     bind_result (assert_optional (cee_actual_size expected) (exceeded_actual_size actual)) (\<lambda>_.
     bind_result (assert_parsed parse_verification_path (cee_path expected) (exceeded_path actual)) (\<lambda>_.
     assert_parsed parse_signature_limit_kind (cee_limit_kind expected) (exceeded_kind actual))))"

definition assert_verification_failed :: "CryptoExpectedError \<Rightarrow> VerificationFailure \<Rightarrow> unit panics" where
  "assert_verification_failed expected actual =
     bind_result (assert_optional (cee_scheme_id expected) (failure_scheme_id actual)) (\<lambda>_.
     assert_optional (cee_context expected) (failure_context actual))"

definition assert_crypto_error :: "CryptoExpectedError \<Rightarrow> CryptoError \<Rightarrow> unit panics" where
  "assert_crypto_error expected err =
     (case err of
        CryptoError.UnsupportedScheme scheme_id \<Rightarrow>
          if cee_kind expected = ''UnsupportedScheme'' then assert_optional (cee_scheme_id expected) scheme_id else Panic
      | CryptoError.SignatureSizeExceeded actual \<Rightarrow>
          if cee_kind expected = ''SignatureSizeExceeded'' then assert_signature_size_exceeded expected actual else Panic
      | VerificationFailed actual \<Rightarrow>
          if cee_kind expected = ''VerificationFailed'' then assert_verification_failed expected actual else Panic)"

definition assert_accept :: "('k, 's) ed25519_dalek \<Rightarrow> CryptoVector \<Rightarrow> unit panics" where
  "assert_accept dalek fixture = expect_ok (dispatch_fixture dalek fixture)"

definition assert_reject :: "('k, 's) ed25519_dalek \<Rightarrow> CryptoVector \<Rightarrow> unit panics" where
  "assert_reject dalek fixture =
     bind_result (expect_some (cv_expected_error fixture)) (\<lambda>expected.
     bind_result (expect_err (dispatch_fixture dalek fixture)) (\<lambda>err.
     assert_crypto_error expected err))"

definition check_crypto_vector :: "('k, 's) ed25519_dalek \<Rightarrow> string \<times> CryptoVector \<Rightarrow> unit panics" where
  "check_crypto_vector dalek = (\<lambda>(file_stem, fixture).
     bind_result (asserts [file_stem = cv_id fixture, cv_category fixture = ''crypto'', cv_owned_by fixture = ''shell-crypto'',
       \<not> is_blank (cv_rule fixture), \<not> is_blank (cv_description fixture),
       case cv_notes fixture of None \<Rightarrow> True | Some notes \<Rightarrow> \<not> is_blank notes]) (\<lambda>_.
     if cv_expected_outcome fixture = ''accept'' then assert_accept dalek fixture
     else if cv_expected_outcome fixture = ''reject'' then assert_reject dalek fixture
     else Panic))"

definition crypto_vectors_match_the_dispatch_contract ::
  "('k, 's) ed25519_dalek \<Rightarrow> (string \<times> CryptoVector) list \<Rightarrow> unit panics" where
  "crypto_vectors_match_the_dispatch_contract dalek paths =
     bind_result (asserts [paths \<noteq> []]) (\<lambda>_. for_each (check_crypto_vector dalek) paths)"

section \<open>The vectors\<close>

definition sig_supported_invalid_001 :: CryptoVector where
  "sig_supported_invalid_001 =
     \<lparr>cv_id = ''sig-supported-invalid-001'',
      cv_category = ''crypto'',
      cv_rule = ''ed25519_dispatch'',
      cv_description = ''A corrupted Ed25519 signature is rejected as a verification failure on the transaction-authorization path.'',
      cv_input = \<lparr>cin_scheme_id = 0,
         cin_public_key_hex = ''0x8a88e3dd7409f195fd52db2d3cba5d72ca6709bf1d94121bf3748801b40f6f5c'',
         cin_signing_root_hex = ''0xabababababababababababababababababababababababababababababababab'',
         cin_signature_hex = ''0x4acb8d5f58cd3aea4e44d1ebbebb386bda26e5a3996fc0f13193c84ec689d1fd61c59e7056d6b3a1e789fff8eb95202b8323de5c32e61487f41119cece42ec01'',
         cin_verification_path = TransactionAuthorizationInput,
         cin_dispatcher_config = None\<rparr>,
      cv_expected_outcome = ''reject'',
      cv_expected_error = Some \<lparr>cee_kind = ''VerificationFailed'', cee_scheme_id = Some 0, cee_max_size = None, cee_actual_size = None, cee_path = None, cee_limit_kind = None, cee_context = Some ''Signature verification failed''\<rparr>,
      cv_owned_by = ''shell-crypto'',
      cv_notes = Some ''Only the first signature byte differs from sig-supported-valid-001; the vector proves verification is byte-sensitive and fails closed.''\<rparr>"

definition sig_supported_valid_001 :: CryptoVector where
  "sig_supported_valid_001 =
     \<lparr>cv_id = ''sig-supported-valid-001'',
      cv_category = ''crypto'',
      cv_rule = ''ed25519_dispatch'',
      cv_description = ''A valid Ed25519 signature on the transaction-authorization path verifies successfully through the registry dispatcher.'',
      cv_input = \<lparr>cin_scheme_id = 0,
         cin_public_key_hex = ''0x8a88e3dd7409f195fd52db2d3cba5d72ca6709bf1d94121bf3748801b40f6f5c'',
         cin_signing_root_hex = ''0xabababababababababababababababababababababababababababababababab'',
         cin_signature_hex = ''0xb5cb8d5f58cd3aea4e44d1ebbebb386bda26e5a3996fc0f13193c84ec689d1fd61c59e7056d6b3a1e789fff8eb95202b8323de5c32e61487f41119cece42ec01'',
         cin_verification_path = TransactionAuthorizationInput,
         cin_dispatcher_config = None\<rparr>,
      cv_expected_outcome = ''accept'',
      cv_expected_error = None,
      cv_owned_by = ''shell-crypto'',
      cv_notes = Some ''Deterministic Ed25519 fixture derived from the 32-byte private key 0x01..01 and a 32-byte signing root of 0xab..ab.''\<rparr>"

definition sig_unsupported_scheme_001 :: CryptoVector where
  "sig_unsupported_scheme_001 =
     \<lparr>cv_id = ''sig-unsupported-scheme-001'',
      cv_category = ''crypto'',
      cv_rule = ''dispatcher_lookup'',
      cv_description = ''A scheme_id with no registered verifier is rejected before any scheme-specific verification work starts.'',
      cv_input = \<lparr>cin_scheme_id = 99,
         cin_public_key_hex = ''0x8a88e3dd7409f195fd52db2d3cba5d72ca6709bf1d94121bf3748801b40f6f5c'',
         cin_signing_root_hex = ''0xabababababababababababababababababababababababababababababababab'',
         cin_signature_hex = ''0xb5cb8d5f58cd3aea4e44d1ebbebb386bda26e5a3996fc0f13193c84ec689d1fd61c59e7056d6b3a1e789fff8eb95202b8323de5c32e61487f41119cece42ec01'',
         cin_verification_path = TransactionAuthorizationInput,
         cin_dispatcher_config = None\<rparr>,
      cv_expected_outcome = ''reject'',
      cv_expected_error = Some \<lparr>cee_kind = ''UnsupportedScheme'', cee_scheme_id = Some 99, cee_max_size = None, cee_actual_size = None, cee_path = None, cee_limit_kind = None, cee_context = None\<rparr>,
      cv_owned_by = ''shell-crypto'',
      cv_notes = Some ''This covers the fast dispatcher rejection path independently of the Ed25519 verifier implementation.''\<rparr>"

definition sig_user_oversize_001 :: CryptoVector where
  "sig_user_oversize_001 =
     \<lparr>cv_id = ''sig-user-oversize-001'',
      cv_category = ''crypto'',
      cv_rule = ''ed25519_dispatch'',
      cv_description = ''A transaction-authorization signature larger than the Ed25519 fixed-size contract is rejected before cryptographic verification.'',
      cv_input = \<lparr>cin_scheme_id = 0,
         cin_public_key_hex = ''0x8a88e3dd7409f195fd52db2d3cba5d72ca6709bf1d94121bf3748801b40f6f5c'',
         cin_signing_root_hex = ''0xabababababababababababababababababababababababababababababababab'',
         cin_signature_hex = ''0x1111111111111111111111111111111111111111111111111111111111111111111111111111111111111111111111111111111111111111111111111111111111'',
         cin_verification_path = TransactionAuthorizationInput,
         cin_dispatcher_config = None\<rparr>,
      cv_expected_outcome = ''reject'',
      cv_expected_error = Some \<lparr>cee_kind = ''SignatureSizeExceeded'', cee_scheme_id = None, cee_max_size = Some 64, cee_actual_size = Some 65, cee_path = Some ''transaction_authorization'', cee_limit_kind = None, cee_context = None\<rparr>,
      cv_owned_by = ''shell-crypto'',
      cv_notes = Some ''For Ed25519 the dispatcher resolves the effective max size to 64 bytes, so the size guard fires before verifier parsing or signature math.''\<rparr>"

definition sig_validator_invalid_001 :: CryptoVector where
  "sig_validator_invalid_001 =
     \<lparr>cv_id = ''sig-validator-invalid-001'',
      cv_category = ''crypto'',
      cv_rule = ''ed25519_dispatch'',
      cv_description = ''A corrupted Ed25519 validator-message signature is rejected as a cryptographic verification failure.'',
      cv_input = \<lparr>cin_scheme_id = 0,
         cin_public_key_hex = ''0x8a88e3dd7409f195fd52db2d3cba5d72ca6709bf1d94121bf3748801b40f6f5c'',
         cin_signing_root_hex = ''0x5555555555555555555555555555555555555555555555555555555555555555'',
         cin_signature_hex = ''0x9d982c5b3e535a01abc689e041e24f1db10f30214c9750918e1b5a91a0a5b466e8163f02942cfcd1fa02741473800fd7717c108986588e573cfc347d38e62d03'',
         cin_verification_path = ValidatorMessageInput,
         cin_dispatcher_config = None\<rparr>,
      cv_expected_outcome = ''reject'',
      cv_expected_error = Some \<lparr>cee_kind = ''VerificationFailed'', cee_scheme_id = Some 0, cee_max_size = None, cee_actual_size = None, cee_path = None, cee_limit_kind = None, cee_context = Some ''Signature verification failed''\<rparr>,
      cv_owned_by = ''shell-crypto'',
      cv_notes = Some ''Only the first signature byte differs from sig-validator-valid-001; consensus should still surface this as an invalid validator-path signature rather than as a transport-policy event.''\<rparr>"

definition sig_validator_local_guard_001 :: CryptoVector where
  "sig_validator_local_guard_001 =
     \<lparr>cv_id = ''sig-validator-local-guard-001'',
      cv_category = ''crypto'',
      cv_rule = ''validator_transport_guard'',
      cv_description = ''A validator-message signature that exceeds the configured local transport guard is rejected before cryptographic verification and remains distinguishable from scheme-native consensus failures.'',
      cv_input = \<lparr>cin_scheme_id = 0,
         cin_public_key_hex = ''0x8a88e3dd7409f195fd52db2d3cba5d72ca6709bf1d94121bf3748801b40f6f5c'',
         cin_signing_root_hex = ''0x5555555555555555555555555555555555555555555555555555555555555555'',
         cin_signature_hex = ''0x1111111111111111111111111111111111111111111111111111111111111111111111111111111111111111111111111111111111111111111111111111111111'',
         cin_verification_path = ValidatorMessageInput,
         cin_dispatcher_config = Some \<lparr>dci_user_path_max_signature_size = None, dci_validator_path_max_signature_size = Some 32\<rparr>\<rparr>,
      cv_expected_outcome = ''reject'',
      cv_expected_error = Some \<lparr>cee_kind = ''SignatureSizeExceeded'', cee_scheme_id = None, cee_max_size = Some 32, cee_actual_size = Some 65, cee_path = Some ''validator_message'', cee_limit_kind = Some ''local_transport_guard'', cee_context = None\<rparr>,
      cv_owned_by = ''shell-crypto'',
      cv_notes = Some ''The same 65-byte artifact would also exceed Ed25519's native 64-byte size, but this vector proves the dispatcher preserves the stricter validator-path transport classification when the local guard fires first.''\<rparr>"

definition sig_validator_unsupported_scheme_001 :: CryptoVector where
  "sig_validator_unsupported_scheme_001 =
     \<lparr>cv_id = ''sig-validator-unsupported-scheme-001'',
      cv_category = ''crypto'',
      cv_rule = ''dispatcher_lookup'',
      cv_description = ''A validator-message scheme_id with no registered verifier is rejected before any scheme-specific verification work starts.'',
      cv_input = \<lparr>cin_scheme_id = 99,
         cin_public_key_hex = ''0x8a88e3dd7409f195fd52db2d3cba5d72ca6709bf1d94121bf3748801b40f6f5c'',
         cin_signing_root_hex = ''0x5555555555555555555555555555555555555555555555555555555555555555'',
         cin_signature_hex = ''0x9c982c5b3e535a01abc689e041e24f1db10f30214c9750918e1b5a91a0a5b466e8163f02942cfcd1fa02741473800fd7717c108986588e573cfc347d38e62d03'',
         cin_verification_path = ValidatorMessageInput,
         cin_dispatcher_config = None\<rparr>,
      cv_expected_outcome = ''reject'',
      cv_expected_error = Some \<lparr>cee_kind = ''UnsupportedScheme'', cee_scheme_id = Some 99, cee_max_size = None, cee_actual_size = None, cee_path = None, cee_limit_kind = None, cee_context = None\<rparr>,
      cv_owned_by = ''shell-crypto'',
      cv_notes = Some ''This covers the fast validator-path dispatcher rejection path and gives consensus and network tests a canonical invalid-signature fixture that does not depend on cryptographic math.''\<rparr>"

definition sig_validator_valid_001 :: CryptoVector where
  "sig_validator_valid_001 =
     \<lparr>cv_id = ''sig-validator-valid-001'',
      cv_category = ''crypto'',
      cv_rule = ''ed25519_dispatch'',
      cv_description = ''A valid Ed25519 signature on the validator-message path verifies successfully through the same dispatcher contract.'',
      cv_input = \<lparr>cin_scheme_id = 0,
         cin_public_key_hex = ''0x8a88e3dd7409f195fd52db2d3cba5d72ca6709bf1d94121bf3748801b40f6f5c'',
         cin_signing_root_hex = ''0x5555555555555555555555555555555555555555555555555555555555555555'',
         cin_signature_hex = ''0x9c982c5b3e535a01abc689e041e24f1db10f30214c9750918e1b5a91a0a5b466e8163f02942cfcd1fa02741473800fd7717c108986588e573cfc347d38e62d03'',
         cin_verification_path = ValidatorMessageInput,
         cin_dispatcher_config = None\<rparr>,
      cv_expected_outcome = ''accept'',
      cv_expected_error = None,
      cv_owned_by = ''shell-crypto'',
      cv_notes = Some ''This keeps validator-path verification under the same vector-driven harness without freezing any higher-level validator credential policy.''\<rparr>"

definition crypto_vectors :: "(string \<times> CryptoVector) list" where
  "crypto_vectors =
     [(''sig-supported-invalid-001'', sig_supported_invalid_001),
      (''sig-supported-valid-001'', sig_supported_valid_001),
      (''sig-unsupported-scheme-001'', sig_unsupported_scheme_001),
      (''sig-user-oversize-001'', sig_user_oversize_001),
      (''sig-validator-invalid-001'', sig_validator_invalid_001),
      (''sig-validator-local-guard-001'', sig_validator_local_guard_001),
      (''sig-validator-unsupported-scheme-001'', sig_validator_unsupported_scheme_001),
      (''sig-validator-valid-001'', sig_validator_valid_001)]"

section \<open>Properties\<close>

lemmas crypto_vector_defs = sig_supported_invalid_001_def sig_supported_valid_001_def sig_unsupported_scheme_001_def sig_user_oversize_001_def sig_validator_invalid_001_def sig_validator_local_guard_001_def sig_validator_unsupported_scheme_001_def sig_validator_valid_001_def

lemma crypto_vector_hex:
  "parse_hex ''0x8a88e3dd7409f195fd52db2d3cba5d72ca6709bf1d94121bf3748801b40f6f5c'' =
     Ok [0x8A, 0x88, 0xE3, 0xDD, 0x74, 0x09, 0xF1, 0x95, 0xFD, 0x52, 0xDB, 0x2D, 0x3C, 0xBA, 0x5D, 0x72,
       0xCA, 0x67, 0x09, 0xBF, 0x1D, 0x94, 0x12, 0x1B, 0xF3, 0x74, 0x88, 0x01, 0xB4, 0x0F, 0x6F, 0x5C]"
  "parse_hex ''0x4acb8d5f58cd3aea4e44d1ebbebb386bda26e5a3996fc0f13193c84ec689d1fd61c59e7056d6b3a1e789fff8eb95202b8323de5c32e61487f41119cece42ec01'' =
     Ok [0x4A, 0xCB, 0x8D, 0x5F, 0x58, 0xCD, 0x3A, 0xEA, 0x4E, 0x44, 0xD1, 0xEB, 0xBE, 0xBB, 0x38, 0x6B,
       0xDA, 0x26, 0xE5, 0xA3, 0x99, 0x6F, 0xC0, 0xF1, 0x31, 0x93, 0xC8, 0x4E, 0xC6, 0x89, 0xD1, 0xFD,
       0x61, 0xC5, 0x9E, 0x70, 0x56, 0xD6, 0xB3, 0xA1, 0xE7, 0x89, 0xFF, 0xF8, 0xEB, 0x95, 0x20, 0x2B,
       0x83, 0x23, 0xDE, 0x5C, 0x32, 0xE6, 0x14, 0x87, 0xF4, 0x11, 0x19, 0xCE, 0xCE, 0x42, 0xEC, 0x01]"
  "parse_root ''0xabababababababababababababababababababababababababababababababab'' =
     Ok (replicate 32 0xAB)"
  "parse_hex ''0xb5cb8d5f58cd3aea4e44d1ebbebb386bda26e5a3996fc0f13193c84ec689d1fd61c59e7056d6b3a1e789fff8eb95202b8323de5c32e61487f41119cece42ec01'' =
     Ok [0xB5, 0xCB, 0x8D, 0x5F, 0x58, 0xCD, 0x3A, 0xEA, 0x4E, 0x44, 0xD1, 0xEB, 0xBE, 0xBB, 0x38, 0x6B,
       0xDA, 0x26, 0xE5, 0xA3, 0x99, 0x6F, 0xC0, 0xF1, 0x31, 0x93, 0xC8, 0x4E, 0xC6, 0x89, 0xD1, 0xFD,
       0x61, 0xC5, 0x9E, 0x70, 0x56, 0xD6, 0xB3, 0xA1, 0xE7, 0x89, 0xFF, 0xF8, 0xEB, 0x95, 0x20, 0x2B,
       0x83, 0x23, 0xDE, 0x5C, 0x32, 0xE6, 0x14, 0x87, 0xF4, 0x11, 0x19, 0xCE, 0xCE, 0x42, 0xEC, 0x01]"
  "parse_hex ''0x1111111111111111111111111111111111111111111111111111111111111111111111111111111111111111111111111111111111111111111111111111111111'' =
     Ok (replicate 65 0x11)"
  "parse_hex ''0x9d982c5b3e535a01abc689e041e24f1db10f30214c9750918e1b5a91a0a5b466e8163f02942cfcd1fa02741473800fd7717c108986588e573cfc347d38e62d03'' =
     Ok [0x9D, 0x98, 0x2C, 0x5B, 0x3E, 0x53, 0x5A, 0x01, 0xAB, 0xC6, 0x89, 0xE0, 0x41, 0xE2, 0x4F, 0x1D,
       0xB1, 0x0F, 0x30, 0x21, 0x4C, 0x97, 0x50, 0x91, 0x8E, 0x1B, 0x5A, 0x91, 0xA0, 0xA5, 0xB4, 0x66,
       0xE8, 0x16, 0x3F, 0x02, 0x94, 0x2C, 0xFC, 0xD1, 0xFA, 0x02, 0x74, 0x14, 0x73, 0x80, 0x0F, 0xD7,
       0x71, 0x7C, 0x10, 0x89, 0x86, 0x58, 0x8E, 0x57, 0x3C, 0xFC, 0x34, 0x7D, 0x38, 0xE6, 0x2D, 0x03]"
  "parse_root ''0x5555555555555555555555555555555555555555555555555555555555555555'' =
     Ok (replicate 32 0x55)"
  "parse_hex ''0x9c982c5b3e535a01abc689e041e24f1db10f30214c9750918e1b5a91a0a5b466e8163f02942cfcd1fa02741473800fd7717c108986588e573cfc347d38e62d03'' =
     Ok [0x9C, 0x98, 0x2C, 0x5B, 0x3E, 0x53, 0x5A, 0x01, 0xAB, 0xC6, 0x89, 0xE0, 0x41, 0xE2, 0x4F, 0x1D,
       0xB1, 0x0F, 0x30, 0x21, 0x4C, 0x97, 0x50, 0x91, 0x8E, 0x1B, 0x5A, 0x91, 0xA0, 0xA5, 0xB4, 0x66,
       0xE8, 0x16, 0x3F, 0x02, 0x94, 0x2C, 0xFC, 0xD1, 0xFA, 0x02, 0x74, 0x14, 0x73, 0x80, 0x0F, 0xD7,
       0x71, 0x7C, 0x10, 0x89, 0x86, 0x58, 0x8E, 0x57, 0x3C, 0xFC, 0x34, 0x7D, 0x38, 0xE6, 0x2D, 0x03]"
  by (simp_all add: hex_eval)

lemma vector_headers_ok:
  "list_all (\<lambda>(stem, v). stem = cv_id v \<and> cv_category v = ''crypto'' \<and> cv_owned_by v = ''shell-crypto'' \<and>
     \<not> is_blank (cv_rule v) \<and> \<not> is_blank (cv_description v) \<and>
     (case cv_notes v of None \<Rightarrow> True | Some notes \<Rightarrow> \<not> is_blank notes)) crypto_vectors"
  by code_simp

definition vector_request :: "CryptoVector \<Rightarrow> SignatureVerificationRequest" where
  "vector_request fixture = (case fixture_request fixture of Ok request \<Rightarrow> request | _ \<Rightarrow> sample_request 0)"

lemma fixture_requests:
  "list_all (\<lambda>(stem, v). fixture_request v = Ok (vector_request v)) crypto_vectors"
  by (simp add: crypto_vectors_def vector_request_def fixture_request_def crypto_vector_defs crypto_vector_hex)

lemma signature_lengths:
  "length (req_signature (vector_request sig_supported_valid_001)) = 64"
  "length (req_signature (vector_request sig_supported_invalid_001)) = 64"
  "length (req_signature (vector_request sig_validator_valid_001)) = 64"
  "length (req_signature (vector_request sig_validator_invalid_001)) = 64"
  "length (req_signature (vector_request sig_user_oversize_001)) = 65"
  "length (req_signature (vector_request sig_validator_local_guard_001)) = 65"
  by (simp_all add: vector_request_def fixture_request_def crypto_vector_defs crypto_vector_hex)

lemma key_lengths:
  "length (public_key_material (vector_request sig_supported_valid_001)) = 32"
  "length (public_key_material (vector_request sig_supported_invalid_001)) = 32"
  "length (public_key_material (vector_request sig_validator_valid_001)) = 32"
  "length (public_key_material (vector_request sig_validator_invalid_001)) = 32"
  by (simp_all add: vector_request_def fixture_request_def crypto_vector_defs crypto_vector_hex)

lemma vector_fields:
  "cin_scheme_id (cv_input sig_supported_invalid_001) = 0" "cin_verification_path (cv_input sig_supported_invalid_001) = TransactionAuthorizationInput"
  "cin_dispatcher_config (cv_input sig_supported_invalid_001) = None"
  "cin_scheme_id (cv_input sig_supported_valid_001) = 0" "cin_verification_path (cv_input sig_supported_valid_001) = TransactionAuthorizationInput"
  "cin_dispatcher_config (cv_input sig_supported_valid_001) = None"
  "cin_scheme_id (cv_input sig_unsupported_scheme_001) = 99" "cin_verification_path (cv_input sig_unsupported_scheme_001) = TransactionAuthorizationInput"
  "cin_dispatcher_config (cv_input sig_unsupported_scheme_001) = None"
  "cin_scheme_id (cv_input sig_user_oversize_001) = 0" "cin_verification_path (cv_input sig_user_oversize_001) = TransactionAuthorizationInput"
  "cin_dispatcher_config (cv_input sig_user_oversize_001) = None"
  "cin_scheme_id (cv_input sig_validator_invalid_001) = 0" "cin_verification_path (cv_input sig_validator_invalid_001) = ValidatorMessageInput"
  "cin_dispatcher_config (cv_input sig_validator_invalid_001) = None"
  "cin_scheme_id (cv_input sig_validator_local_guard_001) = 0" "cin_verification_path (cv_input sig_validator_local_guard_001) = ValidatorMessageInput"
  "cin_dispatcher_config (cv_input sig_validator_local_guard_001) = Some \<lparr>dci_user_path_max_signature_size = None, dci_validator_path_max_signature_size = Some 32\<rparr>"
  "cin_scheme_id (cv_input sig_validator_unsupported_scheme_001) = 99" "cin_verification_path (cv_input sig_validator_unsupported_scheme_001) = ValidatorMessageInput"
  "cin_dispatcher_config (cv_input sig_validator_unsupported_scheme_001) = None"
  "cin_scheme_id (cv_input sig_validator_valid_001) = 0" "cin_verification_path (cv_input sig_validator_valid_001) = ValidatorMessageInput"
  "cin_dispatcher_config (cv_input sig_validator_valid_001) = None"
  by (simp_all add: crypto_vector_defs)

text \<open>What dispatching each vector returns, when signatures of the library are 64 bytes long.\<close>

lemma fixture_request_Ok:
  "fixture_request sig_supported_valid_001 = Ok (vector_request sig_supported_valid_001)"
  "fixture_request sig_supported_invalid_001 = Ok (vector_request sig_supported_invalid_001)"
  "fixture_request sig_validator_valid_001 = Ok (vector_request sig_validator_valid_001)"
  "fixture_request sig_validator_invalid_001 = Ok (vector_request sig_validator_invalid_001)"
  "fixture_request sig_user_oversize_001 = Ok (vector_request sig_user_oversize_001)"
  "fixture_request sig_validator_local_guard_001 = Ok (vector_request sig_validator_local_guard_001)"
  "fixture_request sig_unsupported_scheme_001 = Ok (vector_request sig_unsupported_scheme_001)"
  "fixture_request sig_validator_unsupported_scheme_001 = Ok (vector_request sig_validator_unsupported_scheme_001)"
  using fixture_requests by (simp_all add: crypto_vectors_def)

lemma dispatch_results:
  assumes "signature_byte_size dalek = 64"
  shows "dispatch_fixture dalek sig_supported_valid_001 =
      map_err VerificationFailed (ed25519_verify dalek (vector_request sig_supported_valid_001))"
    and "dispatch_fixture dalek sig_supported_invalid_001 =
      map_err VerificationFailed (ed25519_verify dalek (vector_request sig_supported_invalid_001))"
    and "dispatch_fixture dalek sig_validator_valid_001 =
      map_err VerificationFailed (ed25519_verify dalek (vector_request sig_validator_valid_001))"
    and "dispatch_fixture dalek sig_validator_invalid_001 =
      map_err VerificationFailed (ed25519_verify dalek (vector_request sig_validator_invalid_001))"
    and "dispatch_fixture dalek sig_user_oversize_001 = Err (CryptoError.SignatureSizeExceeded
      \<lparr>exceeded_max_size = 64, exceeded_actual_size = 65, exceeded_path = TransactionAuthorization, exceeded_kind = Scheme\<rparr>)"
    and "dispatch_fixture dalek sig_validator_local_guard_001 = Err (CryptoError.SignatureSizeExceeded
      \<lparr>exceeded_max_size = 32, exceeded_actual_size = 65, exceeded_path = ValidatorMessage,
       exceeded_kind = LocalTransportGuard\<rparr>)"
    and "dispatch_fixture dalek sig_unsupported_scheme_001 = Err (CryptoError.UnsupportedScheme 99)"
    and "dispatch_fixture dalek sig_validator_unsupported_scheme_001 = Err (CryptoError.UnsupportedScheme 99)"
  using assms
  by (simp_all add: dispatch_fixture_def fixture_request_Ok registry_from_fixture_def dispatch_defs Ed25519Verifier_def
      SCHEME_ID_ED25519_def signature_lengths vector_fields Let_def)

lemma corrupted_vector_rejected:
  assumes "dispatch_fixture dalek v = map_err VerificationFailed r" "cv_expected_error v = Some e"
    "cee_kind e = ''VerificationFailed''" "cee_scheme_id e = Some 0" "cee_context e = Some context"
  shows "assert_reject dalek v = Ok () \<longleftrightarrow> r = Err (ed25519_failure context)"
  using assms
  by (cases r) (auto simp: assert_reject_def assert_crypto_error_def assert_verification_failed_def assert_optional_def
      ed25519_failure_def SCHEME_ID_ED25519_def result_simps)

lemma corrupted_errors:
  "cv_expected_error sig_supported_invalid_001 = Some \<lparr>cee_kind = ''VerificationFailed'', cee_scheme_id = Some 0,
     cee_max_size = None, cee_actual_size = None, cee_path = None, cee_limit_kind = None,
     cee_context = Some ''Signature verification failed''\<rparr>"
  "cv_expected_error sig_validator_invalid_001 = Some \<lparr>cee_kind = ''VerificationFailed'', cee_scheme_id = Some 0,
     cee_max_size = None, cee_actual_size = None, cee_path = None, cee_limit_kind = None,
     cee_context = Some ''Signature verification failed''\<rparr>"
  by (simp_all add: sig_supported_invalid_001_def sig_validator_invalid_001_def)

lemma corrupted_vectors:
  assumes "signature_byte_size dalek = 64"
  shows "assert_reject dalek sig_supported_invalid_001 = Ok () \<longleftrightarrow>
      ed25519_verify dalek (vector_request sig_supported_invalid_001) =
        Err (ed25519_failure ''Signature verification failed'')"
    and "assert_reject dalek sig_validator_invalid_001 = Ok () \<longleftrightarrow>
      ed25519_verify dalek (vector_request sig_validator_invalid_001) =
        Err (ed25519_failure ''Signature verification failed'')"
  by (rule corrupted_vector_rejected [OF dispatch_results(2) [OF assms] corrupted_errors(1)]
      corrupted_vector_rejected [OF dispatch_results(4) [OF assms] corrupted_errors(2)]; simp)+

lemma limit_vectors_rejected:
  assumes "signature_byte_size dalek = 64"
  shows "assert_reject dalek sig_user_oversize_001 = Ok ()" "assert_reject dalek sig_validator_local_guard_001 = Ok ()"
    "assert_reject dalek sig_unsupported_scheme_001 = Ok ()"
    "assert_reject dalek sig_validator_unsupported_scheme_001 = Ok ()"
  unfolding assert_reject_def dispatch_results [OF assms]
  by (simp_all add: crypto_vector_defs assert_crypto_error_def assert_signature_size_exceeded_def assert_optional_def
      assert_parsed_def parse_verification_path_def parse_signature_limit_kind_def)

lemma vector_outcomes:
  "cv_expected_outcome sig_supported_valid_001 = ''accept''" "cv_expected_outcome sig_validator_valid_001 = ''accept''"
  "cv_expected_outcome sig_supported_invalid_001 = ''reject''" "cv_expected_outcome sig_validator_invalid_001 = ''reject''"
  "cv_expected_outcome sig_user_oversize_001 = ''reject''" "cv_expected_outcome sig_validator_local_guard_001 = ''reject''"
  "cv_expected_outcome sig_unsupported_scheme_001 = ''reject''"
  "cv_expected_outcome sig_validator_unsupported_scheme_001 = ''reject''"
  by (simp_all add: crypto_vector_defs)

lemma crypto_vectors_nonempty: "crypto_vectors \<noteq> []"
  by (simp add: crypto_vectors_def)

lemma check_crypto_vector_eq:
  assumes "(stem, v) \<in> set crypto_vectors"
  shows "check_crypto_vector dalek (stem, v) =
    (if cv_expected_outcome v = ''accept'' then assert_accept dalek v
     else if cv_expected_outcome v = ''reject'' then assert_reject dalek v else Panic)"
  using assms vector_headers_ok by (fastforce simp: check_crypto_vector_def list_all_iff)

text \<open>
  What the library answers on a request: the key and the signature parse, and the curve check on the
  signing root has the given verdict.
\<close>

definition library_verdict :: "('k, 's) ed25519_dalek \<Rightarrow> SignatureVerificationRequest \<Rightarrow> bool \<Rightarrow> bool" where
  "library_verdict dalek request verdict \<longleftrightarrow>
     (\<exists>key sig. verifying_key_from_bytes dalek (public_key_material request) = Some key \<and>
        signature_from_slice dalek (req_signature request) = Some sig \<and>
        key_verify dalek key (req_signing_root request) sig = verdict)"

lemma ed25519_verify_verdict:
  assumes "length (public_key_material request) = 32"
  shows "ed25519_verify dalek request = Ok () \<longleftrightarrow> library_verdict dalek request True"
    and "ed25519_verify dalek request = Err (ed25519_failure ''Signature verification failed'') \<longleftrightarrow>
      library_verdict dalek request False"
  using assms
  by (cases "verifying_key_from_bytes dalek (public_key_material request)";
      cases "signature_from_slice dalek (req_signature request)";
      simp add: ed25519_verify_def library_verdict_def ed25519_failure_def)+

text \<open>
  The crypto vectors pass exactly when the Ed25519 library, with its 64-byte signatures, parses the keys
  and signatures of four vectors, verifies the two valid signatures and refuses the two corrupted ones by
  the curve check. Everything else the suite asserts (lookup of the scheme, the size limits of both paths
  and their classification) holds for every library.
\<close>

theorem crypto_vectors_exact:
  assumes "signature_byte_size dalek = 64"
  shows "crypto_vectors_match_the_dispatch_contract dalek crypto_vectors = Ok () \<longleftrightarrow>
    library_verdict dalek (vector_request sig_supported_valid_001) True \<and>
    library_verdict dalek (vector_request sig_validator_valid_001) True \<and>
    library_verdict dalek (vector_request sig_supported_invalid_001) False \<and>
    library_verdict dalek (vector_request sig_validator_invalid_001) False"
proof -
  have "crypto_vectors_match_the_dispatch_contract dalek crypto_vectors = Ok () \<longleftrightarrow>
      (\<forall>x \<in> set crypto_vectors. check_crypto_vector dalek x = Ok ())"
    by (simp add: crypto_vectors_match_the_dispatch_contract_def for_each_Ok_iff crypto_vectors_nonempty)
  also have "\<dots> \<longleftrightarrow> (\<forall>(stem, v) \<in> set crypto_vectors. (if cv_expected_outcome v = ''accept'' then assert_accept dalek v
        else if cv_expected_outcome v = ''reject'' then assert_reject dalek v else Panic) = Ok ())"
    by (intro ball_cong refl) (clarsimp simp: check_crypto_vector_eq)
  also have "\<dots> \<longleftrightarrow> assert_accept dalek sig_supported_valid_001 = Ok () \<and>
      assert_accept dalek sig_validator_valid_001 = Ok () \<and>
      assert_reject dalek sig_supported_invalid_001 = Ok () \<and> assert_reject dalek sig_validator_invalid_001 = Ok ()"
    by (simp add: crypto_vectors_def vector_outcomes limit_vectors_rejected [OF assms] conj_ac)
  finally show ?thesis
    by (simp add: assert_accept_def dispatch_results [OF assms] corrupted_vectors [OF assms] result_simps
        ed25519_verify_verdict key_lengths)
qed

text \<open>A library that accepts exactly the two valid signatures of the vectors.\<close>

definition vector_dalek :: "(bytes, bytes) ed25519_dalek" where
  "vector_dalek = \<lparr>signature_byte_size = 64, verifying_key_from_bytes = Some, signature_from_slice = Some,
     key_verify = (\<lambda>key message signature.
       signature = req_signature (vector_request sig_supported_valid_001) \<or>
       signature = req_signature (vector_request sig_validator_valid_001))\<rparr>"

lemma vector_dalek_verdicts:
  "library_verdict vector_dalek (vector_request sig_supported_valid_001) True"
  "library_verdict vector_dalek (vector_request sig_validator_valid_001) True"
  "library_verdict vector_dalek (vector_request sig_supported_invalid_001) False"
  "library_verdict vector_dalek (vector_request sig_validator_invalid_001) False"
  by (simp_all add: library_verdict_def vector_dalek_def vector_request_def fixture_request_def crypto_vector_defs
      crypto_vector_hex)

theorem crypto_vectors_exact_witness:
  "signature_byte_size vector_dalek = 64 \<and>
   crypto_vectors_match_the_dispatch_contract vector_dalek crypto_vectors = Ok ()"
proof -
  have "signature_byte_size vector_dalek = 64" by (simp add: vector_dalek_def)
  then show ?thesis using crypto_vectors_exact [of vector_dalek] vector_dalek_verdicts by simp
qed

end
