(* ===== verification/Wire_Objects.thy ===== *)
theory Wire_Objects
  imports Codec Ssz
begin

text \<open>
  The traits of the transaction types: \<open>CanonicalSsz\<close> and its generic functions
  (\<^verbatim>\<open>crates/shell-primitives/src/ssz.rs\<close>), \<open>ProtocolObject\<close> and \<open>TransactionMetadata\<close>
  (\<^verbatim>\<open>crates/shell-primitives/src/traits.rs\<close>), and the methods of
  \<^verbatim>\<open>crates/shell-primitives/src/types/transactions.rs\<close> that forward to the codec and to the hasher. A
  trait is the record of its methods and an \<open>impl\<close> is a value of that record. What the two methods of
  \<open>CanonicalSsz\<close> promise together is stated once, as a locale, and shown of the three implementations: the
  root of an object commits to its bytes.
\<close>

section \<open>Canonical SSZ\<close>

record 'a CanonicalSsz =
  encode_ssz :: "'a \<Rightarrow> (bytes, PrimitiveError) result"
  ssz_hash_tree_root :: "'a \<Rightarrow> (Root, PrimitiveError) result"

definition ssz_encode :: "'a CanonicalSsz \<Rightarrow> 'a \<Rightarrow> (bytes, PrimitiveError) result" where
  "ssz_encode T value = encode_ssz T value"

definition hash_tree_root :: "'a CanonicalSsz \<Rightarrow> 'a \<Rightarrow> (Root, PrimitiveError) result" where
  "hash_tree_root T value = ssz_hash_tree_root T value"

definition payload_ssz :: "hash_fun \<Rightarrow> TransactionPayloadSsz CanonicalSsz" where
  "payload_ssz sha = \<lparr>encode_ssz = encode_payload, ssz_hash_tree_root = payload_hash_tree_root sha\<rparr>"

definition envelope_ssz :: "hash_fun \<Rightarrow> TransactionEnvelope CanonicalSsz" where
  "envelope_ssz sha = \<lparr>encode_ssz = encode_envelope, ssz_hash_tree_root = envelope_hash_tree_root sha\<rparr>"

definition signing_data_ssz :: "hash_fun \<Rightarrow> SigningData CanonicalSsz" where
  "signing_data_ssz sha = \<lparr>encode_ssz = signing_data_encode_ssz, ssz_hash_tree_root = signing_data_hash_tree_root sha\<rparr>"

section \<open>Methods of the transaction types\<close>

definition payload_method_hash_tree_root :: "hash_fun \<Rightarrow> TransactionPayloadSsz \<Rightarrow> (Root, PrimitiveError) result" where
  "payload_method_hash_tree_root sha payload = hash_tree_root (payload_ssz sha) payload"

definition payload_to_wire_bytes :: "TransactionPayloadSsz \<Rightarrow> (bytes, PrimitiveError) result" where
  "payload_to_wire_bytes payload = encode_payload payload"

definition payload_from_wire_bytes :: "bytes \<Rightarrow> (TransactionPayloadSsz, PrimitiveError) result" where
  "payload_from_wire_bytes bs = decode_payload bs"

definition payload_from :: "TransactionPayload \<Rightarrow> TransactionPayloadSsz" where
  "payload_from value = TransactionPayloadSsz value"

definition envelope_to_wire_bytes :: "TransactionEnvelope \<Rightarrow> (bytes, PrimitiveError) result" where
  "envelope_to_wire_bytes envelope = encode_envelope envelope"

definition envelope_from_wire_bytes :: "bytes \<Rightarrow> (TransactionEnvelope, PrimitiveError) result" where
  "envelope_from_wire_bytes bs = decode_envelope bs"

text \<open>\<open>ProtocolObject::canonical_root\<close> of the three types.\<close>

definition payload_canonical_root :: "hash_fun \<Rightarrow> TransactionPayloadSsz \<Rightarrow> (Root, PrimitiveError) result" where
  "payload_canonical_root sha payload = payload_method_hash_tree_root sha payload"

definition envelope_canonical_root :: "hash_fun \<Rightarrow> TransactionEnvelope \<Rightarrow> (Root, PrimitiveError) result" where
  "envelope_canonical_root sha envelope = hash_tree_root (envelope_ssz sha) envelope"

definition signing_data_canonical_root :: "hash_fun \<Rightarrow> SigningData \<Rightarrow> (Root, PrimitiveError) result" where
  "signing_data_canonical_root sha signing_data = hash_tree_root (signing_data_ssz sha) signing_data"

record 'a TransactionMetadata =
  tm_chain_id :: "'a \<Rightarrow> ChainId"
  tm_nonce :: "'a \<Rightarrow> u64"
  tm_gas_limit :: "'a \<Rightarrow> u64"

definition basic_metadata :: "BasicTransactionPayload TransactionMetadata" where
  "basic_metadata = \<lparr>tm_chain_id = basic_chain_id, tm_nonce = basic_nonce, tm_gas_limit = basic_gas_limit\<rparr>"

definition create_metadata :: "CreateTransactionPayload TransactionMetadata" where
  "create_metadata = \<lparr>tm_chain_id = create_chain_id, tm_nonce = create_nonce, tm_gas_limit = create_gas_limit\<rparr>"

lemmas wire_object_defs = ssz_encode_def hash_tree_root_def payload_ssz_def envelope_ssz_def signing_data_ssz_def
  payload_method_hash_tree_root_def payload_to_wire_bytes_def payload_from_wire_bytes_def payload_from_def
  envelope_to_wire_bytes_def envelope_from_wire_bytes_def payload_canonical_root_def envelope_canonical_root_def
  signing_data_canonical_root_def

section \<open>What the methods of an object promise together\<close>

text \<open>
  An object has a hash tree that its root is the root of. Its bytes determine it, and so do the leaves of its
  tree; both hold for the objects in \<open>valid\<close>, within the lengths that the tree has leaves for.
\<close>

locale canonical_object =
  fixes trait :: "hash_fun \<Rightarrow> 'a CanonicalSsz"
    and tree :: "'a \<Rightarrow> hash_tree"
    and valid :: "'a \<Rightarrow> bool"
  assumes encode_inj: "\<lbrakk>valid x; valid y; ssz_encode (trait sha) x = Ok bs; ssz_encode (trait sha) y = Ok bs;
      length bs < usize_bound\<rbrakk> \<Longrightarrow> x = y"
    and root_tree: "hash_tree_root (trait sha) x = Ok (tree_root sha (tree x))"
    and valid_tree: "valid x \<Longrightarrow> wf_tree (tree x)"
    and tree_inj: "\<lbrakk>valid x; valid y; agree sha (tree x) (tree y)\<rbrakk> \<Longrightarrow> x = y"
begin

lemma root_identifies:
  assumes "digest32 sha" "valid x" "valid y" "hash_tree_root (trait sha) x = hash_tree_root (trait sha) y"
  shows "x = y \<or> collision sha (tree_messages sha (tree x) \<union> tree_messages sha (tree y))"
  using assms tree_root_binding [of sha "tree x" "tree y"] by (auto simp: root_tree valid_tree intro: tree_inj)

lemma root_commits_to_bytes:
  assumes "digest32 sha" "valid x" "valid y"
    and "ssz_encode (trait sha) x = Ok bs" "ssz_encode (trait sha) y = Ok cs" "length bs < usize_bound"
  shows "(bs = cs \<longrightarrow> hash_tree_root (trait sha) x = hash_tree_root (trait sha) y) \<and>
    (hash_tree_root (trait sha) x = hash_tree_root (trait sha) y \<longrightarrow>
       bs = cs \<or> collision sha (tree_messages sha (tree x) \<union> tree_messages sha (tree y)))"
  using assms encode_inj [of x y sha bs] root_identifies [of sha x y] by auto

end

interpretation payload_object: canonical_object payload_ssz payload_tree "\<lambda>p. wf_payload p \<and> within_limits p"
proof
  show "x = y" if "wf_payload x \<and> within_limits x" "wf_payload y \<and> within_limits y"
    "ssz_encode (payload_ssz sha) x = Ok bs" "ssz_encode (payload_ssz sha) y = Ok bs" "length bs < usize_bound" for x y sha bs
    using that by (auto simp: wire_object_defs intro: payload_codec.encode_inj)
qed (auto simp: wire_object_defs tree_root_payload wf_payload_tree intro: payload_tree_agree)

interpretation envelope_object: canonical_object envelope_ssz envelope_tree "\<lambda>e. wf_envelope e \<and> envelope_within_limits e"
proof
  show "x = y" if "wf_envelope x \<and> envelope_within_limits x" "wf_envelope y \<and> envelope_within_limits y"
    "ssz_encode (envelope_ssz sha) x = Ok bs" "ssz_encode (envelope_ssz sha) y = Ok bs" "length bs < usize_bound" for x y sha bs
    using that by (auto simp: wire_object_defs intro: envelope_codec.encode_inj)
qed (auto simp: wire_object_defs tree_root_envelope wf_envelope_tree intro: envelope_tree_agree)

definition wf_signing_data :: "SigningData \<Rightarrow> bool" where
  "wf_signing_data d \<longleftrightarrow> length (object_root d) = 32 \<and> length (domain_type d) = 4"

interpretation signing_data_object: canonical_object signing_data_ssz signing_data_tree wf_signing_data
proof
  fix c d :: SigningData and sha bs
  assume wf: "wf_signing_data c" "wf_signing_data d"
  show "c = d" if "ssz_encode (signing_data_ssz sha) c = Ok bs" "ssz_encode (signing_data_ssz sha) d = Ok bs"
    using that wf by (cases c; cases d) (auto simp: wire_object_defs signing_data_encode_ssz_def wf_signing_data_def)
  show "c = d" if "agree sha (signing_data_tree c) (signing_data_tree d)"
    using that wf by (cases c; cases d) (simp add: signing_data_tree_def wf_signing_data_def)
qed (simp_all add: wire_object_defs tree_root_signing_data wf_signing_data_def signing_data_tree_def
    copy_into_zero_front zero_bytes_def)

section \<open>Properties\<close>

text \<open>
  C8: The root of a transaction commits to its wire bytes. Of two transactions that a peer sends, the roots
  are equal exactly when the bytes are, unless two of the messages hashed for the roots collide: there is
  neither a second encoding of a root nor a second root of an encoding. The transactions are within the list
  limits that their hash trees have leaves for.
\<close>
theorem transaction_root_commits_to_wire_bytes:
  assumes "digest32 sha" "envelope_from_wire_bytes bs = Ok e" "envelope_from_wire_bytes cs = Ok f"
    and "length bs < usize_bound" "length cs < usize_bound" "envelope_within_limits e" "envelope_within_limits f"
  shows "(bs = cs \<longrightarrow> envelope_canonical_root sha e = envelope_canonical_root sha f) \<and>
    (envelope_canonical_root sha e = envelope_canonical_root sha f \<longrightarrow>
       bs = cs \<or> collision sha (tree_messages sha (envelope_tree e) \<union> tree_messages sha (envelope_tree f)))"
proof -
  have "wf_envelope e" "encode_envelope e = Ok bs" "wf_envelope f" "encode_envelope f = Ok cs"
    using assms(2-5) envelope_codec.encode_decode by (auto simp: wire_object_defs)
  then show ?thesis
    using assms envelope_object.root_commits_to_bytes [of sha e f bs cs]
    by (simp add: envelope_canonical_root_def ssz_encode_def envelope_ssz_def)
qed

theorem transaction_root_commits_to_wire_bytes_witness:
  "let e = sample_envelope; f = sample_envelope\<lparr>env_authorizations := []\<rparr> in
   collision (\<lambda>_. zero_bytes 32) (tree_messages (\<lambda>_. zero_bytes 32) (envelope_tree e) \<union>
     tree_messages (\<lambda>_. zero_bytes 32) (envelope_tree f))"
proof -
  let ?e = "sample_envelope" and ?f = "sample_envelope\<lparr>env_authorizations := []\<rparr>"
  have wf: "wf_envelope ?e" "wf_envelope ?f" and limits: "envelope_within_limits ?e" "envelope_within_limits ?f"
    by (simp_all add: sample_envelope_def wf_envelope_def wf_authorization_def envelope_within_limits_def
        MOCK_PROGRESSIVE_LIST_LIMIT_def MOCK_PROGRESSIVE_BYTE_LIST_LIMIT_def)
  note eval = sample_envelope_def encode_envelope_def encode_payload_def default_payload_def
        default_basic_payload_def default_fees_def default_gas_price_def encode_basic_def push_defs
        encode_authorization_list_def checked_mul_usize_def checked_add_usize_def usize_bound_def
        u32_try_from_def encode_authorization_eq fixed_size_defs Let_def
  obtain bs where bs: "encode_envelope ?e = Ok bs" "length bs = 326" by (auto simp: eval)
  obtain cs where cs: "encode_envelope ?f = Ok cs" "length cs = 241" by (auto simp: eval)
  have "envelope_from_wire_bytes bs = Ok ?e" "envelope_from_wire_bytes cs = Ok ?f"
    using wf bs cs by (auto simp: wire_object_defs usize_bound_def intro!: envelope_codec.decode_encode)
  from transaction_root_commits_to_wire_bytes [of "\<lambda>_. zero_bytes 32", OF _ this] limits bs cs
  show ?thesis
    by (auto simp: digest32_def usize_bound_def envelope_canonical_root_def hash_tree_root_def envelope_ssz_def
        envelope_root_constant_hash)
qed

end
