(* ===== verification/Replay.thy ===== *)
theory Replay
  imports Tests_Core Execution_Steps
begin

text \<open>
  The harness of the execution-semantics vectors
  (\<^verbatim>\<open>crates/shell-execution/tests/execution_semantics_vectors.rs\<close>). It executes a vector twice: through
  the block engine with the scripted executor, and by a loop of its own that applies the patch of every
  step. The engine and the replay are shown to agree on every vector whose transaction list is that of its
  steps, also on those that fail, and the vectors that pass are characterised by the roots they declare.
\<close>

section \<open>Executing a vector\<close>

record FixtureExecution =
  fe_pre_state_root :: Root
  fe_planner_exhausted :: bool
  fe_final_applier_root :: Root
  fe_manual_post_state_roots :: "Root list"
  fe_manual_receipt_roots :: "Root list"
  fe_outcome :: "(BlockExecutionOutcome, ExecutionError) result"

definition load_envelope :: "(string \<Rightarrow> TransactionVector panics) \<Rightarrow> string \<Rightarrow> TransactionEnvelope panics" where
  "load_envelope load_transaction_fixture_by_id vector_id =
     bind_result (load_transaction_fixture_by_id vector_id) vector_envelope"

definition step_receipt :: "ExecutionSemanticsStep \<Rightarrow> ExecutionReceipt panics" where
  "step_receipt step =
     bind_result (step_receipt_output_bytes step) (\<lambda>output.
     Ok \<lparr>status_code = es_receipt_status_code step, receipt_output = output\<rparr>)"

definition planned_step ::
  "hash_fun \<Rightarrow> (string \<Rightarrow> TransactionVector panics) \<Rightarrow> ExecutionSemanticsStep \<Rightarrow> PlannedTransaction panics" where
  "planned_step sha load_tx step =
     bind_result (load_envelope load_tx (es_transaction_vector_id step)) (\<lambda>transaction.
     bind_result (step_state_patch step) (\<lambda>patch.
     bind_result (step_receipt step) (\<lambda>receipt.
     expect_ok (from_transaction sha transaction \<lparr>plan_state_patch = patch, plan_receipt = receipt\<rparr>))))"

text \<open>The second execution: a loop over the steps that stops at the first transition that fails.\<close>

fun manual_replay ::
  "hash_fun \<Rightarrow> ExecutionSemanticsStep list \<Rightarrow> ReferenceStateApplier \<Rightarrow> Root \<Rightarrow> Root list \<Rightarrow> Root list \<Rightarrow>
   (Root list \<times> Root list) panics" where
  "manual_replay sha [] manual_applier current_state_root post_roots receipt_roots = Ok (post_roots, receipt_roots)"
| "manual_replay sha (step # steps) manual_applier current_state_root post_roots receipt_roots =
     bind_result (step_receipt step) (\<lambda>receipt.
     let receipt_roots = receipt_roots @ [receipt_canonical_root sha receipt] in
     bind_result (step_state_patch step) (\<lambda>patch.
     case applier_apply_transition sha current_state_root patch manual_applier of
       (Ok transition_outcome, manual_applier') \<Rightarrow>
         manual_replay sha steps manual_applier' (post_state_root transition_outcome)
           (post_roots @ [post_state_root transition_outcome]) receipt_roots
     | (Err _, _) \<Rightarrow> Ok (post_roots, receipt_roots)
     | (Panic, _) \<Rightarrow> Panic))"

text \<open>A call whose result is kept as a value: only a panic is passed on.\<close>

fun reify :: "('a, 'e) result \<Rightarrow> ('a, 'e) result panics" where
  "reify (Ok x) = Ok (Ok x)"
| "reify (Err e) = Ok (Err e)"
| "reify Panic = Panic"

definition execute_fixture ::
  "hash_fun \<Rightarrow> (string \<Rightarrow> TransactionVector panics) \<Rightarrow> ExecutionSemanticsVector \<Rightarrow> FixtureExecution panics" where
  "execute_fixture sha load_tx fixture =
     bind_result (semantics_materialized_state fixture) (\<lambda>initial_materialized_state.
     bind_result (materialize_root_check_accumulator sha initial_materialized_state) (\<lambda>accumulator.
     let pre = acc_root accumulator; steps = esi_steps (esv_input fixture) in
     bind_result (collect_results (load_envelope load_tx) (esi_transaction_vector_ids (esv_input fixture))) (\<lambda>transactions.
     bind_result (collect_results (planned_step sha load_tx) steps) (\<lambda>planned.
     bind_result (materialize_root_check_accumulator sha initial_materialized_state) (\<lambda>applier_accumulator.
     case execute_block sha pre transactions (planned_executor sha) (reference_applier sha)
            (new_planned planned, new_applier applier_accumulator) of
       (r, (planner, applier)) \<Rightarrow>
         bind_result (reify r) (\<lambda>outcome.
         bind_result (materialize_root_check_accumulator sha initial_materialized_state) (\<lambda>manual_accumulator.
         bind_result (manual_replay sha steps (new_applier manual_accumulator) pre [] []) (\<lambda>(post_roots, receipt_roots).
         Ok \<lparr>fe_pre_state_root = pre, fe_planner_exhausted = is_exhausted planner,
             fe_final_applier_root = applier_state_root applier,
             fe_manual_post_state_roots = post_roots, fe_manual_receipt_roots = receipt_roots,
             fe_outcome = outcome\<rparr>))))))))"

section \<open>Checking a vector\<close>

definition check_step_outcome ::
  "hash_fun \<Rightarrow> (string \<Rightarrow> TransactionVector panics) \<Rightarrow> FixtureExecution \<Rightarrow>
   nat \<times> ExecutionSemanticsStep \<times> TransactionExecutionOutcome \<Rightarrow> unit panics" where
  "check_step_outcome sha load_tx execution = (\<lambda>(index, step, transaction_outcome).
     bind_result (load_envelope load_tx (es_transaction_vector_id step)) (\<lambda>transaction.
     bind_result (expect_ok (envelope_hash_tree_root sha transaction)) (\<lambda>expected_transaction_root.
     bind_result (bind_result (expect_some (es_expected_post_state_root step)) parse_root) (\<lambda>expected_post_state_root.
     bind_result (bind_result (expect_some (es_expected_receipt_root step)) parse_root) (\<lambda>expected_receipt_root.
     bind_result (asserts [tx_transaction_root transaction_outcome = expected_transaction_root,
       tx_post_state_root transaction_outcome = expected_post_state_root]) (\<lambda>_.
     bind_result (index_at (fe_manual_post_state_roots execution) index) (\<lambda>manual_post.
     bind_result (asserts [manual_post = expected_post_state_root,
       status_code (tx_receipt transaction_outcome) = es_receipt_status_code step]) (\<lambda>_.
     bind_result (step_receipt_output_bytes step) (\<lambda>output.
     bind_result (asserts [receipt_output (tx_receipt transaction_outcome) = output,
       receipt_canonical_root sha (tx_receipt transaction_outcome) = expected_receipt_root]) (\<lambda>_.
     bind_result (index_at (fe_manual_receipt_roots execution) index) (\<lambda>manual_receipt.
     asserts [manual_receipt = expected_receipt_root])))))))))))"

definition assert_accept_fixture ::
  "hash_fun \<Rightarrow> (string \<Rightarrow> TransactionVector panics) \<Rightarrow> ExecutionSemanticsVector \<Rightarrow> FixtureExecution \<Rightarrow> unit panics" where
  "assert_accept_fixture sha load_tx fixture execution =
     (let steps = esi_steps (esv_input fixture); ids = esi_transaction_vector_ids (esv_input fixture) in
      bind_result (expect_ok (fe_outcome execution)) (\<lambda>outcome.
      bind_result (parse_root (esv_pre_state_root fixture)) (\<lambda>expected_pre_state_root.
      bind_result (bind_result (expect_some (esv_post_state_root fixture)) parse_root) (\<lambda>expected_post_state_root.
      bind_result (bind_result (expect_some (esv_receipts_root fixture)) parse_root) (\<lambda>expected_receipts_root.
      bind_result (asserts [fe_pre_state_root execution = expected_pre_state_root,
        length ids = length steps, ids = map es_transaction_vector_id steps,
        fe_planner_exhausted execution = (case esv_planner_exhausted fixture of Some b \<Rightarrow> b | None \<Rightarrow> True),
        fe_final_applier_root execution = expected_post_state_root,
        block_post_state_root outcome = expected_post_state_root,
        block_receipts_root outcome = expected_receipts_root]) (\<lambda>_.
      bind_result (collect_results step_receipt steps) (\<lambda>receipts.
      bind_result (asserts [compute_receipts_root sha receipts = expected_receipts_root,
        length (transaction_outcomes outcome) = length steps,
        length (fe_manual_post_state_roots execution) = length steps]) (\<lambda>_.
      for_each (check_step_outcome sha load_tx execution)
        (enumerate 0 (zip steps (transaction_outcomes outcome)))))))))))"

definition assert_execution_error :: "ExecutionSemanticsExpectedError \<Rightarrow> ExecutionError \<Rightarrow> unit panics" where
  "assert_execution_error expected err =
     (case err of
        StateTransition (NonCanonicalWitnessOrdering index context) \<Rightarrow>
          if ese_kind expected = ''NonCanonicalWitnessOrdering''
          then asserts [Some index = ese_index expected, Some context = ese_context expected]
          else Panic
      | _ \<Rightarrow> Panic)"

definition assert_reject_fixture :: "ExecutionSemanticsVector \<Rightarrow> FixtureExecution \<Rightarrow> unit panics" where
  "assert_reject_fixture fixture execution =
     bind_result (expect_err (fe_outcome execution)) (\<lambda>err.
     bind_result (expect_some (esv_expected_error fixture)) (\<lambda>expected.
     bind_result (parse_root (esv_pre_state_root fixture)) (\<lambda>expected_pre_state_root.
     bind_result (bind_result (expect_some (esv_post_state_root fixture)) parse_root) (\<lambda>expected_post_state_root.
     bind_result (asserts [fe_pre_state_root execution = expected_pre_state_root,
       fe_final_applier_root execution = expected_post_state_root,
       fe_planner_exhausted execution = (case esv_planner_exhausted fixture of Some b \<Rightarrow> b | None \<Rightarrow> False)]) (\<lambda>_.
     assert_execution_error expected err)))))"

definition check_execution_vector ::
  "hash_fun \<Rightarrow> (string \<Rightarrow> TransactionVector panics) \<Rightarrow> string \<times> ExecutionSemanticsVector \<Rightarrow> unit panics" where
  "check_execution_vector sha load_tx = (\<lambda>(file_stem, fixture).
     bind_result (execute_fixture sha load_tx fixture) (\<lambda>execution.
     bind_result (asserts [file_stem = esv_id fixture, esv_category fixture = ''execution-semantics'',
       esv_owned_by fixture = ''shell-execution'', \<not> is_blank (esv_description fixture)]) (\<lambda>_.
     if esv_expected_outcome fixture = ''accept'' then assert_accept_fixture sha load_tx fixture execution
     else if esv_expected_outcome fixture = ''reject'' then assert_reject_fixture fixture execution
     else Panic)))"

definition execution_semantics_vectors_cover_reference_local_execution_contracts ::
  "hash_fun \<Rightarrow> (string \<Rightarrow> TransactionVector panics) \<Rightarrow> (string \<times> ExecutionSemanticsVector) list \<Rightarrow> unit panics" where
  "execution_semantics_vectors_cover_reference_local_execution_contracts sha load_tx paths =
     bind_result (asserts [paths \<noteq> []]) (\<lambda>_. for_each (check_execution_vector sha load_tx) paths)"

section \<open>The replay and the engine\<close>

text \<open>A planned step carries the patch and the receipt of its step.\<close>

definition plans_step :: "ExecutionSemanticsStep \<Rightarrow> PlannedTransaction \<Rightarrow> bool" where
  "plans_step step p \<longleftrightarrow> step_state_patch step = Ok (plan_state_patch (planned_plan p)) \<and>
     step_receipt step = Ok (plan_receipt (planned_plan p))"

abbreviation matches_script :: "hash_fun \<Rightarrow> PlannedTransaction \<Rightarrow> TransactionEnvelope \<Rightarrow> bool" where
  "matches_script sha p tx \<equiv> planned_transaction_root p = tx_root sha tx"

lemma planned_step_Ok:
  "planned_step sha load_tx step = Ok p \<longleftrightarrow>
     (\<exists>tx. load_envelope load_tx (es_transaction_vector_id step) = Ok tx \<and> matches_script sha p tx) \<and> plans_step step p"
  by (cases p; cases "planned_plan p")
     (auto simp: planned_step_def plans_step_def from_transaction_def result_simps)

text \<open>
  One iteration of the engine on a transaction that matches the script is one iteration of the replay:
  the executor hands out the plan, and both apply its patch to the same applier.
\<close>

lemma engine_step:
  assumes "planned_transactions ex = done @ p # ps" "next_index ex = length done" "matches_script sha p tx"
  shows "execute_loop sha (planned_executor sha) (reference_applier sha) (tx # txs) cur rs os (ex, ap) =
    (case applier_apply_transition sha cur (plan_state_patch (planned_plan p)) ap of
       (Ok out, ap') \<Rightarrow> execute_loop sha (planned_executor sha) (reference_applier sha) txs (post_state_root out)
         (rs @ [plan_receipt (planned_plan p)])
         (os @ [\<lparr>tx_transaction_root = tx_root sha tx, tx_post_state_root = post_state_root out,
            tx_receipt = plan_receipt (planned_plan p)\<rparr>]) (ex\<lparr>next_index := next_index ex + 1\<rparr>, ap')
     | (Err e, ap') \<Rightarrow> (Err (StateTransition e), (ex\<lparr>next_index := next_index ex + 1\<rparr>, ap'))
     | (Panic, ap') \<Rightarrow> (Panic, (ex\<lparr>next_index := next_index ex + 1\<rparr>, ap')))"
proof -
  have "planned_execute_transaction sha cur tx ex = (Ok (planned_plan p), ex\<lparr>next_index := next_index ex + 1\<rparr>)"
    using assms by (subst planned_execute_hit) (auto simp: nth_append)
  then show ?thesis
    by (simp add: bind_action.simps on_fst_def on_snd_def map_err_action_def Let_def split: prod.splits result.splits)
qed

text \<open>
  What the two executions of a script report, when the engine ends with result \<open>r\<close> in \<open>(ex', ap')\<close> and the
  replay adds \<open>posts\<close> and \<open>receipts\<close>: either every step was executed, or the transition after \<open>posts\<close> failed.
\<close>

definition executed_all ::
  "hash_fun \<Rightarrow> PlannedTransaction list \<Rightarrow> TransactionEnvelope list \<Rightarrow> Root list \<Rightarrow> Root list \<Rightarrow>
   TransactionExecutionOutcome list \<Rightarrow> bool" where
  "executed_all sha ps txs posts receipts outcomes \<longleftrightarrow>
     map tx_transaction_root outcomes = map (tx_root sha) txs \<and>
     map tx_post_state_root outcomes = posts \<and>
     map tx_receipt outcomes = map (plan_receipt \<circ> planned_plan) ps \<and>
     receipts = map (receipt_canonical_root sha \<circ> tx_receipt) outcomes \<and>
     (\<forall>p \<in> set ps. canonical_patch (plan_state_patch (planned_plan p)))"

definition failed_after ::
  "hash_fun \<Rightarrow> PlannedTransaction list \<Rightarrow> Root list \<Rightarrow> Root list \<Rightarrow> StateError \<Rightarrow> bool" where
  "failed_after sha ps posts receipts e \<longleftrightarrow> length posts < length ps \<and>
     (\<forall>p \<in> set (take (length posts) ps). canonical_patch (plan_state_patch (planned_plan p))) \<and>
     ensure_canonical_access_order (accesses (plan_state_patch (planned_plan (ps ! length posts)))) = Err e \<and>
     receipts = map (receipt_canonical_root sha \<circ> plan_receipt \<circ> planned_plan) (take (length posts + 1) ps)"

lemma executed_all_Cons [simp]:
  "executed_all sha (p # ps) (tx # txs) (post # posts) (receipt # receipts)
     (\<lparr>tx_transaction_root = r, tx_post_state_root = q, tx_receipt = c\<rparr> # outcomes) \<longleftrightarrow>
   r = tx_root sha tx \<and> q = post \<and> c = plan_receipt (planned_plan p) \<and> receipt = receipt_canonical_root sha c \<and>
   canonical_patch (plan_state_patch (planned_plan p)) \<and> executed_all sha ps txs posts receipts outcomes"
  by (auto simp: executed_all_def)

lemma applier_borrowed_keeps:
  "applier_apply_transition sha pre p ap = (r, ap') \<Longrightarrow> applier_borrowed ap' = applier_borrowed ap"
  by (auto simp: applier_apply_transition_def Let_def split: if_splits prod.splits)

lemma applier_order_error:
  assumes "applier_apply_transition sha (applier_state_root ap) p ap = (Err e, ap')"
    and "\<not> applier_borrowed ap" "validate_shape p = Ok ()"
  shows "ensure_canonical_access_order (accesses p) = Err e"
  using assms by (auto simp: applier_apply_transition_def applier_state_root_def acc_apply_transition_def Let_def
      bind_action.simps split: prod.splits result.splits)

lemma access_order_error:
  "ensure_canonical_access_order ks = Err e \<Longrightarrow> \<exists>index ctx. e = NonCanonicalWitnessOrdering index ctx"
proof -
  have "check_key_windows ctx i ks = Err e \<Longrightarrow> \<exists>index. e = NonCanonicalWitnessOrdering index ctx" for ctx i
    by (induction ctx i ks rule: check_key_windows.induct) (auto split: if_splits)
  then show "ensure_canonical_access_order ks = Err e \<Longrightarrow> \<exists>index ctx. e = NonCanonicalWitnessOrdering index ctx"
    unfolding ensure_canonical_access_order_def by blast
qed

lemma replay_simulates:
  assumes "list_all2 plans_step steps ps" "list_all2 (matches_script sha) ps txs"
    and "planned_transactions ex = done @ ps" "next_index ex = length done" "applier_state_root ap = cur"
    and "\<not> applier_borrowed ap"
  shows "\<exists>posts receipts r ex' ap'.
    manual_replay sha steps ap cur post_roots receipt_roots = Ok (post_roots @ posts, receipt_roots @ receipts) \<and>
    execute_loop sha (planned_executor sha) (reference_applier sha) txs cur rs os (ex, ap) = (r, (ex', ap')) \<and>
    planned_transactions ex' = planned_transactions ex \<and> applier_state_root ap' = last (cur # posts) \<and>
    ((\<exists>new. r = Ok (last (cur # posts), rs @ map tx_receipt new, os @ new) \<and>
        executed_all sha ps txs posts receipts new \<and> next_index ex' = length done + length ps) \<or>
     (\<exists>e. r = Err (StateTransition e) \<and> failed_after sha ps posts receipts e \<and>
        next_index ex' = length done + length posts + 1))"
  using assms
proof (induction steps ps arbitrary: txs ex ap cur "done" post_roots receipt_roots rs os rule: list_all2_induct)
  case Nil
  then show ?case by (simp add: executed_all_def)
next
  case (Cons step steps p ps)
  from Cons.prems(1) obtain tx txs' where txs: "txs = tx # txs'" "matches_script sha p tx" "list_all2 (matches_script sha) ps txs'"
    by (auto simp: list_all2_Cons1)
  let ?receipt = "plan_receipt (planned_plan p)" and ?patch = "plan_state_patch (planned_plan p)"
  let ?ex = "ex\<lparr>next_index := next_index ex + 1\<rparr>"
  note parsed = Cons.hyps(1) [unfolded plans_step_def]
  note engine = engine_step [OF Cons.prems(2,3) txs(2)]
  show ?case
  proof (cases "applier_apply_transition sha cur ?patch ap")
    case (Pair t ap1)
    consider (ok) out where "t = Ok out" | (err) e where "t = Err e"
      using applier.apply_not_Panic [of sha cur ?patch ap] Pair by (cases t) auto
    then show ?thesis
    proof cases
      case ok
      have root: "applier_state_root ap1 = post_state_root out" and canonical: "canonical_patch ?patch"
        using Pair ok applier.apply_Ok [of sha cur ?patch ap] applier_Ok_canonical [of sha cur ?patch ap] by simp_all
      have free: "\<not> applier_borrowed ap1" using Pair applier_borrowed_keeps Cons.prems(5) by simp
      let ?o = "\<lparr>tx_transaction_root = tx_root sha tx, tx_post_state_root = post_state_root out, tx_receipt = ?receipt\<rparr>"
      have replay: "manual_replay sha (step # steps) ap cur post_roots receipt_roots =
          manual_replay sha steps ap1 (post_state_root out) (post_roots @ [post_state_root out])
            (receipt_roots @ [receipt_canonical_root sha ?receipt])"
        using parsed Pair ok by simp
      have loop: "execute_loop sha (planned_executor sha) (reference_applier sha) txs cur rs os (ex, ap) =
          execute_loop sha (planned_executor sha) (reference_applier sha) txs' (post_state_root out) (rs @ [?receipt])
            (os @ [?o]) (?ex, ap1)"
        using engine Pair ok txs(1) by simp
      from Cons.IH [OF txs(3), of ?ex "done @ [p]" ap1 "post_state_root out" "post_roots @ [post_state_root out]"
          "receipt_roots @ [receipt_canonical_root sha ?receipt]" "rs @ [?receipt]" "os @ [?o]"] Cons.prems(2,3) root free
      obtain posts receipts r ex' ap' where IH:
        "manual_replay sha steps ap1 (post_state_root out) (post_roots @ [post_state_root out])
          (receipt_roots @ [receipt_canonical_root sha ?receipt]) =
          Ok ((post_roots @ [post_state_root out]) @ posts, (receipt_roots @ [receipt_canonical_root sha ?receipt]) @ receipts)"
        "execute_loop sha (planned_executor sha) (reference_applier sha) txs' (post_state_root out) (rs @ [?receipt])
          (os @ [?o]) (?ex, ap1) = (r, (ex', ap'))"
        "planned_transactions ex' = planned_transactions ex" "applier_state_root ap' = last (post_state_root out # posts)"
        "(\<exists>new. r = Ok (last (post_state_root out # posts), (rs @ [?receipt]) @ map tx_receipt new, (os @ [?o]) @ new) \<and>
            executed_all sha ps txs' posts receipts new \<and> next_index ex' = Suc (length done) + length ps) \<or>
         (\<exists>e. r = Err (StateTransition e) \<and> failed_after sha ps posts receipts e \<and>
            next_index ex' = Suc (length done) + length posts + 1)"
        by auto
      from IH(5) have "(\<exists>new. r = Ok (last (cur # post_state_root out # posts), rs @ map tx_receipt new, os @ new) \<and>
          executed_all sha (p # ps) txs (post_state_root out # posts) (receipt_canonical_root sha ?receipt # receipts) new \<and>
          next_index ex' = length done + length (p # ps)) \<or>
        (\<exists>e. r = Err (StateTransition e) \<and>
          failed_after sha (p # ps) (post_state_root out # posts) (receipt_canonical_root sha ?receipt # receipts) e \<and>
          next_index ex' = length done + length (post_state_root out # posts) + 1)"
      proof (elim disjE exE conjE)
        fix new assume "r = Ok (last (post_state_root out # posts), (rs @ [?receipt]) @ map tx_receipt new, (os @ [?o]) @ new)"
          "executed_all sha ps txs' posts receipts new" "next_index ex' = Suc (length done) + length ps"
        then show ?thesis using canonical txs(1) by (intro disjI1 exI [of _ "?o # new"]) simp
      qed (use canonical in \<open>simp add: failed_after_def\<close>)
      with IH(1-4) replay loop show ?thesis
        by (intro exI [of _ "post_state_root out # posts"] exI [of _ "receipt_canonical_root sha ?receipt # receipts"]
            exI [of _ r] exI [of _ ex'] exI [of _ ap']) simp
    next
      case err
      have "ap1 = ap" using Pair err applier.apply_Err [of sha cur ?patch ap] by simp
      moreover have "ensure_canonical_access_order (accesses ?patch) = Err e"
        using Pair err applier_order_error [of sha ap ?patch e ap1] Cons.prems(4,5)
          step_state_patch_shape(2) [OF parsed [THEN conjunct1]] by simp
      ultimately show ?thesis
        using err parsed engine Pair txs(1) Cons.prems(3,4)
        by (intro exI [of _ "[]"] exI [of _ "[receipt_canonical_root sha ?receipt]"] exI [of _ "Err (StateTransition e)"]
            exI [of _ ?ex] exI [of _ ap]) (simp add: failed_after_def)
    qed
  qed
qed

lemma executed_all_lengths:
  "executed_all sha ps txs posts receipts new \<Longrightarrow>
     length posts = length new \<and> length receipts = length new \<and> length ps = length new \<and> length txs = length new"
  by (auto simp: executed_all_def dest: map_eq_imp_length_eq)

text \<open>A vector whose transactions are those of its steps, and what its two executions report.\<close>

definition aligned :: "ExecutionSemanticsVector \<Rightarrow> bool" where
  "aligned fixture \<longleftrightarrow>
     esi_transaction_vector_ids (esv_input fixture) = map es_transaction_vector_id (esi_steps (esv_input fixture))"

definition runs_agree ::
  "hash_fun \<Rightarrow> PlannedTransaction list \<Rightarrow> TransactionEnvelope list \<Rightarrow> FixtureExecution \<Rightarrow> bool" where
  "runs_agree sha ps txs execution \<longleftrightarrow>
     fe_final_applier_root execution = last (fe_pre_state_root execution # fe_manual_post_state_roots execution) \<and>
     ((\<exists>out. fe_outcome execution = Ok out \<and> fe_planner_exhausted execution \<and>
        executed_all sha ps txs (fe_manual_post_state_roots execution) (fe_manual_receipt_roots execution)
          (transaction_outcomes out) \<and>
        block_post_state_root out = fe_final_applier_root execution \<and>
        block_receipts_root out = compute_receipts_root sha (map tx_receipt (transaction_outcomes out))) \<or>
     (\<exists>e. fe_outcome execution = Err (StateTransition e) \<and>
        failed_after sha ps (fe_manual_post_state_roots execution) (fe_manual_receipt_roots execution) e \<and>
        (fe_planner_exhausted execution \<longleftrightarrow> length (fe_manual_post_state_roots execution) + 1 = length ps)))"

lemma runs_agree_cases [consumes 1, case_names accepted rejected]:
  assumes "runs_agree sha ps txs execution"
  obtains out where "fe_outcome execution = Ok out" "fe_planner_exhausted execution"
      "executed_all sha ps txs (fe_manual_post_state_roots execution) (fe_manual_receipt_roots execution) (transaction_outcomes out)"
      "fe_final_applier_root execution = last (fe_pre_state_root execution # fe_manual_post_state_roots execution)"
      "block_post_state_root out = fe_final_applier_root execution"
      "block_receipts_root out = compute_receipts_root sha (map tx_receipt (transaction_outcomes out))"
    | e where "fe_outcome execution = Err (StateTransition e)"
      "failed_after sha ps (fe_manual_post_state_roots execution) (fe_manual_receipt_roots execution) e"
      "fe_final_applier_root execution = last (fe_pre_state_root execution # fe_manual_post_state_roots execution)"
      "fe_planner_exhausted execution \<longleftrightarrow> length (fe_manual_post_state_roots execution) + 1 = length ps"
  using assms unfolding runs_agree_def by blast

lemma execute_fixture_cases:
  assumes run: "execute_fixture sha load_tx fixture = Ok execution" and "aligned fixture"
  obtains txs ps where
    "list_all2 (\<lambda>step tx. load_envelope load_tx (es_transaction_vector_id step) = Ok tx) (esi_steps (esv_input fixture)) txs"
    "list_all2 plans_step (esi_steps (esv_input fixture)) ps" "list_all2 (matches_script sha) ps txs"
    "runs_agree sha ps txs execution"
proof -
  let ?steps = "esi_steps (esv_input fixture)"
  from run obtain entries acc txs ps where init: "semantics_materialized_state fixture = Ok entries"
      "materialize_root_check_accumulator sha entries = Ok acc"
    and txs: "collect_results (load_envelope load_tx) (esi_transaction_vector_ids (esv_input fixture)) = Ok txs"
    and ps: "collect_results (planned_step sha load_tx) ?steps = Ok ps"
    unfolding execute_fixture_def Let_def bind_result_Ok_iff by blast
  obtain r planner ap where block: "execute_block sha (acc_root acc) txs (planned_executor sha) (reference_applier sha)
      (new_planned ps, new_applier acc) = (r, (planner, ap))"
    by (metis prod.exhaust)
  from run obtain posts receipts where
    manual: "manual_replay sha ?steps (new_applier acc) (acc_root acc) [] [] = Ok (posts, receipts)"
    and r: "reify r = Ok (fe_outcome execution)"
    and ex: "fe_pre_state_root execution = acc_root acc" "fe_planner_exhausted execution = is_exhausted planner"
      "fe_final_applier_root execution = applier_state_root ap" "fe_manual_post_state_roots execution = posts"
      "fe_manual_receipt_roots execution = receipts"
    by (auto simp: execute_fixture_def Let_def init txs ps block bind_result_Ok_iff)
  have loads: "list_all2 (\<lambda>step tx. load_envelope load_tx (es_transaction_vector_id step) = Ok tx) ?steps txs"
    using txs assms(2) by (simp add: collect_results_Ok_iff aligned_def list_all2_map1)
  have planned: "list_all2 (\<lambda>step p. planned_step sha load_tx step = Ok p) ?steps ps"
    using ps by (simp add: collect_results_Ok_iff)
  then have plans: "list_all2 plans_step ?steps ps"
    by (rule list_all2_mono) (simp add: planned_step_Ok)
  have "list_all2 (matches_script sha) ps txs"
    using loads planned by (auto simp: list_all2_conv_all_nth planned_step_Ok)
  moreover obtain posts' receipts' t ex' ap' where sim:
    "manual_replay sha ?steps (new_applier acc) (acc_root acc) [] [] = Ok ([] @ posts', [] @ receipts')"
    "execute_loop sha (planned_executor sha) (reference_applier sha) txs (acc_root acc) [] [] (new_planned ps, new_applier acc) =
      (t, (ex', ap'))"
    "planned_transactions ex' = ps" "applier_state_root ap' = last (acc_root acc # posts')"
    "(\<exists>new. t = Ok (last (acc_root acc # posts'), [] @ map tx_receipt new, [] @ new) \<and>
        executed_all sha ps txs posts' receipts' new \<and> next_index ex' = length ps) \<or>
     (\<exists>e. t = Err (StateTransition e) \<and> failed_after sha ps posts' receipts' e \<and> next_index ex' = length posts' + 1)"
    using replay_simulates [OF plans \<open>list_all2 (matches_script sha) ps txs\<close>, of "new_planned ps" "[]" "new_applier acc"
        "acc_root acc" "[]" "[]" "[]" "[]"]
    by (auto simp: new_planned_def new_applier_def applier_state_root_def)
  moreover have same: "posts' = posts" "receipts' = receipts" using sim(1) manual by simp_all
  moreover have "fe_outcome execution = r" using r by (cases r) simp_all
  moreover from sim(5) have "planner = ex' \<and> ap = ap'" and
    "(\<exists>out. r = Ok out \<and> next_index planner = length ps \<and> executed_all sha ps txs posts receipts (transaction_outcomes out) \<and>
        block_post_state_root out = last (acc_root acc # posts) \<and>
        block_receipts_root out = compute_receipts_root sha (map tx_receipt (transaction_outcomes out))) \<or>
     (\<exists>e. r = Err (StateTransition e) \<and> failed_after sha ps posts receipts e \<and> next_index planner = length posts + 1)"
    using block sim(2) same by (auto simp: execute_block_def bind_action.simps simp del: last.simps)
  ultimately show ?thesis
    using that [OF loads plans] sim(3,4) ex
    by (simp add: runs_agree_def is_exhausted_def eq_commute [of "length ps"] del: last.simps) metis
qed

section \<open>What the vectors check\<close>

text \<open>A root that a vector declares, in hexadecimal, for an optional field.\<close>

definition declares :: "string option \<Rightarrow> Root \<Rightarrow> bool" where
  "declares field root \<longleftrightarrow> (\<exists>t. field = Some t \<and> parse_root t = Ok root)"

lemma declared_root: "(\<exists>t. expect_some field = Ok t \<and> parse_root t = Ok root) \<longleftrightarrow> declares field root"
  by (cases field) (simp_all add: declares_def)

lemma declares_Some [simp]: "declares (Some t) root \<longleftrightarrow> parse_root t = Ok root"
  by (simp add: declares_def)

lemma declares_unique: "declares field a \<Longrightarrow> declares field b \<longleftrightarrow> b = a"
  by (auto simp: declares_def)

text \<open>
  The comparison of one step: the transaction root, the status and the output hold for every outcome of the
  engine, so that only the two declared roots are tested.
\<close>

lemma check_step_outcome_exact:
  assumes "load_envelope load_tx (es_transaction_vector_id step) = Ok tx" "tx_transaction_root out = tx_root sha tx"
    and "step_receipt step = Ok (tx_receipt out)"
    and "index < length (fe_manual_post_state_roots execution)" "index < length (fe_manual_receipt_roots execution)"
    and "fe_manual_post_state_roots execution ! index = tx_post_state_root out"
    and "fe_manual_receipt_roots execution ! index = receipt_canonical_root sha (tx_receipt out)"
  shows "check_step_outcome sha load_tx execution (index, step, out) = Ok () \<longleftrightarrow>
    declares (es_expected_post_state_root step) (tx_post_state_root out) \<and>
    declares (es_expected_receipt_root step) (receipt_canonical_root sha (tx_receipt out))"
proof -
  have "status_code (tx_receipt out) = es_receipt_status_code step"
    "step_receipt_output_bytes step = Ok (receipt_output (tx_receipt out))"
    using assms(3) by (cases "tx_receipt out"; auto simp: step_receipt_def result_simps)+
  then show ?thesis
    using assms by (auto simp: check_step_outcome_def bind_result_Ok_iff declared_root)
qed

lemma ordering_error_expected:
  "assert_execution_error expected (StateTransition (NonCanonicalWitnessOrdering index ctx)) = Ok () \<longleftrightarrow>
     ese_kind expected = ''NonCanonicalWitnessOrdering'' \<and> ese_index expected = Some index \<and> ese_context expected = Some ctx"
  by (auto simp: assert_execution_error_def)

text \<open>The comparison of all the steps, for an execution in which the engine executed them all.\<close>

lemma check_steps_exact:
  assumes loads: "list_all2 (\<lambda>step tx. load_envelope load_tx (es_transaction_vector_id step) = Ok tx) steps txs"
    and plans: "list_all2 plans_step steps ps"
    and all: "executed_all sha ps txs (fe_manual_post_state_roots execution) (fe_manual_receipt_roots execution) outs"
  shows "for_each (check_step_outcome sha load_tx execution) (enumerate 0 (zip steps outs)) = Ok () \<longleftrightarrow>
    list_all2 (declares \<circ> es_expected_post_state_root) steps (fe_manual_post_state_roots execution) \<and>
    list_all2 (declares \<circ> es_expected_receipt_root) steps (fe_manual_receipt_roots execution)"
proof -
  note len = executed_all_lengths [OF all] list_all2_lengthD [OF loads]
  have step: "check_step_outcome sha load_tx execution (i, steps ! i, outs ! i) = Ok () \<longleftrightarrow>
      declares (es_expected_post_state_root (steps ! i)) (fe_manual_post_state_roots execution ! i) \<and>
      declares (es_expected_receipt_root (steps ! i)) (fe_manual_receipt_roots execution ! i)" if i: "i < length steps" for i
  proof -
    have fields: "map tx_transaction_root outs ! i = map (tx_root sha) txs ! i"
      "map tx_post_state_root outs ! i = fe_manual_post_state_roots execution ! i"
      "map tx_receipt outs ! i = map (plan_receipt \<circ> planned_plan) ps ! i"
      "fe_manual_receipt_roots execution ! i = map (receipt_canonical_root sha \<circ> tx_receipt) outs ! i"
      using all by (simp_all add: executed_all_def)
    have "load_envelope load_tx (es_transaction_vector_id (steps ! i)) = Ok (txs ! i)" "plans_step (steps ! i) (ps ! i)"
      using loads plans i by (simp_all add: list_all2_conv_all_nth)
    then show ?thesis
      using fields i len by (subst check_step_outcome_exact [where tx = "txs ! i"]) (simp_all add: plans_step_def)
  qed
  have "for_each (check_step_outcome sha load_tx execution) (enumerate 0 (zip steps outs)) = Ok () \<longleftrightarrow>
      (\<forall>i < length steps. check_step_outcome sha load_tx execution (i, steps ! i, outs ! i) = Ok ())"
    using len by (auto simp: for_each_Ok_iff in_set_enumerate_eq)
  then show ?thesis using len step by (auto simp: list_all2_conv_all_nth)
qed

section \<open>Sample vectors\<close>

definition sample_step :: "u8 list \<Rightarrow> ExecutionSemanticsStep" where
  "sample_step keys = \<lparr>es_transaction_vector_id = ''tx-1'',
     es_patch = \<lparr>esp_writes = map (\<lambda>b. \<lparr>mlf_key = RawTreeKeyInput (hex_string (replicate 32 b)) None,
       mlf_leaf_value_hex = hex_string [1]\<rparr>) keys\<rparr>,
     es_receipt_status_code = 1, es_receipt_output_hex = hex_string [85],
     es_expected_post_state_root = Some (hex_string (zero_bytes 32)),
     es_expected_receipt_root = Some (hex_string (zero_bytes 32))\<rparr>"

definition sample_semantics :: "u8 list list \<Rightarrow> ExecutionSemanticsVector" where
  "sample_semantics patches = \<lparr>esv_id = ''execution-1'', esv_category = ''execution-semantics'', esv_rule = ''rule'',
     esv_description = ''steps'',
     esv_input = \<lparr>esi_transaction_vector_ids = replicate (length patches) ''tx-1'',
       esi_materialized_state = [\<lparr>mlf_key = sample_key_input, mlf_leaf_value_hex = hex_string [8]\<rparr>],
       esi_steps = map sample_step patches\<rparr>,
     esv_expected_outcome = ''accept'', esv_expected_error = Some \<lparr>ese_kind = ''NonCanonicalWitnessOrdering'',
       ese_index = Some 1, ese_context = Some ''access keys must be strictly increasing in canonical StateKey order''\<rparr>,
     esv_owned_by = ''shell-execution'', esv_notes = None,
     esv_pre_state_root = hex_string (zero_bytes 32), esv_post_state_root = Some (hex_string (zero_bytes 32)),
     esv_receipts_root = Some (hex_string (zero_bytes 32)), esv_planner_exhausted = Some True\<rparr>"

lemma sample_semantics_initial:
  "semantics_materialized_state (sample_semantics ps) = Ok [(sample_key 5, [8])]"
  by (simp add: semantics_materialized_state_def sample_semantics_def to_entry_def to_state_key_def sample_key_input_def
      sample_key_def expect_array_def canonical_root_check_materialized_state_def)

lemma sample_step_parses:
  "load_envelope (\<lambda>_. Ok sample_transaction_vector) vector_id = Ok sample_transaction"
  "step_receipt (sample_step ks) = Ok \<lparr>status_code = 1, receipt_output = [85]\<rparr>"
  "step_state_patch (sample_step ks) = Ok \<lparr>accesses = map sample_key ks, new_values = map (\<lambda>_. [1]) ks\<rparr>"
proof -
  show "load_envelope (\<lambda>_. Ok sample_transaction_vector) vector_id = Ok sample_transaction"
    by (simp add: load_envelope_def sample_vector_parses)
  show "step_receipt (sample_step ks) = Ok \<lparr>status_code = 1, receipt_output = [85]\<rparr>"
    by (simp add: step_receipt_def step_receipt_output_bytes_def sample_step_def)
  have "collect_results to_entry (esp_writes (es_patch (sample_step ks))) = Ok (map (\<lambda>b. (sample_key b, [1])) ks)"
    by (simp add: sample_step_def collect_results_Ok_iff list_all2_map1 list_all2_map2 list_all2_same to_entry_def
        to_state_key_def sample_key_def expect_array_def)
  then show "step_state_patch (sample_step ks) = Ok \<lparr>accesses = map sample_key ks, new_values = map (\<lambda>_. [1]) ks\<rparr>"
    by (simp add: step_state_patch_def o_def)
qed

lemma sample_keys_descend: "compare_state_keys (sample_key 9) (sample_key 5) = Greater"
  by code_simp

lemmas sample_execution_eval = sample_semantics_def sample_step_parses planned_step_def from_transaction_def
  execute_block_def bind_action.simps on_fst_def on_snd_def map_err_action_def planned_execute_transaction_def
  new_planned_def is_exhausted_def new_applier_def applier_state_root_def applier_apply_transition_def
  acc_apply_transition_def validate_shape_def ensure_canonical_access_order_def recompute_root_def
  compute_reference_root_def receipt_canonical_root_def compute_receipts_root_def sample_keys_descend
  sample_materializes(2) zero_hash_fun_def Let_def

text \<open>Two steps, of which the second writes its keys in descending order.\<close>

lemma sample_execution_rejects:
  "execute_fixture zero_hash_fun (\<lambda>_. Ok sample_transaction_vector) (sample_semantics [[5], [9, 5]]) =
     Ok \<lparr>fe_pre_state_root = zero_bytes 32, fe_planner_exhausted = True, fe_final_applier_root = zero_bytes 32,
         fe_manual_post_state_roots = [zero_bytes 32], fe_manual_receipt_roots = [zero_bytes 32, zero_bytes 32],
         fe_outcome = Err (StateTransition (NonCanonicalWitnessOrdering 1
           ''access keys must be strictly increasing in canonical StateKey order''))\<rparr>"
  by (simp add: execute_fixture_def sample_semantics_initial sample_materializes Let_def)
     (simp add: sample_execution_eval)

lemma sample_execution_accepts:
  "execute_fixture zero_hash_fun (\<lambda>_. Ok sample_transaction_vector) (sample_semantics [[5]]) =
     Ok \<lparr>fe_pre_state_root = zero_bytes 32, fe_planner_exhausted = True, fe_final_applier_root = zero_bytes 32,
         fe_manual_post_state_roots = [zero_bytes 32], fe_manual_receipt_roots = [zero_bytes 32],
         fe_outcome = Ok \<lparr>block_post_state_root = zero_bytes 32, block_receipts_root = zero_bytes 32,
           transaction_outcomes = [\<lparr>tx_transaction_root = zero_bytes 32, tx_post_state_root = zero_bytes 32,
             tx_receipt = \<lparr>status_code = 1, receipt_output = [85]\<rparr>\<rparr>]\<rparr>\<rparr>"
  by (simp add: execute_fixture_def sample_semantics_initial sample_materializes Let_def)
     (simp add: sample_execution_eval)

section \<open>Properties\<close>

text \<open>
  C18: The harness of the execution-semantics vectors executes a vector by the block engine and by a loop of
  its own, and the two agree on every vector whose transactions are those of its steps. When the engine
  accepts, its per-transaction post-state roots and receipts are those of the loop and the script is used up;
  when it rejects, the error is that of the first step whose patch is not in canonical order, the loop has
  stopped at that step, with its receipt but no post-state root, and the plan of that step has been consumed.
  In both cases the state root of the engine's applier is the last root of the loop.
\<close>
theorem replay_agrees_with_engine:
  assumes "execute_fixture sha load_tx fixture = Ok execution" "aligned fixture"
  defines "steps \<equiv> esi_steps (esv_input fixture)" and "posts \<equiv> fe_manual_post_state_roots execution"
    and "receipts \<equiv> fe_manual_receipt_roots execution"
  shows "fe_final_applier_root execution = last (fe_pre_state_root execution # posts) \<and>
    (case fe_outcome execution of
       Ok out \<Rightarrow> map tx_post_state_root (transaction_outcomes out) = posts \<and> length posts = length steps \<and>
         map (receipt_canonical_root sha \<circ> tx_receipt) (transaction_outcomes out) = receipts \<and>
         block_post_state_root out = fe_final_applier_root execution \<and> fe_planner_exhausted execution
     | Err e \<Rightarrow> length posts < length steps \<and> length receipts = length posts + 1 \<and>
         (\<exists>patch err. step_state_patch (steps ! length posts) = Ok patch \<and>
            ensure_canonical_access_order (accesses patch) = Err err \<and> e = StateTransition err) \<and>
         (fe_planner_exhausted execution \<longleftrightarrow> length posts + 1 = length steps)
     | Panic \<Rightarrow> False)"
proof -
  from execute_fixture_cases [OF assms(1,2)] obtain txs ps
    where plans: "list_all2 plans_step (esi_steps (esv_input fixture)) ps" and agree: "runs_agree sha ps txs execution"
    by metis
  have len: "length steps = length ps" using list_all2_lengthD [OF plans] by (simp add: steps_def)
  from agree show ?thesis
  proof (cases rule: runs_agree_cases)
    case (accepted out)
    then show ?thesis using len executed_all_lengths [OF accepted(3)]
      by (simp add: executed_all_def posts_def receipts_def)
  next
    case (rejected e)
    then have "plans_step (steps ! length posts) (ps ! length posts)"
      using plans by (simp add: list_all2_conv_all_nth failed_after_def steps_def posts_def)
    then show ?thesis using rejected len
      by (auto simp: failed_after_def plans_step_def posts_def receipts_def)
  qed
qed

theorem replay_agrees_with_engine_witness:
  "(let execution = \<lparr>fe_pre_state_root = zero_bytes 32, fe_planner_exhausted = True, fe_final_applier_root = zero_bytes 32,
         fe_manual_post_state_roots = [zero_bytes 32], fe_manual_receipt_roots = [zero_bytes 32, zero_bytes 32],
         fe_outcome = Err (StateTransition (NonCanonicalWitnessOrdering 1
           ''access keys must be strictly increasing in canonical StateKey order''))\<rparr> in
     \<exists>patch err. step_state_patch (sample_step [9, 5]) = Ok patch \<and>
       ensure_canonical_access_order (accesses patch) = Err err \<and> fe_outcome execution = Err (StateTransition err))"
  using replay_agrees_with_engine [OF sample_execution_rejects]
  by (simp add: aligned_def sample_semantics_def sample_step_def)

text \<open>
  A vector that is expected to be accepted passes exactly when its transactions are those of its steps,
  the loop reaches the end of the steps, and the roots it declares (before, after, of all receipts, and per
  step) are those of the loop. Nothing else can fail: the comparisons with the engine's outcome are implied.
\<close>
theorem accept_vector_exact:
  assumes "execute_fixture sha load_tx fixture = Ok execution"
  defines "steps \<equiv> esi_steps (esv_input fixture)" and "posts \<equiv> fe_manual_post_state_roots execution"
  shows "assert_accept_fixture sha load_tx fixture execution = Ok () \<longleftrightarrow>
    aligned fixture \<and> length posts = length steps \<and> esv_planner_exhausted fixture \<noteq> Some False \<and>
    parse_root (esv_pre_state_root fixture) = Ok (fe_pre_state_root execution) \<and>
    declares (esv_post_state_root fixture) (last (fe_pre_state_root execution # posts)) \<and>
    (\<exists>receipts. collect_results step_receipt steps = Ok receipts \<and>
       declares (esv_receipts_root fixture) (compute_receipts_root sha receipts)) \<and>
    list_all2 (declares \<circ> es_expected_post_state_root) steps posts \<and>
    list_all2 (declares \<circ> es_expected_receipt_root) steps (fe_manual_receipt_roots execution)"
proof (cases "aligned fixture")
  case True
  from execute_fixture_cases [OF assms(1) True] obtain txs ps where loads:
      "list_all2 (\<lambda>step tx. load_envelope load_tx (es_transaction_vector_id step) = Ok tx) (esi_steps (esv_input fixture)) txs"
    and plans: "list_all2 plans_step (esi_steps (esv_input fixture)) ps" and agree: "runs_agree sha ps txs execution"
    by metis
  have len: "length steps = length ps" using list_all2_lengthD [OF plans] by (simp add: steps_def)
  from agree show ?thesis
  proof (cases rule: runs_agree_cases)
    case (accepted out)
    have "collect_results step_receipt steps = Ok (map tx_receipt (transaction_outcomes out))"
      using plans accepted(3)
      by (auto simp: collect_results_Ok_iff steps_def executed_all_def plans_step_def list_all2_map2 elim: list_all2_mono)
    then show ?thesis
      using True accepted len executed_all_lengths [OF accepted(3)] check_steps_exact [OF loads plans accepted(3)]
      by (auto simp: assert_accept_fixture_def Let_def bind_result_Ok_iff declared_root aligned_def steps_def posts_def
          simp del: last.simps split: option.splits)
  qed (use len in \<open>auto simp: assert_accept_fixture_def failed_after_def posts_def\<close>)
next
  case False
  then show ?thesis
    by (auto simp: assert_accept_fixture_def Let_def bind_result_Ok_iff aligned_def)
qed

theorem accept_vector_exact_witness:
  "\<exists>execution. execute_fixture zero_hash_fun (\<lambda>_. Ok sample_transaction_vector) (sample_semantics [[5]]) = Ok execution \<and>
     assert_accept_fixture zero_hash_fun (\<lambda>_. Ok sample_transaction_vector) (sample_semantics [[5]]) execution = Ok ()"
  using sample_execution_accepts accept_vector_exact [OF sample_execution_accepts]
  by (auto simp: sample_semantics_def aligned_def sample_step_parses compute_receipts_root_def zero_hash_fun_def
      expect_array_def) (simp_all add: sample_step_def expect_array_def)

text \<open>
  A vector that is expected to be rejected, and whose transactions are those of its steps, passes exactly
  when the loop stops at a step whose patch is not in canonical order, the error it declares is that ordering
  error, with its position and its message, the roots it declares are the root before and the last root of the
  loop, and it declares the script as used up exactly when the failing step is the last.
\<close>
theorem reject_vector_exact:
  assumes "execute_fixture sha load_tx fixture = Ok execution" "aligned fixture"
  defines "steps \<equiv> esi_steps (esv_input fixture)" and "posts \<equiv> fe_manual_post_state_roots execution"
  shows "assert_reject_fixture fixture execution = Ok () \<longleftrightarrow>
    length posts < length steps \<and>
    (\<exists>patch index context expected. step_state_patch (steps ! length posts) = Ok patch \<and>
       ensure_canonical_access_order (accesses patch) = Err (NonCanonicalWitnessOrdering index context) \<and>
       esv_expected_error fixture = Some expected \<and> ese_kind expected = ''NonCanonicalWitnessOrdering'' \<and>
       ese_index expected = Some index \<and> ese_context expected = Some context) \<and>
    parse_root (esv_pre_state_root fixture) = Ok (fe_pre_state_root execution) \<and>
    declares (esv_post_state_root fixture) (last (fe_pre_state_root execution # posts)) \<and>
    (esv_planner_exhausted fixture = Some True \<longleftrightarrow> length posts + 1 = length steps)"
proof -
  from execute_fixture_cases [OF assms(1,2)] obtain txs ps
    where plans: "list_all2 plans_step (esi_steps (esv_input fixture)) ps" and agree: "runs_agree sha ps txs execution"
    by metis
  have len: "length steps = length ps" using list_all2_lengthD [OF plans] by (simp add: steps_def)
  from agree show ?thesis
  proof (cases rule: runs_agree_cases)
    case (accepted out)
    then show ?thesis using len executed_all_lengths [OF accepted(3)]
      by (auto simp: assert_reject_fixture_def posts_def)
  next
    case (rejected e)
    then have "plans_step (steps ! length posts) (ps ! length posts)"
      using plans by (simp add: list_all2_conv_all_nth failed_after_def steps_def posts_def)
    moreover obtain index ctx where "e = NonCanonicalWitnessOrdering index ctx"
      using rejected(2) by (auto simp: failed_after_def dest: access_order_error)
    moreover have "fe_planner_exhausted execution = (case esv_planner_exhausted fixture of Some b \<Rightarrow> b | None \<Rightarrow> False) \<longleftrightarrow>
        (esv_planner_exhausted fixture = Some True \<longleftrightarrow> length posts + 1 = length steps)"
      using rejected(4) len by (auto simp: posts_def split: option.split)
    ultimately show ?thesis
      using rejected(1-3) len
      by (auto simp: assert_reject_fixture_def ordering_error_expected bind_result_Ok_iff expect_some_Ok_iff declares_def
          failed_after_def plans_step_def posts_def simp del: last.simps)
  qed
qed

theorem reject_vector_exact_witness:
  "\<exists>execution. execute_fixture zero_hash_fun (\<lambda>_. Ok sample_transaction_vector) (sample_semantics [[5], [9, 5]]) = Ok execution \<and>
     assert_reject_fixture (sample_semantics [[5], [9, 5]]) execution = Ok ()"
  using sample_execution_rejects reject_vector_exact [OF sample_execution_rejects]
  by (auto simp: sample_semantics_def aligned_def sample_step_parses ensure_canonical_access_order_def
      sample_keys_descend expect_array_def) (simp add: sample_step_def)

end
