(* ===== verification/Transaction_Vectors.thy ===== *)
theory Transaction_Vectors
  imports Conformance Wire_Objects Replay
begin

text \<open>
  The transaction vectors and their harness (\<^verbatim>\<open>crates/shell-primitives/tests/transaction_vectors.rs\<close>): a
  vector that is accepted declares the payload, its wire bytes, its tag and its root; one that is rejected
  declares bytes and the error of the decoder. The four vectors of \<^verbatim>\<open>vectors/transactions\<close> are
  written out, and the suite is shown to pass exactly when the hash function gives the two payload roots that
  they declare: all that does not depend on the hash function is checked.
\<close>

section \<open>The harness\<close>

definition assert_accept_transaction :: "hash_fun \<Rightarrow> TransactionVector \<Rightarrow> unit panics" where
  "assert_accept_transaction sha fixture =
     bind_result (vector_payload fixture) (\<lambda>payload.
     bind_result (expect_ok (payload_to_wire_bytes payload)) (\<lambda>wire.
     bind_result (expect_ok (payload_from_wire_bytes wire)) (\<lambda>decoded.
     bind_result (expect_ok (payload_method_hash_tree_root sha payload)) (\<lambda>root.
     bind_result (asserts [payload = decoded]) (\<lambda>_.
     bind_result (expect_some (tv_payload_tag fixture)) (\<lambda>expected_tag.
     bind_result (asserts [protocol_tag payload = expected_tag]) (\<lambda>_.
     bind_result (bind_result (expect_some (tv_payload_root fixture)) parse_root) (\<lambda>expected_root.
     bind_result (asserts [root = expected_root]) (\<lambda>_.
     bind_result (expect_ok (payload_method_hash_tree_root sha decoded)) (\<lambda>decoded_root.
     bind_result (asserts [decoded_root = expected_root]) (\<lambda>_.
     bind_result (bind_result (expect_some (tvi_wire_hex (tv_input fixture))) parse_hex) (\<lambda>expected_wire.
     asserts [wire = expected_wire, tv_authorization_count fixture = Some 0]))))))))))))"

definition assert_reject_transaction :: "TransactionVector \<Rightarrow> unit panics" where
  "assert_reject_transaction fixture =
     bind_result (bind_result (expect_some (tvi_wire_hex (tv_input fixture))) parse_hex) (\<lambda>wire.
     bind_result (expect_err (payload_from_wire_bytes wire)) (\<lambda>error.
     bind_result (expect_some (tv_expected_error fixture)) (\<lambda>expected.
     case error of
       UnsupportedPayloadVariant tag \<Rightarrow>
         if te_kind expected = ''UnsupportedPayloadVariant'' then asserts [Some tag = te_tag expected] else Panic
     | MalformedSsz ctx \<Rightarrow>
         if te_kind expected = ''MalformedSsz'' then asserts [Some ctx = te_context expected] else Panic
     | _ \<Rightarrow> Panic)))"

definition check_transaction_vector :: "hash_fun \<Rightarrow> string \<times> TransactionVector \<Rightarrow> unit panics" where
  "check_transaction_vector sha = (\<lambda>(file_stem, fixture).
     bind_result (asserts [file_stem = tv_id fixture, tv_category fixture = ''transaction'',
       tv_owned_by fixture = ''shell-primitives'', \<not> is_blank (tv_description fixture),
       case tv_notes fixture of Some notes \<Rightarrow> \<not> is_blank notes | None \<Rightarrow> True]) (\<lambda>_.
     if tv_expected_outcome fixture = ''accept'' then assert_accept_transaction sha fixture
     else if tv_expected_outcome fixture = ''reject'' then assert_reject_transaction fixture
     else Panic))"

definition transaction_vectors_match_the_closed_codec_and_root_contract ::
  "hash_fun \<Rightarrow> (string \<times> TransactionVector) list \<Rightarrow> unit panics" where
  "transaction_vectors_match_the_closed_codec_and_root_contract sha paths =
     bind_result (asserts [paths \<noteq> []]) (\<lambda>_. for_each (check_transaction_vector sha) paths)"

section \<open>The vectors\<close>

definition tx_basic_valid_001 :: TransactionVector where
  "tx_basic_valid_001 = \<lparr>tv_id = ''tx-basic-valid-001'', tv_category = ''transaction'',
     tv_description = ''BasicTransactionPayload tag 0 round-trips through the canonical wire codec and produces the expected payload root.'',
     tv_input = \<lparr>tvi_payload = Some (BasicInput \<lparr>bpi_chain_id = ''0x0100000000000000000000000000000000000000000000000000000000000000'',
       bpi_nonce = 42, bpi_gas_limit = 21000, bpi_fees = \<lparr>fee_regular = ''0x0200000000000000000000000000000000000000000000000000000000000000'',
         fee_max_priority_fee_per_gas = ''0x0300000000000000000000000000000000000000000000000000000000000000'',
         fee_max_witness_priority_fee = ''0x0400000000000000000000000000000000000000000000000000000000000000''\<rparr>,
       bpi_to = ''0x1111111111111111111111111111111111111111'',
       bpi_value = ''0x0500000000000000000000000000000000000000000000000000000000000000'',
       bpi_input_hex = ''0xdeadbeef'', bpi_access_commitment = ''0x2222222222222222222222222222222222222222222222222222222222222222''\<rparr>),
       tvi_wire_hex = Some ''0x0001000000000000000000000000000000000000000000000000000000000000002a00000000000000085200000000000002000000000000000000000000000000000000000000000000000000000000000300000000000000000000000000000000000000000000000000000000000000040000000000000000000000000000000000000000000000000000000000000011111111111111111111111111111111111111110500000000000000000000000000000000000000000000000000000000000000e80000002222222222222222222222222222222222222222222222222222222222222222deadbeef''\<rparr>,
     tv_expected_outcome = ''accept'', tv_expected_error = None, tv_owned_by = ''shell-primitives'',
     tv_notes = Some ''Closed transaction codec/root vector for the current tag-0 payload variant.'',
     tv_payload_tag = Some 0, tv_payload_root = Some ''0xed88c8d3d9203ca32ac85bb3669c3ce93aff60599e0a9a1665319574c98d6060'',
     tv_authorization_count = Some 0\<rparr>"

definition tx_create_valid_001 :: TransactionVector where
  "tx_create_valid_001 = \<lparr>tv_id = ''tx-create-valid-001'', tv_category = ''transaction'',
     tv_description = ''CreateTransactionPayload tag 1 round-trips through the canonical wire codec and produces the expected payload root.'',
     tv_input = \<lparr>tvi_payload = Some (CreateInput \<lparr>cpi_chain_id = ''0x0700000000000000000000000000000000000000000000000000000000000000'',
       cpi_nonce = 9, cpi_gas_limit = 500000, cpi_fees = \<lparr>fee_regular = ''0x0a00000000000000000000000000000000000000000000000000000000000000'',
         fee_max_priority_fee_per_gas = ''0x0b00000000000000000000000000000000000000000000000000000000000000'',
         fee_max_witness_priority_fee = ''0x0c00000000000000000000000000000000000000000000000000000000000000''\<rparr>,
       cpi_value = ''0x0d00000000000000000000000000000000000000000000000000000000000000'',
       cpi_initcode_hex = ''0x6001600055'', cpi_access_commitment = ''0x3333333333333333333333333333333333333333333333333333333333333333''\<rparr>),
       tvi_wire_hex = Some ''0x010700000000000000000000000000000000000000000000000000000000000000090000000000000020a10700000000000a000000000000000000000000000000000000000000000000000000000000000b000000000000000000000000000000000000000000000000000000000000000c000000000000000000000000000000000000000000000000000000000000000d00000000000000000000000000000000000000000000000000000000000000d400000033333333333333333333333333333333333333333333333333333333333333336001600055''\<rparr>,
     tv_expected_outcome = ''accept'', tv_expected_error = None, tv_owned_by = ''shell-primitives'',
     tv_notes = Some ''Closed transaction codec/root vector for the current tag-1 payload variant.'',
     tv_payload_tag = Some 1, tv_payload_root = Some ''0xc73178bb9e66b22f2d6b206b6d19a1d9dfedf5d26ed877c1356817249562df45'',
     tv_authorization_count = Some 0\<rparr>"

definition tx_malformed_ssz_001 :: TransactionVector where
  "tx_malformed_ssz_001 = \<lparr>tv_id = ''tx-malformed-ssz-001'', tv_category = ''transaction'',
     tv_description = ''A tag-only transaction payload is structurally malformed because the fixed SSZ fields are missing.'',
     tv_input = \<lparr>tvi_payload = None,
       tvi_wire_hex = Some ''0x00''\<rparr>,
     tv_expected_outcome = ''reject'', tv_expected_error = Some \<lparr>te_kind = ''MalformedSsz'', te_tag = None,
       te_context = Some ''BasicTransactionPayload too short for fixed fields''\<rparr>, tv_owned_by = ''shell-primitives'',
     tv_notes = Some ''This fixture exercises the low-level decode failure path for truncated SSZ bytes.'',
     tv_payload_tag = None, tv_payload_root = None,
     tv_authorization_count = None\<rparr>"

definition tx_unknown_tag_001 :: TransactionVector where
  "tx_unknown_tag_001 = \<lparr>tv_id = ''tx-unknown-tag-001'', tv_category = ''transaction'',
     tv_description = ''A transaction payload tag outside the locally supported set is rejected before any payload decode.'',
     tv_input = \<lparr>tvi_payload = None,
       tvi_wire_hex = Some ''0x02''\<rparr>,
     tv_expected_outcome = ''reject'', tv_expected_error = Some \<lparr>te_kind = ''UnsupportedPayloadVariant'', te_tag = Some 2,
       te_context = None\<rparr>, tv_owned_by = ''shell-primitives'',
     tv_notes = Some ''This fixture stays focused on the closed tag gate without inventing future payload semantics.'',
     tv_payload_tag = None, tv_payload_root = None,
     tv_authorization_count = None\<rparr>"

definition transaction_vectors :: "(string \<times> TransactionVector) list" where
  "transaction_vectors = [
     (''tx-basic-valid-001'', tx_basic_valid_001),
     (''tx-create-valid-001'', tx_create_valid_001),
     (''tx-malformed-ssz-001'', tx_malformed_ssz_001),
     (''tx-unknown-tag-001'', tx_unknown_tag_001)]"

lemmas transaction_vector_defs = tx_basic_valid_001_def tx_create_valid_001_def tx_malformed_ssz_001_def tx_unknown_tag_001_def


section \<open>What a vector checks\<close>

text \<open>
  The round trip through the codec cannot fail, since a payload that the vectors build is well formed: what is
  compared are the declared tag, root, bytes and number of authorizations.
\<close>

lemma assert_accept_transaction_exact:
  "assert_accept_transaction sha fixture = Ok () \<longleftrightarrow>
     (\<exists>payload wire hex. vector_payload fixture = Ok payload \<and> encode_payload payload = Ok wire \<and>
        tv_payload_tag fixture = Some (protocol_tag payload) \<and>
        declares (tv_payload_root fixture) (tree_root sha (payload_tree payload)) \<and>
        tvi_wire_hex (tv_input fixture) = Some hex \<and> parse_hex hex = Ok wire \<and> tv_authorization_count fixture = Some 0)"
proof -
  have "decode_payload wire = Ok payload"
    if "vector_payload fixture = Ok payload" "encode_payload payload = Ok wire" for payload wire
    using that by (auto simp: vector_payload_def result_simps decode_payload_Ok dest: build_payload_wf)
  then show ?thesis
    by (auto simp: assert_accept_transaction_def wire_object_defs result_simps tree_root_payload declares_def
        dest: build_payload_wf)
qed

text \<open>The payloads and the bytes of the two accepted vectors.\<close>

abbreviation word256 :: "u8 \<Rightarrow> U256" where
  "word256 b \<equiv> U256 (b # replicate 31 0)"

definition basic_vector_payload :: TransactionPayloadSsz where
  "basic_vector_payload = TransactionPayloadSsz (Basic \<lparr>basic_chain_id = ChainId (word256 1), basic_nonce = 42,
     basic_gas_limit = 21000, basic_fees = \<lparr>regular = GasPrice (word256 2),
       max_priority_fee_per_gas = GasPrice (word256 3), max_witness_priority_fee = GasPrice (word256 4)\<rparr>,
     basic_to = replicate 20 0x11, basic_value = TxValue (word256 5), basic_input = [0xDE, 0xAD, 0xBE, 0xEF],
     basic_access_commitment = replicate 32 0x22\<rparr>)"

definition create_vector_payload :: TransactionPayloadSsz where
  "create_vector_payload = TransactionPayloadSsz (Create \<lparr>create_chain_id = ChainId (word256 7), create_nonce = 9,
     create_gas_limit = 500000, create_fees = \<lparr>regular = GasPrice (word256 10),
       max_priority_fee_per_gas = GasPrice (word256 11), max_witness_priority_fee = GasPrice (word256 12)\<rparr>,
     create_value = TxValue (word256 13), create_initcode = [0x60, 0x01, 0x60, 0x00, 0x55],
     create_access_commitment = replicate 32 0x33\<rparr>)"

lemma basic_vector_parses: "vector_payload tx_basic_valid_001 = Ok basic_vector_payload"
  by (simp add: vector_payload_def tx_basic_valid_001_def basic_vector_payload_def parse_fees_def parse_bytes_32_def hex_eval)

lemma create_vector_parses: "vector_payload tx_create_valid_001 = Ok create_vector_payload"
  by (simp add: vector_payload_def tx_create_valid_001_def create_vector_payload_def parse_fees_def parse_bytes_32_def hex_eval)

lemma le_bytes_numeral:
  "le_bytes (numeral k) v = word_of_nat (v mod 256) # le_bytes (pred_numeral k) (v div 256)"
  using le_bytes.simps(2) [of "pred_numeral k" v] unfolding numeral_eq_Suc [of k, symmetric] .

lemma vector_integers:
  "u64_to_le_bytes 42 = [42, 0, 0, 0, 0, 0, 0, 0]" "u64_to_le_bytes 21000 = [8, 82, 0, 0, 0, 0, 0, 0]"
  "u64_to_le_bytes 9 = [9, 0, 0, 0, 0, 0, 0, 0]" "u64_to_le_bytes 500000 = [32, 161, 7, 0, 0, 0, 0, 0]"
  "u32_to_le_bytes (usize_as_u32 232) = [232, 0, 0, 0]" "u32_to_le_bytes (usize_as_u32 212) = [212, 0, 0, 0]"
  by (simp_all add: u64_to_le_bytes_def u32_to_le_bytes_def usize_as_u32_def le_bytes_numeral)

lemmas vector_encode_eval = encode_payload_def encode_basic_def encode_create_def push_defs fixed_size_defs Let_def
  TAG_BASIC_def TAG_CREATE_def replicate_numeral vector_integers

lemma basic_vector_wire:
  "\<exists>hex wire. tvi_wire_hex (tv_input tx_basic_valid_001) = Some hex \<and> parse_hex hex = Ok wire \<and>
     encode_payload basic_vector_payload = Ok wire"
  by (simp add: tx_basic_valid_001_def hex_eval) (simp add: basic_vector_payload_def vector_encode_eval)

lemma create_vector_wire:
  "\<exists>hex wire. tvi_wire_hex (tv_input tx_create_valid_001) = Some hex \<and> parse_hex hex = Ok wire \<and>
     encode_payload create_vector_payload = Ok wire"
  by (simp add: tx_create_valid_001_def hex_eval) (simp add: create_vector_payload_def vector_encode_eval)

lemma transaction_vector_headers:
  "list_all (\<lambda>(stem, v). stem = tv_id v \<and> tv_category v = ''transaction'' \<and> tv_owned_by v = ''shell-primitives'' \<and>
     \<not> is_blank (tv_description v) \<and> (case tv_notes v of Some notes \<Rightarrow> \<not> is_blank notes | None \<Rightarrow> True)) transaction_vectors"
  by code_simp

lemma rejected_vectors_pass:
  "assert_reject_transaction tx_malformed_ssz_001 = Ok ()" "assert_reject_transaction tx_unknown_tag_001 = Ok ()"
  by code_simp+

section \<open>Properties\<close>

text \<open>
  C23: The test of the transaction vectors, on the four vectors of the repository, passes exactly when the hash
  function gives the two payload roots that the accepted vectors declare. The bytes that the codec produces for
  the two payloads are the declared ones, byte for byte, and the two rejected inputs fail with the declared
  errors, for every hash function.
\<close>
theorem transaction_vectors_exact:
  "transaction_vectors_match_the_closed_codec_and_root_contract sha transaction_vectors = Ok () \<longleftrightarrow>
     declares (tv_payload_root tx_basic_valid_001) (tree_root sha (payload_tree basic_vector_payload)) \<and>
     declares (tv_payload_root tx_create_valid_001) (tree_root sha (payload_tree create_vector_payload))"
proof -
  have outcomes: "tv_expected_outcome tx_basic_valid_001 = ''accept''" "tv_expected_outcome tx_create_valid_001 = ''accept''"
    "tv_expected_outcome tx_malformed_ssz_001 = ''reject''" "tv_expected_outcome tx_unknown_tag_001 = ''reject''"
    by (simp_all add: transaction_vector_defs)
  have basic: "assert_accept_transaction sha tx_basic_valid_001 = Ok () \<longleftrightarrow>
      declares (tv_payload_root tx_basic_valid_001) (tree_root sha (payload_tree basic_vector_payload))"
    using basic_vector_wire unfolding assert_accept_transaction_exact
    by (auto simp: basic_vector_parses) (simp_all add: tx_basic_valid_001_def basic_vector_payload_def TAG_BASIC_def)
  have create: "assert_accept_transaction sha tx_create_valid_001 = Ok () \<longleftrightarrow>
      declares (tv_payload_root tx_create_valid_001) (tree_root sha (payload_tree create_vector_payload))"
    using create_vector_wire unfolding assert_accept_transaction_exact
    by (auto simp: create_vector_parses) (simp_all add: tx_create_valid_001_def create_vector_payload_def TAG_CREATE_def)
  show ?thesis
    using transaction_vector_headers basic create rejected_vectors_pass
    by (simp add: transaction_vectors_match_the_closed_codec_and_root_contract_def transaction_vectors_def for_each_Ok_iff
        check_transaction_vector_def outcomes bind_result_Ok_iff)
qed

end
