(* ===== verification/Validation_Vectors.thy ===== *)
theory Validation_Vectors
  imports Transaction_Vectors
begin

text \<open>
  The vectors of the three closed validation rules and their harness
  (\<^verbatim>\<open>crates/shell-primitives/tests/validation_vectors.rs\<close>): the number of authorizations, their payload roots
  and the size of a signature. The eleven vectors of \<^verbatim>\<open>vectors/validation\<close> are written out, and the
  suite is shown to pass exactly when the hash function gives the one payload root that they declare.
\<close>

section \<open>The vectors\<close>

record AuthorizationInput =
  ai_scheme_id :: u8
  ai_payload_root :: string
  ai_signature_hex :: string

record ValidationInput =
  vi_authorizations :: "AuthorizationInput list option"
  vi_wire_hex :: "string option"
  vi_signature_size :: "usize option"

record ValidationExpectedError =
  ve_kind :: string
  ve_expected_at_least :: "usize option"
  ve_actual :: "usize option"
  ve_expected_root :: "string option"
  ve_actual_root :: "string option"
  ve_max_bytes :: "usize option"
  ve_actual_bytes :: "usize option"

record ValidationVector =
  vv_id :: string
  vv_category :: string
  vv_rule :: string
  vv_description :: string
  vv_input :: ValidationInput
  vv_expected_outcome :: string
  vv_expected_error :: "ValidationExpectedError option"
  vv_owned_by :: string
  vv_notes :: "string option"

section \<open>The harness\<close>

definition build_authorizations :: "ValidationVector \<Rightarrow> Authorization list panics" where
  "build_authorizations fixture =
     collect_results (\<lambda>a.
       bind_result (parse_root (ai_payload_root a)) (\<lambda>root.
       bind_result (parse_hex (ai_signature_hex a)) (\<lambda>sig.
       Ok \<lparr>auth_scheme_id = ai_scheme_id a, auth_payload_root = root, auth_signature = sig\<rparr>)))
       (case vi_authorizations (vv_input fixture) of Some authorizations \<Rightarrow> authorizations | None \<Rightarrow> [])"

definition decode_fixture_payload :: "ValidationVector \<Rightarrow> TransactionPayloadSsz panics" where
  "decode_fixture_payload fixture =
     bind_result (expect_some (vi_wire_hex (vv_input fixture))) (\<lambda>wire_hex.
     bind_result (parse_hex wire_hex) (\<lambda>wire.
     expect_ok (payload_from_wire_bytes wire)))"

definition build_signature :: "ValidationVector \<Rightarrow> bytes panics" where
  "build_signature fixture =
     bind_result (expect_some (vi_signature_size (vv_input fixture))) (\<lambda>size. Ok (replicate size 0))"

text \<open>The body of \<open>if let Some(expected)\<close>: nothing is compared when the field is absent.\<close>

definition when_some :: "'a option \<Rightarrow> ('a \<Rightarrow> unit panics) \<Rightarrow> unit panics" where
  "when_some field check = (case field of None \<Rightarrow> Ok () | Some x \<Rightarrow> check x)"

definition assert_authorization_count_error :: "ValidationExpectedError \<Rightarrow> PrimitiveError \<Rightarrow> unit panics" where
  "assert_authorization_count_error expected err =
     (case err of
        AuthorizationCount at_least actual \<Rightarrow>
          if ve_kind expected = ''AuthorizationCount'' then
            bind_result (when_some (ve_expected_at_least expected) (\<lambda>exp_least. asserts [at_least = exp_least])) (\<lambda>_.
            when_some (ve_actual expected) (\<lambda>exp_actual. asserts [actual = exp_actual]))
          else Panic
      | _ \<Rightarrow> Panic)"

definition assert_payload_root_mismatch_error :: "ValidationExpectedError \<Rightarrow> PrimitiveError \<Rightarrow> unit panics" where
  "assert_payload_root_mismatch_error expected err =
     (case err of
        PayloadRootMismatch root actual \<Rightarrow>
          if ve_kind expected = ''PayloadRootMismatch'' then
            bind_result (when_some (ve_expected_root expected) (\<lambda>field.
              bind_result (parse_root field) (\<lambda>exp_root. asserts [root = exp_root]))) (\<lambda>_.
            when_some (ve_actual_root expected) (\<lambda>field.
              bind_result (parse_root field) (\<lambda>act_root. asserts [actual = act_root])))
          else Panic
      | _ \<Rightarrow> Panic)"

definition assert_signature_size_error :: "ValidationExpectedError \<Rightarrow> PrimitiveError \<Rightarrow> unit panics" where
  "assert_signature_size_error expected err =
     (case err of
        PrimitiveError.SignatureSizeExceeded limit actual \<Rightarrow>
          if ve_kind expected = ''SignatureSizeExceeded'' then
            bind_result (when_some (ve_max_bytes expected) (\<lambda>exp_max.
              asserts [limit = exp_max, limit = MAX_USER_SIGNATURE_BYTES])) (\<lambda>_.
            when_some (ve_actual_bytes expected) (\<lambda>exp_actual. asserts [actual = exp_actual]))
          else Panic
      | _ \<Rightarrow> Panic)"

definition assert_accept_validation :: "hash_fun \<Rightarrow> ValidationVector \<Rightarrow> unit panics" where
  "assert_accept_validation sha fixture =
     (if vv_rule fixture = ''authorization_count'' then
        bind_result (build_authorizations fixture) (\<lambda>auths. expect_ok (check_authorization_count auths))
      else if vv_rule fixture = ''authorization_payload_roots'' then
        bind_result (decode_fixture_payload fixture) (\<lambda>payload.
        bind_result (build_authorizations fixture) (\<lambda>auths.
        expect_ok (check_authorization_payload_roots sha payload auths)))
      else if vv_rule fixture = ''user_signature_size'' then
        bind_result (build_signature fixture) (\<lambda>sig. expect_ok (check_user_signature_size sig))
      else Panic)"

definition assert_reject_validation :: "hash_fun \<Rightarrow> ValidationVector \<Rightarrow> unit panics" where
  "assert_reject_validation sha fixture =
     bind_result (expect_some (vv_expected_error fixture)) (\<lambda>expected.
     if vv_rule fixture = ''authorization_count'' then
       bind_result (build_authorizations fixture) (\<lambda>auths.
       bind_result (expect_err (check_authorization_count auths)) (\<lambda>err.
       assert_authorization_count_error expected err))
     else if vv_rule fixture = ''authorization_payload_roots'' then
       bind_result (decode_fixture_payload fixture) (\<lambda>payload.
       bind_result (build_authorizations fixture) (\<lambda>auths.
       bind_result (expect_err (check_authorization_payload_roots sha payload auths)) (\<lambda>err.
       assert_payload_root_mismatch_error expected err)))
     else if vv_rule fixture = ''user_signature_size'' then
       bind_result (build_signature fixture) (\<lambda>sig.
       bind_result (expect_err (check_user_signature_size sig)) (\<lambda>err.
       assert_signature_size_error expected err))
     else Panic)"

definition check_validation_vector :: "hash_fun \<Rightarrow> string \<times> ValidationVector \<Rightarrow> unit panics" where
  "check_validation_vector sha = (\<lambda>(file_stem, fixture).
     bind_result (asserts [file_stem = vv_id fixture, vv_category fixture = ''validation'',
       vv_owned_by fixture = ''shell-primitives'', \<not> is_blank (vv_description fixture),
       case vv_notes fixture of Some notes \<Rightarrow> \<not> is_blank notes | None \<Rightarrow> True]) (\<lambda>_.
     if vv_expected_outcome fixture = ''accept'' then assert_accept_validation sha fixture
     else if vv_expected_outcome fixture = ''reject'' then assert_reject_validation sha fixture
     else Panic))"

definition validation_vectors_match_the_closed_t1_rules ::
  "hash_fun \<Rightarrow> (string \<times> ValidationVector) list \<Rightarrow> unit panics" where
  "validation_vectors_match_the_closed_t1_rules sha paths =
     bind_result (asserts [paths \<noteq> []]) (\<lambda>_. for_each (check_validation_vector sha) paths)"

section \<open>The vectors of the repository\<close>

definition auth_count_empty_001 :: ValidationVector where
  "auth_count_empty_001 = \<lparr>vv_id = ''auth-count-empty-001'', vv_category = ''validation'', vv_rule = ''authorization_count'',
     vv_description = ''An empty authorization list is rejected by check_authorization_count because the closed rule requires at least one authorization.'',
     vv_input = \<lparr>vi_authorizations = Some [],
       vi_wire_hex = None,
       vi_signature_size = None\<rparr>,
     vv_expected_outcome = ''reject'', vv_expected_error = Some \<lparr>ve_kind = ''AuthorizationCount'', ve_expected_at_least = Some 1, ve_actual = Some 0,
       ve_expected_root = None,
       ve_actual_root = None,
       ve_max_bytes = None, ve_actual_bytes = None\<rparr>,
     vv_owned_by = ''shell-primitives'',
     vv_notes = Some ''Closed T1 rule: zero authorizations must be caught before any signature dispatch.''\<rparr>"

definition auth_count_multiple_001 :: ValidationVector where
  "auth_count_multiple_001 = \<lparr>vv_id = ''auth-count-multiple-001'', vv_category = ''validation'', vv_rule = ''authorization_count'',
     vv_description = ''An authorization list with three entries clears the minimum-one rule; the count check does not impose an upper bound.'',
     vv_input = \<lparr>vi_authorizations = Some [\<lparr>ai_scheme_id = 0, ai_payload_root = ''0x0000000000000000000000000000000000000000000000000000000000000000'', ai_signature_hex = ''0x''\<rparr>,
         \<lparr>ai_scheme_id = 1, ai_payload_root = ''0x0000000000000000000000000000000000000000000000000000000000000000'', ai_signature_hex = ''0x''\<rparr>,
         \<lparr>ai_scheme_id = 2, ai_payload_root = ''0x0000000000000000000000000000000000000000000000000000000000000000'', ai_signature_hex = ''0x''\<rparr>],
       vi_wire_hex = None,
       vi_signature_size = None\<rparr>,
     vv_expected_outcome = ''accept'', vv_expected_error = None,
     vv_owned_by = ''shell-primitives'',
     vv_notes = Some ''len > 1 is accepted; the rule is a floor, not a ceiling.''\<rparr>"

definition auth_count_single_001 :: ValidationVector where
  "auth_count_single_001 = \<lparr>vv_id = ''auth-count-single-001'', vv_category = ''validation'', vv_rule = ''authorization_count'',
     vv_description = ''A single-entry authorization list satisfies the minimum-one closed rule and is accepted.'',
     vv_input = \<lparr>vi_authorizations = Some [\<lparr>ai_scheme_id = 0, ai_payload_root = ''0x0000000000000000000000000000000000000000000000000000000000000000'', ai_signature_hex = ''0x''\<rparr>],
       vi_wire_hex = None,
       vi_signature_size = None\<rparr>,
     vv_expected_outcome = ''accept'', vv_expected_error = None,
     vv_owned_by = ''shell-primitives'',
     vv_notes = Some ''Exact lower boundary: len == 1 satisfies the >= 1 closed rule.''\<rparr>"

definition auth_root_match_001 :: ValidationVector where
  "auth_root_match_001 = \<lparr>vv_id = ''auth-root-match-001'', vv_category = ''validation'', vv_rule = ''authorization_payload_roots'',
     vv_description = ''An authorization whose payload_root equals the canonical hash_tree_root of the accompanying payload passes the binding check.'',
     vv_input = \<lparr>vi_authorizations = Some [\<lparr>ai_scheme_id = 0, ai_payload_root = ''0xed88c8d3d9203ca32ac85bb3669c3ce93aff60599e0a9a1665319574c98d6060'', ai_signature_hex = ''0x''\<rparr>],
       vi_wire_hex = Some ''0x0001000000000000000000000000000000000000000000000000000000000000002a00000000000000085200000000000002000000000000000000000000000000000000000000000000000000000000000300000000000000000000000000000000000000000000000000000000000000040000000000000000000000000000000000000000000000000000000000000011111111111111111111111111111111111111110500000000000000000000000000000000000000000000000000000000000000e80000002222222222222222222222222222222222222222222222222222222222222222deadbeef'',
       vi_signature_size = None\<rparr>,
     vv_expected_outcome = ''accept'', vv_expected_error = None,
     vv_owned_by = ''shell-primitives'',
     vv_notes = Some ''The payload_root is the authoritative hash_tree_root of the tag-0 basic fixture payload used in tx-basic-valid-001.''\<rparr>"

definition auth_root_mismatch_001 :: ValidationVector where
  "auth_root_mismatch_001 = \<lparr>vv_id = ''auth-root-mismatch-001'', vv_category = ''validation'', vv_rule = ''authorization_payload_roots'',
     vv_description = ''An authorization whose payload_root does not match the canonical hash_tree_root of the accompanying payload is rejected before any cryptographic dispatch.'',
     vv_input = \<lparr>vi_authorizations = Some [\<lparr>ai_scheme_id = 0, ai_payload_root = ''0x0000000000000000000000000000000000000000000000000000000000000000'', ai_signature_hex = ''0x''\<rparr>],
       vi_wire_hex = Some ''0x0001000000000000000000000000000000000000000000000000000000000000002a00000000000000085200000000000002000000000000000000000000000000000000000000000000000000000000000300000000000000000000000000000000000000000000000000000000000000040000000000000000000000000000000000000000000000000000000000000011111111111111111111111111111111111111110500000000000000000000000000000000000000000000000000000000000000e80000002222222222222222222222222222222222222222222222222222222222222222deadbeef'',
       vi_signature_size = None\<rparr>,
     vv_expected_outcome = ''reject'', vv_expected_error = Some \<lparr>ve_kind = ''PayloadRootMismatch'', ve_expected_at_least = None, ve_actual = None,
       ve_expected_root = Some ''0xed88c8d3d9203ca32ac85bb3669c3ce93aff60599e0a9a1665319574c98d6060'',
       ve_actual_root = Some ''0x0000000000000000000000000000000000000000000000000000000000000000'',
       ve_max_bytes = None, ve_actual_bytes = None\<rparr>,
     vv_owned_by = ''shell-primitives'',
     vv_notes = Some (''The authorization presents an all-zero payload_root; the correct root for this payload is ed88c8d3'' @ [CHR 0xE2, CHR 0x80, CHR 0xA6] @ ''.'')\<rparr>"

definition auth_root_no_auths_001 :: ValidationVector where
  "auth_root_no_auths_001 = \<lparr>vv_id = ''auth-root-no-auths-001'', vv_category = ''validation'', vv_rule = ''authorization_payload_roots'',
     vv_description = ''With no authorizations the payload-root loop is vacuously satisfied; check_authorization_payload_roots returns Ok.'',
     vv_input = \<lparr>vi_authorizations = Some [],
       vi_wire_hex = Some ''0x0001000000000000000000000000000000000000000000000000000000000000002a00000000000000085200000000000002000000000000000000000000000000000000000000000000000000000000000300000000000000000000000000000000000000000000000000000000000000040000000000000000000000000000000000000000000000000000000000000011111111111111111111111111111111111111110500000000000000000000000000000000000000000000000000000000000000e80000002222222222222222222222222222222222222222222222222222222222222222deadbeef'',
       vi_signature_size = None\<rparr>,
     vv_expected_outcome = ''accept'', vv_expected_error = None,
     vv_owned_by = ''shell-primitives'',
     vv_notes = Some ''Vacuous case: the for-loop over an empty slice never evaluates the mismatch predicate.''\<rparr>"

definition auth_root_second_mismatch_001 :: ValidationVector where
  "auth_root_second_mismatch_001 = \<lparr>vv_id = ''auth-root-second-mismatch-001'', vv_category = ''validation'', vv_rule = ''authorization_payload_roots'',
     vv_description = ''When multiple authorizations are provided the loop stops at the first mismatch; the second authorization carries a wrong root so the check fails on it.'',
     vv_input = \<lparr>vi_authorizations = Some [\<lparr>ai_scheme_id = 0, ai_payload_root = ''0xed88c8d3d9203ca32ac85bb3669c3ce93aff60599e0a9a1665319574c98d6060'', ai_signature_hex = ''0x''\<rparr>,
         \<lparr>ai_scheme_id = 1, ai_payload_root = ''0xffffffffffffffffffffffffffffffffffffffffffffffffffffffffffffffff'', ai_signature_hex = ''0x''\<rparr>],
       vi_wire_hex = Some ''0x0001000000000000000000000000000000000000000000000000000000000000002a00000000000000085200000000000002000000000000000000000000000000000000000000000000000000000000000300000000000000000000000000000000000000000000000000000000000000040000000000000000000000000000000000000000000000000000000000000011111111111111111111111111111111111111110500000000000000000000000000000000000000000000000000000000000000e80000002222222222222222222222222222222222222222222222222222222222222222deadbeef'',
       vi_signature_size = None\<rparr>,
     vv_expected_outcome = ''reject'', vv_expected_error = Some \<lparr>ve_kind = ''PayloadRootMismatch'', ve_expected_at_least = None, ve_actual = None,
       ve_expected_root = Some ''0xed88c8d3d9203ca32ac85bb3669c3ce93aff60599e0a9a1665319574c98d6060'',
       ve_actual_root = Some ''0xffffffffffffffffffffffffffffffffffffffffffffffffffffffffffffffff'',
       ve_max_bytes = None, ve_actual_bytes = None\<rparr>,
     vv_owned_by = ''shell-primitives'',
     vv_notes = Some ''First authorization is correct; the check must still catch the second mismatched one.''\<rparr>"

definition sig_size_at_limit_001 :: ValidationVector where
  "sig_size_at_limit_001 = \<lparr>vv_id = ''sig-size-at-limit-001'', vv_category = ''validation'', vv_rule = ''user_signature_size'',
     vv_description = ''A signature of exactly 8192 bytes is at the closed 8 KB limit and must be accepted (the rule rejects strictly-greater-than).'',
     vv_input = \<lparr>vi_authorizations = None,
       vi_wire_hex = None,
       vi_signature_size = Some 8192\<rparr>,
     vv_expected_outcome = ''accept'', vv_expected_error = None,
     vv_owned_by = ''shell-primitives'',
     vv_notes = Some ''Exact boundary: len == MAX_USER_SIGNATURE_BYTES (8192) is the inclusive upper bound.''\<rparr>"

definition sig_size_below_limit_001 :: ValidationVector where
  "sig_size_below_limit_001 = \<lparr>vv_id = ''sig-size-below-limit-001'', vv_category = ''validation'', vv_rule = ''user_signature_size'',
     vv_description = ''A signature of 8191 bytes is one byte below the closed 8 KB limit and is accepted.'',
     vv_input = \<lparr>vi_authorizations = None,
       vi_wire_hex = None,
       vi_signature_size = Some 8191\<rparr>,
     vv_expected_outcome = ''accept'', vv_expected_error = None,
     vv_owned_by = ''shell-primitives'',
     vv_notes = Some ''Boundary: MAX_USER_SIGNATURE_BYTES - 1 must pass the strict less-than-or-equal check.''\<rparr>"

definition sig_size_over_limit_001 :: ValidationVector where
  "sig_size_over_limit_001 = \<lparr>vv_id = ''sig-size-over-limit-001'', vv_category = ''validation'', vv_rule = ''user_signature_size'',
     vv_description = ''A signature of 8193 bytes exceeds the closed 8 KB limit by one byte and is rejected before any cryptographic verification.'',
     vv_input = \<lparr>vi_authorizations = None,
       vi_wire_hex = None,
       vi_signature_size = Some 8193\<rparr>,
     vv_expected_outcome = ''reject'', vv_expected_error = Some \<lparr>ve_kind = ''SignatureSizeExceeded'', ve_expected_at_least = None, ve_actual = None,
       ve_expected_root = None,
       ve_actual_root = None,
       ve_max_bytes = Some 8192, ve_actual_bytes = Some 8193\<rparr>,
     vv_owned_by = ''shell-primitives'',
     vv_notes = Some ''Exact boundary: len == MAX_USER_SIGNATURE_BYTES + 1 is the first byte that must be refused.''\<rparr>"

definition sig_size_zero_001 :: ValidationVector where
  "sig_size_zero_001 = \<lparr>vv_id = ''sig-size-zero-001'', vv_category = ''validation'', vv_rule = ''user_signature_size'',
     vv_description = ''An empty signature (zero bytes) is well below the 8 KB limit and is accepted.'',
     vv_input = \<lparr>vi_authorizations = None,
       vi_wire_hex = None,
       vi_signature_size = Some 0\<rparr>,
     vv_expected_outcome = ''accept'', vv_expected_error = None,
     vv_owned_by = ''shell-primitives'',
     vv_notes = Some ''Edge case: zero-byte signature is valid from a sizing perspective; scheme-specific rules may further reject it.''\<rparr>"

definition validation_vectors :: "(string \<times> ValidationVector) list" where
  "validation_vectors = [
     (''auth-count-empty-001'', auth_count_empty_001),
     (''auth-count-multiple-001'', auth_count_multiple_001),
     (''auth-count-single-001'', auth_count_single_001),
     (''auth-root-match-001'', auth_root_match_001),
     (''auth-root-mismatch-001'', auth_root_mismatch_001),
     (''auth-root-no-auths-001'', auth_root_no_auths_001),
     (''auth-root-second-mismatch-001'', auth_root_second_mismatch_001),
     (''sig-size-at-limit-001'', sig_size_at_limit_001),
     (''sig-size-below-limit-001'', sig_size_below_limit_001),
     (''sig-size-over-limit-001'', sig_size_over_limit_001),
     (''sig-size-zero-001'', sig_size_zero_001)]"

lemmas validation_vector_defs = auth_count_empty_001_def auth_count_multiple_001_def auth_count_single_001_def auth_root_match_001_def auth_root_mismatch_001_def auth_root_no_auths_001_def auth_root_second_mismatch_001_def sig_size_at_limit_001_def sig_size_below_limit_001_def sig_size_over_limit_001_def sig_size_zero_001_def

section \<open>What the vectors check\<close>

text \<open>The four vectors of the second rule share the payload of the transaction vectors.\<close>

lemma basic_vector_payload_wf: "wf_payload basic_vector_payload"
  by (simp add: basic_vector_payload_def payload_wf_defs)

lemma shared_wire_decodes:
  "vi_wire_hex (vv_input v) = tvi_wire_hex (tv_input tx_basic_valid_001) \<Longrightarrow>
     decode_fixture_payload v = Ok basic_vector_payload"
proof -
  assume "vi_wire_hex (vv_input v) = tvi_wire_hex (tv_input tx_basic_valid_001)"
  then obtain hex wire where "vi_wire_hex (vv_input v) = Some hex" "parse_hex hex = Ok wire"
    "encode_payload basic_vector_payload = Ok wire"
    using basic_vector_wire by auto
  moreover from this have "decode_payload wire = Ok basic_vector_payload"
    by (simp add: decode_payload_Ok basic_vector_payload_wf)
  ultimately show ?thesis by (simp add: decode_fixture_payload_def payload_from_wire_bytes_def)
qed

lemma shared_wire:
  "vi_wire_hex (vv_input auth_root_match_001) = tvi_wire_hex (tv_input tx_basic_valid_001)"
  "vi_wire_hex (vv_input auth_root_mismatch_001) = tvi_wire_hex (tv_input tx_basic_valid_001)"
  "vi_wire_hex (vv_input auth_root_no_auths_001) = tvi_wire_hex (tv_input tx_basic_valid_001)"
  "vi_wire_hex (vv_input auth_root_second_mismatch_001) = tvi_wire_hex (tv_input tx_basic_valid_001)"
  by (simp_all add: validation_vector_defs tx_basic_valid_001_def)

text \<open>Apart from the rule, a vector of the repository is checked by its outcome only.\<close>

definition validation_header_ok :: "string \<times> ValidationVector \<Rightarrow> bool" where
  "validation_header_ok = (\<lambda>(stem, v). stem = vv_id v \<and> vv_category v = ''validation'' \<and> vv_owned_by v = ''shell-primitives'' \<and>
     \<not> is_blank (vv_description v) \<and> (case vv_notes v of Some notes \<Rightarrow> \<not> is_blank notes | None \<Rightarrow> True))"

lemma validation_vector_headers: "list_all validation_header_ok validation_vectors"
  by code_simp

lemma check_validation_vector_outcome:
  "validation_header_ok (stem, v) \<Longrightarrow> vv_expected_outcome v = ''accept'' \<Longrightarrow>
     check_validation_vector sha (stem, v) = assert_accept_validation sha v"
  "validation_header_ok (stem, v) \<Longrightarrow> vv_expected_outcome v = ''reject'' \<Longrightarrow>
     check_validation_vector sha (stem, v) = assert_reject_validation sha v"
  by (simp_all add: check_validation_vector_def validation_header_ok_def)

lemma validation_outcomes:
  "vv_expected_outcome auth_count_empty_001 = ''reject''" "vv_expected_outcome auth_count_multiple_001 = ''accept''"
  "vv_expected_outcome auth_count_single_001 = ''accept''" "vv_expected_outcome auth_root_match_001 = ''accept''"
  "vv_expected_outcome auth_root_mismatch_001 = ''reject''" "vv_expected_outcome auth_root_no_auths_001 = ''accept''"
  "vv_expected_outcome auth_root_second_mismatch_001 = ''reject''" "vv_expected_outcome sig_size_at_limit_001 = ''accept''"
  "vv_expected_outcome sig_size_below_limit_001 = ''accept''" "vv_expected_outcome sig_size_over_limit_001 = ''reject''"
  "vv_expected_outcome sig_size_zero_001 = ''accept''"
  by (simp_all add: validation_vector_defs)

text \<open>The payload root that they declare.\<close>

definition declared_payload_root :: Root where
  "declared_payload_root =
     [0xED, 0x88, 0xC8, 0xD3, 0xD9, 0x20, 0x3C, 0xA3, 0x2A, 0xC8, 0x5B, 0xB3, 0x66, 0x9C, 0x3C, 0xE9,
      0x3A, 0xFF, 0x60, 0x59, 0x9E, 0x0A, 0x9A, 0x16, 0x65, 0x31, 0x95, 0x74, 0xC9, 0x8D, 0x60, 0x60]"

lemma validation_roots:
  "parse_root ''0xed88c8d3d9203ca32ac85bb3669c3ce93aff60599e0a9a1665319574c98d6060'' = Ok declared_payload_root"
  "parse_root ''0x0000000000000000000000000000000000000000000000000000000000000000'' = Ok (replicate 32 0)"
  "parse_root ''0xffffffffffffffffffffffffffffffffffffffffffffffffffffffffffffffff'' = Ok (replicate 32 255)"
  "parse_hex ''0x'' = Ok []"
  by (simp_all add: hex_eval declared_payload_root_def)

lemma declared_payload_root_distinct:
  "declared_payload_root \<noteq> replicate 32 0" "declared_payload_root \<noteq> replicate 32 255"
  by (simp_all add: declared_payload_root_def replicate_numeral)

lemmas validation_eval = assert_accept_validation_def assert_reject_validation_def build_authorizations_def
  build_signature_def check_authorization_count_def check_user_signature_size_def MAX_USER_SIGNATURE_BYTES_def
  assert_authorization_count_error_def assert_signature_size_error_def assert_payload_root_mismatch_error_def
  when_some_def validation_roots

lemma count_and_size_vectors_pass:
  "assert_reject_validation sha auth_count_empty_001 = Ok ()" "assert_accept_validation sha auth_count_multiple_001 = Ok ()"
  "assert_accept_validation sha auth_count_single_001 = Ok ()" "assert_accept_validation sha sig_size_at_limit_001 = Ok ()"
  "assert_accept_validation sha sig_size_below_limit_001 = Ok ()" "assert_reject_validation sha sig_size_over_limit_001 = Ok ()"
  "assert_accept_validation sha sig_size_zero_001 = Ok ()"
  by (simp_all add: validation_vector_defs validation_eval)

lemma root_vector_inputs:
  "\<forall>v \<in> {auth_root_match_001, auth_root_mismatch_001, auth_root_no_auths_001, auth_root_second_mismatch_001}.
     vv_rule v = ''authorization_payload_roots''"
  "build_authorizations auth_root_match_001 =
     Ok [\<lparr>auth_scheme_id = 0, auth_payload_root = declared_payload_root, auth_signature = []\<rparr>]"
  "build_authorizations auth_root_mismatch_001 =
     Ok [\<lparr>auth_scheme_id = 0, auth_payload_root = replicate 32 0, auth_signature = []\<rparr>]"
  "build_authorizations auth_root_no_auths_001 = Ok []"
  "build_authorizations auth_root_second_mismatch_001 =
     Ok [\<lparr>auth_scheme_id = 0, auth_payload_root = declared_payload_root, auth_signature = []\<rparr>,
         \<lparr>auth_scheme_id = 1, auth_payload_root = replicate 32 255, auth_signature = []\<rparr>]"
  by (simp_all add: validation_vector_defs build_authorizations_def validation_roots)

lemma root_vector_errors:
  "\<exists>e. vv_expected_error auth_root_mismatch_001 = Some e \<and>
     (\<forall>r a. assert_payload_root_mismatch_error e (PayloadRootMismatch r a) = Ok () \<longleftrightarrow>
        r = declared_payload_root \<and> a = replicate 32 0)"
  "\<exists>e. vv_expected_error auth_root_second_mismatch_001 = Some e \<and>
     (\<forall>r a. assert_payload_root_mismatch_error e (PayloadRootMismatch r a) = Ok () \<longleftrightarrow>
        r = declared_payload_root \<and> a = replicate 32 255)"
  by (auto simp: validation_vector_defs assert_payload_root_mismatch_error_def when_some_def validation_roots bind_result_Ok_iff)

lemma root_vectors_exact:
  defines "root \<equiv> \<lambda>sha. tree_root sha (payload_tree basic_vector_payload)"
  shows "assert_accept_validation sha auth_root_match_001 = Ok () \<longleftrightarrow> root sha = declared_payload_root"
    "assert_reject_validation sha auth_root_mismatch_001 = Ok () \<longleftrightarrow> root sha = declared_payload_root"
    "assert_accept_validation sha auth_root_no_auths_001 = Ok ()"
    "assert_reject_validation sha auth_root_second_mismatch_001 = Ok () \<longleftrightarrow> root sha = declared_payload_root"
proof -
  note eval = assert_accept_validation_def assert_reject_validation_def shared_wire_decodes shared_wire root_vector_inputs
    check_authorization_payload_roots_def tree_root_payload root_def
  show "assert_accept_validation sha auth_root_match_001 = Ok () \<longleftrightarrow> root sha = declared_payload_root"
    by (auto simp: eval)
  show "assert_reject_validation sha auth_root_mismatch_001 = Ok () \<longleftrightarrow> root sha = declared_payload_root"
    using declared_payload_root_distinct root_vector_errors(1) by (auto simp: eval)
  show "assert_accept_validation sha auth_root_no_auths_001 = Ok ()"
    by (simp add: eval)
  show "assert_reject_validation sha auth_root_second_mismatch_001 = Ok () \<longleftrightarrow> root sha = declared_payload_root"
    using declared_payload_root_distinct root_vector_errors(2) by (auto simp: eval)
qed

section \<open>Properties\<close>

text \<open>
  The test of the validation vectors, on the eleven vectors of the repository, passes exactly when the hash
  function gives the payload root that they declare for the payload they share. The counts, the sizes at, below
  and above the limit, and the position of the first wrong root are as declared for every hash function.
\<close>
theorem validation_vectors_exact:
  "validation_vectors_match_the_closed_t1_rules sha validation_vectors = Ok () \<longleftrightarrow>
     tree_root sha (payload_tree basic_vector_payload) = declared_payload_root"
  using validation_vector_headers
  by (simp add: validation_vectors_match_the_closed_t1_rules_def validation_vectors_def check_validation_vector_outcome
      validation_outcomes count_and_size_vectors_pass root_vectors_exact bind_result_Ok_iff)

end
