(* ===== verification/Witness_Vectors.thy ===== *)
theory Witness_Vectors
  imports Conformance Replay
begin

text \<open>
  The witness vectors and their harness (\<^verbatim>\<open>crates/shell-state/tests/witness_vectors.rs\<close>). A vector is about
  the order of a list of witnesses or about one witness against a state that the harness materializes. The ten
  vectors of \<^verbatim>\<open>vectors/witnesses\<close> are written out, and the suite is shown to pass exactly when the hash
  function gives the two state roots that they declare.
\<close>

section \<open>The harness\<close>

definition build_witnesses :: "WitnessVector \<Rightarrow> StateWitness list panics" where
  "build_witnesses fixture =
     bind_result (expect_some (wi_witnesses (wv_input fixture))) (collect_results to_state_witness)"

definition build_reference_proof_case :: "hash_fun \<Rightarrow> WitnessVector \<Rightarrow> (InMemoryAccumulator \<times> StateWitness) panics" where
  "build_reference_proof_case sha fixture =
     bind_result (expect_some (wi_materialized_state (wv_input fixture))) (\<lambda>entries.
     bind_result (collect_results to_entry entries) (\<lambda>materialized.
     let materialized = sort_key (\<lambda>entry. encode_state_key (fst entry)) materialized in
     bind_result
       (if materialized = [] then Ok new_accumulator
        else
          (case acc_apply_transition sha \<lparr>accesses = map fst materialized, new_values = map snd materialized\<rparr> new_accumulator of
             (r, accumulator) \<Rightarrow> bind_result (expect_ok r) (\<lambda>_. Ok accumulator))) (\<lambda>accumulator.
     bind_result (expect_some (wi_witness (wv_input fixture))) (\<lambda>fixture.
     bind_result (to_state_witness fixture) (\<lambda>witness.
     Ok (accumulator, witness))))))"

definition assert_state_error :: "WitnessExpectedError \<Rightarrow> StateError \<Rightarrow> unit panics" where
  "assert_state_error expected err =
     (case err of
        NonCanonicalWitnessOrdering index ctx \<Rightarrow>
          if we_kind expected = ''NonCanonicalWitnessOrdering'' then
            bind_result (assert_optional (we_index expected) index) (\<lambda>_.
            assert_optional (we_context expected) ctx)
          else Panic
      | UnsupportedProofShape ctx \<Rightarrow>
          if we_kind expected = ''UnsupportedProofShape'' then assert_optional (we_context expected) ctx else Panic
      | WitnessVerificationFailed ctx \<Rightarrow>
          if we_kind expected = ''WitnessVerificationFailed'' then assert_optional (we_context expected) ctx else Panic
      | _ \<Rightarrow> Panic)"

definition expected_state_root :: "WitnessVector \<Rightarrow> Root panics" where
  "expected_state_root fixture = bind_result (expect_some (wi_expected_state_root (wv_input fixture))) parse_root"

definition assert_accept_witness :: "hash_fun \<Rightarrow> WitnessVector \<Rightarrow> unit panics" where
  "assert_accept_witness sha fixture =
     (if wv_rule fixture = ''canonical_state_key_ordering'' then
        bind_result (build_witnesses fixture) (\<lambda>witnesses.
        bind_result (case wi_ordering_is_canonical (wv_input fixture) of None \<Rightarrow> Ok () | Some expected \<Rightarrow> asserts [expected]) (\<lambda>_.
        expect_ok (ensure_canonical_witness_order witnesses)))
      else if wv_rule fixture = ''reference_proof_reconstruction'' then
        bind_result (build_reference_proof_case sha fixture) (\<lambda>(accumulator, witness).
        bind_result (expect_ok (ensure_reference_backend_proof_shape witness)) (\<lambda>_.
        bind_result (expected_state_root fixture) (\<lambda>expected_root.
        expect_ok (acc_verify_witness accumulator witness expected_root))))
      else Panic)"

definition assert_reject_witness :: "hash_fun \<Rightarrow> WitnessVector \<Rightarrow> unit panics" where
  "assert_reject_witness sha fixture =
     bind_result (expect_some (wv_expected_error fixture)) (\<lambda>expected.
     if wv_rule fixture = ''canonical_state_key_ordering'' then
       bind_result (build_witnesses fixture) (\<lambda>witnesses.
       bind_result (expect_err (ensure_canonical_witness_order witnesses)) (\<lambda>err.
       assert_state_error expected err))
     else if wv_rule fixture = ''reference_proof_reconstruction'' then
       bind_result (build_reference_proof_case sha fixture) (\<lambda>(accumulator, witness).
       bind_result
         (case ensure_reference_backend_proof_shape witness of
            Ok _ \<Rightarrow>
              bind_result (expected_state_root fixture) (\<lambda>expected_root.
              expect_err (acc_verify_witness accumulator witness expected_root))
          | Err err \<Rightarrow> Ok err
          | Panic \<Rightarrow> Panic) (\<lambda>err.
       assert_state_error expected err))
     else Panic)"

definition assert_fixture_proof_shape_kind :: "WitnessVector \<Rightarrow> unit panics" where
  "assert_fixture_proof_shape_kind fixture =
     (case (case wi_proof_shape_kind (wv_input fixture) of Some kind \<Rightarrow> Some kind | None \<Rightarrow> wv_proof_shape_kind fixture) of
        None \<Rightarrow> Ok ()
      | Some declared \<Rightarrow>
          bind_result
            (case wi_witness (wv_input fixture) of
               Some witness \<Rightarrow> bind_result (to_state_witness witness) (\<lambda>w. Ok [w])
             | None \<Rightarrow>
                 (case wi_witnesses (wv_input fixture) of
                    Some witnesses \<Rightarrow> collect_results to_state_witness witnesses
                  | None \<Rightarrow> Ok [])) (\<lambda>witnesses.
          if witnesses = [] then Ok ()
          else
            let actual = if list_all (\<lambda>witness. proof_shape_as_str (proof_shape witness) = ''reference_empty'') witnesses
                  then ''reference_empty'' else ''placeholder_committed_nodes'' in
            asserts [actual = declared]))"

definition check_witness_vector :: "hash_fun \<Rightarrow> string \<times> WitnessVector \<Rightarrow> unit panics" where
  "check_witness_vector sha = (\<lambda>(file_stem, fixture).
     bind_result (asserts [file_stem = wv_id fixture, wv_category fixture = ''witness'',
       wv_owned_by fixture = ''shell-state'', \<not> is_blank (wv_rule fixture), \<not> is_blank (wv_description fixture),
       case wv_notes fixture of Some notes \<Rightarrow> \<not> is_blank notes | None \<Rightarrow> True,
       case wv_state_keys fixture of Some state_keys \<Rightarrow> state_keys \<noteq> [] | None \<Rightarrow> True,
       case wv_proof_shape_kind fixture of Some kind \<Rightarrow> \<not> is_blank kind | None \<Rightarrow> True,
       case wi_proof_shape_kind (wv_input fixture) of Some kind \<Rightarrow> \<not> is_blank kind | None \<Rightarrow> True]) (\<lambda>_.
     bind_result (assert_fixture_proof_shape_kind fixture) (\<lambda>_.
     if wv_expected_outcome fixture = ''accept'' then assert_accept_witness sha fixture
     else if wv_expected_outcome fixture = ''reject'' then assert_reject_witness sha fixture
     else Panic)))"

definition witness_vectors_match_the_reference_proof_contract ::
  "hash_fun \<Rightarrow> (string \<times> WitnessVector) list \<Rightarrow> unit panics" where
  "witness_vectors_match_the_reference_proof_contract sha paths =
     bind_result (asserts [paths \<noteq> []]) (\<lambda>_. for_each (check_witness_vector sha) paths)"

section \<open>The vectors\<close>

definition witness_order_canonical_001 :: WitnessVector where
  "witness_order_canonical_001 = \<lparr>wv_id = ''witness-order-canonical-001'', wv_category = ''witness'', wv_rule = ''canonical_state_key_ordering'',
     wv_description = ''A witness list that is already sorted by the shared canonical StateKey byte encoding is accepted before proof reconstruction.'',
     wv_input = \<lparr>wi_ordering_is_canonical = Some True, wi_proof_shape_kind = Some ''reference_empty'',
       wi_expected_state_root = Some ''0x235bf652c6d3c8bfa24b4e9cfb345fa22591efdf3da21ce74b211bbd62c409ca'',
       wi_witnesses = Some [\<lparr>wfx_key = (AccountHeaderInput ''0x1111111111111111111111111111111111111111''
           (Some ''0x000000000000000000000000001111111111111111111111111111111111111111'')),
         wfx_leaf_value_hex = ''0xdeadbeef'', wfx_proof_hex = []\<rparr>,
       \<lparr>wfx_key = (StorageSlotInput ''0x3333333333333333333333333333333333333333''
           ''0x4444444444444444444444444444444444444444444444444444444444444444''
           (Some ''0x0100000000000000000000000033333333333333333333333333333333333333334444444444444444444444444444444444444444444444444444444444444444'')),
         wfx_leaf_value_hex = ''0xaa'', wfx_proof_hex = []\<rparr>,
       \<lparr>wfx_key = (RawTreeKeyInput ''0x9999999999999999999999999999999999999999999999999999999999999999''
           (Some ''0x039999999999999999999999999999999999999999999999999999999999999999'')),
         wfx_leaf_value_hex = ''0xbb'', wfx_proof_hex = []\<rparr>],
       wi_witness = None,
       wi_materialized_state = None\<rparr>,
     wv_expected_outcome = ''accept'', wv_expected_error = None, wv_owned_by = ''shell-state'',
     wv_notes = Some ''This vector uses the repository-local StateKeyBytes path frozen in shell-primitives. The committed witness proof bytes stay empty because the current reference backend derives proof paths locally.'',
     wv_state_keys = Some [''0x000000000000000000000000001111111111111111111111111111111111111111'',
       ''0x0100000000000000000000000033333333333333333333333333333333333333334444444444444444444444444444444444444444444444444444444444444444'',
       ''0x039999999999999999999999999999999999999999999999999999999999999999''],
     wv_proof_shape_kind = Some ''reference_empty''\<rparr>"

definition witness_order_canonical_002 :: WitnessVector where
  "witness_order_canonical_002 = \<lparr>wv_id = ''witness-order-canonical-002'', wv_category = ''witness'', wv_rule = ''canonical_state_key_ordering'',
     wv_description = ''A witness list that walks the current AccountHeader, StorageSlot, CodeChunk, RawTreeKey, and Stem tag boundaries in canonical byte order is accepted before any proof reconstruction.'',
     wv_input = \<lparr>wi_ordering_is_canonical = Some True, wi_proof_shape_kind = Some ''reference_empty'',
       wi_expected_state_root = None,
       wi_witnesses = Some [\<lparr>wfx_key = (AccountHeaderInput ''0x1111111111111111111111111111111111111111''
           (Some ''0x000000000000000000000000001111111111111111111111111111111111111111'')),
         wfx_leaf_value_hex = ''0x01'', wfx_proof_hex = []\<rparr>,
       \<lparr>wfx_key = (StorageSlotInput ''0x1111111111111111111111111111111111111111''
           ''0x2222222222222222222222222222222222222222222222222222222222222222''
           (Some ''0x0100000000000000000000000011111111111111111111111111111111111111112222222222222222222222222222222222222222222222222222222222222222'')),
         wfx_leaf_value_hex = ''0x0203'', wfx_proof_hex = []\<rparr>,
       \<lparr>wfx_key = (CodeChunkInput ''0x3333333333333333333333333333333333333333'' 7
           (Some ''0x02000000000000000000000000333333333333333333333333333333333333333300000007'')),
         wfx_leaf_value_hex = ''0x04'', wfx_proof_hex = []\<rparr>,
       \<lparr>wfx_key = (RawTreeKeyInput ''0x4444444444444444444444444444444444444444444444444444444444444444''
           (Some ''0x034444444444444444444444444444444444444444444444444444444444444444'')),
         wfx_leaf_value_hex = ''0x050607'', wfx_proof_hex = []\<rparr>,
       \<lparr>wfx_key = (StemInput ''0x55555555555555555555555555555555555555555555555555555555555555''
           (Some ''0x0455555555555555555555555555555555555555555555555555555555555555'')),
         wfx_leaf_value_hex = ''0x08'', wfx_proof_hex = []\<rparr>],
       wi_witness = None,
       wi_materialized_state = None\<rparr>,
     wv_expected_outcome = ''accept'', wv_expected_error = None, wv_owned_by = ''shell-state'',
     wv_notes = Some ''This remains a repository-local comparator contract only: it pins the current canonical StateKey ordering across every provisional witness key family without claiming a finalized witness compression or proof-node wire format.'',
     wv_state_keys = Some [''0x000000000000000000000000001111111111111111111111111111111111111111'',
       ''0x0100000000000000000000000011111111111111111111111111111111111111112222222222222222222222222222222222222222222222222222222222222222'',
       ''0x02000000000000000000000000333333333333333333333333333333333333333300000007'',
       ''0x034444444444444444444444444444444444444444444444444444444444444444'',
       ''0x0455555555555555555555555555555555555555555555555555555555555555''],
     wv_proof_shape_kind = Some ''reference_empty''\<rparr>"

definition witness_order_noncanonical_001 :: WitnessVector where
  "witness_order_noncanonical_001 = \<lparr>wv_id = ''witness-order-noncanonical-001'', wv_category = ''witness'', wv_rule = ''canonical_state_key_ordering'',
     wv_description = ''A witness list whose StateKeys are not strictly increasing in canonical byte order is rejected before any proof work starts.'',
     wv_input = \<lparr>wi_ordering_is_canonical = Some False, wi_proof_shape_kind = Some ''reference_empty'',
       wi_expected_state_root = None,
       wi_witnesses = Some [\<lparr>wfx_key = (RawTreeKeyInput ''0x9999999999999999999999999999999999999999999999999999999999999999''
           (Some ''0x039999999999999999999999999999999999999999999999999999999999999999'')),
         wfx_leaf_value_hex = ''0xbb'', wfx_proof_hex = []\<rparr>,
       \<lparr>wfx_key = (AccountHeaderInput ''0x1111111111111111111111111111111111111111''
           (Some ''0x000000000000000000000000001111111111111111111111111111111111111111'')),
         wfx_leaf_value_hex = ''0xdeadbeef'', wfx_proof_hex = []\<rparr>],
       wi_witness = None,
       wi_materialized_state = None\<rparr>,
     wv_expected_outcome = ''reject'', wv_expected_error = Some \<lparr>we_kind = ''NonCanonicalWitnessOrdering'', we_index = Some 1,
       we_context = Some ''witness keys must be strictly increasing in canonical StateKey order''\<rparr>, wv_owned_by = ''shell-state'',
     wv_notes = Some ''The only failure here is ordering: RawTreeKey sorts after AccountHeader under the shared byte comparator, so shell-state must reject at the ordering gate before any reconstruction path is attempted.'',
     wv_state_keys = Some [''0x039999999999999999999999999999999999999999999999999999999999999999'',
       ''0x000000000000000000000000001111111111111111111111111111111111111111''],
     wv_proof_shape_kind = Some ''reference_empty''\<rparr>"

definition witness_order_noncanonical_002 :: WitnessVector where
  "witness_order_noncanonical_002 = \<lparr>wv_id = ''witness-order-noncanonical-002'', wv_category = ''witness'', wv_rule = ''canonical_state_key_ordering'',
     wv_description = ''A witness list with repeated canonical StateKey bytes is rejected because the current ordering contract requires keys to be strictly increasing, not merely non-decreasing.'',
     wv_input = \<lparr>wi_ordering_is_canonical = Some False, wi_proof_shape_kind = Some ''reference_empty'',
       wi_expected_state_root = None,
       wi_witnesses = Some [\<lparr>wfx_key = (StorageSlotInput ''0x1111111111111111111111111111111111111111''
           ''0xaaaaaaaaaaaaaaaaaaaaaaaaaaaaaaaaaaaaaaaaaaaaaaaaaaaaaaaaaaaaaaaa''
           (Some ''0x010000000000000000000000001111111111111111111111111111111111111111aaaaaaaaaaaaaaaaaaaaaaaaaaaaaaaaaaaaaaaaaaaaaaaaaaaaaaaaaaaaaaaa'')),
         wfx_leaf_value_hex = ''0xaa'', wfx_proof_hex = []\<rparr>,
       \<lparr>wfx_key = (StorageSlotInput ''0x1111111111111111111111111111111111111111''
           ''0xaaaaaaaaaaaaaaaaaaaaaaaaaaaaaaaaaaaaaaaaaaaaaaaaaaaaaaaaaaaaaaaa''
           (Some ''0x010000000000000000000000001111111111111111111111111111111111111111aaaaaaaaaaaaaaaaaaaaaaaaaaaaaaaaaaaaaaaaaaaaaaaaaaaaaaaaaaaaaaaa'')),
         wfx_leaf_value_hex = ''0xbb'', wfx_proof_hex = []\<rparr>],
       wi_witness = None,
       wi_materialized_state = None\<rparr>,
     wv_expected_outcome = ''reject'', wv_expected_error = Some \<lparr>we_kind = ''NonCanonicalWitnessOrdering'', we_index = Some 1,
       we_context = Some ''witness keys must be strictly increasing in canonical StateKey order''\<rparr>, wv_owned_by = ''shell-state'',
     wv_notes = Some ''Duplicate committed witness keys are a current local reject path at the canonical ordering gate. That strictness is exercised intentionally while the detailed witness/proof wire format stays provisional.'',
     wv_state_keys = Some [''0x010000000000000000000000001111111111111111111111111111111111111111aaaaaaaaaaaaaaaaaaaaaaaaaaaaaaaaaaaaaaaaaaaaaaaaaaaaaaaaaaaaaaaa'',
       ''0x010000000000000000000000001111111111111111111111111111111111111111aaaaaaaaaaaaaaaaaaaaaaaaaaaaaaaaaaaaaaaaaaaaaaaaaaaaaaaaaaaaaaaa''],
     wv_proof_shape_kind = Some ''reference_empty''\<rparr>"

definition witness_proof_invalid_001 :: WitnessVector where
  "witness_proof_invalid_001 = \<lparr>wv_id = ''witness-proof-invalid-001'', wv_category = ''witness'', wv_rule = ''reference_proof_reconstruction'',
     wv_description = ''A reference-backend witness that carries unexpected committed proof bytes is rejected as an unsupported proof shape.'',
     wv_input = \<lparr>wi_ordering_is_canonical = None, wi_proof_shape_kind = Some ''placeholder_committed_nodes'',
       wi_expected_state_root = Some ''0xc29b19be933adb914c312f0ef305668d27189058d8fbde447d5c36d0e81fce1b'',
       wi_witnesses = None,
       wi_witness = Some \<lparr>wfx_key = (AccountHeaderInput ''0x1111111111111111111111111111111111111111''
           (Some ''0x000000000000000000000000001111111111111111111111111111111111111111'')),
         wfx_leaf_value_hex = ''0xdeadbeef'', wfx_proof_hex = [''0xaaaaaaaaaaaaaaaaaaaaaaaaaaaaaaaaaaaaaaaaaaaaaaaaaaaaaaaaaaaaaaaa'']\<rparr>,
       wi_materialized_state = Some [\<lparr>mlf_key = (AccountHeaderInput ''0x1111111111111111111111111111111111111111''
           (Some ''0x000000000000000000000000001111111111111111111111111111111111111111'')),
         mlf_leaf_value_hex = ''0xdeadbeef''\<rparr>]\<rparr>,
     wv_expected_outcome = ''reject'', wv_expected_error = Some \<lparr>we_kind = ''UnsupportedProofShape'', we_index = None,
       we_context = Some ''reference backend derives proof paths locally and does not interpret committed proof bytes''\<rparr>, wv_owned_by = ''shell-state'',
     wv_notes = Some ''This vector stays honest about current repository behavior: detailed witness proof-node layout is still provisional, so the reference backend rejects any non-empty committed proof payload instead of pretending to decode a finalized wire proof. The shared fixture shape now labels that committed form as placeholder_committed_nodes rather than implying a finalized proof codec.'',
     wv_state_keys = Some [''0x000000000000000000000000001111111111111111111111111111111111111111''],
     wv_proof_shape_kind = Some ''placeholder_committed_nodes''\<rparr>"

definition witness_proof_invalid_002 :: WitnessVector where
  "witness_proof_invalid_002 = \<lparr>wv_id = ''witness-proof-invalid-002'', wv_category = ''witness'', wv_rule = ''reference_proof_reconstruction'',
     wv_description = ''A reference-backend witness whose committed leaf value does not match the materialized pre-state is rejected as a local witness verification failure.'',
     wv_input = \<lparr>wi_ordering_is_canonical = None, wi_proof_shape_kind = Some ''reference_empty'',
       wi_expected_state_root = Some ''0x54cf5a159f1646c7fc12fa79eeeee9cdf70d1cca45a3a2c73665f631df541a04'',
       wi_witnesses = None,
       wi_witness = Some \<lparr>wfx_key = (AccountHeaderInput ''0x1111111111111111111111111111111111111111''
           (Some ''0x000000000000000000000000001111111111111111111111111111111111111111'')),
         wfx_leaf_value_hex = ''0xdeadbe00'', wfx_proof_hex = []\<rparr>,
       wi_materialized_state = Some [\<lparr>mlf_key = (AccountHeaderInput ''0x1111111111111111111111111111111111111111''
           (Some ''0x000000000000000000000000001111111111111111111111111111111111111111'')),
         mlf_leaf_value_hex = ''0xdeadbeef''\<rparr>,
       \<lparr>mlf_key = (StorageSlotInput ''0x1111111111111111111111111111111111111111''
           ''0x0101010101010101010101010101010101010101010101010101010101010101''
           (Some ''0x0100000000000000000000000011111111111111111111111111111111111111110101010101010101010101010101010101010101010101010101010101010101'')),
         mlf_leaf_value_hex = ''0xcafe''\<rparr>]\<rparr>,
     wv_expected_outcome = ''reject'', wv_expected_error = Some \<lparr>we_kind = ''WitnessVerificationFailed'', we_index = None,
       we_context = Some ''reference proof leaf does not match witness value''\<rparr>, wv_owned_by = ''shell-state'',
     wv_notes = Some ''This vector documents the current local boundary only: the reference backend still derives proof paths internally, but a committed witness value that does not match the materialized leaf must fail closed as a typed reject.'',
     wv_state_keys = Some [''0x000000000000000000000000001111111111111111111111111111111111111111'',
       ''0x0100000000000000000000000011111111111111111111111111111111111111110101010101010101010101010101010101010101010101010101010101010101''],
     wv_proof_shape_kind = Some ''reference_empty''\<rparr>"

definition witness_proof_invalid_003 :: WitnessVector where
  "witness_proof_invalid_003 = \<lparr>wv_id = ''witness-proof-invalid-003'', wv_category = ''witness'', wv_rule = ''reference_proof_reconstruction'',
     wv_description = ''A reference-backend witness that is checked against a different expected pre-state root is rejected before any provisional proof-node layout is treated as consensus.'',
     wv_input = \<lparr>wi_ordering_is_canonical = None, wi_proof_shape_kind = Some ''reference_empty'',
       wi_expected_state_root = Some ''0xc29b19be933adb914c312f0ef305668d27189058d8fbde447d5c36d0e81fce1b'',
       wi_witnesses = None,
       wi_witness = Some \<lparr>wfx_key = (AccountHeaderInput ''0x1111111111111111111111111111111111111111''
           (Some ''0x000000000000000000000000001111111111111111111111111111111111111111'')),
         wfx_leaf_value_hex = ''0xdeadbeef'', wfx_proof_hex = []\<rparr>,
       wi_materialized_state = Some [\<lparr>mlf_key = (AccountHeaderInput ''0x1111111111111111111111111111111111111111''
           (Some ''0x000000000000000000000000001111111111111111111111111111111111111111'')),
         mlf_leaf_value_hex = ''0xdeadbeef''\<rparr>,
       \<lparr>mlf_key = (StorageSlotInput ''0x1111111111111111111111111111111111111111''
           ''0x0101010101010101010101010101010101010101010101010101010101010101''
           (Some ''0x0100000000000000000000000011111111111111111111111111111111111111110101010101010101010101010101010101010101010101010101010101010101'')),
         mlf_leaf_value_hex = ''0xcafe''\<rparr>]\<rparr>,
     wv_expected_outcome = ''reject'', wv_expected_error = Some \<lparr>we_kind = ''WitnessVerificationFailed'', we_index = None,
       we_context = Some ''reference proof path was built against a different state root''\<rparr>, wv_owned_by = ''shell-state'',
     wv_notes = Some ''The witness/proof design is still provisional, but the current local contract is explicit about state-root binding: verification must fail closed when a valid witness is paired with the wrong expected pre-state root.'',
     wv_state_keys = Some [''0x000000000000000000000000001111111111111111111111111111111111111111'',
       ''0x0100000000000000000000000011111111111111111111111111111111111111110101010101010101010101010101010101010101010101010101010101010101''],
     wv_proof_shape_kind = Some ''reference_empty''\<rparr>"

definition witness_proof_valid_001 :: WitnessVector where
  "witness_proof_valid_001 = \<lparr>wv_id = ''witness-proof-valid-001'', wv_category = ''witness'', wv_rule = ''reference_proof_reconstruction'',
     wv_description = ''A committed witness that matches a materialized reference-state leaf can be verified against the expected state root.'',
     wv_input = \<lparr>wi_ordering_is_canonical = None, wi_proof_shape_kind = Some ''reference_empty'',
       wi_expected_state_root = Some ''0xc29b19be933adb914c312f0ef305668d27189058d8fbde447d5c36d0e81fce1b'',
       wi_witnesses = None,
       wi_witness = Some \<lparr>wfx_key = (AccountHeaderInput ''0x1111111111111111111111111111111111111111''
           (Some ''0x000000000000000000000000001111111111111111111111111111111111111111'')),
         wfx_leaf_value_hex = ''0xdeadbeef'', wfx_proof_hex = []\<rparr>,
       wi_materialized_state = Some [\<lparr>mlf_key = (AccountHeaderInput ''0x1111111111111111111111111111111111111111''
           (Some ''0x000000000000000000000000001111111111111111111111111111111111111111'')),
         mlf_leaf_value_hex = ''0xdeadbeef''\<rparr>]\<rparr>,
     wv_expected_outcome = ''accept'', wv_expected_error = None, wv_owned_by = ''shell-state'',
     wv_notes = Some ''This is grounded in the current in-memory reference backend: the committed witness carries no interpreted proof bytes, and verification succeeds because the derived local proof path matches the materialized state leaf and reference root.'',
     wv_state_keys = Some [''0x000000000000000000000000001111111111111111111111111111111111111111''],
     wv_proof_shape_kind = Some ''reference_empty''\<rparr>"

definition witness_proof_valid_002 :: WitnessVector where
  "witness_proof_valid_002 = \<lparr>wv_id = ''witness-proof-valid-002'', wv_category = ''witness'', wv_rule = ''reference_proof_reconstruction'',
     wv_description = ''A reference-backend witness for the first key in a two-leaf pre-state verifies against the shared expected state root used by end-to-end root-check vectors.'',
     wv_input = \<lparr>wi_ordering_is_canonical = None, wi_proof_shape_kind = Some ''reference_empty'',
       wi_expected_state_root = Some ''0x54cf5a159f1646c7fc12fa79eeeee9cdf70d1cca45a3a2c73665f631df541a04'',
       wi_witnesses = None,
       wi_witness = Some \<lparr>wfx_key = (AccountHeaderInput ''0x1111111111111111111111111111111111111111''
           (Some ''0x000000000000000000000000001111111111111111111111111111111111111111'')),
         wfx_leaf_value_hex = ''0xdeadbeef'', wfx_proof_hex = []\<rparr>,
       wi_materialized_state = Some [\<lparr>mlf_key = (AccountHeaderInput ''0x1111111111111111111111111111111111111111''
           (Some ''0x000000000000000000000000001111111111111111111111111111111111111111'')),
         mlf_leaf_value_hex = ''0xdeadbeef''\<rparr>,
       \<lparr>mlf_key = (StorageSlotInput ''0x1111111111111111111111111111111111111111''
           ''0x0101010101010101010101010101010101010101010101010101010101010101''
           (Some ''0x0100000000000000000000000011111111111111111111111111111111111111110101010101010101010101010101010101010101010101010101010101010101'')),
         mlf_leaf_value_hex = ''0xcafe''\<rparr>]\<rparr>,
     wv_expected_outcome = ''accept'', wv_expected_error = None, wv_owned_by = ''shell-state'',
     wv_notes = Some ''This keeps the shared end-to-end root-check path grounded in canonical witness fixtures rather than crate-local test scaffolding.'',
     wv_state_keys = Some [''0x000000000000000000000000001111111111111111111111111111111111111111'',
       ''0x0100000000000000000000000011111111111111111111111111111111111111110101010101010101010101010101010101010101010101010101010101010101''],
     wv_proof_shape_kind = Some ''reference_empty''\<rparr>"

definition witness_proof_valid_003 :: WitnessVector where
  "witness_proof_valid_003 = \<lparr>wv_id = ''witness-proof-valid-003'', wv_category = ''witness'', wv_rule = ''reference_proof_reconstruction'',
     wv_description = ''A reference-backend witness for the second key in the shared two-leaf pre-state verifies against the same expected state root used by end-to-end root-check vectors.'',
     wv_input = \<lparr>wi_ordering_is_canonical = None, wi_proof_shape_kind = Some ''reference_empty'',
       wi_expected_state_root = Some ''0x54cf5a159f1646c7fc12fa79eeeee9cdf70d1cca45a3a2c73665f631df541a04'',
       wi_witnesses = None,
       wi_witness = Some \<lparr>wfx_key = (StorageSlotInput ''0x1111111111111111111111111111111111111111''
           ''0x0101010101010101010101010101010101010101010101010101010101010101''
           (Some ''0x0100000000000000000000000011111111111111111111111111111111111111110101010101010101010101010101010101010101010101010101010101010101'')),
         wfx_leaf_value_hex = ''0xcafe'', wfx_proof_hex = []\<rparr>,
       wi_materialized_state = Some [\<lparr>mlf_key = (AccountHeaderInput ''0x1111111111111111111111111111111111111111''
           (Some ''0x000000000000000000000000001111111111111111111111111111111111111111'')),
         mlf_leaf_value_hex = ''0xdeadbeef''\<rparr>,
       \<lparr>mlf_key = (StorageSlotInput ''0x1111111111111111111111111111111111111111''
           ''0x0101010101010101010101010101010101010101010101010101010101010101''
           (Some ''0x0100000000000000000000000011111111111111111111111111111111111111110101010101010101010101010101010101010101010101010101010101010101'')),
         mlf_leaf_value_hex = ''0xcafe''\<rparr>]\<rparr>,
     wv_expected_outcome = ''accept'', wv_expected_error = None, wv_owned_by = ''shell-state'',
     wv_notes = Some ''The paired multi-leaf witness vectors let execution and consensus tests share one real reference pre-state without inventing a block-local witness codec.'',
     wv_state_keys = Some [''0x000000000000000000000000001111111111111111111111111111111111111111'',
       ''0x0100000000000000000000000011111111111111111111111111111111111111110101010101010101010101010101010101010101010101010101010101010101''],
     wv_proof_shape_kind = Some ''reference_empty''\<rparr>"

definition witness_vectors :: "(string \<times> WitnessVector) list" where
  "witness_vectors = [
     (''witness-order-canonical-001'', witness_order_canonical_001),
     (''witness-order-canonical-002'', witness_order_canonical_002),
     (''witness-order-noncanonical-001'', witness_order_noncanonical_001),
     (''witness-order-noncanonical-002'', witness_order_noncanonical_002),
     (''witness-proof-invalid-001'', witness_proof_invalid_001),
     (''witness-proof-invalid-002'', witness_proof_invalid_002),
     (''witness-proof-invalid-003'', witness_proof_invalid_003),
     (''witness-proof-valid-001'', witness_proof_valid_001),
     (''witness-proof-valid-002'', witness_proof_valid_002),
     (''witness-proof-valid-003'', witness_proof_valid_003)]"

lemmas witness_vector_defs = witness_order_canonical_001_def witness_order_canonical_002_def witness_order_noncanonical_001_def witness_order_noncanonical_002_def witness_proof_invalid_001_def witness_proof_invalid_002_def witness_proof_invalid_003_def witness_proof_valid_001_def witness_proof_valid_002_def witness_proof_valid_003_def

section \<open>What the vectors check\<close>

text \<open>The keys and the two states of the proof vectors.\<close>

definition header_key :: StateKey where
  "header_key = AccountHeader (replicate 20 0x11)"

definition slot_key :: StateKey where
  "slot_key = StorageSlot (replicate 20 0x11) (replicate 32 1)"

definition one_leaf :: "(StateKey \<times> bytes) list" where
  "one_leaf = [(header_key, [0xDE, 0xAD, 0xBE, 0xEF])]"

definition two_leaves :: "(StateKey \<times> bytes) list" where
  "two_leaves = [(header_key, [0xDE, 0xAD, 0xBE, 0xEF]), (slot_key, [0xCA, 0xFE])]"

definition declared_root_1 :: Root where
  "declared_root_1 =
     [0xC2, 0x9B, 0x19, 0xBE, 0x93, 0x3A, 0xDB, 0x91, 0x4C, 0x31, 0x2F, 0x0E, 0xF3, 0x05, 0x66, 0x8D,
      0x27, 0x18, 0x90, 0x58, 0xD8, 0xFB, 0xDE, 0x44, 0x7D, 0x5C, 0x36, 0xD0, 0xE8, 0x1F, 0xCE, 0x1B]"

definition declared_root_2 :: Root where
  "declared_root_2 =
     [0x54, 0xCF, 0x5A, 0x15, 0x9F, 0x16, 0x46, 0xC7, 0xFC, 0x12, 0xFA, 0x79, 0xEE, 0xEE, 0xE9, 0xCD,
      0xF7, 0x0D, 0x1C, 0xCA, 0x45, 0xA3, 0xA2, 0xC7, 0x36, 0x65, 0xF6, 0x31, 0xDF, 0x54, 0x1A, 0x04]"

lemma declared_roots_distinct: "declared_root_2 \<noteq> declared_root_1"
  by (simp add: declared_root_1_def declared_root_2_def)

text \<open>The state root of a list of leaves, as the harness materializes it.\<close>

definition materialized_root :: "hash_fun \<Rightarrow> (StateKey \<times> bytes) list \<Rightarrow> Root" where
  "materialized_root sha entries =
     compute_reference_root sha (map (\<lambda>(k, v). (encode_state_key k, \<lparr>stored_key = k, stored_value = v\<rparr>)) entries)"

lemmas witness_hex_eval = to_state_key_def to_entry_def to_state_witness_def parse_bytes_32_def parse_bytes_31_def hex_eval
  header_key_def slot_key_def canonicalize_execution_address_def copy_into_def zero_bytes_def

lemma proof_vector_states:
  "bind_result (expect_some (wi_materialized_state (wv_input witness_proof_valid_001))) (collect_results to_entry) = Ok one_leaf"
  "bind_result (expect_some (wi_materialized_state (wv_input witness_proof_invalid_001))) (collect_results to_entry) = Ok one_leaf"
  "bind_result (expect_some (wi_materialized_state (wv_input witness_proof_valid_002))) (collect_results to_entry) = Ok two_leaves"
  "bind_result (expect_some (wi_materialized_state (wv_input witness_proof_valid_003))) (collect_results to_entry) = Ok two_leaves"
  "bind_result (expect_some (wi_materialized_state (wv_input witness_proof_invalid_002))) (collect_results to_entry) = Ok two_leaves"
  "bind_result (expect_some (wi_materialized_state (wv_input witness_proof_invalid_003))) (collect_results to_entry) = Ok two_leaves"
  by (simp_all add: witness_vector_defs witness_hex_eval one_leaf_def two_leaves_def)

definition materialized_acc :: "hash_fun \<Rightarrow> (StateKey \<times> bytes) list \<Rightarrow> InMemoryAccumulator" where
  "materialized_acc sha entries =
     \<lparr>leaves = map (\<lambda>(k, v). (encode_state_key k, \<lparr>stored_key = k, stored_value = v\<rparr>)) entries,
      acc_root = materialized_root sha entries\<rparr>"

lemma key_order: "encode_state_key header_key < encode_state_key slot_key"
  by code_simp

lemma accesses_ordered:
  "ensure_canonical_access_order [header_key] = Ok ()" "ensure_canonical_access_order [header_key, slot_key] = Ok ()"
  using key_order by (simp_all add: ensure_order_Ok)

lemma materialized_states:
  "acc_apply_transition sha \<lparr>accesses = map fst one_leaf, new_values = map snd one_leaf\<rparr> new_accumulator =
     (Ok (materialized_root sha one_leaf), materialized_acc sha one_leaf)"
  "acc_apply_transition sha \<lparr>accesses = map fst two_leaves, new_values = map snd two_leaves\<rparr> new_accumulator =
     (Ok (materialized_root sha two_leaves), materialized_acc sha two_leaves)"
  "sort_key (\<lambda>entry. encode_state_key (fst entry)) one_leaf = one_leaf"
  "sort_key (\<lambda>entry. encode_state_key (fst entry)) two_leaves = two_leaves"
  using key_order accesses_ordered less_not_sym [OF key_order] less_imp_neq [OF key_order, symmetric]
  by (simp_all add: acc_apply_transition_def validate_shape_def one_leaf_def two_leaves_def materialized_root_def 
      materialized_acc_def recompute_root_def apply_leaf_def new_accumulator_def btree_insert_def bind_action.simps Let_def)

lemma materialized_contents:
  "acc_invar (materialized_acc sha one_leaf)" "contents (materialized_acc sha one_leaf) = map_of one_leaf"
  "acc_invar (materialized_acc sha two_leaves)" "contents (materialized_acc sha two_leaves) = map_of two_leaves"
  "acc_root (materialized_acc sha entries) = materialized_root sha entries"
proof -
  have wf: "wf_patch \<lparr>accesses = map fst one_leaf, new_values = map snd one_leaf\<rparr>"
    "wf_patch \<lparr>accesses = map fst two_leaves, new_values = map snd two_leaves\<rparr>"
    by (simp_all add: wf_patch_def one_leaf_def two_leaves_def header_key_def slot_key_def)
  show "acc_invar (materialized_acc sha one_leaf)" "contents (materialized_acc sha one_leaf) = map_of one_leaf"
    using acc_apply_transition_Ok [OF materialized_states(1) acc_invar_new wf(1)]
    by (simp_all add: patch_map_def one_leaf_def)
  show "acc_invar (materialized_acc sha two_leaves)" "contents (materialized_acc sha two_leaves) = map_of two_leaves"
    using acc_apply_transition_Ok [OF materialized_states(2) acc_invar_new wf(2)]
    by (simp_all add: patch_map_def two_leaves_def)
qed (simp add: materialized_acc_def)

text \<open>The errors of a witness for a stored key: a wrong value, and a wrong root.\<close>

lemma wrong_value_error:
  assumes "acc_invar acc" "wf_state_key (witness_key w)" "witness_proof w = []"
    and "contents acc (witness_key w) = Some v" "v \<noteq> witness_leaf_value w"
  shows "acc_verify_witness acc w r = Err (WitnessVerificationFailed ''reference proof leaf does not match witness value'')"
  using assms leaf_of_contents [OF assms(1,2)]
  by (simp add: acc_verify_witness_def derive_proof_path_def ensure_reference_backend_proof_shape_def proof_shape_def
      proof_path_for_access_def path_verify_witness_def from_stored_leaf_def Let_def)

lemma wrong_root_error:
  assumes "acc_invar acc" "wf_state_key (witness_key w)" "witness_proof w = []"
    and "contents acc (witness_key w) = Some (witness_leaf_value w)" "r \<noteq> acc_root acc"
  shows "acc_verify_witness acc w r =
    Err (WitnessVerificationFailed ''reference proof path was built against a different state root'')"
proof -
  have "acc_verify_witness acc w (acc_root acc) = Ok ()"
    using assms by (simp add: acc_verify_witness_Ok)
  then obtain path where "derive_proof_path acc w = Ok path" by (auto simp: acc_verify_witness_def result_simps)
  moreover from this have "path_expected_root path = acc_root acc"
    by (auto simp: derive_proof_path_def proof_path_Ok result_simps)
  ultimately show ?thesis using assms(5) by (simp add: acc_verify_witness_def path_verify_witness_def)
qed

text \<open>The proof cases of the six vectors, and the declared roots.\<close>

lemma proof_vector_witnesses:
  "bind_result (expect_some (wi_witness (wv_input witness_proof_valid_001))) to_state_witness =
     Ok \<lparr>witness_key = header_key, witness_leaf_value = [0xDE, 0xAD, 0xBE, 0xEF], witness_proof = []\<rparr>"
  "bind_result (expect_some (wi_witness (wv_input witness_proof_valid_002))) to_state_witness =
     Ok \<lparr>witness_key = header_key, witness_leaf_value = [0xDE, 0xAD, 0xBE, 0xEF], witness_proof = []\<rparr>"
  "bind_result (expect_some (wi_witness (wv_input witness_proof_valid_003))) to_state_witness =
     Ok \<lparr>witness_key = slot_key, witness_leaf_value = [0xCA, 0xFE], witness_proof = []\<rparr>"
  "bind_result (expect_some (wi_witness (wv_input witness_proof_invalid_001))) to_state_witness =
     Ok \<lparr>witness_key = header_key, witness_leaf_value = [0xDE, 0xAD, 0xBE, 0xEF], witness_proof = [replicate 32 0xAA]\<rparr>"
  "\<exists>v. bind_result (expect_some (wi_witness (wv_input witness_proof_invalid_002))) to_state_witness =
     Ok \<lparr>witness_key = header_key, witness_leaf_value = v, witness_proof = []\<rparr> \<and> v \<noteq> [0xDE, 0xAD, 0xBE, 0xEF]"
  "bind_result (expect_some (wi_witness (wv_input witness_proof_invalid_003))) to_state_witness =
     Ok \<lparr>witness_key = header_key, witness_leaf_value = [0xDE, 0xAD, 0xBE, 0xEF], witness_proof = []\<rparr>"
  by (simp_all add: witness_vector_defs witness_hex_eval)

lemma proof_case_eq:
  "build_reference_proof_case sha fixture =
     bind_result (bind_result (expect_some (wi_materialized_state (wv_input fixture))) (collect_results to_entry)) (\<lambda>materialized.
     let materialized = sort_key (\<lambda>entry. encode_state_key (fst entry)) materialized in
     bind_result
       (if materialized = [] then Ok new_accumulator
        else
          (case acc_apply_transition sha \<lparr>accesses = map fst materialized, new_values = map snd materialized\<rparr> new_accumulator of
             (r, accumulator) \<Rightarrow> bind_result (expect_ok r) (\<lambda>_. Ok accumulator))) (\<lambda>accumulator.
     bind_result (bind_result (expect_some (wi_witness (wv_input fixture))) to_state_witness) (\<lambda>witness.
     Ok (accumulator, witness))))"
  by (simp add: build_reference_proof_case_def bind_result_assoc)

lemma leaves_nonempty: "one_leaf \<noteq> []" "two_leaves \<noteq> []"
  by (simp_all add: one_leaf_def two_leaves_def)

lemma proof_vector_cases:
  "build_reference_proof_case sha witness_proof_valid_001 = Ok (materialized_acc sha one_leaf,
     \<lparr>witness_key = header_key, witness_leaf_value = [0xDE, 0xAD, 0xBE, 0xEF], witness_proof = []\<rparr>)"
  "build_reference_proof_case sha witness_proof_valid_002 = Ok (materialized_acc sha two_leaves,
     \<lparr>witness_key = header_key, witness_leaf_value = [0xDE, 0xAD, 0xBE, 0xEF], witness_proof = []\<rparr>)"
  "build_reference_proof_case sha witness_proof_valid_003 = Ok (materialized_acc sha two_leaves,
     \<lparr>witness_key = slot_key, witness_leaf_value = [0xCA, 0xFE], witness_proof = []\<rparr>)"
  "build_reference_proof_case sha witness_proof_invalid_001 = Ok (materialized_acc sha one_leaf,
     \<lparr>witness_key = header_key, witness_leaf_value = [0xDE, 0xAD, 0xBE, 0xEF], witness_proof = [replicate 32 0xAA]\<rparr>)"
  "\<exists>v. build_reference_proof_case sha witness_proof_invalid_002 = Ok (materialized_acc sha two_leaves,
     \<lparr>witness_key = header_key, witness_leaf_value = v, witness_proof = []\<rparr>) \<and> v \<noteq> [0xDE, 0xAD, 0xBE, 0xEF]"
  "build_reference_proof_case sha witness_proof_invalid_003 = Ok (materialized_acc sha two_leaves,
     \<lparr>witness_key = header_key, witness_leaf_value = [0xDE, 0xAD, 0xBE, 0xEF], witness_proof = []\<rparr>)"
proof -
  note eval = proof_case_eq proof_vector_states materialized_states Let_def
  show "\<exists>v. build_reference_proof_case sha witness_proof_invalid_002 = Ok (materialized_acc sha two_leaves,
     \<lparr>witness_key = header_key, witness_leaf_value = v, witness_proof = []\<rparr>) \<and> v \<noteq> [0xDE, 0xAD, 0xBE, 0xEF]"
    using proof_vector_witnesses(5) by (auto simp: eval leaves_nonempty)
qed (simp_all add: proof_case_eq proof_vector_states materialized_states Let_def
      proof_vector_witnesses(1-4,6) leaves_nonempty)

lemma proof_vector_roots:
  "expected_state_root witness_proof_valid_001 = Ok declared_root_1"
  "expected_state_root witness_proof_valid_002 = Ok declared_root_2"
  "expected_state_root witness_proof_valid_003 = Ok declared_root_2"
  "\<exists>r. expected_state_root witness_proof_invalid_002 = Ok r"
  "expected_state_root witness_proof_invalid_003 = Ok declared_root_1"
  by (simp_all add: expected_state_root_def witness_vector_defs hex_eval declared_root_1_def declared_root_2_def)

text \<open>The vectors that do not depend on the hash function.\<close>

lemma ordering_vectors_pass:
  "assert_accept_witness sha witness_order_canonical_001 = Ok ()" "assert_accept_witness sha witness_order_canonical_002 = Ok ()"
  "assert_reject_witness sha witness_order_noncanonical_001 = Ok ()" "assert_reject_witness sha witness_order_noncanonical_002 = Ok ()"
  by code_simp+

text \<open>The vectors that check one witness.\<close>

lemma proof_vector_rules:
  "wv_rule witness_proof_valid_001 = ''reference_proof_reconstruction''"
  "wv_rule witness_proof_valid_002 = ''reference_proof_reconstruction''"
  "wv_rule witness_proof_valid_003 = ''reference_proof_reconstruction''"
  "wv_rule witness_proof_invalid_001 = ''reference_proof_reconstruction''"
  "wv_rule witness_proof_invalid_002 = ''reference_proof_reconstruction''"
  "wv_rule witness_proof_invalid_003 = ''reference_proof_reconstruction''"
  by (simp_all add: witness_vector_defs)

lemma proof_vector_errors:
  "wv_expected_error witness_proof_invalid_001 = Some \<lparr>we_kind = ''UnsupportedProofShape'', we_index = None,
     we_context = Some ''reference backend derives proof paths locally and does not interpret committed proof bytes''\<rparr>"
  "wv_expected_error witness_proof_invalid_002 = Some \<lparr>we_kind = ''WitnessVerificationFailed'', we_index = None,
     we_context = Some ''reference proof leaf does not match witness value''\<rparr>"
  "wv_expected_error witness_proof_invalid_003 = Some \<lparr>we_kind = ''WitnessVerificationFailed'', we_index = None,
     we_context = Some ''reference proof path was built against a different state root''\<rparr>"
  by (simp_all add: witness_vector_defs)

lemma vector_keys_wf: "wf_state_key header_key" "wf_state_key slot_key"
  by (simp_all add: header_key_def slot_key_def)

lemma vector_leaves:
  "map_of one_leaf header_key = Some [0xDE, 0xAD, 0xBE, 0xEF]"
  "map_of two_leaves header_key = Some [0xDE, 0xAD, 0xBE, 0xEF]"
  "map_of two_leaves slot_key = Some [0xCA, 0xFE]"
  by (simp_all add: one_leaf_def two_leaves_def header_key_def slot_key_def)

lemma empty_proof_shape: "witness_proof w = [] \<Longrightarrow> ensure_reference_backend_proof_shape w = Ok ()"
  by (simp add: ensure_reference_backend_proof_shape_def proof_shape_def)

lemmas proof_vector_facts = proof_vector_rules proof_vector_errors proof_vector_cases(1-4,6) proof_vector_roots(1-3,5)
  materialized_contents vector_keys_wf vector_leaves empty_proof_shape

lemma valid_vectors_exact:
  "assert_accept_witness sha witness_proof_valid_001 = Ok () \<longleftrightarrow> materialized_root sha one_leaf = declared_root_1"
  "assert_accept_witness sha witness_proof_valid_002 = Ok () \<longleftrightarrow> materialized_root sha two_leaves = declared_root_2"
  "assert_accept_witness sha witness_proof_valid_003 = Ok () \<longleftrightarrow> materialized_root sha two_leaves = declared_root_2"
  by (auto simp: assert_accept_witness_def proof_vector_facts acc_verify_witness_Ok expect_ok_Ok_iff)

lemma invalid_shape_vector_passes: "assert_reject_witness sha witness_proof_invalid_001 = Ok ()"
  by (simp add: assert_reject_witness_def proof_vector_facts ensure_reference_backend_proof_shape_def proof_shape_def
      assert_state_error_def assert_optional_def REFERENCE_BACKEND_PROOF_SHAPE_CONTEXT_def)

lemma invalid_value_vector_passes: "assert_reject_witness sha witness_proof_invalid_002 = Ok ()"
  using proof_vector_cases(5) [of sha] proof_vector_roots(4)
  by (auto simp: assert_reject_witness_def proof_vector_facts wrong_value_error assert_state_error_def assert_optional_def REFERENCE_BACKEND_PROOF_SHAPE_CONTEXT_def)

lemma invalid_root_vector_exact:
  "assert_reject_witness sha witness_proof_invalid_003 = Ok () \<longleftrightarrow> materialized_root sha two_leaves \<noteq> declared_root_1"
proof (cases "materialized_root sha two_leaves = declared_root_1")
  case True
  then have "acc_verify_witness (materialized_acc sha two_leaves)
      \<lparr>witness_key = header_key, witness_leaf_value = [0xDE, 0xAD, 0xBE, 0xEF], witness_proof = []\<rparr> declared_root_1 = Ok ()"
    by (simp add: acc_verify_witness_Ok proof_vector_facts)
  then show ?thesis using True by (simp add: assert_reject_witness_def proof_vector_facts)
next
  case False
  then have "declared_root_1 \<noteq> materialized_root sha two_leaves" by simp
  with False show ?thesis
    by (simp add: assert_reject_witness_def proof_vector_facts wrong_root_error assert_state_error_def assert_optional_def)
qed

text \<open>Apart from its rule, a vector of the repository is checked by its outcome only.\<close>

definition witness_header_ok :: "string \<times> WitnessVector \<Rightarrow> bool" where
  "witness_header_ok = (\<lambda>(stem, v). stem = wv_id v \<and> wv_category v = ''witness'' \<and> wv_owned_by v = ''shell-state'' \<and>
     \<not> is_blank (wv_rule v) \<and> \<not> is_blank (wv_description v) \<and>
     (case wv_notes v of Some notes \<Rightarrow> \<not> is_blank notes | None \<Rightarrow> True) \<and>
     (case wv_state_keys v of Some state_keys \<Rightarrow> state_keys \<noteq> [] | None \<Rightarrow> True) \<and>
     (case wv_proof_shape_kind v of Some kind \<Rightarrow> \<not> is_blank kind | None \<Rightarrow> True) \<and>
     (case wi_proof_shape_kind (wv_input v) of Some kind \<Rightarrow> \<not> is_blank kind | None \<Rightarrow> True) \<and>
     assert_fixture_proof_shape_kind v = Ok ())"

lemma witness_vector_headers: "list_all witness_header_ok witness_vectors"
  by code_simp

lemma check_witness_vector_outcome:
  "witness_header_ok (stem, v) \<Longrightarrow> wv_expected_outcome v = ''accept'' \<Longrightarrow>
     check_witness_vector sha (stem, v) = assert_accept_witness sha v"
  "witness_header_ok (stem, v) \<Longrightarrow> wv_expected_outcome v = ''reject'' \<Longrightarrow>
     check_witness_vector sha (stem, v) = assert_reject_witness sha v"
  by (simp_all add: check_witness_vector_def witness_header_ok_def)

lemma witness_outcomes:
  "wv_expected_outcome witness_order_canonical_001 = ''accept''" "wv_expected_outcome witness_order_canonical_002 = ''accept''"
  "wv_expected_outcome witness_order_noncanonical_001 = ''reject''" "wv_expected_outcome witness_order_noncanonical_002 = ''reject''"
  "wv_expected_outcome witness_proof_valid_001 = ''accept''" "wv_expected_outcome witness_proof_valid_002 = ''accept''"
  "wv_expected_outcome witness_proof_valid_003 = ''accept''" "wv_expected_outcome witness_proof_invalid_001 = ''reject''"
  "wv_expected_outcome witness_proof_invalid_002 = ''reject''" "wv_expected_outcome witness_proof_invalid_003 = ''reject''"
  by (simp_all add: witness_vector_defs)

section \<open>Properties\<close>

text \<open>
  The test of the witness vectors, on the ten vectors of the repository, passes exactly when the hash function
  gives the two state roots that they declare for the states of one and of two leaves. The ordering vectors, the
  witness that carries proof bytes and the witness with a wrong value are judged as declared for every hash function.
\<close>
theorem witness_vectors_exact:
  "witness_vectors_match_the_reference_proof_contract sha witness_vectors = Ok () \<longleftrightarrow>
     materialized_root sha one_leaf = declared_root_1 \<and> materialized_root sha two_leaves = declared_root_2"
  using witness_vector_headers declared_roots_distinct
  by (auto simp: witness_vectors_match_the_reference_proof_contract_def witness_vectors_def check_witness_vector_outcome
      witness_outcomes ordering_vectors_pass valid_vectors_exact invalid_shape_vector_passes invalid_value_vector_passes
      invalid_root_vector_exact bind_result_Ok_iff)

end
