(* ===== verification/Root_Checks.thy ===== *)
theory Root_Checks
  imports Runtime Replay
begin

text \<open>
  The two harnesses of the root-check vectors. The one of the execution crate
  (\<^verbatim>\<open>crates/shell-execution/tests/root_check_vectors.rs\<close>) runs the scripted executor and compares the outcome
  with the header; the one of the consensus crate
  (\<^verbatim>\<open>crates/shell-consensus/tests/root_check_vectors.rs\<close>) imports the block with services of its own, among
  them an executor that panics where the scripted one returns an error. The two are shown to agree on every
  vector.
\<close>

section \<open>The harness of the execution crate\<close>

definition execute_root_check :: "hash_fun \<Rightarrow> RootCheckScenario \<Rightarrow> BlockExecutionOutcome panics" where
  "execute_root_check sha resolved =
     (let planner = new_planned (map planned_of_step (sc_steps resolved)) in
      bind_result (materialize_root_check_accumulator sha (sc_materialized_state resolved)) (\<lambda>accumulator.
      let applier = new_applier accumulator in
      bind_result (materialize_root_check_accumulator sha (sc_materialized_state resolved)) (\<lambda>witness_accumulator.
      bind_result (expect_ok (verify_witnesses (acc_verify_witness witness_accumulator) (sc_witnesses resolved)
        (sc_pre_state_root resolved))) (\<lambda>_.
      case execute_block sha (sc_pre_state_root resolved) (sc_transactions resolved) (planned_executor sha)
             (reference_applier sha) (planner, applier) of
        (r, (planner', _)) \<Rightarrow>
          bind_result (expect_ok r) (\<lambda>outcome.
          bind_result (expect_ok (ensure_exhausted planner')) (\<lambda>_. Ok outcome))))))"

definition assert_root_pair :: "RootCheckExpectedError \<Rightarrow> Root \<Rightarrow> Root \<Rightarrow> unit panics" where
  "assert_root_pair expected actual_expected actual_actual =
     bind_result (parse_root (re_expected_root expected)) (\<lambda>expected_root.
     bind_result (asserts [actual_expected = expected_root]) (\<lambda>_.
     bind_result (parse_root (re_actual_root expected)) (\<lambda>actual_root.
     asserts [actual_actual = actual_root])))"

definition assert_root_check_error :: "RootCheckExpectedError \<Rightarrow> ExecutionError \<Rightarrow> unit panics" where
  "assert_root_check_error expected err =
     (case err of
        PostStateRootMismatch actual_expected actual_actual \<Rightarrow>
          if re_kind expected = ''PostStateRootMismatch'' then assert_root_pair expected actual_expected actual_actual else Panic
      | ReceiptsRootMismatch actual_expected actual_actual \<Rightarrow>
          if re_kind expected = ''ReceiptsRootMismatch'' then assert_root_pair expected actual_expected actual_actual else Panic
      | _ \<Rightarrow> Panic)"

definition check_execution_commitments ::
  "hash_fun \<Rightarrow> (string \<Rightarrow> TransactionVector panics) \<Rightarrow> (string \<Rightarrow> WitnessVector panics) \<Rightarrow>
   string \<times> RootCheckVector \<Rightarrow> unit panics" where
  "check_execution_commitments sha load_tx load_wit = (\<lambda>(file_stem, fixture).
     bind_result (resolve_root_check_scenario sha load_tx load_wit fixture) (\<lambda>resolved.
     bind_result (execute_root_check sha resolved) (\<lambda>outcome.
     let committed = \<lparr>committed_state_root = sh_state_root (sc_header resolved),
           committed_receipts_root = sh_receipts_root (sc_header resolved)\<rparr> in
     bind_result (asserts [file_stem = rv_id fixture, rv_category fixture = ''root-check'',
       rv_rule fixture = ''witness_execution_consensus_root_check'', rv_owned_by fixture = ''shell-consensus'',
       \<not> is_blank (rv_description fixture)]) (\<lambda>_.
     if rv_expected_outcome fixture = ''accept'' then expect_ok (ensure_matches outcome committed)
     else if rv_expected_outcome fixture = ''reject'' then
       bind_result (expect_some (rv_expected_error fixture)) (\<lambda>expected.
       bind_result (expect_err (ensure_matches outcome committed)) (\<lambda>err.
       assert_root_check_error expected err))
     else Panic))))"

definition end_to_end_root_check_vectors_cover_execution_commitments ::
  "hash_fun \<Rightarrow> (string \<Rightarrow> TransactionVector panics) \<Rightarrow> (string \<Rightarrow> WitnessVector panics) \<Rightarrow>
   (string \<times> RootCheckVector) list \<Rightarrow> unit panics" where
  "end_to_end_root_check_vectors_cover_execution_commitments sha load_tx load_wit paths =
     bind_result (asserts [paths \<noteq> []]) (\<lambda>_. for_each (check_execution_commitments sha load_tx load_wit) paths)"

section \<open>The harness of the consensus crate\<close>

text \<open>The cells of the five services, in one world.\<close>

record root_check_calls =
  rc_resolver_calls :: usize
  rc_validator_calls :: usize
  rc_revalidator_calls :: usize
  rc_preparer_calls :: usize
  rc_engine_calls :: usize

definition no_root_check_calls :: root_check_calls where
  "no_root_check_calls = \<lparr>rc_resolver_calls = 0, rc_validator_calls = 0, rc_revalidator_calls = 0,
     rc_preparer_calls = 0, rc_engine_calls = 0\<rparr>"

definition RootCheckResolver :: "root_check_calls credential_resolver" where
  "RootCheckResolver query w =
     (Ok \<lparr>cred_scheme_id = 1, cred_public_key_material = replicate 32 0x11\<rparr>,
      w\<lparr>rc_resolver_calls := rc_resolver_calls w + 1\<rparr>)"

definition AcceptingDispatcher :: "root_check_calls dispatcher" where
  "AcceptingDispatcher scheme_id request w = (Ok (), w\<lparr>rc_validator_calls := rc_validator_calls w + 1\<rparr>)"

definition RootCheckRevalidator :: "root_check_calls revalidator" where
  "RootCheckRevalidator transaction policy w = (Ok (), w\<lparr>rc_revalidator_calls := rc_revalidator_calls w + 1\<rparr>)"

definition FixtureWitnessPreparer ::
  "hash_fun \<Rightarrow> (StateKey \<times> bytes) list \<Rightarrow> StateWitness list \<Rightarrow> Root \<Rightarrow> root_check_calls witness_preparer" where
  "FixtureWitnessPreparer sha materialized_state witnesses pre_state_root header sidecar w =
     (case materialize_root_check_accumulator sha materialized_state of
        Ok accumulator \<Rightarrow> verify_witnesses (acc_verify_witness accumulator) witnesses pre_state_root
      | _ \<Rightarrow> Panic,
      w\<lparr>rc_preparer_calls := rc_preparer_calls w + 1\<rparr>)"

text \<open>The executor; its world is its cell \<open>cursor\<close>.\<close>

definition fixture_execute_transaction :: "hash_fun \<Rightarrow> RootCheckScenarioStep list \<Rightarrow> usize transaction_executor" where
  "fixture_execute_transaction sha steps pre_state_root transaction cursor =
     (if \<not> cursor < length steps then (Panic, cursor)
      else
        let step = steps ! cursor in
        case map_err TransactionRoot (envelope_hash_tree_root sha transaction) of
          Err e \<Rightarrow> (Err e, cursor)
        | Panic \<Rightarrow> (Panic, cursor)
        | Ok transaction_root \<Rightarrow>
            if transaction_root \<noteq> step_transaction_root step then (Panic, cursor)
            else (Ok \<lparr>plan_state_patch = \<lparr>accesses = [step_key step], new_values = [step_new_leaf_value step]\<rparr>,
                plan_receipt = \<lparr>status_code = step_receipt_status_code step, receipt_output = step_receipt_output step\<rparr>\<rparr>,
              cursor + 1))"

abbreviation fixture_executor where
  "fixture_executor sha steps \<equiv> (\<lambda>pre tx. on_fst (fixture_execute_transaction sha steps pre tx))"

definition FixtureExecutionEngine ::
  "hash_fun \<Rightarrow> (StateKey \<times> bytes) list \<Rightarrow> Root \<Rightarrow> RootCheckScenarioStep list \<Rightarrow> root_check_calls execution_engine" where
  "FixtureExecutionEngine sha materialized_state pre_state_root steps header body sidecar w =
     (case materialize_root_check_accumulator sha materialized_state of
        Ok accumulator \<Rightarrow>
          fst (execute_block sha pre_state_root (body_transactions body) (fixture_executor sha steps)
            (reference_applier sha) (0, new_applier accumulator))
      | _ \<Rightarrow> Panic,
      w\<lparr>rc_engine_calls := rc_engine_calls w + 1\<rparr>)"

definition root_check_services :: "hash_fun \<Rightarrow> RootCheckScenario \<Rightarrow> root_check_calls BlockImportServices" where
  "root_check_services sha resolved =
     \<lparr>svc_resolver = RootCheckResolver, svc_dispatcher = AcceptingDispatcher, svc_revalidator = RootCheckRevalidator,
      svc_preparer = FixtureWitnessPreparer sha (sc_materialized_state resolved) (sc_witnesses resolved)
        (sc_pre_state_root resolved),
      svc_execution_engine = FixtureExecutionEngine sha (sc_materialized_state resolved) (sc_pre_state_root resolved)
        (sc_steps resolved)\<rparr>"

definition default_block_import_config :: BlockImportConfig where
  "default_block_import_config =
     \<lparr>header_prefilter = \<lparr>max_witness_bytes = None\<rparr>, import_multi_authorization_policy = RequireAll\<rparr>"

definition assert_consensus_root_error :: "RootCheckExpectedError \<Rightarrow> ConsensusError \<Rightarrow> unit panics" where
  "assert_consensus_root_error expected err =
     (case err of
        Execution (PostStateRootMismatch actual_expected actual_actual) \<Rightarrow>
          if re_kind expected = ''PostStateRootMismatch'' then assert_root_pair expected actual_expected actual_actual else Panic
      | Execution (ReceiptsRootMismatch actual_expected actual_actual) \<Rightarrow>
          if re_kind expected = ''ReceiptsRootMismatch'' then assert_root_pair expected actual_expected actual_actual else Panic
      | _ \<Rightarrow> Panic)"

definition check_consensus_comparison ::
  "hash_fun \<Rightarrow> (string \<Rightarrow> TransactionVector panics) \<Rightarrow> (string \<Rightarrow> WitnessVector panics) \<Rightarrow>
   string \<times> RootCheckVector \<Rightarrow> unit panics" where
  "check_consensus_comparison sha load_tx load_wit = (\<lambda>(file_stem, fixture).
     bind_result (resolve_root_check_scenario sha load_tx load_wit fixture) (\<lambda>resolved.
     let block = scenario_block resolved in
     bind_result (asserts [file_stem = rv_id fixture, rv_category fixture = ''root-check'',
       rv_owned_by fixture = ''shell-consensus'']) (\<lambda>_.
     case import_block sha default_block_import_config (canonical_header (block_header block))
            (canonical_body (block_body block)) (canonical_sidecar (block_sidecar block)) (root_check_services sha resolved)
            no_root_check_calls of
       (result, calls) \<Rightarrow>
         bind_result
           (if rv_expected_outcome fixture = ''accept'' then
              bind_result (expect_ok result) (\<lambda>outcome.
              asserts [import_block_root outcome = ch_block_root (block_header block),
                import_post_state_root outcome = ch_state_root (block_header block),
                import_receipts_root outcome = ch_receipts_root (block_header block)])
            else if rv_expected_outcome fixture = ''reject'' then
              bind_result (expect_some (rv_expected_error fixture)) (\<lambda>expected.
              bind_result (expect_err result) (\<lambda>err.
              assert_consensus_root_error expected err))
            else Panic) (\<lambda>_.
         asserts [rc_resolver_calls calls = 1, rc_validator_calls calls = 1,
           rc_revalidator_calls calls = length (cb_transactions (block_body block)),
           rc_preparer_calls calls = 1, rc_engine_calls calls = 1]))))"

definition root_check_vectors_cover_consensus_execution_comparison_end_to_end ::
  "hash_fun \<Rightarrow> (string \<Rightarrow> TransactionVector panics) \<Rightarrow> (string \<Rightarrow> WitnessVector panics) \<Rightarrow>
   (string \<times> RootCheckVector) list \<Rightarrow> unit panics" where
  "root_check_vectors_cover_consensus_execution_comparison_end_to_end sha load_tx load_wit paths =
     bind_result (asserts [paths \<noteq> []]) (\<lambda>_. for_each (check_consensus_comparison sha load_tx load_wit) paths)"

section \<open>The two executors\<close>

text \<open>On a transaction that matches its step, one iteration with the executor of the harness.\<close>

lemma fixture_step:
  assumes "steps = done @ step # rest" "step_transaction_root step = tx_root sha tx"
  shows "execute_loop sha (fixture_executor sha steps) (reference_applier sha) (tx # txs) cur rs os (length done, ap) =
    (case applier_apply_transition sha cur (plan_state_patch (planned_plan (planned_of_step step))) ap of
       (Ok out, ap') \<Rightarrow> execute_loop sha (fixture_executor sha steps) (reference_applier sha) txs (post_state_root out)
         (rs @ [plan_receipt (planned_plan (planned_of_step step))])
         (os @ [\<lparr>tx_transaction_root = tx_root sha tx, tx_post_state_root = post_state_root out,
            tx_receipt = plan_receipt (planned_plan (planned_of_step step))\<rparr>]) (length done + 1, ap')
     | (Err e, ap') \<Rightarrow> (Err (StateTransition e), (length done + 1, ap'))
     | (Panic, ap') \<Rightarrow> (Panic, (length done + 1, ap')))"
proof -
  have "fixture_execute_transaction sha steps cur tx (length done) = (Ok (planned_plan (planned_of_step step)), length done + 1)"
    using assms by (simp add: fixture_execute_transaction_def planned_of_step_def Let_def)
  then show ?thesis
    by (simp add: bind_action.simps on_fst_def on_snd_def map_err_action_def Let_def split: prod.splits result.splits)
qed

lemma executors_agree:
  assumes "list_all2 (\<lambda>step tx. step_transaction_root step = tx_root sha tx) rest txs"
    and "steps = done @ rest" "planned_transactions ex = map planned_of_step steps" "next_index ex = length done"
  shows "fst (execute_loop sha (fixture_executor sha steps) (reference_applier sha) txs cur rs os (length done, ap)) =
    fst (execute_loop sha (planned_executor sha) (reference_applier sha) txs cur rs os (ex, ap))"
  using assms
proof (induction rest txs arbitrary: "done" ex ap cur rs os rule: list_all2_induct)
  case (Cons step rest tx txs)
  let ?ex = "ex\<lparr>next_index := next_index ex + 1\<rparr>"
  have script: "planned_transactions ex = map planned_of_step done @ planned_of_step step # map planned_of_step rest"
    "matches_script sha (planned_of_step step) tx"
    using Cons.prems Cons.hyps by (simp_all add: planned_of_step_def)
  have IH: "fst (execute_loop sha (fixture_executor sha steps) (reference_applier sha) txs cur' rs' os' (length done + 1, ap')) =
      fst (execute_loop sha (planned_executor sha) (reference_applier sha) txs cur' rs' os' (?ex, ap'))" for cur' rs' os' ap'
    using Cons.IH [of "done @ [step]" ?ex cur' rs' os' ap'] Cons.prems by simp
  show ?case
    using IH fixture_step [OF Cons.prems(1) Cons.hyps(1)] engine_step [OF script(1) _ script(2)] Cons.prems(3)
    by (simp split: prod.splits result.splits)
qed simp

lemma execute_block_result:
  "\<lbrakk>fst (execute_loop sha ex app txs pre [] [] w) = fst (execute_loop sha ex' app' txs pre [] [] w');
    execute_block sha pre txs ex' app' w' = (Ok out, v)\<rbrakk> \<Longrightarrow> fst (execute_block sha pre txs ex app w) = Ok out"
  by (cases "execute_loop sha ex app txs pre [] [] w"; cases "execute_loop sha ex' app' txs pre [] [] w'")
     (auto simp: execute_block_def bind_action.simps split: result.splits)

text \<open>
  What both harnesses compute of a scenario that the loader produced: the witnesses verify, the script is used
  up, and the outcome is the one of the planned executor, whichever executor runs.
\<close>

lemma consistent_execution:
  assumes "scenario_consistent sha s"
  obtains acc out planner ap where
    "materialize_root_check_accumulator sha (sc_materialized_state s) = Ok acc"
    "verify_witnesses (acc_verify_witness acc) (sc_witnesses s) (sc_pre_state_root s) = Ok ()"
    "execute_block sha (sc_pre_state_root s) (sc_transactions s) (planned_executor sha) (reference_applier sha)
       (new_planned (map planned_of_step (sc_steps s)), new_applier acc) = (Ok out, (planner, ap))"
    "ensure_exhausted planner = Ok ()"
    "fst (execute_block sha (sc_pre_state_root s) (sc_transactions s) (fixture_executor sha (sc_steps s))
       (reference_applier sha) (0, new_applier acc)) = Ok out"
proof -
  let ?ps = "map planned_of_step (sc_steps s)"
  obtain acc where acc: "materialize_root_check_accumulator sha (sc_materialized_state s) = Ok acc"
    "acc_root acc = sc_pre_state_root s"
    and pre: "pre_state_consistent sha (sc_materialized_state s) (sc_pre_state_root s) (sc_witnesses s)"
    using assms by (auto simp: scenario_consistent_def pre_state_consistent_def)
  then have invar: "acc_invar acc" "contents acc = map_of (sc_materialized_state s)"
    using materialize_Ok [OF acc(1)] by (simp_all add: pre_state_consistent_def)
  have verified: "verify_witnesses (acc_verify_witness acc) (sc_witnesses s) (sc_pre_state_root s) = Ok ()"
    using pre invar acc(2)
    by (auto simp: verify_witnesses_def result_simps acc_verify_witness_Ok wf_witness_def pre_state_consistent_def)
  have "list_all2 (=) (map step_transaction_root (sc_steps s)) (map (tx_root sha) (sc_transactions s))"
    using assms by (simp add: scenario_consistent_def list.rel_eq)
  then have steps: "list_all2 (\<lambda>step tx. step_transaction_root step = tx_root sha tx) (sc_steps s) (sc_transactions s)"
    by (simp add: list_all2_map1 list_all2_map2)
  have "\<forall>p \<in> set ?ps. applicable_plan p"
    using assms
    by (fastforce simp: scenario_consistent_def pre_state_consistent_def wf_witness_def applicable_plan_def
        planned_of_step_def wf_patch_def canonical_patch_def)
  moreover from steps have "list_all2 (\<lambda>p tx. planned_transaction_root p = tx_root sha tx) ?ps (sc_transactions s)"
    by (simp add: list_all2_map1 planned_of_step_def)
  ultimately obtain out planner ap where run: "execute_block sha (sc_pre_state_root s) (sc_transactions s)
      (planned_executor sha) (reference_applier sha) (new_planned ?ps, new_applier acc) = (Ok out, (planner, ap))"
    "ensure_exhausted planner = Ok ()"
    using planned_block_run [of sha ?ps "sc_transactions s" acc] invar(1) acc(2) by auto
  moreover have "fst (execute_block sha (sc_pre_state_root s) (sc_transactions s) (fixture_executor sha (sc_steps s))
      (reference_applier sha) (0, new_applier acc)) = Ok out"
    using executors_agree [OF steps, of "sc_steps s" "[]" "new_planned ?ps" "sc_pre_state_root s" "[]" "[]" "new_applier acc"] run(1)
    by (auto simp: new_planned_def intro: execute_block_result)
  ultimately show thesis using that [OF acc(1) verified] by blast
qed

text \<open>An import by the harness of the consensus crate: its result and the calls it makes.\<close>

lemma revalidation_counts:
  "for_each_action (\<lambda>tx. map_err_action TransactionValidation (RootCheckRevalidator tx policy)) txs w =
     (Ok (), w\<lparr>rc_revalidator_calls := rc_revalidator_calls w + length txs\<rparr>)"
  by (induction txs arbitrary: w) (simp_all add: RootCheckRevalidator_def map_err_action_def bind_action.simps)

lemma root_check_import:
  assumes "scenario_consistent sha s" "execute_root_check sha s = Ok out"
  defines "block \<equiv> scenario_block s"
  shows "import_block sha default_block_import_config (canonical_header (block_header block)) (canonical_body (block_body block))
      (canonical_sidecar (block_sidecar block)) (root_check_services sha s) no_root_check_calls =
    (bind_result (map_err Execution (ensure_matches out \<lparr>committed_state_root = sh_state_root (sc_header s),
        committed_receipts_root = sh_receipts_root (sc_header s)\<rparr>)) (\<lambda>_.
     Ok \<lparr>import_block_root = sh_block_root (sc_header s), import_post_state_root = block_post_state_root out,
         import_receipts_root = block_receipts_root out\<rparr>),
     \<lparr>rc_resolver_calls = 1, rc_validator_calls = 1, rc_revalidator_calls = length (sc_transactions s),
      rc_preparer_calls = 1, rc_engine_calls = 1\<rparr>)"
proof -
  from consistent_execution [OF assms(1)] obtain acc planner ap out' where run:
    "materialize_root_check_accumulator sha (sc_materialized_state s) = Ok acc"
    "verify_witnesses (acc_verify_witness acc) (sc_witnesses s) (sc_pre_state_root s) = Ok ()"
    "execute_block sha (sc_pre_state_root s) (sc_transactions s) (planned_executor sha) (reference_applier sha)
       (new_planned (map planned_of_step (sc_steps s)), new_applier acc) = (Ok out', (planner, ap))"
    "ensure_exhausted planner = Ok ()"
    "fst (execute_block sha (sc_pre_state_root s) (sc_transactions s) (fixture_executor sha (sc_steps s))
       (reference_applier sha) (0, new_applier acc)) = Ok out'"
    by metis
  then have "out' = out" using assms(2) by (simp add: execute_root_check_def Let_def)
  have accepted: "header_accepted default_block_import_config (canonical_header (block_header block))
      (canonical_body (block_body block)) (sh_block_root (sc_header s))"
    by (simp add: header_accepted_def block_def scenario_block_def canonical_header_def canonical_body_def
        default_block_import_config_def within_witness_limit_def Let_def)
  have "ss_block_root (sc_sidecar s) = sh_block_root (sc_header s)"
    using assms(1) by (simp add: scenario_consistent_def)
  then show ?thesis
    unfolding import_block_accepted [OF accepted] import_stages_def
    using run \<open>out' = out\<close>
    by (simp add: root_check_services_def RootCheckResolver_def AcceptingDispatcher_def FixtureWitnessPreparer_def
        FixtureExecutionEngine_def revalidation_counts [unfolded map_err_action_def] map_err_action_def bind_action.simps verify_sidecar_binding_def
        block_def scenario_block_def canonical_header_def canonical_body_def canonical_sidecar_def
        no_root_check_calls_def Let_def)
qed

lemma consensus_error_eq: "assert_consensus_root_error expected (Execution e) = assert_root_check_error expected e"
  by (cases e) (simp_all add: assert_consensus_root_error_def assert_root_check_error_def)

section \<open>Properties\<close>

text \<open>
  C20: The two harnesses of the root-check vectors agree. A vector passes the test of the execution crate exactly
  when it passes the test of the consensus crate, except for the two fields that only the former checks: the
  rule and the description. In particular no scenario that the loader produces makes the executor of the
  consensus harness panic where the scripted executor would return an error, and the import always reaches the
  execution, with one call of every service and one revalidation per transaction.
\<close>
theorem root_check_harnesses_agree:
  "check_execution_commitments sha load_tx load_wit (file_stem, fixture) = Ok () \<longleftrightarrow>
     rv_rule fixture = ''witness_execution_consensus_root_check'' \<and> \<not> is_blank (rv_description fixture) \<and>
     check_consensus_comparison sha load_tx load_wit (file_stem, fixture) = Ok ()"
proof (cases "resolve_root_check_scenario sha load_tx load_wit fixture")
  case (Ok s)
  have consistent: "scenario_consistent sha s" using Ok by (rule resolve_scenario_consistent)
  obtain out where out: "execute_root_check sha s = Ok out"
    by (rule consistent_execution [OF consistent]) (simp add: execute_root_check_def Let_def)
  note import = root_check_import [OF consistent out]
  have block: "ch_block_root (block_header (scenario_block s)) = sh_block_root (sc_header s)"
    "ch_state_root (block_header (scenario_block s)) = sh_state_root (sc_header s)"
    "ch_receipts_root (block_header (scenario_block s)) = sh_receipts_root (sc_header s)"
    "cb_transactions (block_body (scenario_block s)) = sc_transactions s"
    by (simp_all add: scenario_block_def Let_def)
  let ?matches = "ensure_matches out \<lparr>committed_state_root = sh_state_root (sc_header s),
    committed_receipts_root = sh_receipts_root (sc_header s)\<rparr>"
  have roots: "?matches = Ok () \<Longrightarrow> block_post_state_root out = sh_state_root (sc_header s) \<and>
      block_receipts_root out = sh_receipts_root (sc_header s)"
    by (simp add: ensure_matches_Ok)
  show ?thesis
    using roots by (cases ?matches)
      (auto simp: check_execution_commitments_def check_consensus_comparison_def Ok out import block bind_result_Ok_iff Let_def
        consensus_error_eq)
qed (simp_all add: check_execution_commitments_def check_consensus_comparison_def)

end
