(* ===== verification/Fixture_Files.thy ===== *)
theory Fixture_Files
  imports Fixtures
begin

text \<open>
  The files of the shared vectors (\<^verbatim>\<open>crates/shell-fixtures/src/lib.rs\<close>): listing the vectors of a
  category, loading one, and finding one by its id. The file system, the deserializer and the directory of
  the crate are arguments; the operations of the standard library on paths are modelled. The tests check
  that the stem of every file is the id of its vector, and that is what the lookup by id relies on.
\<close>

section \<open>Paths\<close>

type_synonym path = string

fun split_on :: "char \<Rightarrow> string \<Rightarrow> string list" where
  "split_on c [] = [[]]"
| "split_on c (x # xs) =
     (if x = c then [] # split_on c xs
      else (case split_on c xs of [] \<Rightarrow> [[x]] | segment # segments \<Rightarrow> (x # segment) # segments))"

definition path_join :: "path \<Rightarrow> string \<Rightarrow> path" where
  "path_join base segment =
     (if take 1 segment = ''/'' then segment
      else if base = [] \<or> last base = CHR ''/'' then base @ segment
      else base @ ''/'' @ segment)"

text \<open>The last component, when it is a name: empty components and \<open>.\<close> are skipped.\<close>

definition file_name :: "path \<Rightarrow> string option" where
  "file_name path =
     (case rev (filter (\<lambda>c. c \<noteq> [] \<and> c \<noteq> ''.'') (split_on (CHR ''/'') path)) of
        [] \<Rightarrow> None
      | c # _ \<Rightarrow> if c = ''..'' then None else Some c)"

text \<open>The parts before and after the last dot, when there is a dot that is not the first character.\<close>

definition rsplit_at_dot :: "string \<Rightarrow> string option \<times> string option" where
  "rsplit_at_dot name =
     (let after = rev (takeWhile (\<lambda>c. c \<noteq> CHR ''.'') (rev name));
          before = take (length name - length after - 1) name in
      if CHR ''.'' \<notin> set name then (None, Some name)
      else if before = [] then (Some name, None)
      else (Some before, Some after))"

definition extension :: "path \<Rightarrow> string option" where
  "extension path =
     Option.bind (file_name path) (\<lambda>name. case rsplit_at_dot name of (None, _) \<Rightarrow> None | (Some _, after) \<Rightarrow> after)"

definition file_stem :: "path \<Rightarrow> string option" where
  "file_stem path =
     Option.bind (file_name path) (\<lambda>name. case rsplit_at_dot name of (None, after) \<Rightarrow> after | (before, _) \<Rightarrow> before)"

section \<open>Listing and loading vectors\<close>

text \<open>
  What the loaders use of the file system: the entries of a directory, by name, where an entry may fail to be
  read, and the bytes of a file.
\<close>

record file_system =
  fs_read_dir :: "path \<Rightarrow> string option list option"
  fs_read :: "path \<Rightarrow> bytes option"

definition fixture_paths :: "file_system \<Rightarrow> path \<Rightarrow> string \<Rightarrow> path list panics" where
  "fixture_paths fs manifest_dir category =
     (let vectors_dir = path_join (path_join manifest_dir ''../../vectors'') category in
      bind_result (expect_some (fs_read_dir fs vectors_dir)) (\<lambda>entries.
      Ok (filter (\<lambda>path. extension path = Some ''json'') (map (path_join vectors_dir) (List.map_filter id entries)))))"

definition validation_order_fixture_paths :: "file_system \<Rightarrow> path \<Rightarrow> path list panics" where
  "validation_order_fixture_paths fs manifest_dir = fixture_paths fs manifest_dir ''validation-order''"

definition mempool_policy_fixture_paths :: "file_system \<Rightarrow> path \<Rightarrow> path list panics" where
  "mempool_policy_fixture_paths fs manifest_dir = fixture_paths fs manifest_dir ''mempool-policy''"

definition peer_action_fixture_paths :: "file_system \<Rightarrow> path \<Rightarrow> path list panics" where
  "peer_action_fixture_paths fs manifest_dir = fixture_paths fs manifest_dir ''peer-actions''"

definition crypto_fixture_paths :: "file_system \<Rightarrow> path \<Rightarrow> path list panics" where
  "crypto_fixture_paths fs manifest_dir = fixture_paths fs manifest_dir ''crypto''"

definition transaction_fixture_paths :: "file_system \<Rightarrow> path \<Rightarrow> path list panics" where
  "transaction_fixture_paths fs manifest_dir = fixture_paths fs manifest_dir ''transactions''"

definition witness_fixture_paths :: "file_system \<Rightarrow> path \<Rightarrow> path list panics" where
  "witness_fixture_paths fs manifest_dir = fixture_paths fs manifest_dir ''witnesses''"

definition root_check_fixture_paths :: "file_system \<Rightarrow> path \<Rightarrow> path list panics" where
  "root_check_fixture_paths fs manifest_dir = fixture_paths fs manifest_dir ''root-checks''"

definition execution_semantics_fixture_paths :: "file_system \<Rightarrow> path \<Rightarrow> path list panics" where
  "execution_semantics_fixture_paths fs manifest_dir = fixture_paths fs manifest_dir ''execution-semantics''"

definition load_fixture :: "file_system \<Rightarrow> (bytes \<Rightarrow> 'a option) \<Rightarrow> path \<Rightarrow> 'a panics" where
  "load_fixture fs from_slice path =
     bind_result (expect_some (fs_read fs path)) (\<lambda>bs. expect_some (from_slice bs))"

definition fixture_path_for_id :: "path \<Rightarrow> string \<Rightarrow> string \<Rightarrow> path" where
  "fixture_path_for_id manifest_dir category vector_id =
     path_join (path_join (path_join manifest_dir ''../../vectors'') category) (vector_id @ ''.json'')"

definition load_transaction_fixture_by_id ::
  "file_system \<Rightarrow> path \<Rightarrow> (bytes \<Rightarrow> TransactionVector option) \<Rightarrow> string \<Rightarrow> TransactionVector panics" where
  "load_transaction_fixture_by_id fs manifest_dir from_slice vector_id =
     load_fixture fs from_slice (fixture_path_for_id manifest_dir ''transactions'' vector_id)"

definition load_witness_fixture_by_id ::
  "file_system \<Rightarrow> path \<Rightarrow> (bytes \<Rightarrow> WitnessVector option) \<Rightarrow> string \<Rightarrow> WitnessVector panics" where
  "load_witness_fixture_by_id fs manifest_dir from_slice vector_id =
     load_fixture fs from_slice (fixture_path_for_id manifest_dir ''witnesses'' vector_id)"

section \<open>Lemmas on paths\<close>

lemma split_on_ne [simp]: "split_on c xs \<noteq> []"
  by (cases xs) (simp_all split: list.split)

lemma split_on_append: "split_on c (xs @ c # ys) = split_on c xs @ split_on c ys"
  by (induction xs) (auto split: list.split)

lemma split_on_plain: "c \<notin> set xs \<Longrightarrow> split_on c xs = [xs]"
  by (induction xs) auto

text \<open>A name in a directory: the entries that \<open>read_dir\<close> lists are such names.\<close>

definition bare_name :: "string \<Rightarrow> bool" where
  "bare_name name \<longleftrightarrow> name \<notin> {[], ''.'', ''..''} \<and> CHR ''/'' \<notin> set name"

lemma path_join_last: "bare_name name \<Longrightarrow> \<exists>prefix. split_on (CHR ''/'') (path_join dir name) = prefix @ [name]"
proof -
  assume bare: "bare_name name"
  then have plain: "split_on (CHR ''/'') name = [name]" and "take 1 name \<noteq> ''/''"
    by (auto simp: bare_name_def split_on_plain) (cases name; simp)
  consider "dir = []" | init where "dir = init @ ''/''" | "dir \<noteq> []" "last dir \<noteq> CHR ''/''"
    by (metis append_butlast_last_id)
  then show ?thesis
    using plain \<open>take 1 name \<noteq> ''/''\<close>
    by cases (auto simp: path_join_def split_on_append)
qed

lemma file_name_join [simp]:
  assumes "bare_name name" shows "file_name (path_join dir name) = Some name"
proof -
  obtain prefix where "split_on (CHR ''/'') (path_join dir name) = prefix @ [name]"
    using path_join_last [OF assms] by blast
  with assms show ?thesis by (auto simp: file_name_def bare_name_def)
qed

lemma rsplit_at_dot_append:
  assumes "CHR ''.'' \<notin> set ext" "stem \<noteq> []"
  shows "rsplit_at_dot (stem @ CHR ''.'' # ext) = (Some stem, Some ext)"
proof -
  have "takeWhile (\<lambda>c. c \<noteq> CHR ''.'') (rev ext @ CHR ''.'' # rev stem) = rev ext"
    using assms(1) by (subst takeWhile_append2) auto
  then show ?thesis using assms(2) by (simp add: rsplit_at_dot_def Let_def)
qed

lemma rsplit_at_dot_join:
  assumes "rsplit_at_dot name = (Some stem, Some ext)" shows "name = stem @ CHR ''.'' # ext"
proof -
  have dot: "CHR ''.'' \<in> set name" using assms by (auto simp: rsplit_at_dot_def Let_def split: if_splits)
  then obtain before after where name: "name = before @ CHR ''.'' # after" "CHR ''.'' \<notin> set after"
    using split_list_last by fastforce
  have "takeWhile (\<lambda>c. c \<noteq> CHR ''.'') (rev after @ ''.'') = rev after"
    using name(2) by (subst takeWhile_append2) auto
  then show ?thesis
    using assms name(1) rsplit_at_dot_append [OF name(2), of before]
    by (cases "before = []") (simp_all add: rsplit_at_dot_def Let_def)
qed

lemma named_file:
  assumes "bare_name name" "extension (path_join dir name) = Some ext" "file_stem (path_join dir name) = Some stem"
  shows "name = stem @ CHR ''.'' # ext"
  using assms by (auto simp: extension_def file_stem_def split: prod.splits option.splits dest: rsplit_at_dot_join)

lemma json_file:
  assumes "i \<noteq> []" "CHR ''/'' \<notin> set i"
  shows "file_stem (path_join dir (i @ ''.json'')) = Some i" "extension (path_join dir (i @ ''.json'')) = Some ''json''"
proof -
  have "bare_name (i @ ''.json'')" using assms by (auto simp: bare_name_def append_eq_Cons_conv)
  then show "file_stem (path_join dir (i @ ''.json'')) = Some i" "extension (path_join dir (i @ ''.json'')) = Some ''json''"
    using assms rsplit_at_dot_append [of "''json''" i] by (simp_all add: file_stem_def extension_def)
qed

section \<open>Properties\<close>

text \<open>
  A vector is found by its id. When the names that the file system lists are bare names, which is what
  directory entries are, every file that the listing of a category returns is the file that its stem leads
  to: so, once the tests have checked that the stem is the id of the vector, loading by the id returns that
  vector. And the path of an id has the id as its stem and is one that the listing keeps.
\<close>
theorem fixture_lookup_by_id:
  assumes names: "\<And>dir entries name. fs_read_dir fs dir = Some entries \<Longrightarrow> Some name \<in> set entries \<Longrightarrow> bare_name name"
    and listed: "fixture_paths fs manifest_dir category = Ok paths" "path \<in> set paths"
    and checked: "file_stem path = Some vector_id"
  shows "fixture_path_for_id manifest_dir category vector_id = path \<and>
    load_fixture fs from_slice (fixture_path_for_id manifest_dir category vector_id) = load_fixture fs from_slice path \<and>
    (\<forall>i. i \<noteq> [] \<and> CHR ''/'' \<notin> set i \<longrightarrow>
       file_stem (fixture_path_for_id manifest_dir category i) = Some i \<and>
       extension (fixture_path_for_id manifest_dir category i) = Some ''json'')"
proof -
  obtain entries name where "fs_read_dir fs (path_join (path_join manifest_dir ''../../vectors'') category) = Some entries"
    "Some name \<in> set entries" "path = path_join (path_join (path_join manifest_dir ''../../vectors'') category) name"
    "extension path = Some ''json''"
    using listed by (auto simp: fixture_paths_def Let_def result_simps List.map_filter_def)
  moreover from this have "name = vector_id @ ''.json''"
    using named_file [OF names] checked by simp
  ultimately show ?thesis by (simp add: fixture_path_for_id_def json_file)
qed

definition sample_file_system :: file_system where
  "sample_file_system = \<lparr>
     fs_read_dir = (\<lambda>dir. if dir = ''/repo/crates/fixtures/../../vectors/crypto''
       then Some [Some ''sig-1.json'', None, Some ''notes.md''] else None),
     fs_read = (\<lambda>path. if path = ''/repo/crates/fixtures/../../vectors/crypto/sig-1.json'' then Some [1, 2] else None)\<rparr>"

theorem fixture_lookup_by_id_witness:
  "fixture_path_for_id ''/repo/crates/fixtures'' ''crypto'' ''sig-1'' = ''/repo/crates/fixtures/../../vectors/crypto/sig-1.json'' \<and>
   load_fixture sample_file_system Some (fixture_path_for_id ''/repo/crates/fixtures'' ''crypto'' ''sig-1'') = Ok [1, 2]"
proof -
  let ?path = "''/repo/crates/fixtures/../../vectors/crypto/sig-1.json''"
  have "fixture_paths sample_file_system ''/repo/crates/fixtures'' ''crypto'' = Ok [?path]" "file_stem ?path = Some ''sig-1''"
    by (simp_all add: fixture_paths_def path_join_def sample_file_system_def List.map_filter_def extension_def file_stem_def
        file_name_def rsplit_at_dot_def Let_def)
  moreover have "bare_name name" if "fs_read_dir sample_file_system dir = Some entries" "Some name \<in> set entries" for dir entries name
    using that by (auto simp: sample_file_system_def bare_name_def split: if_splits)
  ultimately show ?thesis
    using fixture_lookup_by_id [of sample_file_system "''/repo/crates/fixtures''" "''crypto''" "[?path]" ?path "''sig-1''" Some]
    by (simp add: load_fixture_def sample_file_system_def)
qed

end
