(* ===== verification/Tests_Ed25519.thy ===== *)
theory Tests_Ed25519
  imports Tests_Core
begin

text \<open>
  The tests of the Ed25519 scheme (\<^verbatim>\<open>crates/shell-crypto/src/schemes/ed25519.rs\<close>). They sign with
  the library that the scheme verifies with; the functions of \<open>ed25519_dalek\<close> that sign are a record of
  parameters, like those that verify. What the tests need of the library is shown: for the first, that parsing
  inverts printing and that a signature verifies under the key of its signer; for the other two, exactly that
  the library rejects one forged signature and one foreign key.
\<close>

unbundle bit_operations_syntax

section \<open>The tests\<close>

fun is_err :: "('a, 'e) result \<Rightarrow> bool" where
  "is_err (Err _) = True"
| "is_err _ = False"

record ('sk, 'k, 's) ed25519_signer =
  signing_key_from_bytes :: "bytes \<Rightarrow> 'sk"
  signer_verifying_key :: "'sk \<Rightarrow> 'k"
  verifying_key_as_bytes :: "'k \<Rightarrow> bytes"
  signer_sign :: "'sk \<Rightarrow> bytes \<Rightarrow> 's"
  signature_to_bytes :: "'s \<Rightarrow> bytes"

definition test_ed25519_verification_success :: "('k, 's) ed25519_dalek \<Rightarrow> ('sk, 'k, 's) ed25519_signer \<Rightarrow> unit panics" where
  "test_ed25519_verification_success dalek signer =
     (let signing_key = signing_key_from_bytes signer (replicate 32 1);
          verifying_key = signer_verifying_key signer signing_key;
          message = zero_bytes 32;
          signature = signer_sign signer signing_key message;
          request = \<lparr>public_key_material = verifying_key_as_bytes signer verifying_key, req_signing_root = message,
            req_signature = signature_to_bytes signer signature\<rparr> in
      asserts [is_ok (ed25519_verify dalek request)])"

definition test_ed25519_verification_failure_bad_sig ::
  "('k, 's) ed25519_dalek \<Rightarrow> ('sk, 'k, 's) ed25519_signer \<Rightarrow> unit panics" where
  "test_ed25519_verification_failure_bad_sig dalek signer =
     (let signing_key = signing_key_from_bytes signer (replicate 32 1);
          verifying_key = signer_verifying_key signer signing_key;
          message = zero_bytes 32;
          signature = signer_sign signer signing_key message;
          invalid_signature = signature_to_bytes signer signature in
      bind_result (index_at invalid_signature 0) (\<lambda>first.
      let invalid_signature = invalid_signature[0 := first XOR 0xFF];
          request = \<lparr>public_key_material = verifying_key_as_bytes signer verifying_key, req_signing_root = message,
            req_signature = invalid_signature\<rparr> in
      asserts [is_err (ed25519_verify dalek request)]))"

definition test_ed25519_verification_failure_bad_key ::
  "('k, 's) ed25519_dalek \<Rightarrow> ('sk, 'k, 's) ed25519_signer \<Rightarrow> unit panics" where
  "test_ed25519_verification_failure_bad_key dalek signer =
     (let signing_key = signing_key_from_bytes signer (replicate 32 1);
          message = zero_bytes 32;
          signature = signer_sign signer signing_key message;
          invalid_key = zero_bytes 32;
          request = \<lparr>public_key_material = invalid_key, req_signing_root = message,
            req_signature = signature_to_bytes signer signature\<rparr> in
      asserts [is_err (ed25519_verify dalek request)])"

section \<open>What the tests need of the library\<close>

text \<open>Documented behaviour of the library: printing and parsing agree, and keys have 32 bytes.\<close>

definition parses_printed :: "('k, 's) ed25519_dalek \<Rightarrow> ('sk, 'k, 's) ed25519_signer \<Rightarrow> bool" where
  "parses_printed dalek signer \<longleftrightarrow>
     (\<forall>key. length (verifying_key_as_bytes signer key) = 32 \<and>
        verifying_key_from_bytes dalek (verifying_key_as_bytes signer key) = Some key) \<and>
     (\<forall>sig. signature_from_slice dalek (signature_to_bytes signer sig) = Some sig)"

lemma test_success_passes:
  assumes "parses_printed dalek signer"
    and "\<And>sk message. key_verify dalek (signer_verifying_key signer sk) message (signer_sign signer sk message)"
  shows "test_ed25519_verification_success dalek signer = Ok ()"
  using assms by (simp add: test_ed25519_verification_success_def parses_printed_def ed25519_verify_def Let_def)

lemma ed25519_verify_is_err: "is_err (ed25519_verify dalek request) \<longleftrightarrow> ed25519_verify dalek request \<noteq> Ok ()"
proof -
  have "ed25519_verify dalek request \<noteq> Panic"
    by (cases "verifying_key_from_bytes dalek (public_key_material request)";
        cases "signature_from_slice dalek (req_signature request)") (simp_all add: ed25519_verify_def)
  then show ?thesis by (cases "ed25519_verify dalek request") auto
qed

lemma test_bad_key_passes:
  assumes "parses_printed dalek signer"
  shows "test_ed25519_verification_failure_bad_key dalek signer = Ok () \<longleftrightarrow>
    (\<forall>key. verifying_key_from_bytes dalek (zero_bytes 32) = Some key \<longrightarrow>
       \<not> key_verify dalek key (zero_bytes 32)
         (signer_sign signer (signing_key_from_bytes signer (replicate 32 1)) (zero_bytes 32)))"
  using assms
  by (auto simp: test_ed25519_verification_failure_bad_key_def parses_printed_def ed25519_verify_is_err
      ed25519_verify_Ok Let_def)

lemma test_bad_sig_passes:
  assumes "parses_printed dalek signer"
  defines "sk \<equiv> signing_key_from_bytes signer (replicate 32 1)"
  defines "bs \<equiv> signature_to_bytes signer (signer_sign signer sk (zero_bytes 32))"
  shows "test_ed25519_verification_failure_bad_sig dalek signer = Ok () \<longleftrightarrow>
    bs \<noteq> [] \<and> (\<forall>sig. signature_from_slice dalek ((hd bs XOR 0xFF) # tl bs) = Some sig \<longrightarrow>
       \<not> key_verify dalek (signer_verifying_key signer sk) (zero_bytes 32) sig)"
  using assms(1)
  by (cases bs) (auto simp: test_ed25519_verification_failure_bad_sig_def parses_printed_def ed25519_verify_is_err
      ed25519_verify_Ok sk_def bs_def Let_def index_at_def)

text \<open>
  The three tests of the Ed25519 scheme. With a library that parses what it prints and whose signatures
  verify under the key of their signer, the first test passes; the second passes exactly when the library does
  not accept the signature with its first byte inverted, and the third exactly when the zero key is malformed
  or does not verify the signature. So the scheme adds no failure of its own to what the library decides.
\<close>
theorem ed25519_tests_exact:
  assumes "parses_printed dalek signer"
    and "\<And>sk message. key_verify dalek (signer_verifying_key signer sk) message (signer_sign signer sk message)"
  defines "sk \<equiv> signing_key_from_bytes signer (replicate 32 1)"
  defines "sig \<equiv> signer_sign signer sk (zero_bytes 32)"
  defines "bs \<equiv> signature_to_bytes signer sig"
  shows "test_ed25519_verification_success dalek signer = Ok () \<and>
    (test_ed25519_verification_failure_bad_sig dalek signer = Ok () \<longleftrightarrow>
       bs \<noteq> [] \<and> (\<forall>forged. signature_from_slice dalek ((hd bs XOR 0xFF) # tl bs) = Some forged \<longrightarrow>
         \<not> key_verify dalek (signer_verifying_key signer sk) (zero_bytes 32) forged)) \<and>
    (test_ed25519_verification_failure_bad_key dalek signer = Ok () \<longleftrightarrow>
       (\<forall>key. verifying_key_from_bytes dalek (zero_bytes 32) = Some key \<longrightarrow> \<not> key_verify dalek key (zero_bytes 32) sig))"
  using assms(1,2) test_success_passes [of dalek signer] test_bad_sig_passes [of dalek signer]
    test_bad_key_passes [of dalek signer]
  by (simp add: sk_def sig_def bs_def)

end
