(* ===== verification/Spec2Isabelle.thy ===== *)
theory Spec2Isabelle
  imports Codec Runtime Execution_Steps Crypto_Vectors Validation_Vectors Witness_Vectors Root_Checks Fixture_Files Tests_Ed25519
begin

text \<open>
  \<^bold>\<open>Verification of the shell-chain reference workspace\<close>

  The program is a Rust workspace under \<^verbatim>\<open>src/crates\<close>: the executable reference of a stateless
  chain with signature agility. A transaction arrives as bytes (\<^verbatim>\<open>shell-primitives\<close>: SSZ-like codec and
  hash tree roots), is screened and its authorizations are verified (\<^verbatim>\<open>shell-mempool\<close> over the verifier
  registry of \<^verbatim>\<open>shell-crypto\<close>). A block arrives as header, body and witness sidecar; the import pipeline
  of \<^verbatim>\<open>shell-consensus\<close> checks the cheap bindings first, then the proposer signature, every transaction,
  the witnesses (\<^verbatim>\<open>shell-state\<close>) and the execution (\<^verbatim>\<open>shell-execution\<close>), and compares the resulting roots
  with the header. \<^verbatim>\<open>shell-network\<close> turns errors into peer actions. \<^verbatim>\<open>shell-fixtures\<close> reads conformance
  vectors, and \<^verbatim>\<open>shell-cli\<close> wires all parts into one local run and two gossip adapters.

  \<^bold>\<open>Theories and sources\<close>
  \<^item> \<open>Prelude\<close>: the result type with \<open>Ok\<close>, \<open>Err\<close> and \<open>Panic\<close> (an out-of-range index, a failed assertion,
    an \<open>unwrap\<close> or \<open>expect\<close>), state-passing actions for trait objects with effects, bytes, words, hash
    functions and collisions. \<open>BTree_Map\<close>: \<open>BTreeMap\<close> as a strictly sorted association list, with the
    locale \<open>ordered_map\<close> for what its clients use.
  \<^item> \<open>Primitives\<close> (\<^verbatim>\<open>types/*.rs\<close>, \<^verbatim>\<open>errors.rs\<close>, \<^verbatim>\<open>domains.rs\<close>, \<^verbatim>\<open>traits.rs\<close>): the data model;
    \<open>Ssz\<close> (\<^verbatim>\<open>ssz.rs\<close>, \<^verbatim>\<open>validation.rs\<close>): Merkleization in both build profiles, all roots, the closed-rule
    checks; \<open>Codec\<close> (\<^verbatim>\<open>codec.rs\<close>): every encoder and decoder; \<open>Wire_Objects\<close>: the traits that tie both
    together (\<open>CanonicalSsz\<close>, \<open>ProtocolObject\<close>, \<open>TransactionMetadata\<close>), as records of methods.
  \<^item> \<open>Crypto\<close> (\<^verbatim>\<open>shell-crypto\<close>): registry, limits, dispatch, the Ed25519 verifier.
  \<^item> \<open>State\<close> (\<^verbatim>\<open>shell-state\<close>): accumulator, witnesses, transitions, the applier with its \<open>RefCell\<close>.
  \<^item> \<open>Execution\<close> (\<^verbatim>\<open>shell-execution\<close>): block loop, receipts, scripted executor; \<open>Execution_Steps\<close>: the
    same loop as a step relation.
  \<^item> \<open>Mempool\<close> (\<^verbatim>\<open>shell-mempool\<close>): fee lanes, nonce window, screening, admission.
  \<^item> \<open>Consensus\<close> (\<^verbatim>\<open>shell-consensus\<close>): canonical objects and the import pipeline over its five services.
  \<^item> \<open>Network\<close> (\<^verbatim>\<open>shell-network\<close>): peer actions, fetch policy, announcement filter.
  \<^item> \<open>Fixtures\<close> (\<^verbatim>\<open>shell-fixtures/src/lib.rs\<close>): hex parsing, vectors, resolution of root-check scenarios;
    \<open>Fixture_Files\<close>: listing and loading the vector files, over a file system and a deserializer.
  \<^item> \<open>Runtime\<close> (\<^verbatim>\<open>shell-cli\<close>: \<^verbatim>\<open>runtime.rs\<close>, \<^verbatim>\<open>fixtures.rs\<close>, \<^verbatim>\<open>adapters.rs\<close>): the reference run and adapters.
  \<^item> \<open>Tests_Core\<close>, \<open>Tests_Primitives\<close>, \<open>Tests_Pipeline\<close>, \<open>Tests_Network\<close>: the unit tests in the crates (the
    \<^verbatim>\<open>#[cfg(test)]\<close> modules of the crate roots, \<^verbatim>\<open>reference_applier.rs\<close>, \<^verbatim>\<open>scoring.rs\<close>, \<^verbatim>\<open>policy.rs\<close>,
    \<^verbatim>\<open>filtering.rs\<close> and \<^verbatim>\<open>shell-fixtures\<close>) with their stubs and counting test doubles, as computations whose
    value is \<open>Ok ()\<close> when every assertion holds and \<open>Panic\<close> otherwise; \<open>Tests_Ed25519\<close>: the tests of
    \<^verbatim>\<open>schemes/ed25519.rs\<close>, over the signing functions of the library.
  \<^item> \<open>Vectors\<close>, \<open>Conformance\<close>, \<open>Crypto_Vectors\<close>: the record types of the peer-action, mempool, ordering and
    crypto vectors, the harnesses that check them (\<^verbatim>\<open>shell-network/tests\<close>, \<^verbatim>\<open>shell-mempool/tests\<close>,
    \<^verbatim>\<open>shell-consensus/tests\<close>, \<^verbatim>\<open>shell-crypto/tests\<close>) and the vectors themselves (\<^verbatim>\<open>src/vectors\<close>);
    \<open>Transaction_Vectors\<close>, \<open>Validation_Vectors\<close>, \<open>Witness_Vectors\<close>: the same for the transaction vectors and
    the vectors of the closed rules (\<^verbatim>\<open>shell-primitives/tests\<close>) and for the witness vectors
    (\<^verbatim>\<open>shell-state/tests\<close>); \<open>Replay\<close>: the harness of the execution-semantics vectors (\<^verbatim>\<open>shell-execution/tests\<close>) with its second execution;
    \<open>Root_Checks\<close>: the two harnesses of the root-check vectors (\<^verbatim>\<open>shell-execution/tests\<close>,
    \<^verbatim>\<open>shell-consensus/tests\<close>).
  \<^item> this theory: properties that span components.
  Structures are records, enumerations are datatypes with the constructors of the source, methods are
  functions of the same name; a \<open>&mut self\<close> method or one over a \<open>Cell\<close> returns its new state. Fixed-size
  arrays are byte lists with a well-formedness predicate (\<open>wf_payload\<close>, \<open>wf_envelope\<close>, \<open>wf_state_key\<close>)
  that states their lengths; integers of the source are words of the same width, \<open>usize\<close> lengths are
  natural numbers with the bound \<open>usize_bound\<close> written out where the code checks it.

  \<^bold>\<open>Parameters\<close>
  SHA-256 is a function argument \<open>sha\<close>. No property assumes that it is injective: the binding
  theorems say that equal roots mean equal data or exhibit two different messages, among those the
  code hashes, with the same digest; \<open>digest32\<close> (32-byte digests) is the only assumption. The crate
  \<^verbatim>\<open>ed25519_dalek\<close> is a record of the functions that verify and, for its tests, one of those that sign; the
  fixture loaders are functions from identifiers to vectors, which \<open>Fixture_Files\<close> implements over a record
  of the file system; the proposer credential resolver and nonce view are arguments.

  \<^bold>\<open>Interfaces\<close>
  Locales state what one component relies on in another, and each is interpreted on the model:
  \<open>ordered_map\<close> (\<open>btree\<close>), \<open>wire_codec\<close> (four codecs: the two directions of a canonical encoding give
  uniqueness and round trips once) and its extension \<open>typed_codec\<close>, \<open>verifier_registry\<close> (\<open>registry\<close>), \<open>state_accumulator\<close> (\<open>acc\<close>),
  \<open>transition_applier\<close> (\<open>applier\<close>) and its extension \<open>block_execution\<close> (\<open>planned\<close>), \<open>stateless_dispatcher\<close>
  (\<open>ed25519\<close>), \<open>stateless_runtime\<close> (\<open>ed25519_rt\<close>) and \<open>canonical_object\<close> (payloads, envelopes and signing
  data: what the bytes and the root of one object have to do with each other).

  \<^bold>\<open>What the properties show\<close>
  \<^item> wire format: decoding accepts exactly the canonical encodings, and every decoder is typed: a
    well-formed value or one of two errors, never a panic;
  \<^item> commitments: payload, envelope, signing, state, receipts, transactions and witnesses roots bind
    their data up to collisions, and state roots depend on the contents only; past the byte-list
    limit the payload root does not bind; within the list limits the root of a transaction commits to its
    wire bytes;
  \<^item> admission: exact acceptance conditions, 64-bit and 256-bit bounds, order of the expensive calls;
  \<^item> state: the accumulator refines a partial function, witnesses are accepted exactly when true,
    transitions keep root continuity;
  \<^item> execution: matching scripts with applicable patches run to completion, in every state between two
    transactions script, state and outcomes belong together, and a failing block keeps a prefix;
  \<^item> import: bindings hold for every set of services, cheap checks come first, the service calls have
    one order, and acceptance is characterised exactly;
  \<^item> the whole run: success is characterised for every scenario, and for resolved vectors in terms of
    the vector; its state root binds the post-state; gossiped transactions and blocks are accepted under
    exact conditions; an adapter error costs the peer nothing unless it is a primitive error, which canonical
    blocks never give;
  \<^item> tests and vectors: the unit tests and the shared vectors pass in the model, for every hash function
    with 32-byte digests (lemmas \<open>..._tests_pass\<close>, \<open>..._vectors_pass\<close> of their theories). Tests that assert that
    two digests differ are proved up to the accidents of the hash function they depend on; the crypto vectors
    are reduced to four answers of the Ed25519 library, the transaction and validation vectors to the payload
    roots they declare, and the witness vectors to their two state roots. The engine and the step-by-step
    replay of the execution harness agree on every vector whose transactions are those of its steps, accepted
    or rejected, and the two root-check harnesses agree on every vector;
  \<^item> divergences: revalidation ignores the authorizations of the body and applies mempool policy,
    internal primitive errors disconnect a peer.

  \<^bold>\<open>Termination and fuel\<close>
  Every definition is total without fuel: loops are structural recursions over the list they
  traverse, and \<open>merkleize\<close>, which halves its limit, has a termination proof.

  \<^bold>\<open>Not modelled\<close>
  Trait declarations without an implementation (\<open>AnnouncementDecoder\<close>, \<open>FetchScheduler\<close>, \<open>PeerStore\<close>,
  \<open>ReputationStore\<close>): there is no behaviour to state. File access and JSON decoding (\<^verbatim>\<open>std::fs\<close>, \<^verbatim>\<open>serde\<close>) are
  arguments: a harness takes the list of file stems and decoded records. Tests that only build a
  trait object. The integration tests of
  \<^verbatim>\<open>shell-cli\<close>, \<^verbatim>\<open>shell-network\<close> and \<^verbatim>\<open>shell-consensus\<close> that build their inputs in code. The two
  fixture tests are functions of the vectors they load, characterised by lemmas. Panic messages are
  dropped, a \<open>Panic\<close> carries no text; memory exhaustion is not modelled. Module declarations, re-exports
  and accessors that return a field or forward to another function have no definition of their own.
\<close>

section \<open>Errors of canonical blocks\<close>



section \<open>State of a successful run\<close>

lemma run_planned_contents:
  assumes "acc_invar acc" "\<forall>p \<in> set (planned_patches ps). wf_patch p \<and> canonical_patch p"
  shows "acc_invar (acc.run sha (planned_patches ps) acc) \<and>
    contents (acc.run sha (planned_patches ps) acc) = planned_contents ps (contents acc)"
proof -
  have "fold (\<lambda>p m. if canonical_patch p then m ++ patch_map p else m) (planned_patches ps) m = planned_contents ps m" for m
    using assms(2) unfolding planned_patches_def planned_contents_def by (induction ps arbitrary: m) simp_all
  then show ?thesis using acc.run_contents [of acc "planned_patches ps" sha] assms by simp
qed

lemma run_planned_root:
  assumes "ps \<noteq> []" "\<forall>p \<in> set (planned_patches ps). canonical_patch p"
  shows "acc_root (acc.run sha (planned_patches ps) acc) =
    compute_reference_root sha (leaves (acc.run sha (planned_patches ps) acc))"
proof -
  obtain qs q where ps: "planned_patches ps = qs @ [q]" "canonical_patch q"
    using assms by (cases ps rule: rev_cases) (auto simp: planned_patches_def)
  then have "validate_shape q = Ok ()" "ensure_canonical_access_order (accesses q) = Ok ()"
    by (simp_all add: canonical_patch_def validate_shape_def ensure_order_Ok)
  then show ?thesis
    by (simp add: ps acc.run_def acc_apply_transition_def Let_def)
qed

section \<open>Properties across components\<close>









text \<open>
  The state root a successful run reports binds the post-state: it is the root of the pre-state
  with the planned patches applied in block order, and any other state an accumulator reaches with
  that root has the same contents, or two hashed messages collide.
\<close>

theorem run_state_root_binding:
  assumes "digest32 sha" "wf_scenario sc" "ls_planned_transactions sc \<noteq> []"
    and "fst (runtime_run sha (ed25519_runtime dalek resolve policy config view) sc w) = Ok out"
    and "acc_invar a" "wf_patch q"
    and "acc_apply_transition sha q a = (Ok (import_post_state_root (flow_import_outcome out)), a')"
  shows "\<exists>final. acc_invar final \<and>
    contents final = planned_contents (ls_planned_transactions sc) (map_of (ls_materialized_state sc)) \<and>
    (contents a' = contents final \<or> collision sha (state_messages sha a' \<union> state_messages sha final))"
proof -
  let ?ps = "ls_planned_transactions sc"
  have "block_consistent sha sc"
    "import_post_state_root (flow_import_outcome out) = ch_state_root (block_header (ls_block sc))"
    using assms(4) by (auto simp: fst_Ok_iff ed25519_rt.run_iff [OF assms(2)] run_outcome_def Let_def)
  then obtain acc where mat: "materialize_accumulator sha (ls_materialized_state sc) = Ok acc"
    and canonical: "\<forall>p \<in> set (planned_patches ?ps). canonical_patch p"
    and root: "import_post_state_root (flow_import_outcome out) = acc_root (acc.run sha (planned_patches ?ps) acc)"
    by (auto simp: block_consistent_def Let_def)
  define final where "final = acc.run sha (planned_patches ?ps) acc"
  have acc: "acc_invar acc" "contents acc = map_of (ls_materialized_state sc)"
    using materialize_accumulator_Ok [OF mat] assms(2) by (simp_all add: wf_scenario_def)
  have wf: "\<forall>p \<in> set (planned_patches ?ps). wf_patch p \<and> canonical_patch p"
    using canonical assms(2) by (simp add: wf_scenario_def)
  from run_planned_contents [OF acc(1) this] acc(2) have final: "acc_invar final"
    "contents final = planned_contents ?ps (map_of (ls_materialized_state sc))"
    by (simp_all add: final_def)
  have froot: "sha (root_preimage sha (leaves final)) = import_post_state_root (flow_import_outcome out)"
    using run_planned_root [OF assms(3) canonical, of sha acc] root
    by (simp add: final_def compute_reference_root_def)
  have a': "acc_invar a'" "sha (root_preimage sha (leaves a')) = import_post_state_root (flow_import_outcome out)"
    using acc_apply_transition_Ok [OF assms(7,5,6)] by (simp_all add: compute_reference_root_def)
  from final a' froot assms(1) show ?thesis
    by (intro exI [of _ final]) (metis equal_roots_bind)
qed

lemma sample_run_roots:
  "fst (runtime_run zero_hash_fun (sample_runtime 0) sample_local ()) =
     Ok (run_outcome zero_hash_fun (sample_runtime 0) sample_local)"
proof -
  have "env_authorizations sample_transaction = []" by (simp add: sample_transaction_def)
  then show ?thesis
    using sample_local_wf sample_policy_valid sample_signature_accepted [of zero_hash_fun "sample_policy 0" sample_transaction]
      sample_proposer_accepted
    unfolding sample_runtime_def
    by (simp add: fst_Ok_iff ed25519_rt.run_iff sample_entries admissible_reference within_witness_limit_def open_config_def)
qed

theorem run_state_root_binding_witness:
  "\<exists>final a'. contents final = planned_contents (ls_planned_transactions sample_local) (map_of (ls_materialized_state sample_local)) \<and>
     (contents a' = contents final \<or>
      collision zero_hash_fun (state_messages zero_hash_fun a' \<union> state_messages zero_hash_fun final))"
proof -
  obtain a' where a': "acc_apply_transition zero_hash_fun (sample_patch 1 2) new_accumulator = (Ok (acc_root a'), a')"
    "acc_root a' = compute_reference_root zero_hash_fun (leaves a')"
    using acc_apply_transition_ok [of new_accumulator "sample_patch 1 2" zero_hash_fun] by auto
  moreover have "import_post_state_root (flow_import_outcome (run_outcome zero_hash_fun (sample_runtime 0) sample_local)) = acc_root a'"
    using a'(2) by (simp add: run_outcome_def scenario_block_def sample_scenario_def Let_def compute_reference_root_def zero_hash_fun_def)
  ultimately have step: "acc_apply_transition zero_hash_fun (sample_patch 1 2) new_accumulator =
      (Ok (import_post_state_root (flow_import_outcome (run_outcome zero_hash_fun (sample_runtime 0) sample_local))), a')"
    by simp
  have "digest32 zero_hash_fun" by (simp add: digest32_def zero_hash_fun_def)
  moreover have "wf_scenario sample_local" using sample_local_wf by simp
  moreover have "ls_planned_transactions sample_local \<noteq> []" by (simp add: sample_local_def sample_scenario_def)
  ultimately show ?thesis
    using run_state_root_binding [OF _ _ _ sample_run_roots [unfolded sample_runtime_def] acc_invar_new wf_sample_patch
        step [unfolded sample_runtime_def]]
    by blast
qed

end
